(* ===== verification/Prelude.thy ===== *)
theory Prelude
  imports Main "HOL-Library.Word" "HOL-Library.Monad_Syntax"
begin

text \<open>
  Shared vocabulary of the development: the machine types of Go (\<open>byte\<close>, \<open>uint32\<close>,
  \<open>uint64\<close> as words; \<open>int\<close> as unbounded integers wherever the code keeps the values
  far below \<open>2 ^ 63\<close>; \<open>string\<close> as a list of 8-bit characters), the convention for a
  Go result pair \<open>(value, err)\<close> (a sum, \<open>Inl\<close> the error), and the list lemmas that the
  byte-level components use.
\<close>

section \<open>Types\<close>

type_synonym byte = "8 word"
type_synonym u32 = "32 word"
type_synonym u64 = "64 word"
type_synonym i64 = "64 word"
type_synonym bytes = "byte list"

text \<open>A Go pair \<open>(v, err)\<close>: \<open>Inl err\<close> when \<open>err != nil\<close>, \<open>Inr v\<close> otherwise.\<close>

type_synonym ('e, 'a) result = "'e + 'a"

section \<open>Collections\<close>

named_theorems wire_simps \<open>lengths and cancellation of the wire encodings\<close>
named_theorems io_spec \<open>behaviour of the byte-stream primitives on a well-behaved stream\<close>
named_theorems rpc_simps \<open>unfolding of the client's RPC wrappers\<close>

lemmas go_splits = if_splits option.splits sum.splits prod.splits

section \<open>Bytes of a Go string\<close>

text \<open>\<open>[]byte(s)\<close> and \<open>string(b)\<close>: a Go string is a byte sequence.\<close>

definition bytes_of :: "string \<Rightarrow> bytes" where
  "bytes_of s = map (\<lambda>c. of_char c) s"

definition string_of :: "bytes \<Rightarrow> string" where
  "string_of b = map (\<lambda>w. char_of (unat w)) b"

lemma length_bytes_of [simp]: "length (bytes_of s) = length s"
  by (simp add: bytes_of_def)

lemma unat_of_char: "unat (of_char c :: byte) = of_char c"
proof -
  have "(of_char c :: byte) = word_of_nat (of_char c)"
    by (simp only: of_nat_of_char)
  moreover have "of_char c < (256 :: nat)"
    by (metis of_char_mod_256 mod_less_divisor zero_less_numeral)
  ultimately show ?thesis
    by (simp add: unat_of_nat take_bit_nat_eq_self)
qed

lemma string_of_bytes_of [simp]: "string_of (bytes_of s) = s"
  by (simp add: string_of_def bytes_of_def o_def unat_of_char)

lemma bytes_of_string_of [simp]: "bytes_of (string_of b) = b"
proof -
  have "(of_char (char_of (unat w)) :: byte) = w" for w :: byte
  proof -
    have "(of_char (char_of (unat w)) :: byte) = word_of_nat (of_char (char_of (unat w)))"
      by (simp only: of_nat_of_char)
    moreover have "(unsigned w :: nat) < 2 ^ LENGTH(8)"
      by (rule unsigned_less)
    ultimately show ?thesis by simp
  qed
  then show ?thesis
    by (simp add: string_of_def bytes_of_def o_def)
qed

lemma bytes_of_inject [simp]: "bytes_of s = bytes_of t \<longleftrightarrow> s = t"
  by (metis string_of_bytes_of)

lemma bytes_of_Nil [simp]: "bytes_of [] = []"
  by (simp add: bytes_of_def)

lemma bytes_of_eq_Nil [simp]: "bytes_of s = [] \<longleftrightarrow> s = []"
  by (simp add: bytes_of_def)

section \<open>Lists\<close>

lemma append_cancel_len:
  assumes "length xs = length xs'"
  shows "xs @ ys = xs' @ ys' \<longleftrightarrow> xs = xs' \<and> ys = ys'"
  using assms by simp

lemma list_of_length_4:
  assumes "length xs = 4"
  obtains a b c d where "xs = [a, b, c, d]"
  using assms by (auto simp: numeral_eq_Suc length_Suc_conv)

lemma list_of_length_8:
  assumes "length xs = 8"
  obtains a b c d e f g h where "xs = [a, b, c, d, e, f, g, h]"
  using assms by (auto simp: numeral_eq_Suc length_Suc_conv)

lemma take_eq_self_iff: "take n xs = xs \<longleftrightarrow> length xs \<le> n"
  by (metis linorder_le_cases length_take min.absorb2 take_all)

lemma take_take_drop: "take n xs @ take m (drop n xs) = take (n + m) xs"
  by (simp add: take_add)

lemma take_drop_step: "take k (drop n xs) @ drop (k + n) xs = drop n xs"
  by (metis append_take_drop_id drop_drop)

lemma fill_decreases: "bs \<noteq> [] \<Longrightarrow> a < n \<Longrightarrow> n - (a + length bs) < n - a"
  by (cases bs) simp_all

section \<open>Words\<close>

lemma byte_no_high_bit: "8 \<le> n \<Longrightarrow> \<not> bit (b :: byte) n"
  using bit_imp_le_length [of b n] by auto

lemma unat_word_of_nat32: "n < 2 ^ 32 \<Longrightarrow> unat (word_of_nat n :: u32) = n"
  by (simp add: unat_of_nat take_bit_nat_eq_self)

lemma word_of_nat32_inject:
  assumes "m < 2 ^ 32" "n < 2 ^ 32"
  shows "(word_of_nat m :: u32) = word_of_nat n \<longleftrightarrow> m = n"
  using assms by (metis unat_word_of_nat32)

end
