(* ===== verification/Errors.thy ===== *)
theory Errors
  imports Prelude
begin

text \<open>
  \<open>src/basil/errors.go\<close>: the typed \<open>StatusError\<close> and the normalizer \<open>FromError\<close> that every
  sub-client and the SPIFFE package run their errors through. Go errors are a datatype with the
  shapes that occur; \<open>status.FromError\<close> of grpc-go is a parameter, with its documented
  behaviour in \<open>from_error_law\<close>.
\<close>

section \<open>Errors\<close>

text \<open>A decoded status detail: the broker's \<open>BrokerErrorInfo\<close>, or any other message.\<close>

datatype status_detail = BrokerErrorInfo (Reason: string) (Op: string) | OtherDetail string

record grpc_status =
  st_Code :: u32
  st_Message :: string
  st_Details :: "status_detail list"

record StatusError =
  se_Code :: u32
  se_Reason :: string
  se_Op :: string
  se_Message :: string

text \<open>
  Error values: \<open>io.EOF\<close>, an error of \<open>fmt.Errorf\<close> or \<open>errors.New\<close> (the format string and its
  arguments, not rendered to text), the same with a wrapped error (\<open>%w\<close>), an error of the grpc
  status package, and \<open>*basil.StatusError\<close>.
\<close>

datatype fmt_arg = ArgInt int | ArgStr string

datatype go_error =
    IoEOF
  | PlainError string "fmt_arg list"
  | WrapError string "fmt_arg list" go_error
  | GrpcError grpc_status
  | BasilStatus StatusError

text \<open>\<open>status.FromError\<close>: the status an error carries, if any (the pair \<open>(st, true)\<close>).\<close>

type_synonym from_error_fn = "go_error \<Rightarrow> grpc_status option"

section \<open>Operations\<close>

definition GRPCStatus :: "StatusError \<Rightarrow> grpc_status" where
  "GRPCStatus e = \<lparr>st_Code = se_Code e, st_Message = se_Message e, st_Details = []\<rparr>"

text \<open>\<open>Error()\<close>, with \<open>codes.Code.String\<close> of grpc-go as a parameter.\<close>

definition StatusError_Error :: "(u32 \<Rightarrow> string) \<Rightarrow> StatusError \<Rightarrow> string" where
  "StatusError_Error code_String e =
     ''basil: '' @ code_String (se_Code e) @ '' ['' @ se_Reason e @ ''/'' @ se_Op e @ '']: '' @ se_Message e"

text \<open>\<open>errors.As(err, &se)\<close> walks the chain of wrapped errors.\<close>

fun AsStatusError :: "go_error \<Rightarrow> StatusError option" where
  "AsStatusError (BasilStatus se) = Some se"
| "AsStatusError (WrapError f args e) = AsStatusError e"
| "AsStatusError IoEOF = None"
| "AsStatusError (PlainError f args) = None"
| "AsStatusError (GrpcError st) = None"

text \<open>\<open>errors.Is(err, io.EOF)\<close>.\<close>

fun is_EOF :: "go_error \<Rightarrow> bool" where
  "is_EOF IoEOF \<longleftrightarrow> True"
| "is_EOF (WrapError f args e) \<longleftrightarrow> is_EOF e"
| "is_EOF (PlainError f args) \<longleftrightarrow> False"
| "is_EOF (GrpcError st) \<longleftrightarrow> False"
| "is_EOF (BasilStatus se) \<longleftrightarrow> False"

text \<open>The detail loop stops at the first \<open>BrokerErrorInfo\<close>.\<close>

fun fill_detail :: "StatusError \<Rightarrow> status_detail list \<Rightarrow> StatusError" where
  "fill_detail se [] = se"
| "fill_detail se (BrokerErrorInfo r op # ds) = se\<lparr>se_Reason := r, se_Op := op\<rparr>"
| "fill_detail se (OtherDetail m # ds) = fill_detail se ds"

definition FromError :: "from_error_fn \<Rightarrow> go_error option \<Rightarrow> go_error option" where
  "FromError fe err =
     (case err of
        None \<Rightarrow> None
      | Some e \<Rightarrow>
          (case fe e of
             None \<Rightarrow> Some e
           | Some st \<Rightarrow>
               Some (BasilStatus (fill_detail
                 \<lparr>se_Code = st_Code st, se_Reason = [], se_Op = [], se_Message = st_Message st\<rparr>
                 (st_Details st)))))"

text \<open>The sub-clients call \<open>statusError\<close> on errors that are not nil.\<close>

definition statusError :: "from_error_fn \<Rightarrow> go_error \<Rightarrow> go_error" where
  "statusError fe e = (case FromError fe (Some e) of None \<Rightarrow> e | Some e' \<Rightarrow> e')"

section \<open>Documented behaviour of status.FromError\<close>

text \<open>
  An error produced by the status package carries its own status; an error with a \<open>GRPCStatus\<close>
  method carries what the method returns; a plain error carries none; a wrapped error carries
  the status of what it wraps, with its own text (its \<open>Error()\<close>) as the message.
\<close>

definition from_error_law :: "from_error_fn \<Rightarrow> bool" where
  "from_error_law fe \<longleftrightarrow>
     fe IoEOF = None \<and>
     (\<forall>f args. fe (PlainError f args) = None) \<and>
     (\<forall>st. fe (GrpcError st) = Some st) \<and>
     (\<forall>se. fe (BasilStatus se) = Some (GRPCStatus se)) \<and>
     (\<exists>txt. \<forall>f args e. fe (WrapError f args e) =
        map_option (\<lambda>st. st\<lparr>st_Message := txt (WrapError f args e)\<rparr>) (fe e))"

fun std_from_error :: from_error_fn where
  "std_from_error IoEOF = None"
| "std_from_error (PlainError f args) = None"
| "std_from_error (GrpcError st) = Some st"
| "std_from_error (BasilStatus se) = Some (GRPCStatus se)"
| "std_from_error (WrapError f args e) = map_option (\<lambda>st. st\<lparr>st_Message := f\<rparr>) (std_from_error e)"

lemma std_from_error_law: "from_error_law std_from_error"
  by (auto simp: from_error_law_def intro: exI [of _ "\<lambda>e. case e of WrapError f args e' \<Rightarrow> f | _ \<Rightarrow> []"])

section \<open>Facts\<close>

lemma fill_detail_code [simp]:
  "se_Code (fill_detail se ds) = se_Code se" "se_Message (fill_detail se ds) = se_Message se"
  by (induction se ds rule: fill_detail.induct) simp_all

lemma fill_detail_first:
  "fill_detail se (map OtherDetail ms @ BrokerErrorInfo r op # ds) = se\<lparr>se_Reason := r, se_Op := op\<rparr>"
  by (induction ms) simp_all

lemma fill_detail_none: "fill_detail se (map OtherDetail ms) = se"
  by (induction ms) simp_all

lemma statusError_plain: "fe e = None \<Longrightarrow> statusError fe e = e"
  by (simp add: statusError_def FromError_def)

lemma statusError_status:
  "fe e = Some st \<Longrightarrow> statusError fe e = BasilStatus (fill_detail
     \<lparr>se_Code = st_Code st, se_Reason = [], se_Op = [], se_Message = st_Message st\<rparr> (st_Details st))"
  by (simp add: statusError_def FromError_def)

lemma FromError_nil_iff: "FromError fe err = None \<longleftrightarrow> err = None"
  by (simp add: FromError_def split: option.splits)

end
