(* ===== verification/Client.thy ===== *)
theory Client
  imports Errors
begin

text \<open>
  \<open>src/basil/client.go\<close> and \<open>src/basil/keytype.go\<close>: dialling, the default timeout and the key-type
  and signing-algorithm enumerations. The generated gRPC stubs and grpc-go itself are parameters: a
  stub is a function of the call's context, the request message and the state of the broker behind
  it. The locale \<open>unary_rpc\<close> is the contract that every unary method of the client meets; the
  theories of the sub-clients interpret it for each of their operations.
\<close>

section \<open>Contexts, stubs and the runtime\<close>

text \<open>A \<open>context.Context\<close> as far as the client looks at it: its deadline, in nanoseconds.\<close>

record go_ctx =
  Deadline :: "int option"

text \<open>What the client calls outside the repository: the clock and \<open>status.FromError\<close>.\<close>

record runtime =
  now :: int
  from_error :: from_error_fn

type_synonym ('b, 'q, 'r) stub = "go_ctx \<Rightarrow> 'q \<Rightarrow> 'b \<Rightarrow> (go_error, 'r) result \<times> 'b"

section \<open>Dialling\<close>

text \<open>\<open>time.Duration\<close> is in nanoseconds.\<close>

definition DefaultTimeout :: int where
  "DefaultTimeout = 30 * 1000000000"

text \<open>The dial options that \<open>Dial\<close> itself fixes, and any other option of grpc-go.\<close>

datatype dial_option =
    is_WithTransportCredentials: WithTransportCredentials string
  | is_WithAuthority: WithAuthority string
  | is_WithContextDialer: WithContextDialer string string
  | OtherOption string

record config =
  cfg_timeout :: int
  cfg_dialOptions :: "dial_option list"

type_synonym Option = "config \<Rightarrow> config"

definition WithTimeout :: "int \<Rightarrow> Option" where
  "WithTimeout d c = c\<lparr>cfg_timeout := d\<rparr>"

definition WithDialOptions :: "dial_option list \<Rightarrow> Option" where
  "WithDialOptions opts c = c\<lparr>cfg_dialOptions := cfg_dialOptions c @ opts\<rparr>"

record 'conn client =
  conn :: 'conn
  timeout :: int

text \<open>\<open>grpc.NewClient\<close> and \<open>ClientConn.Close\<close>.\<close>

record 'conn grpc_lib =
  grpc_NewClient :: "string \<Rightarrow> dial_option list \<Rightarrow> (go_error, 'conn) result"
  conn_Close :: "'conn \<Rightarrow> go_error option \<times> 'conn"

definition fixedOptions :: "string \<Rightarrow> dial_option list" where
  "fixedOptions socketPath =
     [WithTransportCredentials ''insecure'', WithAuthority ''localhost'',
      WithContextDialer ''unix'' socketPath]"

definition Dial :: "'conn grpc_lib \<Rightarrow> string \<Rightarrow> Option list \<Rightarrow> (go_error, 'conn client) result" where
  "Dial lib socketPath opts =
     (if socketPath = [] then Inl (PlainError ''basil: empty socket path'' [])
      else
        (let cfg = fold (\<lambda>opt c. opt c) opts \<lparr>cfg_timeout = DefaultTimeout, cfg_dialOptions = []\<rparr>;
             dialOpts = cfg_dialOptions cfg @ fixedOptions socketPath
         in case grpc_NewClient lib (''passthrough:///'' @ socketPath) dialOpts of
              Inl e \<Rightarrow> Inl (WrapError ''basil: dial %q: %w'' [ArgStr socketPath] e)
            | Inr cn \<Rightarrow> Inr \<lparr>conn = cn, timeout = cfg_timeout cfg\<rparr>))"

definition Client_Close :: "'conn grpc_lib \<Rightarrow> 'conn client \<Rightarrow> go_error option \<times> 'conn client" where
  "Client_Close lib c = (case conn_Close lib (conn c) of (e, cn) \<Rightarrow> (e, c\<lparr>conn := cn\<rparr>))"

text \<open>\<open>context.WithTimeout(ctx, d)\<close> of a context without a deadline ends \<open>d\<close> after the call.\<close>

definition withTimeout :: "runtime \<Rightarrow> 'conn client \<Rightarrow> go_ctx \<Rightarrow> go_ctx" where
  "withTimeout rt c ctx =
     (if timeout c \<le> 0 then ctx
      else if Deadline ctx \<noteq> None then ctx
      else ctx\<lparr>Deadline := Some (now rt + timeout c)\<rparr>)"

section \<open>Enumerations\<close>

text \<open>Both the Go and the protobuf enumerations are \<open>int32\<close> values.\<close>

type_synonym KeyType = "32 word"

abbreviation (input) KeyTypeUnspecified :: KeyType where "KeyTypeUnspecified \<equiv> 0"
abbreviation (input) KeyTypeEd25519 :: KeyType where "KeyTypeEd25519 \<equiv> 1"
abbreviation (input) KeyTypeEd25519NKey :: KeyType where "KeyTypeEd25519NKey \<equiv> 2"
abbreviation (input) KeyTypeRSA2048 :: KeyType where "KeyTypeRSA2048 \<equiv> 3"
abbreviation (input) KeyTypeECDSAP256 :: KeyType where "KeyTypeECDSAP256 \<equiv> 10"
abbreviation (input) KeyTypeECDSAP384 :: KeyType where "KeyTypeECDSAP384 \<equiv> 11"
abbreviation (input) KeyTypeECDSAP521 :: KeyType where "KeyTypeECDSAP521 \<equiv> 12"
abbreviation (input) KeyTypeMLDSA44 :: KeyType where "KeyTypeMLDSA44 \<equiv> 4"
abbreviation (input) KeyTypeMLDSA65 :: KeyType where "KeyTypeMLDSA65 \<equiv> 5"
abbreviation (input) KeyTypeMLDSA87 :: KeyType where "KeyTypeMLDSA87 \<equiv> 6"
abbreviation (input) KeyTypeMLKEM512 :: KeyType where "KeyTypeMLKEM512 \<equiv> 7"
abbreviation (input) KeyTypeMLKEM768 :: KeyType where "KeyTypeMLKEM768 \<equiv> 8"
abbreviation (input) KeyTypeMLKEM1024 :: KeyType where "KeyTypeMLKEM1024 \<equiv> 9"

text \<open>The wire values of \<open>pb.KeyType\<close> listed in the switch.\<close>

definition pb_KeyTypes :: "KeyType list" where
  "pb_KeyTypes = [1, 2, 3, 10, 11, 12, 4, 5, 6, 7, 8, 9]"

definition keyTypeFromProto :: "32 word \<Rightarrow> KeyType" where
  "keyTypeFromProto v = (if v \<in> set pb_KeyTypes then v else KeyTypeUnspecified)"

definition keyTypeToProto :: "KeyType \<Rightarrow> 32 word" where
  "keyTypeToProto k = k"

type_synonym SigningAlgorithm = "32 word"

abbreviation (input) SigningAlgorithmUnspecified :: SigningAlgorithm where "SigningAlgorithmUnspecified \<equiv> 0"
abbreviation (input) SigningAlgorithmEd25519 :: SigningAlgorithm where "SigningAlgorithmEd25519 \<equiv> 1"
abbreviation (input) SigningAlgorithmEd25519NKey :: SigningAlgorithm where "SigningAlgorithmEd25519NKey \<equiv> 2"
abbreviation (input) SigningAlgorithmRS256 :: SigningAlgorithm where "SigningAlgorithmRS256 \<equiv> 3"
abbreviation (input) SigningAlgorithmES256 :: SigningAlgorithm where "SigningAlgorithmES256 \<equiv> 7"
abbreviation (input) SigningAlgorithmMLDSA44 :: SigningAlgorithm where "SigningAlgorithmMLDSA44 \<equiv> 4"
abbreviation (input) SigningAlgorithmMLDSA65 :: SigningAlgorithm where "SigningAlgorithmMLDSA65 \<equiv> 5"
abbreviation (input) SigningAlgorithmMLDSA87 :: SigningAlgorithm where "SigningAlgorithmMLDSA87 \<equiv> 6"

section \<open>Decoded errors\<close>

text \<open>What the broker said in a status: its code, its message, and reason and operation of the
  first \<open>BrokerErrorInfo\<close> detail.\<close>

definition decoded :: "grpc_status \<Rightarrow> StatusError" where
  "decoded st =
     (case filter (\<lambda>d. case d of BrokerErrorInfo r op \<Rightarrow> True | OtherDetail m \<Rightarrow> False) (st_Details st) of
        [] \<Rightarrow> \<lparr>se_Code = st_Code st, se_Reason = [], se_Op = [], se_Message = st_Message st\<rparr>
      | d # _ \<Rightarrow> \<lparr>se_Code = st_Code st, se_Reason = Reason d, se_Op = Op d, se_Message = st_Message st\<rparr>)"

lemma decoded_eq:
  "fill_detail \<lparr>se_Code = st_Code st, se_Reason = [], se_Op = [], se_Message = st_Message st\<rparr> (st_Details st) = decoded st"
proof -
  have "fill_detail se ds =
      (case filter (\<lambda>d. case d of BrokerErrorInfo r op \<Rightarrow> True | OtherDetail m \<Rightarrow> False) ds of
         [] \<Rightarrow> se | d # _ \<Rightarrow> se\<lparr>se_Reason := Reason d, se_Op := Op d\<rparr>)" for se ds
    by (induction se ds rule: fill_detail.induct) simp_all
  then show ?thesis by (simp add: decoded_def split: list.splits)
qed

lemma statusError_grpc: "from_error_law fe \<Longrightarrow> statusError fe (GrpcError st) = BasilStatus (decoded st)"
  by (simp add: statusError_status from_error_law_def decoded_eq)

text \<open>If the stub's call fails with a status, the method fails with the decoded \<open>StatusError\<close> and
  the broker state is the one the call left.\<close>

definition typed_failure :: "(go_error, 'o) result \<times> 'b \<Rightarrow> (go_error, 'r) result \<times> 'b \<Rightarrow> bool" where
  "typed_failure out call \<longleftrightarrow>
     (case call of (Inl (GrpcError st), b1) \<Rightarrow> out = (Inl (BasilStatus (decoded st)), b1) | _ \<Rightarrow> True)"

lemma typed_failureI:
  "(\<And>st b1. call = (Inl (GrpcError st), b1) \<Longrightarrow> out = (Inl (BasilStatus (decoded st)), b1)) \<Longrightarrow> typed_failure out call"
  by (auto simp: typed_failure_def split: prod.splits sum.splits go_error.splits)

section \<open>The contract of a unary method\<close>

text \<open>
  A method checks its arguments (\<open>guard\<close>), calls its stub once with the context that
  \<open>withTimeout\<close> gives and the request it built, normalizes an error of the stub, and converts
  (or refuses) the response.
\<close>

locale unary_rpc =
  fixes stub :: "('b, 'q, 'r) stub"
    and guard :: "'a \<Rightarrow> go_error option"
    and req :: "'a \<Rightarrow> 'q"
    and resp :: "'r \<Rightarrow> (go_error, 'o) result"
    and op :: "runtime \<Rightarrow> 'conn client \<Rightarrow> go_ctx \<Rightarrow> 'a \<Rightarrow> 'b \<Rightarrow> (go_error, 'o) result \<times> 'b"
  assumes op_eq: "op rt c ctx a b =
    (case guard a of
       Some e \<Rightarrow> (Inl e, b)
     | None \<Rightarrow>
         (case stub (withTimeout rt c ctx) (req a) b of
            (Inl e, b1) \<Rightarrow> (Inl (statusError (from_error rt) e), b1)
          | (Inr r, b1) \<Rightarrow> (resp r, b1)))"
begin

lemma success_iff:
  "op rt c ctx a b = (Inr out, b1) \<longleftrightarrow>
     guard a = None \<and> (\<exists>r. stub (withTimeout rt c ctx) (req a) b = (Inr r, b1) \<and> resp r = Inr out)"
  by (auto simp: op_eq split: go_splits)

lemma refused: "guard a = Some e \<Longrightarrow> op rt c ctx a b = (Inl e, b)"
  by (simp add: op_eq)

lemma failed:
  "guard a = None \<Longrightarrow> stub (withTimeout rt c ctx) (req a) b = (Inl e, b1) \<Longrightarrow>
   op rt c ctx a b = (Inl (statusError (from_error rt) e), b1)"
  by (simp add: op_eq)

lemma status_typed:
  assumes "from_error_law (from_error rt)" "guard a = None"
    and "stub (withTimeout rt c ctx) (req a) b = (Inl (GrpcError st), b1)"
  shows "op rt c ctx a b = (Inl (BasilStatus (fill_detail
    \<lparr>se_Code = st_Code st, se_Reason = [], se_Op = [], se_Message = st_Message st\<rparr> (st_Details st))), b1)"
  using failed [OF assms(2,3)] assms(1) by (simp add: from_error_law_def statusError_status)

lemma typed:
  "from_error_law (from_error rt) \<Longrightarrow> guard a = None \<Longrightarrow>
   typed_failure (op rt c ctx a b) (stub (withTimeout rt c ctx) (req a) b)"
  by (rule typed_failureI) (simp add: status_typed decoded_eq)

lemma state_of_stub:
  "snd (op rt c ctx a b) = b \<or> snd (op rt c ctx a b) = snd (stub (withTimeout rt c ctx) (req a) b)"
  by (auto simp: op_eq split: go_splits)

end

section \<open>Facts\<close>

lemma withTimeout_deadline:
  "Deadline (withTimeout rt c ctx) =
     (case Deadline ctx of Some d \<Rightarrow> Some d
      | None \<Rightarrow> if 0 < timeout c then Some (now rt + timeout c) else None)"
  by (auto simp: withTimeout_def split: option.splits)

lemma withTimeout_idem: "withTimeout rt c (withTimeout rt c ctx) = withTimeout rt c ctx"
  by (simp add: withTimeout_def)

lemma keyTypeFromProto_idem [simp]: "keyTypeFromProto (keyTypeFromProto v) = keyTypeFromProto v"
  by (simp add: keyTypeFromProto_def pb_KeyTypes_def)

lemma keyType_roundtrip: "keyTypeFromProto (keyTypeToProto k) = k \<longleftrightarrow> k \<in> set (0 # pb_KeyTypes)"
  by (auto simp: keyTypeFromProto_def keyTypeToProto_def)

text \<open>grpc-go resolves conflicting dial options last-wins: the setting of a group is its last one.\<close>

definition last_option :: "(dial_option \<Rightarrow> bool) \<Rightarrow> dial_option list \<Rightarrow> dial_option option" where
  "last_option P opts = (case rev (filter P opts) of [] \<Rightarrow> None | o1 # _ \<Rightarrow> Some o1)"

lemma last_option_append:
  "last_option P (xs @ ys) = (case last_option P ys of None \<Rightarrow> last_option P xs | Some o1 \<Rightarrow> Some o1)"
  by (simp add: last_option_def split: list.splits)

lemma last_option_Cons:
  "last_option P (x # xs) = (case last_option P xs of None \<Rightarrow> if P x then Some x else None | Some o1 \<Rightarrow> Some o1)"
  using last_option_append [of P "[x]" xs] by (auto simp: last_option_def split: option.splits)

end
