(* ===== verification/Signing.thy ===== *)
theory Signing
  imports Client
begin

text \<open>
  \<open>src/basil/signing.go\<close>: signing, verification, public keys and key import. The request and
  response messages are the records of \<open>src/internal/pb\<close> that the client fills in or reads.
\<close>

section \<open>Messages\<close>

record SignRequest =
  sign_KeyId :: string
  sign_Message :: bytes
  sign_Algorithm :: "32 word"

record SignResponse =
  sign_Signature :: bytes

record VerifyRequest =
  verify_KeyId :: string
  verify_Message :: bytes
  verify_Signature :: bytes
  verify_Algorithm :: "32 word"

record VerifyResponse =
  verify_Valid :: bool

record GetPublicKeyRequest =
  gpk_KeyId :: string
  gpk_Version :: "u32 option"

record GetPublicKeyResponse =
  gpkr_KeyId :: string
  gpkr_KeyType :: "32 word"
  gpkr_PublicKey :: bytes
  gpkr_Version :: u32

record NewKeyRequest =
  newkey_KeyId :: string
  newkey_KeyType :: "32 word"

record NewKeyResponse =
  newkeyr_KeyId :: string
  newkeyr_PublicKey :: bytes

datatype pb_KeyMaterial = KeyMaterial_Ed25519Seed bytes | KeyMaterial_Pkcs8Der bytes

record ImportRequest =
  imp_KeyId :: string
  imp_KeyType :: "32 word"
  imp_Material :: pb_KeyMaterial

record pb_ImportEntry =
  pie_KeyId :: string
  pie_KeyType :: "32 word"
  pie_Material :: pb_KeyMaterial

record ImportedKey =
  impk_KeyId :: string
  impk_PublicKey :: bytes

record ImportSetRequest =
  ims_Entries :: "pb_ImportEntry list"

record ImportSetResponse =
  imsr_Keys :: "ImportedKey list"

record 'b signing_service =
  sv_Sign :: "('b, SignRequest, SignResponse) stub"
  sv_Verify :: "('b, VerifyRequest, VerifyResponse) stub"
  sv_GetPublicKey :: "('b, GetPublicKeyRequest, GetPublicKeyResponse) stub"
  sv_NewKey :: "('b, NewKeyRequest, NewKeyResponse) stub"
  sv_Import :: "('b, ImportRequest, NewKeyResponse) stub"
  sv_ImportSet :: "('b, ImportSetRequest, ImportSetResponse) stub"

section \<open>Client types\<close>

record PublicKey =
  pk_KeyID :: string
  pk_KeyType :: KeyType
  pk_Bytes :: bytes
  pk_Version :: u32

record KeyHandle =
  kh_KeyID :: string
  kh_PublicKey :: bytes

text \<open>The sealed interface \<open>KeyMaterial\<close> has these two implementations.\<close>

datatype KeyMaterial = Ed25519SeedMaterial bytes | PKCS8DERMaterial bytes

fun KeyMaterial_toProto :: "KeyMaterial \<Rightarrow> pb_KeyMaterial" where
  "KeyMaterial_toProto (Ed25519SeedMaterial m) = KeyMaterial_Ed25519Seed m"
| "KeyMaterial_toProto (PKCS8DERMaterial m) = KeyMaterial_Pkcs8Der m"

record ImportEntry =
  ie_KeyID :: string
  ie_KeyType :: KeyType
  ie_Material :: "KeyMaterial option"

section \<open>Operations\<close>

definition SignWithAlgorithm ::
  "runtime \<Rightarrow> 'conn client \<Rightarrow> 'b signing_service \<Rightarrow> go_ctx \<Rightarrow> string \<Rightarrow> bytes \<Rightarrow> SigningAlgorithm \<Rightarrow>
   'b \<Rightarrow> (go_error, bytes) result \<times> 'b" where
  "SignWithAlgorithm rt c sv ctx keyID message alg b =
     (case sv_Sign sv (withTimeout rt c ctx)
             \<lparr>sign_KeyId = keyID, sign_Message = message, sign_Algorithm = alg\<rparr> b of
        (Inl e, b1) \<Rightarrow> (Inl (statusError (from_error rt) e), b1)
      | (Inr r, b1) \<Rightarrow> (Inr (sign_Signature r), b1))"

definition Sign ::
  "runtime \<Rightarrow> 'conn client \<Rightarrow> 'b signing_service \<Rightarrow> go_ctx \<Rightarrow> string \<Rightarrow> bytes \<Rightarrow> 'b \<Rightarrow>
   (go_error, bytes) result \<times> 'b" where
  "Sign rt c sv ctx keyID message = SignWithAlgorithm rt c sv ctx keyID message SigningAlgorithmUnspecified"

definition VerifyWithAlgorithm ::
  "runtime \<Rightarrow> 'conn client \<Rightarrow> 'b signing_service \<Rightarrow> go_ctx \<Rightarrow> string \<Rightarrow> bytes \<Rightarrow> bytes \<Rightarrow> SigningAlgorithm \<Rightarrow>
   'b \<Rightarrow> (go_error, bool) result \<times> 'b" where
  "VerifyWithAlgorithm rt c sv ctx keyID message signature alg b =
     (case sv_Verify sv (withTimeout rt c ctx)
             \<lparr>verify_KeyId = keyID, verify_Message = message, verify_Signature = signature,
              verify_Algorithm = alg\<rparr> b of
        (Inl e, b1) \<Rightarrow> (Inl (statusError (from_error rt) e), b1)
      | (Inr r, b1) \<Rightarrow> (Inr (verify_Valid r), b1))"

definition Verify ::
  "runtime \<Rightarrow> 'conn client \<Rightarrow> 'b signing_service \<Rightarrow> go_ctx \<Rightarrow> string \<Rightarrow> bytes \<Rightarrow> bytes \<Rightarrow> 'b \<Rightarrow>
   (go_error, bool) result \<times> 'b" where
  "Verify rt c sv ctx keyID message signature =
     VerifyWithAlgorithm rt c sv ctx keyID message signature SigningAlgorithmUnspecified"

definition GetPublicKey ::
  "runtime \<Rightarrow> 'conn client \<Rightarrow> 'b signing_service \<Rightarrow> go_ctx \<Rightarrow> string \<Rightarrow> u32 option \<Rightarrow> 'b \<Rightarrow>
   (go_error, PublicKey) result \<times> 'b" where
  "GetPublicKey rt c sv ctx keyID version b =
     (case sv_GetPublicKey sv (withTimeout rt c ctx) \<lparr>gpk_KeyId = keyID, gpk_Version = version\<rparr> b of
        (Inl e, b1) \<Rightarrow> (Inl (statusError (from_error rt) e), b1)
      | (Inr r, b1) \<Rightarrow>
          (Inr \<lparr>pk_KeyID = gpkr_KeyId r, pk_KeyType = keyTypeFromProto (gpkr_KeyType r),
                pk_Bytes = gpkr_PublicKey r, pk_Version = gpkr_Version r\<rparr>, b1))"

definition NewKey ::
  "runtime \<Rightarrow> 'conn client \<Rightarrow> 'b signing_service \<Rightarrow> go_ctx \<Rightarrow> string \<Rightarrow> KeyType \<Rightarrow> 'b \<Rightarrow>
   (go_error, KeyHandle) result \<times> 'b" where
  "NewKey rt c sv ctx keyID keyType b =
     (case sv_NewKey sv (withTimeout rt c ctx)
             \<lparr>newkey_KeyId = keyID, newkey_KeyType = keyTypeToProto keyType\<rparr> b of
        (Inl e, b1) \<Rightarrow> (Inl (statusError (from_error rt) e), b1)
      | (Inr r, b1) \<Rightarrow> (Inr \<lparr>kh_KeyID = newkeyr_KeyId r, kh_PublicKey = newkeyr_PublicKey r\<rparr>, b1))"

definition Import ::
  "runtime \<Rightarrow> 'conn client \<Rightarrow> 'b signing_service \<Rightarrow> go_ctx \<Rightarrow> string \<Rightarrow> KeyType \<Rightarrow> KeyMaterial option \<Rightarrow> 'b \<Rightarrow>
   (go_error, KeyHandle) result \<times> 'b" where
  "Import rt c sv ctx keyID keyType material b =
     (case material of
        None \<Rightarrow> (Inl (PlainError ''basil: Import requires non-nil key material'' []), b)
      | Some m \<Rightarrow>
          (case sv_Import sv (withTimeout rt c ctx)
                  \<lparr>imp_KeyId = keyID, imp_KeyType = keyTypeToProto keyType,
                   imp_Material = KeyMaterial_toProto m\<rparr> b of
             (Inl e, b1) \<Rightarrow> (Inl (statusError (from_error rt) e), b1)
           | (Inr r, b1) \<Rightarrow> (Inr \<lparr>kh_KeyID = newkeyr_KeyId r, kh_PublicKey = newkeyr_PublicKey r\<rparr>, b1)))"

text \<open>The conversion loop of \<open>ImportSet\<close>, at entry \<open>i\<close>.\<close>

fun importEntries :: "nat \<Rightarrow> ImportEntry list \<Rightarrow> (go_error, pb_ImportEntry list) result" where
  "importEntries i [] = Inr []"
| "importEntries i (e # es) =
     (case ie_Material e of
        None \<Rightarrow> Inl (PlainError ''basil: ImportSet entry %d (%q) requires non-nil key material''
                      [ArgInt (int i), ArgStr (ie_KeyID e)])
      | Some m \<Rightarrow>
          (case importEntries (Suc i) es of
             Inl err \<Rightarrow> Inl err
           | Inr ps \<Rightarrow>
               Inr (\<lparr>pie_KeyId = ie_KeyID e, pie_KeyType = keyTypeToProto (ie_KeyType e),
                     pie_Material = KeyMaterial_toProto m\<rparr> # ps)))"

definition ImportSet ::
  "runtime \<Rightarrow> 'conn client \<Rightarrow> 'b signing_service \<Rightarrow> go_ctx \<Rightarrow> ImportEntry list \<Rightarrow> 'b \<Rightarrow>
   (go_error, KeyHandle list) result \<times> 'b" where
  "ImportSet rt c sv ctx entries b =
     (case importEntries 0 entries of
        Inl err \<Rightarrow> (Inl err, b)
      | Inr ps \<Rightarrow>
          (case sv_ImportSet sv (withTimeout rt c ctx) \<lparr>ims_Entries = ps\<rparr> b of
             (Inl e, b1) \<Rightarrow> (Inl (statusError (from_error rt) e), b1)
           | (Inr r, b1) \<Rightarrow>
               (Inr (map (\<lambda>k. \<lparr>kh_KeyID = impk_KeyId k, kh_PublicKey = impk_PublicKey k\<rparr>) (imsr_Keys r)), b1)))"

section \<open>The methods meet the RPC contract\<close>

interpretation sign: unary_rpc "sv_Sign sv" "\<lambda>_. None"
    "\<lambda>(k, m, a). \<lparr>sign_KeyId = k, sign_Message = m, sign_Algorithm = a\<rparr>" "\<lambda>r. Inr (sign_Signature r)"
    "\<lambda>rt c ctx (k, m, a). SignWithAlgorithm rt c sv ctx k m a" for sv
  by unfold_locales (simp add: SignWithAlgorithm_def split_beta)

interpretation verify: unary_rpc "sv_Verify sv" "\<lambda>_. None"
    "\<lambda>(k, m, s, a). \<lparr>verify_KeyId = k, verify_Message = m, verify_Signature = s, verify_Algorithm = a\<rparr>"
    "\<lambda>r. Inr (verify_Valid r)" "\<lambda>rt c ctx (k, m, s, a). VerifyWithAlgorithm rt c sv ctx k m s a" for sv
  by unfold_locales (simp add: VerifyWithAlgorithm_def split_beta)

interpretation get_public_key: unary_rpc "sv_GetPublicKey sv" "\<lambda>_. None"
    "\<lambda>(k, v). \<lparr>gpk_KeyId = k, gpk_Version = v\<rparr>"
    "\<lambda>r. Inr \<lparr>pk_KeyID = gpkr_KeyId r, pk_KeyType = keyTypeFromProto (gpkr_KeyType r),
              pk_Bytes = gpkr_PublicKey r, pk_Version = gpkr_Version r\<rparr>"
    "\<lambda>rt c ctx (k, v). GetPublicKey rt c sv ctx k v" for sv
  by unfold_locales (simp add: GetPublicKey_def split_beta)

interpretation new_key: unary_rpc "sv_NewKey sv" "\<lambda>_. None"
    "\<lambda>(k, t). \<lparr>newkey_KeyId = k, newkey_KeyType = keyTypeToProto t\<rparr>"
    "\<lambda>r. Inr \<lparr>kh_KeyID = newkeyr_KeyId r, kh_PublicKey = newkeyr_PublicKey r\<rparr>"
    "\<lambda>rt c ctx (k, t). NewKey rt c sv ctx k t" for sv
  by unfold_locales (simp add: NewKey_def split_beta)

interpretation import_key: unary_rpc "sv_Import sv"
    "\<lambda>(k, t, m). if m = None then Some (PlainError ''basil: Import requires non-nil key material'' []) else None"
    "\<lambda>(k, t, m). \<lparr>imp_KeyId = k, imp_KeyType = keyTypeToProto t, imp_Material = KeyMaterial_toProto (the m)\<rparr>"
    "\<lambda>r. Inr \<lparr>kh_KeyID = newkeyr_KeyId r, kh_PublicKey = newkeyr_PublicKey r\<rparr>"
    "\<lambda>rt c ctx (k, t, m). Import rt c sv ctx k t m" for sv
  by unfold_locales (auto simp: Import_def split: option.splits)

interpretation import_set: unary_rpc "sv_ImportSet sv"
    "\<lambda>es. case importEntries 0 es of Inl e \<Rightarrow> Some e | Inr _ \<Rightarrow> None"
    "\<lambda>es. \<lparr>ims_Entries = projr (importEntries 0 es)\<rparr>"
    "\<lambda>r. Inr (map (\<lambda>k. \<lparr>kh_KeyID = impk_KeyId k, kh_PublicKey = impk_PublicKey k\<rparr>) (imsr_Keys r))"
    "\<lambda>rt c ctx es. ImportSet rt c sv ctx es" for sv
  by unfold_locales (simp add: ImportSet_def split_beta split: sum.splits)

section \<open>Facts\<close>

lemma KeyMaterial_toProto_inject [simp]: "KeyMaterial_toProto m = KeyMaterial_toProto n \<longleftrightarrow> m = n"
  by (cases m; cases n) simp_all

definition importEntry :: "ImportEntry \<Rightarrow> pb_ImportEntry" where
  "importEntry e = \<lparr>pie_KeyId = ie_KeyID e, pie_KeyType = keyTypeToProto (ie_KeyType e),
     pie_Material = KeyMaterial_toProto (the (ie_Material e))\<rparr>"

lemma importEntries_all:
  "\<forall>e \<in> set es. ie_Material e \<noteq> None \<Longrightarrow> importEntries i es = Inr (map importEntry es)"
  by (induction es arbitrary: i) (auto simp: importEntry_def)

lemma importEntries_first_missing:
  assumes "\<forall>e \<in> set es. ie_Material e \<noteq> None" "ie_Material e = None"
  shows "importEntries i (es @ e # rest) =
    Inl (PlainError ''basil: ImportSet entry %d (%q) requires non-nil key material''
      [ArgInt (int (i + length es)), ArgStr (ie_KeyID e)])"
  using assms by (induction es arbitrary: i) auto

lemma importEntries_ok_iff:
  "importEntries i es = Inr ps \<longleftrightarrow> (\<forall>e \<in> set es. ie_Material e \<noteq> None) \<and> ps = map importEntry es"
proof (cases "\<forall>e \<in> set es. ie_Material e \<noteq> None")
  case True
  then show ?thesis by (auto simp: importEntries_all)
next
  case False
  then obtain xs e ys where es: "es = xs @ e # ys" "ie_Material e = None" "\<forall>x \<in> set xs. ie_Material x \<noteq> None"
    using split_list_first_prop [of es "\<lambda>e. ie_Material e = None"] by auto
  then show ?thesis using importEntries_first_missing [OF es(3,2), of i ys] by auto
qed

end
