(* ===== verification/AeadClient.thy ===== *)
theory AeadClient
  imports Client
begin

text \<open>
  \<open>src/basil/aead.go\<close>: encryption under catalog keys, KEM envelopes and COSE unsealing. An
  \<open>aad\<close> of \<open>None\<close> is Go's nil slice, which the wire keeps apart from an empty one.
\<close>

section \<open>Enumerations\<close>

type_synonym AeadAlgorithm = "32 word"

abbreviation (input) AeadAlgorithmUnspecified :: AeadAlgorithm where "AeadAlgorithmUnspecified \<equiv> 0"
abbreviation (input) AeadAlgorithmChaCha20Poly1305 :: AeadAlgorithm where "AeadAlgorithmChaCha20Poly1305 \<equiv> 1"
abbreviation (input) AeadAlgorithmAES256GCM :: AeadAlgorithm where "AeadAlgorithmAES256GCM \<equiv> 2"

type_synonym KemAlgorithm = "32 word"

abbreviation (input) KemAlgorithmUnspecified :: KemAlgorithm where "KemAlgorithmUnspecified \<equiv> 0"
abbreviation (input) KemAlgorithmMLKEM512 :: KemAlgorithm where "KemAlgorithmMLKEM512 \<equiv> 1"
abbreviation (input) KemAlgorithmMLKEM768 :: KemAlgorithm where "KemAlgorithmMLKEM768 \<equiv> 2"
abbreviation (input) KemAlgorithmMLKEM1024 :: KemAlgorithm where "KemAlgorithmMLKEM1024 \<equiv> 3"
abbreviation (input) KemAlgorithmX25519 :: KemAlgorithm where "KemAlgorithmX25519 \<equiv> 4"

type_synonym EnvelopeAlgorithm = "32 word"

abbreviation (input) EnvelopeAlgorithmUnspecified :: EnvelopeAlgorithm where "EnvelopeAlgorithmUnspecified \<equiv> 0"
abbreviation (input) EnvelopeAlgorithmAES256GCM :: EnvelopeAlgorithm where "EnvelopeAlgorithmAES256GCM \<equiv> 1"
abbreviation (input) EnvelopeAlgorithmChaCha20Poly1305 :: EnvelopeAlgorithm where
  "EnvelopeAlgorithmChaCha20Poly1305 \<equiv> 2"

section \<open>Messages\<close>

record pb_CiphertextEnvelope =
  pce_Alg :: "32 word"
  pce_KeyVersion :: u32
  pce_Nonce :: bytes
  pce_Ciphertext :: bytes

record pb_KemEnvelope =
  pke_KemAlgorithm :: "32 word"
  pke_EnvelopeAlgorithm :: "32 word"
  pke_KeyVersion :: u32
  pke_EncapsulatedKey :: bytes
  pke_Nonce :: bytes
  pke_Ciphertext :: bytes

record EncryptRequest =
  enc_KeyId :: string
  enc_Algorithm :: "32 word"
  enc_Plaintext :: bytes
  enc_Aad :: "bytes option"

record EncryptResponse =
  encr_Envelope :: "pb_CiphertextEnvelope option"

record DecryptRequest =
  dec_KeyId :: string
  dec_Envelope :: "pb_CiphertextEnvelope option"
  dec_Aad :: "bytes option"

record DecryptResponse =
  decr_Plaintext :: bytes

record WrapEnvelopeRequest =
  wrap_KeyId :: string
  wrap_KemAlgorithm :: "32 word"
  wrap_EnvelopeAlgorithm :: "32 word"
  wrap_Plaintext :: bytes
  wrap_Aad :: "bytes option"

record WrapEnvelopeResponse =
  wrapr_Envelope :: "pb_KemEnvelope option"

record UnwrapEnvelopeRequest =
  unw_KeyId :: string
  unw_Envelope :: "pb_KemEnvelope option"
  unw_Aad :: "bytes option"

record UnwrapEnvelopeResponse =
  unwr_Plaintext :: bytes

record UnsealCoseRequest =
  uns_KeyId :: string
  uns_CoseEncrypt :: bytes
  uns_ExternalAad :: "bytes option"

record UnsealCoseResponse =
  unsr_Plaintext :: bytes

record 'b aead_service =
  ae_Encrypt :: "('b, EncryptRequest, EncryptResponse) stub"
  ae_Decrypt :: "('b, DecryptRequest, DecryptResponse) stub"
  ae_WrapEnvelope :: "('b, WrapEnvelopeRequest, WrapEnvelopeResponse) stub"
  ae_UnwrapEnvelope :: "('b, UnwrapEnvelopeRequest, UnwrapEnvelopeResponse) stub"
  ae_UnsealCose :: "('b, UnsealCoseRequest, UnsealCoseResponse) stub"

section \<open>Client types\<close>

record Ciphertext =
  ct_Algorithm :: AeadAlgorithm
  ct_KeyVersion :: u32
  ct_Nonce :: bytes
  ct_Bytes :: bytes

record KemEnvelope =
  ke_KemAlgorithm :: KemAlgorithm
  ke_EnvelopeAlgorithm :: EnvelopeAlgorithm
  ke_KeyVersion :: u32
  ke_EncapsulatedKey :: bytes
  ke_Nonce :: bytes
  ke_Bytes :: bytes

section \<open>Operations\<close>

definition ciphertextToProto :: "Ciphertext option \<Rightarrow> pb_CiphertextEnvelope option" where
  "ciphertextToProto ct =
     (case ct of
        None \<Rightarrow> None
      | Some c \<Rightarrow> Some \<lparr>pce_Alg = ct_Algorithm c, pce_KeyVersion = ct_KeyVersion c,
                        pce_Nonce = ct_Nonce c, pce_Ciphertext = ct_Bytes c\<rparr>)"

definition kemEnvelopeToProto :: "KemEnvelope option \<Rightarrow> pb_KemEnvelope option" where
  "kemEnvelopeToProto env =
     (case env of
        None \<Rightarrow> None
      | Some e \<Rightarrow> Some \<lparr>pke_KemAlgorithm = ke_KemAlgorithm e, pke_EnvelopeAlgorithm = ke_EnvelopeAlgorithm e,
                        pke_KeyVersion = ke_KeyVersion e, pke_EncapsulatedKey = ke_EncapsulatedKey e,
                        pke_Nonce = ke_Nonce e, pke_Ciphertext = ke_Bytes e\<rparr>)"

definition Encrypt ::
  "runtime \<Rightarrow> 'conn client \<Rightarrow> 'b aead_service \<Rightarrow> go_ctx \<Rightarrow> string \<Rightarrow> AeadAlgorithm \<Rightarrow> bytes \<Rightarrow> bytes option \<Rightarrow>
   'b \<Rightarrow> (go_error, Ciphertext) result \<times> 'b" where
  "Encrypt rt c sv ctx keyID alg plaintext aad b =
     (case ae_Encrypt sv (withTimeout rt c ctx)
             \<lparr>enc_KeyId = keyID, enc_Algorithm = alg, enc_Plaintext = plaintext, enc_Aad = aad\<rparr> b of
        (Inl e, b1) \<Rightarrow> (Inl (statusError (from_error rt) e), b1)
      | (Inr r, b1) \<Rightarrow>
          (case encr_Envelope r of
             None \<Rightarrow>
               (Inl (PlainError ''basil: encrypt succeeded but the response carried no ciphertext envelope'' []), b1)
           | Some env \<Rightarrow>
               (Inr \<lparr>ct_Algorithm = pce_Alg env, ct_KeyVersion = pce_KeyVersion env,
                     ct_Nonce = pce_Nonce env, ct_Bytes = pce_Ciphertext env\<rparr>, b1)))"

definition Decrypt ::
  "runtime \<Rightarrow> 'conn client \<Rightarrow> 'b aead_service \<Rightarrow> go_ctx \<Rightarrow> string \<Rightarrow> Ciphertext option \<Rightarrow> bytes option \<Rightarrow>
   'b \<Rightarrow> (go_error, bytes) result \<times> 'b" where
  "Decrypt rt c sv ctx keyID ct aad b =
     (case ae_Decrypt sv (withTimeout rt c ctx)
             \<lparr>dec_KeyId = keyID, dec_Envelope = ciphertextToProto ct, dec_Aad = aad\<rparr> b of
        (Inl e, b1) \<Rightarrow> (Inl (statusError (from_error rt) e), b1)
      | (Inr r, b1) \<Rightarrow> (Inr (decr_Plaintext r), b1))"

definition WrapEnvelope ::
  "runtime \<Rightarrow> 'conn client \<Rightarrow> 'b aead_service \<Rightarrow> go_ctx \<Rightarrow> string \<Rightarrow> KemAlgorithm \<Rightarrow> EnvelopeAlgorithm \<Rightarrow> bytes \<Rightarrow>
   bytes option \<Rightarrow> 'b \<Rightarrow> (go_error, KemEnvelope) result \<times> 'b" where
  "WrapEnvelope rt c sv ctx keyID kem env plaintext aad b =
     (case ae_WrapEnvelope sv (withTimeout rt c ctx)
             \<lparr>wrap_KeyId = keyID, wrap_KemAlgorithm = kem, wrap_EnvelopeAlgorithm = env,
              wrap_Plaintext = plaintext, wrap_Aad = aad\<rparr> b of
        (Inl e, b1) \<Rightarrow> (Inl (statusError (from_error rt) e), b1)
      | (Inr r, b1) \<Rightarrow>
          (case wrapr_Envelope r of
             None \<Rightarrow>
               (Inl (PlainError ''basil: wrap envelope succeeded but the response carried no KEM envelope'' []), b1)
           | Some envelope \<Rightarrow>
               (Inr \<lparr>ke_KemAlgorithm = pke_KemAlgorithm envelope,
                     ke_EnvelopeAlgorithm = pke_EnvelopeAlgorithm envelope,
                     ke_KeyVersion = pke_KeyVersion envelope,
                     ke_EncapsulatedKey = pke_EncapsulatedKey envelope,
                     ke_Nonce = pke_Nonce envelope, ke_Bytes = pke_Ciphertext envelope\<rparr>, b1)))"

definition UnwrapEnvelope ::
  "runtime \<Rightarrow> 'conn client \<Rightarrow> 'b aead_service \<Rightarrow> go_ctx \<Rightarrow> string \<Rightarrow> KemEnvelope option \<Rightarrow> bytes option \<Rightarrow>
   'b \<Rightarrow> (go_error, bytes) result \<times> 'b" where
  "UnwrapEnvelope rt c sv ctx keyID env aad b =
     (case ae_UnwrapEnvelope sv (withTimeout rt c ctx)
             \<lparr>unw_KeyId = keyID, unw_Envelope = kemEnvelopeToProto env, unw_Aad = aad\<rparr> b of
        (Inl e, b1) \<Rightarrow> (Inl (statusError (from_error rt) e), b1)
      | (Inr r, b1) \<Rightarrow> (Inr (unwr_Plaintext r), b1))"

definition UnsealCose ::
  "runtime \<Rightarrow> 'conn client \<Rightarrow> 'b aead_service \<Rightarrow> go_ctx \<Rightarrow> string \<Rightarrow> bytes \<Rightarrow> bytes option \<Rightarrow>
   'b \<Rightarrow> (go_error, bytes) result \<times> 'b" where
  "UnsealCose rt c sv ctx keyID coseEncrypt externalAAD b =
     (case ae_UnsealCose sv (withTimeout rt c ctx)
             \<lparr>uns_KeyId = keyID, uns_CoseEncrypt = coseEncrypt, uns_ExternalAad = externalAAD\<rparr> b of
        (Inl e, b1) \<Rightarrow> (Inl (statusError (from_error rt) e), b1)
      | (Inr r, b1) \<Rightarrow> (Inr (unsr_Plaintext r), b1))"

section \<open>The methods meet the RPC contract\<close>

definition readCiphertext :: "EncryptResponse \<Rightarrow> (go_error, Ciphertext) result" where
  "readCiphertext r =
     (case encr_Envelope r of
        None \<Rightarrow> Inl (PlainError ''basil: encrypt succeeded but the response carried no ciphertext envelope'' [])
      | Some env \<Rightarrow> Inr \<lparr>ct_Algorithm = pce_Alg env, ct_KeyVersion = pce_KeyVersion env,
                         ct_Nonce = pce_Nonce env, ct_Bytes = pce_Ciphertext env\<rparr>)"

definition readKemEnvelope :: "WrapEnvelopeResponse \<Rightarrow> (go_error, KemEnvelope) result" where
  "readKemEnvelope r =
     (case wrapr_Envelope r of
        None \<Rightarrow> Inl (PlainError ''basil: wrap envelope succeeded but the response carried no KEM envelope'' [])
      | Some e \<Rightarrow> Inr \<lparr>ke_KemAlgorithm = pke_KemAlgorithm e, ke_EnvelopeAlgorithm = pke_EnvelopeAlgorithm e,
                       ke_KeyVersion = pke_KeyVersion e, ke_EncapsulatedKey = pke_EncapsulatedKey e,
                       ke_Nonce = pke_Nonce e, ke_Bytes = pke_Ciphertext e\<rparr>)"

interpretation encrypt: unary_rpc "ae_Encrypt sv" "\<lambda>_. None"
    "\<lambda>(k, alg, p, aad). \<lparr>enc_KeyId = k, enc_Algorithm = alg, enc_Plaintext = p, enc_Aad = aad\<rparr>" readCiphertext
    "\<lambda>rt c ctx (k, alg, p, aad). Encrypt rt c sv ctx k alg p aad" for sv
  by unfold_locales (auto simp: Encrypt_def readCiphertext_def split: go_splits)

interpretation decrypt: unary_rpc "ae_Decrypt sv" "\<lambda>_. None"
    "\<lambda>(k, ct, aad). \<lparr>dec_KeyId = k, dec_Envelope = ciphertextToProto ct, dec_Aad = aad\<rparr>"
    "\<lambda>r. Inr (decr_Plaintext r)" "\<lambda>rt c ctx (k, ct, aad). Decrypt rt c sv ctx k ct aad" for sv
  by unfold_locales (simp add: Decrypt_def split_beta)

interpretation wrap_envelope: unary_rpc "ae_WrapEnvelope sv" "\<lambda>_. None"
    "\<lambda>(k, kem, env, p, aad). \<lparr>wrap_KeyId = k, wrap_KemAlgorithm = kem, wrap_EnvelopeAlgorithm = env,
       wrap_Plaintext = p, wrap_Aad = aad\<rparr>" readKemEnvelope
    "\<lambda>rt c ctx (k, kem, env, p, aad). WrapEnvelope rt c sv ctx k kem env p aad" for sv
  by unfold_locales (auto simp: WrapEnvelope_def readKemEnvelope_def split: go_splits)

interpretation unwrap_envelope: unary_rpc "ae_UnwrapEnvelope sv" "\<lambda>_. None"
    "\<lambda>(k, env, aad). \<lparr>unw_KeyId = k, unw_Envelope = kemEnvelopeToProto env, unw_Aad = aad\<rparr>"
    "\<lambda>r. Inr (unwr_Plaintext r)" "\<lambda>rt c ctx (k, env, aad). UnwrapEnvelope rt c sv ctx k env aad" for sv
  by unfold_locales (simp add: UnwrapEnvelope_def split_beta)

interpretation unseal_cose: unary_rpc "ae_UnsealCose sv" "\<lambda>_. None"
    "\<lambda>(k, cose, aad). \<lparr>uns_KeyId = k, uns_CoseEncrypt = cose, uns_ExternalAad = aad\<rparr>"
    "\<lambda>r. Inr (unsr_Plaintext r)" "\<lambda>rt c ctx (k, cose, aad). UnsealCose rt c sv ctx k cose aad" for sv
  by unfold_locales (simp add: UnsealCose_def split_beta)

section \<open>Facts\<close>

text \<open>A caller that keeps the returned value unchanged hands the broker's own envelope back.\<close>

lemma ciphertextToProto_read:
  "readCiphertext r = Inr ct \<Longrightarrow> ciphertextToProto (Some ct) = encr_Envelope r"
  by (auto simp: readCiphertext_def ciphertextToProto_def split: option.splits)

lemma kemEnvelopeToProto_read:
  "readKemEnvelope r = Inr env \<Longrightarrow> kemEnvelopeToProto (Some env) = wrapr_Envelope r"
  by (auto simp: readKemEnvelope_def kemEnvelopeToProto_def split: option.splits)

lemma kemEnvelopeToProto_inject [simp]: "kemEnvelopeToProto e = kemEnvelopeToProto f \<longleftrightarrow> e = f"
  by (auto simp: kemEnvelopeToProto_def split: option.splits)

lemma ciphertextToProto_inject [simp]: "ciphertextToProto e = ciphertextToProto f \<longleftrightarrow> e = f"
  by (auto simp: ciphertextToProto_def split: option.splits)

end
