(* ===== verification/RecvStream.thy ===== *)
theory RecvStream
  imports Client
begin

text \<open>
  Server streams. A \<open>Recv\<close> of a generated stream client is a function of the stream's state;
  the interface \<open>recv_stream\<close> says what a stream that ends delivers: its items in order and then
  its final error (\<open>io.EOF\<close> for a clean end). A scripted stream is an implementation.
\<close>

type_synonym ('s, 'm) recv_fn = "'s \<Rightarrow> (go_error, 'm) result \<times> 's"

locale recv_stream =
  fixes recv :: "('s, 'm) recv_fn"
    and items :: "'s \<Rightarrow> 'm list"
    and ending :: "'s \<Rightarrow> go_error"
  assumes recv_item: "items s = m # ms \<Longrightarrow> \<exists>s'. recv s = (Inr m, s') \<and> items s' = ms \<and> ending s' = ending s"
    and recv_end: "items s = [] \<Longrightarrow> \<exists>s'. recv s = (Inl (ending s), s')"

fun script_recv :: "('m list \<times> go_error, 'm) recv_fn" where
  "script_recv (m # ms, e) = (Inr m, (ms, e))"
| "script_recv ([], e) = (Inl e, ([], e))"

interpretation script_recv: recv_stream script_recv fst snd
proof unfold_locales
  show "\<exists>s'. script_recv s = (Inr m, s') \<and> fst s' = ms \<and> snd s' = snd s" if "fst s = m # ms" for s :: "'m list \<times> go_error" and m ms
    using that by (cases s) auto
  show "\<exists>s'. script_recv s = (Inl (snd s), s')" if "fst s = []" for s :: "'m list \<times> go_error"
    using that by (cases s) auto
qed

end
