(* ===== verification/Secret.thy ===== *)
theory Secret
  imports RecvStream
begin

text \<open>
  \<open>src/basil/secret.go\<close>: secrets and the catalog listing, which drains a server stream.
\<close>

section \<open>Messages and types\<close>

type_synonym CatalogKind = "32 word"

abbreviation (input) CatalogKindUnspecified :: CatalogKind where "CatalogKindUnspecified \<equiv> 0"
abbreviation (input) CatalogKindSigning :: CatalogKind where "CatalogKindSigning \<equiv> 1"
abbreviation (input) CatalogKindValue :: CatalogKind where "CatalogKindValue \<equiv> 2"
abbreviation (input) CatalogKindEncryption :: CatalogKind where "CatalogKindEncryption \<equiv> 3"

record GetSecretRequest =
  gs_SecretId :: string
  gs_Version :: "u32 option"

record GetSecretResponse =
  gsr_Value :: bytes
  gsr_Version :: u32

record SetSecretRequest =
  ss_SecretId :: string
  ss_Value :: bytes

record SetSecretResponse =
  ssr_Version :: u32

record RotateSecretRequest =
  rs_SecretId :: string

record RotateSecretResponse =
  rsr_Version :: u32

record ListCatalogRequest =
  lc_Prefix :: "string option"

record pb_CatalogEntry =
  pbc_Name :: string
  pbc_Kind :: "32 word"
  pbc_KeyType :: "32 word option"
  pbc_LatestVersion :: u32

text \<open>\<open>ListCatalog\<close> of the stub opens a stream; \<open>se_Recv\<close> is the stream's \<open>Recv\<close>.\<close>

record ('b, 's) secret_service =
  sc_GetSecret :: "('b, GetSecretRequest, GetSecretResponse) stub"
  sc_SetSecret :: "('b, SetSecretRequest, SetSecretResponse) stub"
  sc_RotateSecret :: "('b, RotateSecretRequest, RotateSecretResponse) stub"
  sc_ListCatalog :: "('b, ListCatalogRequest, 's) stub"
  sc_Recv :: "('s, pb_CatalogEntry) recv_fn"

record Secret =
  sec_Value :: bytes
  sec_Version :: u32

record CatalogEntry =
  ce_Name :: string
  ce_Kind :: CatalogKind
  ce_KeyType :: "KeyType option"
  ce_LatestVersion :: u32

section \<open>Operations\<close>

definition GetSecret ::
  "runtime \<Rightarrow> 'conn client \<Rightarrow> ('b, 's) secret_service \<Rightarrow> go_ctx \<Rightarrow> string \<Rightarrow> u32 option \<Rightarrow> 'b \<Rightarrow>
   (go_error, Secret) result \<times> 'b" where
  "GetSecret rt c sv ctx secretID version b =
     (case sc_GetSecret sv (withTimeout rt c ctx) \<lparr>gs_SecretId = secretID, gs_Version = version\<rparr> b of
        (Inl e, b1) \<Rightarrow> (Inl (statusError (from_error rt) e), b1)
      | (Inr r, b1) \<Rightarrow> (Inr \<lparr>sec_Value = gsr_Value r, sec_Version = gsr_Version r\<rparr>, b1))"

definition SetSecret ::
  "runtime \<Rightarrow> 'conn client \<Rightarrow> ('b, 's) secret_service \<Rightarrow> go_ctx \<Rightarrow> string \<Rightarrow> bytes \<Rightarrow> 'b \<Rightarrow>
   (go_error, u32) result \<times> 'b" where
  "SetSecret rt c sv ctx secretID v b =
     (case sc_SetSecret sv (withTimeout rt c ctx) \<lparr>ss_SecretId = secretID, ss_Value = v\<rparr> b of
        (Inl e, b1) \<Rightarrow> (Inl (statusError (from_error rt) e), b1)
      | (Inr r, b1) \<Rightarrow> (Inr (ssr_Version r), b1))"

definition RotateSecret ::
  "runtime \<Rightarrow> 'conn client \<Rightarrow> ('b, 's) secret_service \<Rightarrow> go_ctx \<Rightarrow> string \<Rightarrow> 'b \<Rightarrow>
   (go_error, u32) result \<times> 'b" where
  "RotateSecret rt c sv ctx secretID b =
     (case sc_RotateSecret sv (withTimeout rt c ctx) \<lparr>rs_SecretId = secretID\<rparr> b of
        (Inl e, b1) \<Rightarrow> (Inl (statusError (from_error rt) e), b1)
      | (Inr r, b1) \<Rightarrow> (Inr (rsr_Version r), b1))"

definition catalogEntryFromProto :: "pb_CatalogEntry \<Rightarrow> CatalogEntry" where
  "catalogEntryFromProto e =
     \<lparr>ce_Name = pbc_Name e, ce_Kind = pbc_Kind e,
      ce_KeyType = (case pbc_KeyType e of None \<Rightarrow> None | Some v \<Rightarrow> Some (keyTypeFromProto v)),
      ce_LatestVersion = pbc_LatestVersion e\<rparr>"

text \<open>The receive loop; a stream that never ends has no value.\<close>

partial_function (option) drainCatalog ::
  "runtime \<Rightarrow> ('s, pb_CatalogEntry) recv_fn \<Rightarrow> CatalogEntry list \<Rightarrow> 's \<Rightarrow>
   ((go_error, CatalogEntry list) result \<times> 's) option" where
  "drainCatalog rt recv entries s =
     (case recv s of
        (Inl e, s1) \<Rightarrow>
          if is_EOF e then Some (Inr entries, s1)
          else Some (Inl (statusError (from_error rt) e), s1)
      | (Inr e, s1) \<Rightarrow> drainCatalog rt recv (entries @ [catalogEntryFromProto e]) s1)"

definition ListCatalog ::
  "runtime \<Rightarrow> 'conn client \<Rightarrow> ('b, 's) secret_service \<Rightarrow> go_ctx \<Rightarrow> string option \<Rightarrow> 'b \<Rightarrow>
   ((go_error, CatalogEntry list) result \<times> 'b) option" where
  "ListCatalog rt c sv ctx prefix b =
     (case sc_ListCatalog sv (withTimeout rt c ctx) \<lparr>lc_Prefix = prefix\<rparr> b of
        (Inl e, b1) \<Rightarrow> Some (Inl (statusError (from_error rt) e), b1)
      | (Inr stream, b1) \<Rightarrow>
          (case drainCatalog rt (sc_Recv sv) [] stream of
             None \<Rightarrow> None
           | Some (r, _) \<Rightarrow> Some (r, b1)))"

section \<open>The methods meet the RPC contract\<close>

interpretation get_secret: unary_rpc "sc_GetSecret sv" "\<lambda>_. None"
    "\<lambda>(k, v). \<lparr>gs_SecretId = k, gs_Version = v\<rparr>" "\<lambda>r. Inr \<lparr>sec_Value = gsr_Value r, sec_Version = gsr_Version r\<rparr>"
    "\<lambda>rt c ctx (k, v). GetSecret rt c sv ctx k v" for sv
  by unfold_locales (simp add: GetSecret_def split_beta)

interpretation set_secret: unary_rpc "sc_SetSecret sv" "\<lambda>_. None"
    "\<lambda>(k, v). \<lparr>ss_SecretId = k, ss_Value = v\<rparr>" "\<lambda>r. Inr (ssr_Version r)"
    "\<lambda>rt c ctx (k, v). SetSecret rt c sv ctx k v" for sv
  by unfold_locales (simp add: SetSecret_def split_beta)

interpretation rotate_secret: unary_rpc "sc_RotateSecret sv" "\<lambda>_. None"
    "\<lambda>k. \<lparr>rs_SecretId = k\<rparr>" "\<lambda>r. Inr (rsr_Version r)" "\<lambda>rt c ctx k. RotateSecret rt c sv ctx k" for sv
  by unfold_locales (simp add: RotateSecret_def split_beta)

section \<open>Draining\<close>

locale catalog_stream = recv_stream recv items ending
  for recv :: "('s, pb_CatalogEntry) recv_fn" and items and ending
begin

lemma drainCatalog_spec:
  "\<exists>s'. drainCatalog rt recv entries s =
     Some (if is_EOF (ending s) then Inr (entries @ map catalogEntryFromProto (items s))
           else Inl (statusError (from_error rt) (ending s)), s')"
proof (induction "items s" arbitrary: s entries)
  case Nil
  then obtain s' where "recv s = (Inl (ending s), s')" using recv_end [of s] by auto
  then show ?case using Nil by (simp add: drainCatalog.simps [of rt recv entries s])
next
  case (Cons m ms)
  then obtain s' where s': "recv s = (Inr m, s')" "items s' = ms" "ending s' = ending s"
    using recv_item [of s m ms] by auto
  obtain s2 where "drainCatalog rt recv (entries @ [catalogEntryFromProto m]) s' =
      Some (if is_EOF (ending s) then Inr (entries @ map catalogEntryFromProto (m # ms))
            else Inl (statusError (from_error rt) (ending s)), s2)"
    using Cons.hyps(1) [of s' "entries @ [catalogEntryFromProto m]"] s' by auto
  then show ?case
    using s'(1) by (simp add: drainCatalog.simps [of rt recv entries s] flip: Cons.hyps(2))
qed

end

interpretation script_catalog: catalog_stream script_recv fst snd
  by unfold_locales

end
