(* ===== verification/Invocation.thy ===== *)
theory Invocation
  imports Client
begin

text \<open>
  \<open>src/basil/invocation.go\<close>: the listener contract and the single-use freshness challenge.
\<close>

section \<open>Messages and types\<close>

abbreviation (input) InvocationChallengeLen :: nat where "InvocationChallengeLen \<equiv> 32"

definition ReasonChallengeIssuanceDeclined :: string where
  "ReasonChallengeIssuanceDeclined = ''CHALLENGE_ISSUANCE_DECLINED''"

type_synonym InvocationListenerProfile = byte

abbreviation (input) InvocationListenerHost :: InvocationListenerProfile where "InvocationListenerHost \<equiv> 1"
abbreviation (input) InvocationListenerCourier :: InvocationListenerProfile where "InvocationListenerCourier \<equiv> 3"

text \<open>\<open>pb.ListenerProfile\<close>.\<close>

abbreviation (input) ListenerProfile_UNSPECIFIED :: "32 word" where "ListenerProfile_UNSPECIFIED \<equiv> 0"
abbreviation (input) ListenerProfile_HOST :: "32 word" where "ListenerProfile_HOST \<equiv> 1"
abbreviation (input) ListenerProfile_COURIER :: "32 word" where "ListenerProfile_COURIER \<equiv> 3"

record GetInvocationCapabilitiesResponse =
  gic_ListenerProfile :: "32 word"
  gic_RequireChallenge :: bool
  gic_CourierProtocolVersion :: u32

record GetInvocationChallengeRequest =
  gicq_Jkt :: bytes
  gicq_CourierObservedSource :: "string option"

record GetInvocationChallengeResponse =
  gicr_Challenge :: bytes
  gicr_Generation :: u64
  gicr_ExpiresAtUnix :: i64

record 'b invocation_service =
  iv_GetInvocationCapabilities :: "('b, unit, GetInvocationCapabilitiesResponse) stub"
  iv_GetInvocationChallenge :: "('b, GetInvocationChallengeRequest, GetInvocationChallengeResponse) stub"

record InvocationCapabilities =
  ic_ListenerProfile :: InvocationListenerProfile
  ic_RequireChallenge :: bool
  ic_CourierProtocolVersion :: u32

record InvocationChallenge =
  ich_Challenge :: bytes
  ich_Generation :: u64
  ich_ExpiresAtUnix :: i64

section \<open>Operations\<close>

text \<open>The switch on the wire profile; the format argument is the signed enumeration value.\<close>

definition listenerProfile :: "32 word \<Rightarrow> (go_error, InvocationListenerProfile) result" where
  "listenerProfile p =
     (if p = ListenerProfile_HOST then Inr InvocationListenerHost
      else if p = ListenerProfile_COURIER then Inr InvocationListenerCourier
      else if p = ListenerProfile_UNSPECIFIED
      then Inl (PlainError ''basil: broker returned an unspecified invocation listener profile'' [])
      else Inl (PlainError ''basil: broker returned unknown invocation listener profile %d'' [ArgInt (sint p)]))"

definition GetInvocationCapabilities ::
  "runtime \<Rightarrow> 'conn client \<Rightarrow> 'b invocation_service \<Rightarrow> go_ctx \<Rightarrow> 'b \<Rightarrow>
   (go_error, InvocationCapabilities) result \<times> 'b" where
  "GetInvocationCapabilities rt c sv ctx b =
     (case iv_GetInvocationCapabilities sv (withTimeout rt c ctx) () b of
        (Inl e, b1) \<Rightarrow> (Inl (statusError (from_error rt) e), b1)
      | (Inr r, b1) \<Rightarrow>
          (case listenerProfile (gic_ListenerProfile r) of
             Inl e \<Rightarrow> (Inl e, b1)
           | Inr profile \<Rightarrow>
               (Inr \<lparr>ic_ListenerProfile = profile, ic_RequireChallenge = gic_RequireChallenge r,
                     ic_CourierProtocolVersion = gic_CourierProtocolVersion r\<rparr>, b1)))"

definition GetInvocationChallenge ::
  "runtime \<Rightarrow> 'conn client \<Rightarrow> 'b invocation_service \<Rightarrow> go_ctx \<Rightarrow> bytes \<Rightarrow> string \<Rightarrow> 'b \<Rightarrow>
   (go_error, InvocationChallenge) result \<times> 'b" where
  "GetInvocationChallenge rt c sv ctx jkt courierObservedSource b =
     (if length jkt \<noteq> InvocationChallengeLen
      then (Inl (PlainError ''basil: jkt must be exactly %d bytes, got %d''
                  [ArgInt 32, ArgInt (int (length jkt))]), b)
      else
        (case iv_GetInvocationChallenge sv (withTimeout rt c ctx)
                \<lparr>gicq_Jkt = jkt,
                 gicq_CourierObservedSource =
                   (if courierObservedSource \<noteq> [] then Some courierObservedSource else None)\<rparr> b of
           (Inl e, b1) \<Rightarrow> (Inl (statusError (from_error rt) e), b1)
         | (Inr r, b1) \<Rightarrow>
             if length (gicr_Challenge r) \<noteq> InvocationChallengeLen
             then (Inl (PlainError ''basil: freshness challenge must be exactly %d bytes, got %d''
                         [ArgInt 32, ArgInt (int (length (gicr_Challenge r)))]), b1)
             else (Inr \<lparr>ich_Challenge = gicr_Challenge r, ich_Generation = gicr_Generation r,
                        ich_ExpiresAtUnix = gicr_ExpiresAtUnix r\<rparr>, b1)))"

section \<open>The methods meet the RPC contract\<close>

interpretation capabilities: unary_rpc "iv_GetInvocationCapabilities sv" "\<lambda>_. None" "\<lambda>_ :: unit. ()"
    "\<lambda>r. case listenerProfile (gic_ListenerProfile r) of
           Inl e \<Rightarrow> Inl e
         | Inr p \<Rightarrow> Inr \<lparr>ic_ListenerProfile = p, ic_RequireChallenge = gic_RequireChallenge r,
                         ic_CourierProtocolVersion = gic_CourierProtocolVersion r\<rparr>"
    "\<lambda>rt c ctx _. GetInvocationCapabilities rt c sv ctx" for sv
  by unfold_locales (auto simp: GetInvocationCapabilities_def split: go_splits)

interpretation challenge: unary_rpc "iv_GetInvocationChallenge sv"
    "\<lambda>(jkt, src). if length jkt \<noteq> 32
       then Some (PlainError ''basil: jkt must be exactly %d bytes, got %d'' [ArgInt 32, ArgInt (int (length jkt))])
       else None"
    "\<lambda>(jkt, src). \<lparr>gicq_Jkt = jkt, gicq_CourierObservedSource = (if src \<noteq> [] then Some src else None)\<rparr>"
    "\<lambda>r. if length (gicr_Challenge r) \<noteq> 32
          then Inl (PlainError ''basil: freshness challenge must be exactly %d bytes, got %d''
                     [ArgInt 32, ArgInt (int (length (gicr_Challenge r)))])
          else Inr \<lparr>ich_Challenge = gicr_Challenge r, ich_Generation = gicr_Generation r,
                    ich_ExpiresAtUnix = gicr_ExpiresAtUnix r\<rparr>"
    "\<lambda>rt c ctx (jkt, src). GetInvocationChallenge rt c sv ctx jkt src" for sv
  by unfold_locales (auto simp: GetInvocationChallenge_def split: go_splits)

section \<open>Facts\<close>

lemma listenerProfile_Inr_iff: "listenerProfile p = Inr q \<longleftrightarrow> p = 1 \<and> q = 1 \<or> p = 3 \<and> q = 3"
  by (auto simp: listenerProfile_def)

end
