(* ===== verification/GoTime.thy ===== *)
theory GoTime
  imports Prelude
begin

text \<open>
  The parts of Go's \<open>time\<close> package and of the protobuf well-known types that the clients use. A
  \<open>time.Time\<close> (without monotonic reading, in UTC) is the number of seconds since year 1 as a wrapping
  64-bit integer, and nanoseconds; \<open>time.Time{}\<close> has both at zero.
\<close>

record go_time =
  t_sec :: i64
  t_nsec :: int

definition zero_time :: go_time where
  "zero_time = \<lparr>t_sec = 0, t_nsec = 0\<rparr>"

definition unixToInternal :: i64 where
  "unixToInternal = 62135596800"

definition IsZero :: "go_time \<Rightarrow> bool" where
  "IsZero t \<longleftrightarrow> t_sec t = 0 \<and> t_nsec t = 0"

text \<open>\<open>time.Unix(sec, nsec)\<close> carries whole seconds of \<open>nsec\<close> over, rounding down.\<close>

definition time_Unix :: "i64 \<Rightarrow> int \<Rightarrow> go_time" where
  "time_Unix sec nsec =
     \<lparr>t_sec = sec + word_of_int (nsec div 1000000000) + unixToInternal, t_nsec = nsec mod 1000000000\<rparr>"

text \<open>\<open>t.Unix()\<close>, and \<open>t.Add(d)\<close>, which saturates.\<close>

definition time_Unix_of :: "go_time \<Rightarrow> i64" where
  "time_Unix_of t = t_sec t - unixToInternal"

definition time_Add :: "go_time \<Rightarrow> int \<Rightarrow> go_time" where
  "time_Add t d =
     (let n = t_nsec t + d; s = sint (t_sec t) + n div 1000000000 in
      \<lparr>t_sec = (if 2 ^ 63 \<le> s then 2 ^ 63 - 1 else if s < - (2 ^ 63) then 2 ^ 63 + 1 else word_of_int s),
       t_nsec = n mod 1000000000\<rparr>)"

text \<open>\<open>timestamppb.Timestamp\<close> and \<open>durationpb.Duration\<close>: seconds and nanoseconds.\<close>

record pb_timestamp =
  ts_seconds :: i64
  ts_nanos :: int

record pb_duration =
  du_seconds :: int
  du_nanos :: int

definition AsTime :: "pb_timestamp \<Rightarrow> go_time" where
  "AsTime ts = time_Unix (ts_seconds ts) (ts_nanos ts)"

definition timestamppb_New :: "go_time \<Rightarrow> pb_timestamp" where
  "timestamppb_New t = \<lparr>ts_seconds = t_sec t - unixToInternal, ts_nanos = t_nsec t\<rparr>"

text \<open>For the positive durations that reach it, Go's truncating division is \<open>div\<close>.\<close>

definition durationpb_New :: "int \<Rightarrow> pb_duration" where
  "durationpb_New d = \<lparr>du_seconds = d div 1000000000, du_nanos = d mod 1000000000\<rparr>"

definition wf_time :: "go_time \<Rightarrow> bool" where
  "wf_time t \<longleftrightarrow> 0 \<le> t_nsec t \<and> t_nsec t < 1000000000"

lemma wf_time_Unix [simp]: "wf_time (time_Unix s n)"
  by (simp add: wf_time_def time_Unix_def)

lemma wf_AsTime [simp]: "wf_time (AsTime ts)"
  by (simp add: AsTime_def)

lemma IsZero_iff: "IsZero t \<longleftrightarrow> t = zero_time"
  by (cases t) (simp add: IsZero_def zero_time_def)

lemma AsTime_New: "wf_time t \<Longrightarrow> AsTime (timestamppb_New t) = t"
  by (cases t) (simp add: wf_time_def AsTime_def timestamppb_New_def time_Unix_def)

lemma New_AsTime:
  "0 \<le> ts_nanos ts \<Longrightarrow> ts_nanos ts < 1000000000 \<Longrightarrow> timestamppb_New (AsTime ts) = ts"
  by (cases ts) (simp add: AsTime_def timestamppb_New_def time_Unix_def)

text \<open>Decimal rendering of integers (\<open>%d\<close>).\<close>

fun show_nat :: "nat \<Rightarrow> string" where
  "show_nat n = (if n < 10 then [char_of (48 + n)] else show_nat (n div 10) @ [char_of (48 + n mod 10)])"

declare show_nat.simps [simp del]

definition show_int :: "int \<Rightarrow> string" where
  "show_int i = (if i < 0 then ''-'' @ show_nat (nat (- i)) else show_nat (nat i))"

lemma show_nat_nonempty [simp]: "show_nat n \<noteq> []"
  by (subst show_nat.simps) simp

end
