(* ===== verification/Admin.thy ===== *)
theory Admin
  imports RecvStream GoTime
begin

text \<open>
  \<open>src/basil/admin.go\<close>: health, readiness, reload, policy explanation, revocation and the event
  stream of \<open>Watch\<close>.
\<close>

section \<open>Messages\<close>

record StatusResponse =
  sta_Backend :: string
  sta_Version :: string
  sta_Protocol :: u32

record HealthResponse =
  hea_Alive :: bool
  hea_Version :: string

record ReadinessResponse =
  rea_Ready :: bool
  rea_Reason :: "32 word"
  rea_Generation :: u64
  rea_KeysTotal :: u32
  rea_KeysPresent :: u32
  rea_KeysRequiredMissing :: u32
  rea_KeysOptionalMissing :: u32

record ReloadRequest =
  rel_Check :: bool

record pb_ReloadRejection =
  prr_Reason :: string
  prr_Message :: string

record ReloadResponse =
  relr_Applied :: bool
  relr_Checked :: bool
  relr_PreviousGeneration :: u64
  relr_NewGeneration :: u64
  relr_KeyCount :: u32
  relr_GrantCount :: u32
  relr_Rejection :: "pb_ReloadRejection option"

record ExplainRequest =
  exp_Subject :: string
  exp_Op :: string
  exp_Key :: string

record pb_MatchedRule =
  pmr_Rule :: string
  pmr_Via :: string
  pmr_Action :: string
  pmr_Target :: string
  pmr_Subject :: string

record ExplainResponse =
  expr_Subject :: string
  expr_Op :: string
  expr_Key :: string
  expr_Decision :: "32 word"
  expr_Via :: string
  expr_Reason :: string
  expr_MatchedRule :: "pb_MatchedRule option"

record RevokeRequest =
  rev_TrustDomain :: string
  rev_Jti :: string
  rev_ExpiresAtUnix :: u64

record RevokeResponse =
  revr_TrustDomain :: string
  revr_Jti :: string
  revr_ExpiresAtUnix :: u64
  revr_Persisted :: bool

text \<open>The \<open>detail\<close> of an event is a oneof: at most one of its members is set.\<close>

datatype pb_event_detail =
    Event_KeyRotated string u32
  | Event_BundleChanged string
  | Event_Revoked string string

record pb_Event =
  pev_Kind :: "32 word"
  pev_At :: "pb_timestamp option"
  pev_Detail :: "pb_event_detail option"

record WatchRequest =
  wat_Kinds :: "32 word list"

record ('b, 's) admin_service =
  ad_Status :: "('b, unit, StatusResponse) stub"
  ad_Health :: "('b, unit, HealthResponse) stub"
  ad_Readiness :: "('b, unit, ReadinessResponse) stub"
  ad_Reload :: "('b, ReloadRequest, ReloadResponse) stub"
  ad_Explain :: "('b, ExplainRequest, ExplainResponse) stub"
  ad_Revoke :: "('b, RevokeRequest, RevokeResponse) stub"
  ad_Watch :: "('b, WatchRequest, 's) stub"
  ad_Recv :: "('s, pb_Event) recv_fn"

section \<open>Client types\<close>

type_synonym ReadinessReason = "32 word"

abbreviation (input) ReadinessReasonUnspecified :: ReadinessReason where "ReadinessReasonUnspecified \<equiv> 0"
abbreviation (input) ReadinessReasonReady :: ReadinessReason where "ReadinessReasonReady \<equiv> 1"
abbreviation (input) ReadinessReasonBackendUnreachable :: ReadinessReason where
  "ReadinessReasonBackendUnreachable \<equiv> 2"
abbreviation (input) ReadinessReasonRequiredKeyMissing :: ReadinessReason where
  "ReadinessReasonRequiredKeyMissing \<equiv> 3"

record Status =
  status_Backend :: string
  status_Version :: string
  status_Protocol :: u32

record Health =
  health_Alive :: bool
  health_Version :: string

record Readiness =
  rd_Ready :: bool
  rd_Reason :: ReadinessReason
  rd_Generation :: u64
  rd_KeysTotal :: u32
  rd_KeysPresent :: u32
  rd_KeysRequiredMissing :: u32
  rd_KeysOptionalMissing :: u32

record ReloadRejection =
  rr_Reason :: string
  rr_Message :: string

record ReloadResult =
  rl_Applied :: bool
  rl_Checked :: bool
  rl_PreviousGeneration :: u64
  rl_NewGeneration :: u64
  rl_KeyCount :: u32
  rl_GrantCount :: u32
  rl_Rejection :: "ReloadRejection option"

record MatchedRule =
  mr_Rule :: string
  mr_Via :: string
  mr_Action :: string
  mr_Target :: string
  mr_Subject :: string

record ExplainResult =
  er_Subject :: string
  er_Op :: string
  er_Key :: string
  er_Decision :: string
  er_Via :: string
  er_Reason :: string
  er_MatchedRule :: "MatchedRule option"

record RevokeResult =
  rv_TrustDomain :: string
  rv_JTI :: string
  rv_ExpiresAtUnix :: u64
  rv_Persisted :: bool

type_synonym EventKind = "32 word"

abbreviation (input) EventKindUnspecified :: EventKind where "EventKindUnspecified \<equiv> 0"
abbreviation (input) EventKindKeyRotated :: EventKind where "EventKindKeyRotated \<equiv> 1"
abbreviation (input) EventKindBundleChanged :: EventKind where "EventKindBundleChanged \<equiv> 2"
abbreviation (input) EventKindRevoked :: EventKind where "EventKindRevoked \<equiv> 3"

record KeyRotated =
  kr_KeyID :: string
  kr_NewVersion :: u32

record BundleChanged =
  bc_TrustDomain :: string

record Revoked =
  rvk_TrustDomain :: string
  rvk_ID :: string

record Event =
  ev_Kind :: EventKind
  ev_At :: go_time
  ev_KeyRotated :: "KeyRotated option"
  ev_BundleChanged :: "BundleChanged option"
  ev_Revoked :: "Revoked option"

text \<open>The stream and whether its context was cancelled.\<close>

record 's WatchStream =
  ws_stream :: 's
  ws_cancelled :: bool

section \<open>Unary operations\<close>

definition Client_Status ::
  "runtime \<Rightarrow> 'conn client \<Rightarrow> ('b, 's) admin_service \<Rightarrow> go_ctx \<Rightarrow> 'b \<Rightarrow> (go_error, Status) result \<times> 'b" where
  "Client_Status rt c sv ctx b =
     (case ad_Status sv (withTimeout rt c ctx) () b of
        (Inl e, b1) \<Rightarrow> (Inl (statusError (from_error rt) e), b1)
      | (Inr r, b1) \<Rightarrow>
          (Inr \<lparr>status_Backend = sta_Backend r, status_Version = sta_Version r, status_Protocol = sta_Protocol r\<rparr>, b1))"

definition Client_Health ::
  "runtime \<Rightarrow> 'conn client \<Rightarrow> ('b, 's) admin_service \<Rightarrow> go_ctx \<Rightarrow> 'b \<Rightarrow> (go_error, Health) result \<times> 'b" where
  "Client_Health rt c sv ctx b =
     (case ad_Health sv (withTimeout rt c ctx) () b of
        (Inl e, b1) \<Rightarrow> (Inl (statusError (from_error rt) e), b1)
      | (Inr r, b1) \<Rightarrow> (Inr \<lparr>health_Alive = hea_Alive r, health_Version = hea_Version r\<rparr>, b1))"

definition Client_Readiness ::
  "runtime \<Rightarrow> 'conn client \<Rightarrow> ('b, 's) admin_service \<Rightarrow> go_ctx \<Rightarrow> 'b \<Rightarrow> (go_error, Readiness) result \<times> 'b" where
  "Client_Readiness rt c sv ctx b =
     (case ad_Readiness sv (withTimeout rt c ctx) () b of
        (Inl e, b1) \<Rightarrow> (Inl (statusError (from_error rt) e), b1)
      | (Inr r, b1) \<Rightarrow>
          (Inr \<lparr>rd_Ready = rea_Ready r, rd_Reason = rea_Reason r, rd_Generation = rea_Generation r,
                rd_KeysTotal = rea_KeysTotal r, rd_KeysPresent = rea_KeysPresent r,
                rd_KeysRequiredMissing = rea_KeysRequiredMissing r,
                rd_KeysOptionalMissing = rea_KeysOptionalMissing r\<rparr>, b1))"

definition Reload ::
  "runtime \<Rightarrow> 'conn client \<Rightarrow> ('b, 's) admin_service \<Rightarrow> go_ctx \<Rightarrow> bool \<Rightarrow> 'b \<Rightarrow>
   (go_error, ReloadResult) result \<times> 'b" where
  "Reload rt c sv ctx check b =
     (case ad_Reload sv (withTimeout rt c ctx) \<lparr>rel_Check = check\<rparr> b of
        (Inl e, b1) \<Rightarrow> (Inl (statusError (from_error rt) e), b1)
      | (Inr r, b1) \<Rightarrow>
          (Inr \<lparr>rl_Applied = relr_Applied r, rl_Checked = relr_Checked r,
                rl_PreviousGeneration = relr_PreviousGeneration r, rl_NewGeneration = relr_NewGeneration r,
                rl_KeyCount = relr_KeyCount r, rl_GrantCount = relr_GrantCount r,
                rl_Rejection =
                  (case relr_Rejection r of
                     None \<Rightarrow> None
                   | Some j \<Rightarrow> Some \<lparr>rr_Reason = prr_Reason j, rr_Message = prr_Message j\<rparr>)\<rparr>, b1))"

definition explainDecision :: "32 word \<Rightarrow> string" where
  "explainDecision decision =
     (if decision = 1 then ''allow'' else if decision = 2 then ''deny''
      else ''UNKNOWN('' @ show_int (sint decision) @ '')'')"

definition Explain ::
  "runtime \<Rightarrow> 'conn client \<Rightarrow> ('b, 's) admin_service \<Rightarrow> go_ctx \<Rightarrow> string \<Rightarrow> string \<Rightarrow> string \<Rightarrow> 'b \<Rightarrow>
   (go_error, ExplainResult) result \<times> 'b" where
  "Explain rt c sv ctx subject op key b =
     (case ad_Explain sv (withTimeout rt c ctx) \<lparr>exp_Subject = subject, exp_Op = op, exp_Key = key\<rparr> b of
        (Inl e, b1) \<Rightarrow> (Inl (statusError (from_error rt) e), b1)
      | (Inr r, b1) \<Rightarrow>
          (Inr \<lparr>er_Subject = expr_Subject r, er_Op = expr_Op r, er_Key = expr_Key r,
                er_Decision = explainDecision (expr_Decision r), er_Via = expr_Via r, er_Reason = expr_Reason r,
                er_MatchedRule =
                  (case expr_MatchedRule r of
                     None \<Rightarrow> None
                   | Some m \<Rightarrow> Some \<lparr>mr_Rule = pmr_Rule m, mr_Via = pmr_Via m, mr_Action = pmr_Action m,
                                     mr_Target = pmr_Target m, mr_Subject = pmr_Subject m\<rparr>)\<rparr>, b1))"

definition Revoke ::
  "runtime \<Rightarrow> 'conn client \<Rightarrow> ('b, 's) admin_service \<Rightarrow> go_ctx \<Rightarrow> string \<Rightarrow> string \<Rightarrow> u64 \<Rightarrow> 'b \<Rightarrow>
   (go_error, RevokeResult) result \<times> 'b" where
  "Revoke rt c sv ctx trustDomain jti expiresAtUnix b =
     (case ad_Revoke sv (withTimeout rt c ctx)
             \<lparr>rev_TrustDomain = trustDomain, rev_Jti = jti, rev_ExpiresAtUnix = expiresAtUnix\<rparr> b of
        (Inl e, b1) \<Rightarrow> (Inl (statusError (from_error rt) e), b1)
      | (Inr r, b1) \<Rightarrow>
          (Inr \<lparr>rv_TrustDomain = revr_TrustDomain r, rv_JTI = revr_Jti r,
                rv_ExpiresAtUnix = revr_ExpiresAtUnix r, rv_Persisted = revr_Persisted r\<rparr>, b1))"

section \<open>The event stream\<close>

definition eventFromProto :: "pb_Event \<Rightarrow> Event" where
  "eventFromProto ev =
     \<lparr>ev_Kind = pev_Kind ev,
      ev_At = (case pev_At ev of None \<Rightarrow> zero_time | Some ts \<Rightarrow> AsTime ts),
      ev_KeyRotated =
        (case pev_Detail ev of
           Some (Event_KeyRotated k v) \<Rightarrow> Some \<lparr>kr_KeyID = k, kr_NewVersion = v\<rparr> | _ \<Rightarrow> None),
      ev_BundleChanged =
        (case pev_Detail ev of Some (Event_BundleChanged td) \<Rightarrow> Some \<lparr>bc_TrustDomain = td\<rparr> | _ \<Rightarrow> None),
      ev_Revoked =
        (case pev_Detail ev of
           Some (Event_Revoked td i) \<Rightarrow> Some \<lparr>rvk_TrustDomain = td, rvk_ID = i\<rparr> | _ \<Rightarrow> None)\<rparr>"

definition Watch_Recv ::
  "runtime \<Rightarrow> ('s, pb_Event) recv_fn \<Rightarrow> 's WatchStream \<Rightarrow> (go_error, Event) result \<times> 's WatchStream" where
  "Watch_Recv rt recv s =
     (case recv (ws_stream s) of
        (Inl e, st) \<Rightarrow>
          (Inl (if is_EOF e then IoEOF else statusError (from_error rt) e), s\<lparr>ws_stream := st\<rparr>)
      | (Inr msg, st) \<Rightarrow> (Inr (eventFromProto msg), s\<lparr>ws_stream := st\<rparr>))"

text \<open>
  The iterator of \<open>Events\<close>. The consumer is a function of its own state; its boolean says whether
  it wants more.
\<close>

type_synonym 'y yield_fn = "(go_error, Event) result \<Rightarrow> 'y \<Rightarrow> bool \<times> 'y"

partial_function (option) Events ::
  "runtime \<Rightarrow> ('s, pb_Event) recv_fn \<Rightarrow> 'y yield_fn \<Rightarrow> 's WatchStream \<Rightarrow> 'y \<Rightarrow> ('s WatchStream \<times> 'y) option" where
  "Events rt recv yield s y =
     (case Watch_Recv rt recv s of
        (Inl e, s1) \<Rightarrow>
          if is_EOF e then Some (s1, y) else Some (s1, snd (yield (Inl e) y))
      | (Inr ev, s1) \<Rightarrow>
          (case yield (Inr ev) y of
             (again, y1) \<Rightarrow> if \<not> again then Some (s1, y1) else Events rt recv yield s1 y1))"

definition Watch_Close :: "'s WatchStream \<Rightarrow> go_error option \<times> 's WatchStream" where
  "Watch_Close s = (None, s\<lparr>ws_cancelled := True\<rparr>)"

text \<open>\<open>Watch\<close> does not go through \<open>withTimeout\<close>: the caller's deadline is the only one.\<close>

definition Watch ::
  "runtime \<Rightarrow> ('b, 's) admin_service \<Rightarrow> go_ctx \<Rightarrow> EventKind list \<Rightarrow> 'b \<Rightarrow>
   (go_error, 's WatchStream) result \<times> 'b" where
  "Watch rt sv ctx kinds b =
     (case ad_Watch sv ctx \<lparr>wat_Kinds = kinds\<rparr> b of
        (Inl e, b1) \<Rightarrow> (Inl (statusError (from_error rt) e), b1)
      | (Inr stream, b1) \<Rightarrow> (Inr \<lparr>ws_stream = stream, ws_cancelled = False\<rparr>, b1))"

section \<open>The methods meet the RPC contract\<close>

interpretation status_rpc: unary_rpc "ad_Status sv" "\<lambda>_. None" "\<lambda>_ :: unit. ()"
    "\<lambda>r. Inr \<lparr>status_Backend = sta_Backend r, status_Version = sta_Version r, status_Protocol = sta_Protocol r\<rparr>"
    "\<lambda>rt c ctx _. Client_Status rt c sv ctx" for sv
  by unfold_locales (simp add: Client_Status_def split_beta)

interpretation health_rpc: unary_rpc "ad_Health sv" "\<lambda>_. None" "\<lambda>_ :: unit. ()"
    "\<lambda>r. Inr \<lparr>health_Alive = hea_Alive r, health_Version = hea_Version r\<rparr>"
    "\<lambda>rt c ctx _. Client_Health rt c sv ctx" for sv
  by unfold_locales (simp add: Client_Health_def split_beta)

interpretation readiness_rpc: unary_rpc "ad_Readiness sv" "\<lambda>_. None" "\<lambda>_ :: unit. ()"
    "\<lambda>r. Inr \<lparr>rd_Ready = rea_Ready r, rd_Reason = rea_Reason r, rd_Generation = rea_Generation r,
               rd_KeysTotal = rea_KeysTotal r, rd_KeysPresent = rea_KeysPresent r,
               rd_KeysRequiredMissing = rea_KeysRequiredMissing r,
               rd_KeysOptionalMissing = rea_KeysOptionalMissing r\<rparr>"
    "\<lambda>rt c ctx _. Client_Readiness rt c sv ctx" for sv
  by unfold_locales (simp add: Client_Readiness_def split_beta)

interpretation reload_rpc: unary_rpc "ad_Reload sv" "\<lambda>_. None" "\<lambda>chk. \<lparr>rel_Check = chk\<rparr>"
    "\<lambda>r. Inr \<lparr>rl_Applied = relr_Applied r, rl_Checked = relr_Checked r,
               rl_PreviousGeneration = relr_PreviousGeneration r, rl_NewGeneration = relr_NewGeneration r,
               rl_KeyCount = relr_KeyCount r, rl_GrantCount = relr_GrantCount r,
               rl_Rejection = map_option (\<lambda>j. \<lparr>rr_Reason = prr_Reason j, rr_Message = prr_Message j\<rparr>) (relr_Rejection r)\<rparr>"
    "\<lambda>rt c ctx chk. Reload rt c sv ctx chk" for sv
  by unfold_locales (auto simp: Reload_def split: go_splits)

interpretation explain_rpc: unary_rpc "ad_Explain sv" "\<lambda>_. None"
    "\<lambda>(su, op, k). \<lparr>exp_Subject = su, exp_Op = op, exp_Key = k\<rparr>"
    "\<lambda>r. Inr \<lparr>er_Subject = expr_Subject r, er_Op = expr_Op r, er_Key = expr_Key r,
               er_Decision = explainDecision (expr_Decision r), er_Via = expr_Via r, er_Reason = expr_Reason r,
               er_MatchedRule = map_option (\<lambda>m. \<lparr>mr_Rule = pmr_Rule m, mr_Via = pmr_Via m, mr_Action = pmr_Action m,
                 mr_Target = pmr_Target m, mr_Subject = pmr_Subject m\<rparr>) (expr_MatchedRule r)\<rparr>"
    "\<lambda>rt c ctx (su, op, k). Explain rt c sv ctx su op k" for sv
  by unfold_locales (auto simp: Explain_def split: go_splits)

interpretation revoke_rpc: unary_rpc "ad_Revoke sv" "\<lambda>_. None"
    "\<lambda>(td, j, x). \<lparr>rev_TrustDomain = td, rev_Jti = j, rev_ExpiresAtUnix = x\<rparr>"
    "\<lambda>r. Inr \<lparr>rv_TrustDomain = revr_TrustDomain r, rv_JTI = revr_Jti r,
               rv_ExpiresAtUnix = revr_ExpiresAtUnix r, rv_Persisted = revr_Persisted r\<rparr>"
    "\<lambda>rt c ctx (td, j, x). Revoke rt c sv ctx td j x" for sv
  by unfold_locales (simp add: Revoke_def split_beta)

section \<open>What the iterator delivers\<close>

text \<open>
  The reference: the events go to the consumer in order until it declines; if all were taken, an
  error that is not the end of the stream is delivered once.
\<close>

fun feed :: "'y yield_fn \<Rightarrow> Event list \<Rightarrow> go_error option \<Rightarrow> 'y \<Rightarrow> 'y" where
  "feed yield [] fin y = (case fin of None \<Rightarrow> y | Some e \<Rightarrow> snd (yield (Inl e) y))"
| "feed yield (ev # evs) fin y =
     (case yield (Inr ev) y of (again, y1) \<Rightarrow> if again then feed yield evs fin y1 else y1)"

lemma not_EOF_statusError [simp]: "\<not> is_EOF e \<Longrightarrow> \<not> is_EOF (statusError fe e)"
  by (simp add: statusError_def FromError_def split: option.splits)

locale event_stream = recv_stream recv items ending
  for recv :: "('s, pb_Event) recv_fn" and items and ending
begin

lemma Events_spec:
  "\<exists>s'. Events rt recv yield s y =
     Some (s', feed yield (map eventFromProto (items (ws_stream s)))
       (if is_EOF (ending (ws_stream s)) then None
        else Some (statusError (from_error rt) (ending (ws_stream s)))) y)"
proof (induction "items (ws_stream s)" arbitrary: s y)
  case Nil
  then obtain s' where "recv (ws_stream s) = (Inl (ending (ws_stream s)), s')" using recv_end by metis
  then show ?case
    using Nil by (simp add: Events.simps [of rt recv yield s] Watch_Recv_def)
next
  case (Cons m ms)
  then obtain st where st: "recv (ws_stream s) = (Inr m, st)" "items st = ms" "ending st = ending (ws_stream s)"
    using recv_item [of "ws_stream s" m ms] by auto
  obtain again y1 where y1: "yield (Inr (eventFromProto m)) y = (again, y1)" by (cases "yield (Inr (eventFromProto m)) y")
  obtain s2 where "Events rt recv yield (s\<lparr>ws_stream := st\<rparr>) y1 =
      Some (s2, feed yield (map eventFromProto ms)
        (if is_EOF (ending (ws_stream s)) then None
         else Some (statusError (from_error rt) (ending (ws_stream s)))) y1)"
    using Cons.hyps(1) [of "s\<lparr>ws_stream := st\<rparr>" y1] st by auto
  then show ?case
    using st(1) y1 by (auto simp: Events.simps [of rt recv yield s] Watch_Recv_def simp flip: Cons.hyps(2))
qed

end

interpretation script_events: event_stream script_recv fst snd
  by unfold_locales

end
