(* ===== verification/GoText.thy ===== *)
theory GoText
  imports Prelude
begin

text \<open>
  Text functions of Go's standard library that the clients rely on: \<open>bytes.TrimSpace\<close> and the
  validating scanner of \<open>encoding/json\<close>, both on byte strings.
\<close>

section \<open>bytes.TrimSpace\<close>

text \<open>The UTF-8 encodings of the characters \<open>unicode.IsSpace\<close> accepts.\<close>

definition utf8_spaces :: "bytes list" where
  "utf8_spaces =
     [[0x09], [0x0A], [0x0B], [0x0C], [0x0D], [0x20], [0xC2, 0x85], [0xC2, 0xA0], [0xE1, 0x9A, 0x80]] @
     map (\<lambda>b. [0xE2, 0x80, b]) [0x80, 0x81, 0x82, 0x83, 0x84, 0x85, 0x86, 0x87, 0x88, 0x89, 0x8A, 0xA8, 0xA9, 0xAF] @
     [[0xE2, 0x81, 0x9F], [0xE3, 0x80, 0x80]]"

definition prefix_of :: "bytes \<Rightarrow> bytes \<Rightarrow> bool" where
  "prefix_of p s \<longleftrightarrow> take (length p) s = p"

definition leading_space :: "bytes \<Rightarrow> bytes option" where
  "leading_space s = find (\<lambda>sp. prefix_of sp s) utf8_spaces"

lemma utf8_spaces_nonempty: "sp \<in> set utf8_spaces \<Longrightarrow> sp \<noteq> []"
  by (auto simp: utf8_spaces_def)

lemma leading_space_length:
  "leading_space s = Some sp \<Longrightarrow> 0 < length sp \<and> length sp \<le> length s"
  using utf8_spaces_nonempty [of sp]
  by (auto simp: leading_space_def find_Some_iff prefix_of_def) (metis length_take min.bounded_iff nat_le_linear nth_mem)+

function trim_left :: "bytes \<Rightarrow> bytes" where
  "trim_left s = (case leading_space s of None \<Rightarrow> s | Some sp \<Rightarrow> trim_left (drop (length sp) s))"
  by auto
termination
  by (relation "measure length") (use leading_space_length in \<open>fastforce intro: diff_less\<close>)+

declare trim_left.simps [simp del]

text \<open>Trimming on the right looks for the same encodings at the end, i.e. reversed at the front.\<close>

definition trailing_space :: "bytes \<Rightarrow> bytes option" where
  "trailing_space s = find (\<lambda>sp. prefix_of (rev sp) (rev s)) utf8_spaces"

lemma trailing_space_length:
  "trailing_space s = Some sp \<Longrightarrow> 0 < length sp \<and> length sp \<le> length s"
  using utf8_spaces_nonempty [of sp]
  by (auto simp: trailing_space_def find_Some_iff prefix_of_def)
    (metis length_take length_rev min.bounded_iff nat_le_linear nth_mem)+

function trim_right :: "bytes \<Rightarrow> bytes" where
  "trim_right s =
     (case trailing_space s of None \<Rightarrow> s | Some sp \<Rightarrow> trim_right (take (length s - length sp) s))"
  by auto
termination
  by (relation "measure length") (use trailing_space_length in \<open>fastforce intro: diff_less\<close>)+

declare trim_right.simps [simp del]

definition TrimSpace :: "bytes \<Rightarrow> bytes" where
  "TrimSpace s = trim_right (trim_left s)"

lemma trim_left_fixed: "leading_space (trim_left s) = None"
proof (induction s rule: trim_left.induct)
  case (1 s)
  then show ?case by (cases "leading_space s") (simp_all add: trim_left.simps [of s])
qed

lemma trim_right_fixed: "trailing_space (trim_right s) = None"
proof (induction s rule: trim_right.induct)
  case (1 s)
  then show ?case by (cases "trailing_space s") (simp_all add: trim_right.simps [of s])
qed

lemma trim_right_take: "\<exists>n. trim_right s = take n s"
proof (induction s rule: trim_right.induct)
  case (1 s)
  show ?case
  proof (cases "trailing_space s")
    case None
    then show ?thesis by (simp add: trim_right.simps [of s] exI [of _ "length s"])
  next
    case (Some sp)
    with 1 obtain n where "trim_right (take (length s - length sp) s) = take n (take (length s - length sp) s)"
      by blast
    with Some show ?thesis by (auto simp: trim_right.simps [of s] take_take)
  qed
qed

lemma trim_left_drop: "\<exists>n. trim_left s = drop n s"
proof (induction s rule: trim_left.induct)
  case (1 s)
  show ?case
  proof (cases "leading_space s")
    case None
    then show ?thesis by (simp add: trim_left.simps [of s] exI [of _ 0])
  next
    case (Some sp)
    with 1 obtain n where "trim_left (drop (length sp) s) = drop n (drop (length sp) s)"
      by blast
    with Some show ?thesis by (auto simp: trim_left.simps [of s] drop_drop)
  qed
qed

lemma leading_space_take: "leading_space s = None \<Longrightarrow> leading_space (take n s) = None"
proof -
  have "prefix_of sp s" if "sp \<noteq> []" "prefix_of sp (take n s)" for sp
    using that by (auto simp: prefix_of_def take_take) (metis length_take min.absorb_iff2 take_all_iff nat_le_linear min_def)
  then show "leading_space s = None \<Longrightarrow> leading_space (take n s) = None"
    using utf8_spaces_nonempty by (auto simp: leading_space_def find_None_iff)
qed

lemma TrimSpace_fixed: "leading_space (TrimSpace s) = None \<and> trailing_space (TrimSpace s) = None"
proof
  obtain n where "TrimSpace s = take n (trim_left s)" using trim_right_take unfolding TrimSpace_def by blast
  then show "leading_space (TrimSpace s) = None" by (simp add: leading_space_take trim_left_fixed)
  show "trailing_space (TrimSpace s) = None" by (simp add: TrimSpace_def trim_right_fixed)
qed

lemma TrimSpace_idem [simp]: "TrimSpace (TrimSpace s) = TrimSpace s"
  using TrimSpace_fixed [of s]
  by (simp add: TrimSpace_def [of "TrimSpace s"] trim_left.simps [of "TrimSpace s"] trim_right.simps [of "TrimSpace s"])

lemma TrimSpace_infix: "\<exists>pre post. s = pre @ TrimSpace s @ post"
proof -
  obtain n where n: "trim_left s = drop n s" using trim_left_drop by blast
  obtain m where m: "TrimSpace s = take m (drop n s)" using trim_right_take [of "trim_left s"] n by (auto simp: TrimSpace_def)
  have "s = take n s @ take m (drop n s) @ drop m (drop n s)" by (simp only: append_take_drop_id)
  then show ?thesis unfolding m by blast
qed

section \<open>json.Valid\<close>

text \<open>
  The scanner of \<open>encoding/json\<close> as it is written: a current state, a stack of what is being parsed
  and the flag that a top-level value is complete. A step consumes one byte.
\<close>

datatype parse_state = parseObjectKey | parseObjectValue | parseArrayValue

datatype scan_state =
    BeginValueOrEmpty | BeginValue | BeginStringOrEmpty | BeginString | EndValue | EndTop
  | InString | InStringEsc | InStringEscU nat
  | Neg | One | Zero | Dot | Dot0 | Exp | ExpSign | Exp0 | Literal bytes
  | ScanError

record scanner =
  sc_step :: scan_state
  sc_stack :: "parse_state list"
  sc_endTop :: bool

definition maxNestingDepth :: nat where "maxNestingDepth = 10000"

definition json_space :: "byte \<Rightarrow> bool" where
  "json_space c \<longleftrightarrow> c = 0x20 \<or> c = 0x09 \<or> c = 0x0D \<or> c = 0x0A"

definition json_digit :: "byte \<Rightarrow> bool" where
  "json_digit c \<longleftrightarrow> 0x30 \<le> c \<and> c \<le> 0x39"

definition json_hex :: "byte \<Rightarrow> bool" where
  "json_hex c \<longleftrightarrow> 0x30 \<le> c \<and> c \<le> 0x39 \<or> 0x61 \<le> c \<and> c \<le> 0x66 \<or> 0x41 \<le> c \<and> c \<le> 0x46"

definition goto :: "scan_state \<Rightarrow> scanner \<Rightarrow> scanner" where
  "goto st s = s\<lparr>sc_step := st\<rparr>"

definition pushParseState :: "scan_state \<Rightarrow> parse_state \<Rightarrow> scanner \<Rightarrow> scanner" where
  "pushParseState st p s =
     (if length (sc_stack s) < maxNestingDepth then s\<lparr>sc_step := st, sc_stack := p # sc_stack s\<rparr>
      else goto ScanError s)"

definition popParseState :: "scanner \<Rightarrow> scanner" where
  "popParseState s =
     (case tl (sc_stack s) of
        [] \<Rightarrow> s\<lparr>sc_step := EndTop, sc_stack := [], sc_endTop := True\<rparr>
      | ps \<Rightarrow> s\<lparr>sc_step := EndValue, sc_stack := ps\<rparr>)"

definition stateEndTop :: "scanner \<Rightarrow> byte \<Rightarrow> scanner" where
  "stateEndTop s c = (if json_space c then s else goto ScanError s)"

definition stateEndValue :: "scanner \<Rightarrow> byte \<Rightarrow> scanner" where
  "stateEndValue s c =
     (case sc_stack s of
        [] \<Rightarrow> stateEndTop (s\<lparr>sc_step := EndTop, sc_endTop := True\<rparr>) c
      | p # ps \<Rightarrow>
          if json_space c then goto EndValue s
          else
            (case p of
               parseObjectKey \<Rightarrow>
                 if c = 0x3A then s\<lparr>sc_step := BeginValue, sc_stack := parseObjectValue # ps\<rparr> else goto ScanError s
             | parseObjectValue \<Rightarrow>
                 if c = 0x2C then s\<lparr>sc_step := BeginString, sc_stack := parseObjectKey # ps\<rparr>
                 else if c = 0x7D then popParseState s else goto ScanError s
             | parseArrayValue \<Rightarrow>
                 if c = 0x2C then goto BeginValue s
                 else if c = 0x5D then popParseState s else goto ScanError s))"

definition stateBeginValue :: "scanner \<Rightarrow> byte \<Rightarrow> scanner" where
  "stateBeginValue s c =
     (if json_space c then s
      else if c = 0x7B then pushParseState BeginStringOrEmpty parseObjectKey s
      else if c = 0x5B then pushParseState BeginValueOrEmpty parseArrayValue s
      else if c = 0x22 then goto InString s
      else if c = 0x2D then goto Neg s
      else if c = 0x30 then goto Zero s
      else if c = 0x74 then goto (Literal [0x72, 0x75, 0x65]) s
      else if c = 0x66 then goto (Literal [0x61, 0x6C, 0x73, 0x65]) s
      else if c = 0x6E then goto (Literal [0x75, 0x6C, 0x6C]) s
      else if json_digit c then goto One s
      else goto ScanError s)"

definition stateBeginString :: "scanner \<Rightarrow> byte \<Rightarrow> scanner" where
  "stateBeginString s c =
     (if json_space c then s else if c = 0x22 then goto InString s else goto ScanError s)"

definition state0 :: "scanner \<Rightarrow> byte \<Rightarrow> scanner" where
  "state0 s c =
     (if c = 0x2E then goto Dot s else if c = 0x65 \<or> c = 0x45 then goto Exp s else stateEndValue s c)"

definition stateESign :: "scanner \<Rightarrow> byte \<Rightarrow> scanner" where
  "stateESign s c = (if json_digit c then goto Exp0 s else goto ScanError s)"

definition scan_step :: "scanner \<Rightarrow> byte \<Rightarrow> scanner" where
  "scan_step s c =
     (case sc_step s of
        BeginValueOrEmpty \<Rightarrow>
          if json_space c then s else if c = 0x5D then stateEndValue s c else stateBeginValue s c
      | BeginValue \<Rightarrow> stateBeginValue s c
      | BeginStringOrEmpty \<Rightarrow>
          if json_space c then s
          else if c = 0x7D then stateEndValue (s\<lparr>sc_stack := parseObjectValue # tl (sc_stack s)\<rparr>) c
          else stateBeginString s c
      | BeginString \<Rightarrow> stateBeginString s c
      | EndValue \<Rightarrow> stateEndValue s c
      | EndTop \<Rightarrow> stateEndTop s c
      | InString \<Rightarrow>
          if c = 0x22 then goto EndValue s else if c = 0x5C then goto InStringEsc s
          else if c < 0x20 then goto ScanError s else s
      | InStringEsc \<Rightarrow>
          if c \<in> set [0x62, 0x66, 0x6E, 0x72, 0x74, 0x5C, 0x2F, 0x22] then goto InString s
          else if c = 0x75 then goto (InStringEscU 3) s else goto ScanError s
      | InStringEscU n \<Rightarrow>
          if \<not> json_hex c then goto ScanError s
          else if n = 0 then goto InString s else goto (InStringEscU (n - 1)) s
      | Neg \<Rightarrow> if c = 0x30 then goto Zero s else if json_digit c then goto One s else goto ScanError s
      | One \<Rightarrow> if json_digit c then s else state0 s c
      | Zero \<Rightarrow> state0 s c
      | Dot \<Rightarrow> if json_digit c then goto Dot0 s else goto ScanError s
      | Dot0 \<Rightarrow> if json_digit c then s else if c = 0x65 \<or> c = 0x45 then goto Exp s else stateEndValue s c
      | Exp \<Rightarrow> if c = 0x2B \<or> c = 0x2D then goto ExpSign s else stateESign s c
      | ExpSign \<Rightarrow> stateESign s c
      | Exp0 \<Rightarrow> if json_digit c then s else stateEndValue s c
      | Literal l \<Rightarrow>
          (case l of
             [] \<Rightarrow> goto ScanError s
           | x # xs \<Rightarrow>
               if c \<noteq> x then goto ScanError s
               else if xs = [] then goto EndValue s else goto (Literal xs) s)
      | ScanError \<Rightarrow> s)"

definition json_Valid :: "bytes \<Rightarrow> bool" where
  "json_Valid bs =
     (let s = foldl scan_step \<lparr>sc_step = BeginValue, sc_stack = [], sc_endTop = False\<rparr> bs
      in sc_step s \<noteq> ScanError \<and> (sc_endTop s \<or> sc_endTop (scan_step s 0x20)))"

lemma json_Valid_examples:
  "json_Valid (bytes_of ''{}'')" "json_Valid (bytes_of ''{'' @ [0x22, 0x61, 0x22] @ bytes_of '': [1, -2.5e3, true, null]}'')"
  "\<not> json_Valid (bytes_of ''{'')" "\<not> json_Valid (bytes_of ''{} x'')" "\<not> json_Valid (bytes_of ''01'')"
  by code_simp+

end
