(* ===== verification/Minting.thy ===== *)
theory Minting
  imports Client GoTime GoText
begin

text \<open>
  \<open>src/basil/minting.go\<close>: JWT and NATS credentials, NATS curve encryption, JWT validation and
  certificates. Every credential method builds its request, checks what the client checks, and goes
  through \<open>mint\<close>.
\<close>

section \<open>Enumerations\<close>

type_synonym NatsJwtType = "32 word"

abbreviation (input) NatsJwtTypeUnspecified :: NatsJwtType where "NatsJwtTypeUnspecified \<equiv> 0"
abbreviation (input) NatsJwtTypeUser :: NatsJwtType where "NatsJwtTypeUser \<equiv> 1"
abbreviation (input) NatsJwtTypeAccount :: NatsJwtType where "NatsJwtTypeAccount \<equiv> 2"
abbreviation (input) NatsJwtTypeOperator :: NatsJwtType where "NatsJwtTypeOperator \<equiv> 3"
abbreviation (input) NatsJwtTypeSigner :: NatsJwtType where "NatsJwtTypeSigner \<equiv> 4"
abbreviation (input) NatsJwtTypeServer :: NatsJwtType where "NatsJwtTypeServer \<equiv> 5"
abbreviation (input) NatsJwtTypeCurve :: NatsJwtType where "NatsJwtTypeCurve \<equiv> 6"

type_synonym NatsJtiMode = "32 word"

abbreviation (input) NatsJtiModeRequireValid :: NatsJtiMode where "NatsJtiModeRequireValid \<equiv> 0"
abbreviation (input) NatsJtiModeRewrite :: NatsJtiMode where "NatsJtiModeRewrite \<equiv> 1"

type_synonym NatsJwtValidationReason = "32 word"

abbreviation (input) NatsJwtValidationReasonUnknown :: NatsJwtValidationReason where "NatsJwtValidationReasonUnknown \<equiv> 0"
abbreviation (input) NatsJwtValidationReasonValid :: NatsJwtValidationReason where "NatsJwtValidationReasonValid \<equiv> 1"
abbreviation (input) NatsJwtValidationReasonMalformed :: NatsJwtValidationReason where "NatsJwtValidationReasonMalformed \<equiv> 2"
abbreviation (input) NatsJwtValidationReasonBadSignature :: NatsJwtValidationReason where "NatsJwtValidationReasonBadSignature \<equiv> 3"
abbreviation (input) NatsJwtValidationReasonUnknownSigner :: NatsJwtValidationReason where "NatsJwtValidationReasonUnknownSigner \<equiv> 4"
abbreviation (input) NatsJwtValidationReasonExpired :: NatsJwtValidationReason where "NatsJwtValidationReasonExpired \<equiv> 5"
abbreviation (input) NatsJwtValidationReasonNotYetValid :: NatsJwtValidationReason where "NatsJwtValidationReasonNotYetValid \<equiv> 6"
abbreviation (input) NatsJwtValidationReasonWrongType :: NatsJwtValidationReason where "NatsJwtValidationReasonWrongType \<equiv> 7"

section \<open>Client types\<close>

record Credential =
  cred_Token :: string
  cred_ExpiresAt :: go_time

text \<open>
  The dynamic type of a \<open>Claims any\<close>: nil, the three byte-like cases of the type switch, or a value
  of another type together with what \<open>json.Marshal\<close> makes of it.
\<close>

datatype claims =
    ClaimsNil
  | ClaimsRawMessage bytes
  | ClaimsBytes bytes
  | ClaimsString string
  | ClaimsOther "(go_error, bytes) result"

record JwtRequest =
  jwt_KeyID :: string
  jwt_Subject :: string
  jwt_TTL :: int
  jwt_Claims :: claims

record NatsUserRequest =
  nu_KeyID :: string
  nu_SubjectUserNKey :: string
  nu_Name :: string
  nu_TTL :: int
  nu_PubAllow :: "string list"
  nu_PubDeny :: "string list"
  nu_SubAllow :: "string list"
  nu_SubDeny :: "string list"
  nu_IssuerAccount :: string

record NatsAccountRequest =
  na_KeyID :: string
  na_SubjectAccountNKey :: string
  na_Name :: string
  na_TTL :: int
  na_SigningKeys :: "string list"

record NatsOperatorRequest =
  no_KeyID :: string
  no_SubjectOperatorNKey :: string
  no_Name :: string
  no_TTL :: int
  no_SigningKeys :: "string list"
  no_AccountServerURL :: string
  no_SystemAccount :: string

text \<open>The requests for signer, server and curve JWTs have the same fields.\<close>

record NatsSignerRequest =
  ns_KeyID :: string
  ns_SubjectNKey :: string
  ns_Name :: string
  ns_TTL :: int

record NatsServerRequest =
  nv_KeyID :: string
  nv_SubjectServerNKey :: string
  nv_Name :: string
  nv_TTL :: int

record NatsCurveRequest =
  nc_KeyID :: string
  nc_SubjectCurveNKey :: string
  nc_Name :: string
  nc_TTL :: int

record NatsCurveEncryptRequest =
  nce_KeyID :: string
  nce_RecipientPublicXKey :: string
  nce_Plaintext :: bytes

record NatsCurveDecryptRequest =
  ncd_KeyID :: string
  ncd_SenderPublicXKey :: string
  ncd_Ciphertext :: bytes

record NatsJwtRequest =
  nj_KeyID :: string
  nj_Claims :: claims
  nj_ExpectedType :: NatsJwtType
  nj_TTL :: int
  nj_ExpiresAt :: go_time
  nj_IssuedAt :: go_time
  nj_JtiMode :: NatsJtiMode

record AllowedSigner =
  as_keyID :: string
  as_natsPublicKey :: string

definition AllowedSignerKeyID :: "string \<Rightarrow> AllowedSigner" where
  "AllowedSignerKeyID keyID = \<lparr>as_keyID = keyID, as_natsPublicKey = []\<rparr>"

definition AllowedSignerNatsPublicKey :: "string \<Rightarrow> AllowedSigner" where
  "AllowedSignerNatsPublicKey publicKey = \<lparr>as_keyID = [], as_natsPublicKey = publicKey\<rparr>"

record ValidateNatsJwtRequest =
  vn_JWT :: string
  vn_AllowedSigners :: "AllowedSigner list"
  vn_ExpectedType :: NatsJwtType

record NatsJwtValidation =
  val_Valid :: bool
  val_Reason :: NatsJwtValidationReason
  val_Subject :: string
  val_Issuer :: string
  val_MatchedSignerKeyID :: string
  val_JWTType :: NatsJwtType
  val_ExpiresAt :: go_time
  val_IssuedAt :: go_time

record CertificateRequest =
  cq_IssuerKeyID :: string
  cq_CommonName :: string
  cq_DNSSANs :: "string list"
  cq_IPSANs :: "string list"
  cq_TTL :: int

record Certificate =
  cert_CertChainDER :: "bytes list"
  cert_PrivateKeyDER :: bytes
  cert_CAChainDER :: "bytes list"

section \<open>Messages\<close>

record CredentialResponse =
  crr_Token :: string
  crr_ExpiresAt :: "pb_timestamp option"

record MintJwtRequest =
  mj_KeyId :: string
  mj_Subject :: "string option"
  mj_Ttl :: "pb_duration option"
  mj_ExtraClaimsJson :: bytes

record MintNatsUserRequest =
  mu_KeyId :: string
  mu_SubjectUserNkey :: string
  mu_Name :: string
  mu_Ttl :: "pb_duration option"
  mu_PubAllow :: "string list"
  mu_PubDeny :: "string list"
  mu_SubAllow :: "string list"
  mu_SubDeny :: "string list"
  mu_IssuerAccount :: "string option"

record MintNatsAccountRequest =
  ma_KeyId :: string
  ma_SubjectAccountNkey :: string
  ma_Name :: string
  ma_Ttl :: "pb_duration option"
  ma_SigningKeys :: "string list"

record MintNatsOperatorRequest =
  mo_KeyId :: string
  mo_SubjectOperatorNkey :: "string option"
  mo_Name :: string
  mo_Ttl :: "pb_duration option"
  mo_SigningKeys :: "string list"
  mo_AccountServerUrl :: "string option"
  mo_SystemAccount :: "string option"

record MintNatsSignerRequest =
  ms_KeyId :: string
  ms_SubjectNkey :: string
  ms_Name :: string
  ms_Ttl :: "pb_duration option"

record MintNatsServerRequest =
  mv_KeyId :: string
  mv_SubjectServerNkey :: string
  mv_Name :: string
  mv_Ttl :: "pb_duration option"

record MintNatsCurveRequest =
  mc_KeyId :: string
  mc_SubjectCurveNkey :: string
  mc_Name :: string
  mc_Ttl :: "pb_duration option"

record EncryptNatsCurveRequest =
  encq_KeyId :: string
  encq_RecipientPublicXkey :: string
  encq_Plaintext :: bytes

record EncryptNatsCurveResponse =
  encs_Ciphertext :: bytes

record DecryptNatsCurveRequest =
  decq_KeyId :: string
  decq_SenderPublicXkey :: string
  decq_Ciphertext :: bytes

record DecryptNatsCurveResponse =
  decs_Plaintext :: bytes

record SignNatsJwtRequest =
  sj_KeyId :: string
  sj_ClaimsJson :: bytes
  sj_ExpectedType :: "32 word"
  sj_Ttl :: "pb_duration option"
  sj_ExpiresAt :: "pb_timestamp option"
  sj_IssuedAt :: "pb_timestamp option"
  sj_JtiMode :: "32 word"

datatype AllowedNatsSigner = AllowedNatsSigner_KeyId string | AllowedNatsSigner_NatsPublicKey string

record pb_ValidateNatsJwtRequest =
  pvn_Jwt :: string
  pvn_AllowedSigners :: "AllowedNatsSigner list"
  pvn_ExpectedType :: "32 word"

record ValidateNatsJwtResponse =
  vnr_Valid :: bool
  vnr_Reason :: "32 word"
  vnr_Subject :: string
  vnr_Issuer :: string
  vnr_MatchedSignerKeyId :: string
  vnr_JwtType :: "32 word"
  vnr_ExpiresAtUnix :: u64
  vnr_IssuedAtUnix :: u64

record IssueCertificateRequest =
  isc_IssuerKeyId :: string
  isc_CommonName :: string
  isc_DnsSans :: "string list"
  isc_IpSans :: "string list"
  isc_Ttl :: "pb_duration option"

record IssueCertificateResponse =
  iscr_CertChainDer :: "bytes list"
  iscr_PrivateKeyDer :: bytes
  iscr_CaChainDer :: "bytes list"

record 'b minting_service =
  mi_MintJwt :: "('b, MintJwtRequest, CredentialResponse) stub"
  mi_IssueCertificate :: "('b, IssueCertificateRequest, IssueCertificateResponse) stub"

record 'b nats_service =
  nt_MintNatsUser :: "('b, MintNatsUserRequest, CredentialResponse) stub"
  nt_MintNatsAccount :: "('b, MintNatsAccountRequest, CredentialResponse) stub"
  nt_MintNatsOperator :: "('b, MintNatsOperatorRequest, CredentialResponse) stub"
  nt_MintNatsSigner :: "('b, MintNatsSignerRequest, CredentialResponse) stub"
  nt_MintNatsServer :: "('b, MintNatsServerRequest, CredentialResponse) stub"
  nt_MintNatsCurve :: "('b, MintNatsCurveRequest, CredentialResponse) stub"
  nt_EncryptNatsCurve :: "('b, EncryptNatsCurveRequest, EncryptNatsCurveResponse) stub"
  nt_DecryptNatsCurve :: "('b, DecryptNatsCurveRequest, DecryptNatsCurveResponse) stub"
  nt_SignNatsJwt :: "('b, SignNatsJwtRequest, CredentialResponse) stub"
  nt_ValidateNatsJwt :: "('b, pb_ValidateNatsJwtRequest, ValidateNatsJwtResponse) stub"

section \<open>Conversions\<close>

definition durationOrNil :: "int \<Rightarrow> pb_duration option" where
  "durationOrNil d = (if d \<le> 0 then None else Some (durationpb_New d))"

definition timestampOrNil :: "go_time \<Rightarrow> pb_timestamp option" where
  "timestampOrNil t = (if IsZero t then None else Some (timestamppb_New t))"

definition objectJSON :: "claims \<Rightarrow> string \<Rightarrow> (go_error, bytes) result" where
  "objectJSON v label =
     (if v = ClaimsNil then Inl (PlainError ''basil: invalid %s: missing JSON object'' [ArgStr label])
      else
        (case (case v of
                 ClaimsRawMessage b \<Rightarrow> Inr b
               | ClaimsBytes b \<Rightarrow> Inr b
               | ClaimsString s \<Rightarrow> Inr (bytes_of s)
               | ClaimsOther (Inr b) \<Rightarrow> Inr b
               | ClaimsOther (Inl e) \<Rightarrow> Inl (WrapError ''basil: invalid %s: %w'' [ArgStr label] e)
               | ClaimsNil \<Rightarrow> Inr []) of
           Inl e \<Rightarrow> Inl e
         | Inr raw0 \<Rightarrow>
             (let raw = TrimSpace raw0 in
              if length raw = 0 then Inl (PlainError ''basil: invalid %s: missing JSON object'' [ArgStr label])
              else if \<not> json_Valid raw then Inl (PlainError ''basil: invalid %s: malformed JSON'' [ArgStr label])
              else if raw ! 0 \<noteq> 0x7B then Inl (PlainError ''basil: invalid %s: expected JSON object'' [ArgStr label])
              else Inr raw)))"

definition optionalObjectJSON :: "claims \<Rightarrow> string \<Rightarrow> (go_error, bytes) result" where
  "optionalObjectJSON v label = (if v = ClaimsNil then Inr [] else objectJSON v label)"

definition credentialFromProto :: "CredentialResponse \<Rightarrow> Credential" where
  "credentialFromProto r =
     \<lparr>cred_Token = crr_Token r,
      cred_ExpiresAt = (case crr_ExpiresAt r of None \<Rightarrow> zero_time | Some ts \<Rightarrow> AsTime ts)\<rparr>"

definition AllowedSigner_toProto :: "AllowedSigner \<Rightarrow> (go_error, AllowedNatsSigner) result" where
  "AllowedSigner_toProto s =
     (if as_keyID s \<noteq> [] then Inr (AllowedNatsSigner_KeyId (as_keyID s))
      else if as_natsPublicKey s = []
      then Inl (PlainError ''allowed signer must be constructed with AllowedSignerKeyID or AllowedSignerNatsPublicKey'' [])
      else Inr (AllowedNatsSigner_NatsPublicKey (as_natsPublicKey s)))"

definition natsJwtValidationFromProto :: "ValidateNatsJwtResponse \<Rightarrow> NatsJwtValidation" where
  "natsJwtValidationFromProto r =
     \<lparr>val_Valid = vnr_Valid r, val_Reason = vnr_Reason r, val_Subject = vnr_Subject r, val_Issuer = vnr_Issuer r,
      val_MatchedSignerKeyID = vnr_MatchedSignerKeyId r, val_JWTType = vnr_JwtType r,
      val_ExpiresAt = (if vnr_ExpiresAtUnix r \<noteq> 0 then time_Unix (vnr_ExpiresAtUnix r) 0 else zero_time),
      val_IssuedAt = (if vnr_IssuedAtUnix r \<noteq> 0 then time_Unix (vnr_IssuedAtUnix r) 0 else zero_time)\<rparr>"

definition orNil :: "string \<Rightarrow> string option" where
  "orNil s = (if s \<noteq> [] then Some s else None)"

section \<open>Operations\<close>

definition mint ::
  "runtime \<Rightarrow> 'conn client \<Rightarrow> go_ctx \<Rightarrow> (go_ctx \<Rightarrow> 'b \<Rightarrow> (go_error, CredentialResponse) result \<times> 'b) \<Rightarrow> 'b \<Rightarrow>
   (go_error, Credential) result \<times> 'b" where
  "mint rt c ctx call b =
     (case call (withTimeout rt c ctx) b of
        (Inl e, b1) \<Rightarrow> (Inl (statusError (from_error rt) e), b1)
      | (Inr r, b1) \<Rightarrow> (Inr (credentialFromProto r), b1))"

definition MintJwt ::
  "runtime \<Rightarrow> 'conn client \<Rightarrow> 'b minting_service \<Rightarrow> go_ctx \<Rightarrow> JwtRequest \<Rightarrow> 'b \<Rightarrow> (go_error, Credential) result \<times> 'b" where
  "MintJwt rt c sv ctx req b =
     (case optionalObjectJSON (jwt_Claims req) ''jwt claims'' of
        Inl e \<Rightarrow> (Inl e, b)
      | Inr claimsJSON \<Rightarrow>
          mint rt c ctx (\<lambda>ctx. mi_MintJwt sv ctx
            \<lparr>mj_KeyId = jwt_KeyID req, mj_Subject = orNil (jwt_Subject req),
             mj_Ttl = durationOrNil (jwt_TTL req), mj_ExtraClaimsJson = claimsJSON\<rparr>) b)"

definition MintNatsUser ::
  "runtime \<Rightarrow> 'conn client \<Rightarrow> 'b nats_service \<Rightarrow> go_ctx \<Rightarrow> NatsUserRequest \<Rightarrow> 'b \<Rightarrow> (go_error, Credential) result \<times> 'b" where
  "MintNatsUser rt c sv ctx req =
     mint rt c ctx (\<lambda>ctx. nt_MintNatsUser sv ctx
       \<lparr>mu_KeyId = nu_KeyID req, mu_SubjectUserNkey = nu_SubjectUserNKey req, mu_Name = nu_Name req,
        mu_Ttl = durationOrNil (nu_TTL req), mu_PubAllow = nu_PubAllow req, mu_PubDeny = nu_PubDeny req,
        mu_SubAllow = nu_SubAllow req, mu_SubDeny = nu_SubDeny req, mu_IssuerAccount = orNil (nu_IssuerAccount req)\<rparr>)"

definition MintNatsAccount ::
  "runtime \<Rightarrow> 'conn client \<Rightarrow> 'b nats_service \<Rightarrow> go_ctx \<Rightarrow> NatsAccountRequest \<Rightarrow> 'b \<Rightarrow> (go_error, Credential) result \<times> 'b" where
  "MintNatsAccount rt c sv ctx req =
     mint rt c ctx (\<lambda>ctx. nt_MintNatsAccount sv ctx
       \<lparr>ma_KeyId = na_KeyID req, ma_SubjectAccountNkey = na_SubjectAccountNKey req, ma_Name = na_Name req,
        ma_Ttl = durationOrNil (na_TTL req), ma_SigningKeys = na_SigningKeys req\<rparr>)"

definition MintNatsOperator ::
  "runtime \<Rightarrow> 'conn client \<Rightarrow> 'b nats_service \<Rightarrow> go_ctx \<Rightarrow> NatsOperatorRequest \<Rightarrow> 'b \<Rightarrow> (go_error, Credential) result \<times> 'b" where
  "MintNatsOperator rt c sv ctx req =
     mint rt c ctx (\<lambda>ctx. nt_MintNatsOperator sv ctx
       \<lparr>mo_KeyId = no_KeyID req, mo_SubjectOperatorNkey = orNil (no_SubjectOperatorNKey req), mo_Name = no_Name req,
        mo_Ttl = durationOrNil (no_TTL req), mo_SigningKeys = no_SigningKeys req,
        mo_AccountServerUrl = orNil (no_AccountServerURL req), mo_SystemAccount = orNil (no_SystemAccount req)\<rparr>)"

definition MintNatsSigner ::
  "runtime \<Rightarrow> 'conn client \<Rightarrow> 'b nats_service \<Rightarrow> go_ctx \<Rightarrow> NatsSignerRequest \<Rightarrow> 'b \<Rightarrow> (go_error, Credential) result \<times> 'b" where
  "MintNatsSigner rt c sv ctx req =
     mint rt c ctx (\<lambda>ctx. nt_MintNatsSigner sv ctx
       \<lparr>ms_KeyId = ns_KeyID req, ms_SubjectNkey = ns_SubjectNKey req, ms_Name = ns_Name req,
        ms_Ttl = durationOrNil (ns_TTL req)\<rparr>)"

definition MintNatsServer ::
  "runtime \<Rightarrow> 'conn client \<Rightarrow> 'b nats_service \<Rightarrow> go_ctx \<Rightarrow> NatsServerRequest \<Rightarrow> 'b \<Rightarrow> (go_error, Credential) result \<times> 'b" where
  "MintNatsServer rt c sv ctx req =
     mint rt c ctx (\<lambda>ctx. nt_MintNatsServer sv ctx
       \<lparr>mv_KeyId = nv_KeyID req, mv_SubjectServerNkey = nv_SubjectServerNKey req, mv_Name = nv_Name req,
        mv_Ttl = durationOrNil (nv_TTL req)\<rparr>)"

definition MintNatsCurve ::
  "runtime \<Rightarrow> 'conn client \<Rightarrow> 'b nats_service \<Rightarrow> go_ctx \<Rightarrow> NatsCurveRequest \<Rightarrow> 'b \<Rightarrow> (go_error, Credential) result \<times> 'b" where
  "MintNatsCurve rt c sv ctx req =
     mint rt c ctx (\<lambda>ctx. nt_MintNatsCurve sv ctx
       \<lparr>mc_KeyId = nc_KeyID req, mc_SubjectCurveNkey = nc_SubjectCurveNKey req, mc_Name = nc_Name req,
        mc_Ttl = durationOrNil (nc_TTL req)\<rparr>)"

definition EncryptNatsCurve ::
  "runtime \<Rightarrow> 'conn client \<Rightarrow> 'b nats_service \<Rightarrow> go_ctx \<Rightarrow> NatsCurveEncryptRequest \<Rightarrow> 'b \<Rightarrow> (go_error, bytes) result \<times> 'b" where
  "EncryptNatsCurve rt c sv ctx req b =
     (case nt_EncryptNatsCurve sv (withTimeout rt c ctx)
             \<lparr>encq_KeyId = nce_KeyID req, encq_RecipientPublicXkey = nce_RecipientPublicXKey req,
              encq_Plaintext = nce_Plaintext req\<rparr> b of
        (Inl e, b1) \<Rightarrow> (Inl (statusError (from_error rt) e), b1)
      | (Inr r, b1) \<Rightarrow> (Inr (encs_Ciphertext r), b1))"

definition DecryptNatsCurve ::
  "runtime \<Rightarrow> 'conn client \<Rightarrow> 'b nats_service \<Rightarrow> go_ctx \<Rightarrow> NatsCurveDecryptRequest \<Rightarrow> 'b \<Rightarrow> (go_error, bytes) result \<times> 'b" where
  "DecryptNatsCurve rt c sv ctx req b =
     (case nt_DecryptNatsCurve sv (withTimeout rt c ctx)
             \<lparr>decq_KeyId = ncd_KeyID req, decq_SenderPublicXkey = ncd_SenderPublicXKey req,
              decq_Ciphertext = ncd_Ciphertext req\<rparr> b of
        (Inl e, b1) \<Rightarrow> (Inl (statusError (from_error rt) e), b1)
      | (Inr r, b1) \<Rightarrow> (Inr (decs_Plaintext r), b1))"

definition SignNatsJwt ::
  "runtime \<Rightarrow> 'conn client \<Rightarrow> 'b nats_service \<Rightarrow> go_ctx \<Rightarrow> NatsJwtRequest \<Rightarrow> 'b \<Rightarrow> (go_error, Credential) result \<times> 'b" where
  "SignNatsJwt rt c sv ctx req b =
     (case objectJSON (nj_Claims req) ''nats jwt claims'' of
        Inl e \<Rightarrow> (Inl e, b)
      | Inr claimsJSON \<Rightarrow>
          mint rt c ctx (\<lambda>ctx. nt_SignNatsJwt sv ctx
            \<lparr>sj_KeyId = nj_KeyID req, sj_ClaimsJson = claimsJSON, sj_ExpectedType = nj_ExpectedType req,
             sj_Ttl = durationOrNil (nj_TTL req), sj_ExpiresAt = timestampOrNil (nj_ExpiresAt req),
             sj_IssuedAt = timestampOrNil (nj_IssuedAt req), sj_JtiMode = nj_JtiMode req\<rparr>) b)"

text \<open>The conversion loop of \<open>ValidateNatsJwt\<close>.\<close>

fun allowedSigners :: "AllowedSigner list \<Rightarrow> (go_error, AllowedNatsSigner list) result" where
  "allowedSigners [] = Inr []"
| "allowedSigners (s # ss) =
     (case AllowedSigner_toProto s of
        Inl e \<Rightarrow> Inl e
      | Inr p \<Rightarrow> (case allowedSigners ss of Inl e \<Rightarrow> Inl e | Inr ps \<Rightarrow> Inr (p # ps)))"

definition ValidateNatsJwt ::
  "runtime \<Rightarrow> 'conn client \<Rightarrow> 'b nats_service \<Rightarrow> go_ctx \<Rightarrow> ValidateNatsJwtRequest \<Rightarrow> 'b \<Rightarrow>
   (go_error, NatsJwtValidation) result \<times> 'b" where
  "ValidateNatsJwt rt c sv ctx req b =
     (case allowedSigners (vn_AllowedSigners req) of
        Inl e \<Rightarrow> (Inl e, b)
      | Inr allowed \<Rightarrow>
          (case nt_ValidateNatsJwt sv (withTimeout rt c ctx)
                  \<lparr>pvn_Jwt = vn_JWT req, pvn_AllowedSigners = allowed, pvn_ExpectedType = vn_ExpectedType req\<rparr> b of
             (Inl e, b1) \<Rightarrow> (Inl (statusError (from_error rt) e), b1)
           | (Inr r, b1) \<Rightarrow> (Inr (natsJwtValidationFromProto r), b1)))"

definition IssueCertificate ::
  "runtime \<Rightarrow> 'conn client \<Rightarrow> 'b minting_service \<Rightarrow> go_ctx \<Rightarrow> CertificateRequest \<Rightarrow> 'b \<Rightarrow>
   (go_error, Certificate) result \<times> 'b" where
  "IssueCertificate rt c sv ctx req b =
     (case mi_IssueCertificate sv (withTimeout rt c ctx)
             \<lparr>isc_IssuerKeyId = cq_IssuerKeyID req, isc_CommonName = cq_CommonName req,
              isc_DnsSans = cq_DNSSANs req, isc_IpSans = cq_IPSANs req, isc_Ttl = durationOrNil (cq_TTL req)\<rparr> b of
        (Inl e, b1) \<Rightarrow> (Inl (statusError (from_error rt) e), b1)
      | (Inr r, b1) \<Rightarrow>
          (Inr \<lparr>cert_CertChainDER = iscr_CertChainDer r, cert_PrivateKeyDER = iscr_PrivateKeyDer r,
                cert_CAChainDER = iscr_CaChainDer r\<rparr>, b1))"

section \<open>The methods meet the RPC contract\<close>

lemmas mint_ops = mint_def MintNatsUser_def MintNatsAccount_def MintNatsOperator_def MintNatsSigner_def
  MintNatsServer_def MintNatsCurve_def

interpretation mint_jwt: unary_rpc "mi_MintJwt sv"
    "\<lambda>q. case optionalObjectJSON (jwt_Claims q) ''jwt claims'' of Inl e \<Rightarrow> Some e | Inr _ \<Rightarrow> None"
    "\<lambda>q. \<lparr>mj_KeyId = jwt_KeyID q, mj_Subject = orNil (jwt_Subject q), mj_Ttl = durationOrNil (jwt_TTL q),
          mj_ExtraClaimsJson = projr (optionalObjectJSON (jwt_Claims q) ''jwt claims'')\<rparr>"
    "\<lambda>r. Inr (credentialFromProto r)" "\<lambda>rt c ctx q. MintJwt rt c sv ctx q" for sv
  by unfold_locales (simp add: MintJwt_def mint_def split_beta split: sum.splits)

interpretation mint_user: unary_rpc "nt_MintNatsUser sv" "\<lambda>_. None"
    "\<lambda>q. \<lparr>mu_KeyId = nu_KeyID q, mu_SubjectUserNkey = nu_SubjectUserNKey q, mu_Name = nu_Name q,
        mu_Ttl = durationOrNil (nu_TTL q), mu_PubAllow = nu_PubAllow q, mu_PubDeny = nu_PubDeny q,
        mu_SubAllow = nu_SubAllow q, mu_SubDeny = nu_SubDeny q, mu_IssuerAccount = orNil (nu_IssuerAccount q)\<rparr>"
    "\<lambda>r. Inr (credentialFromProto r)" "\<lambda>rt c ctx q. MintNatsUser rt c sv ctx q" for sv
  by unfold_locales (simp add: mint_ops split_beta)

interpretation mint_account: unary_rpc "nt_MintNatsAccount sv" "\<lambda>_. None"
    "\<lambda>q. \<lparr>ma_KeyId = na_KeyID q, ma_SubjectAccountNkey = na_SubjectAccountNKey q, ma_Name = na_Name q,
        ma_Ttl = durationOrNil (na_TTL q), ma_SigningKeys = na_SigningKeys q\<rparr>"
    "\<lambda>r. Inr (credentialFromProto r)" "\<lambda>rt c ctx q. MintNatsAccount rt c sv ctx q" for sv
  by unfold_locales (simp add: mint_ops split_beta)

interpretation mint_operator: unary_rpc "nt_MintNatsOperator sv" "\<lambda>_. None"
    "\<lambda>q. \<lparr>mo_KeyId = no_KeyID q, mo_SubjectOperatorNkey = orNil (no_SubjectOperatorNKey q), mo_Name = no_Name q,
        mo_Ttl = durationOrNil (no_TTL q), mo_SigningKeys = no_SigningKeys q,
        mo_AccountServerUrl = orNil (no_AccountServerURL q), mo_SystemAccount = orNil (no_SystemAccount q)\<rparr>"
    "\<lambda>r. Inr (credentialFromProto r)" "\<lambda>rt c ctx q. MintNatsOperator rt c sv ctx q" for sv
  by unfold_locales (simp add: mint_ops split_beta)

interpretation mint_signer: unary_rpc "nt_MintNatsSigner sv" "\<lambda>_. None"
    "\<lambda>q. \<lparr>ms_KeyId = ns_KeyID q, ms_SubjectNkey = ns_SubjectNKey q, ms_Name = ns_Name q,
        ms_Ttl = durationOrNil (ns_TTL q)\<rparr>"
    "\<lambda>r. Inr (credentialFromProto r)" "\<lambda>rt c ctx q. MintNatsSigner rt c sv ctx q" for sv
  by unfold_locales (simp add: mint_ops split_beta)

interpretation mint_server: unary_rpc "nt_MintNatsServer sv" "\<lambda>_. None"
    "\<lambda>q. \<lparr>mv_KeyId = nv_KeyID q, mv_SubjectServerNkey = nv_SubjectServerNKey q, mv_Name = nv_Name q,
        mv_Ttl = durationOrNil (nv_TTL q)\<rparr>"
    "\<lambda>r. Inr (credentialFromProto r)" "\<lambda>rt c ctx q. MintNatsServer rt c sv ctx q" for sv
  by unfold_locales (simp add: mint_ops split_beta)

interpretation mint_curve: unary_rpc "nt_MintNatsCurve sv" "\<lambda>_. None"
    "\<lambda>q. \<lparr>mc_KeyId = nc_KeyID q, mc_SubjectCurveNkey = nc_SubjectCurveNKey q, mc_Name = nc_Name q,
        mc_Ttl = durationOrNil (nc_TTL q)\<rparr>"
    "\<lambda>r. Inr (credentialFromProto r)" "\<lambda>rt c ctx q. MintNatsCurve rt c sv ctx q" for sv
  by unfold_locales (simp add: mint_ops split_beta)

interpretation encrypt_curve: unary_rpc "nt_EncryptNatsCurve sv" "\<lambda>_. None"
    "\<lambda>q. \<lparr>encq_KeyId = nce_KeyID q, encq_RecipientPublicXkey = nce_RecipientPublicXKey q,
          encq_Plaintext = nce_Plaintext q\<rparr>"
    "\<lambda>r. Inr (encs_Ciphertext r)" "\<lambda>rt c ctx q. EncryptNatsCurve rt c sv ctx q" for sv
  by unfold_locales (simp add: EncryptNatsCurve_def split_beta)

interpretation decrypt_curve: unary_rpc "nt_DecryptNatsCurve sv" "\<lambda>_. None"
    "\<lambda>q. \<lparr>decq_KeyId = ncd_KeyID q, decq_SenderPublicXkey = ncd_SenderPublicXKey q,
          decq_Ciphertext = ncd_Ciphertext q\<rparr>"
    "\<lambda>r. Inr (decs_Plaintext r)" "\<lambda>rt c ctx q. DecryptNatsCurve rt c sv ctx q" for sv
  by unfold_locales (simp add: DecryptNatsCurve_def split_beta)

interpretation sign_nats_jwt: unary_rpc "nt_SignNatsJwt sv"
    "\<lambda>q. case objectJSON (nj_Claims q) ''nats jwt claims'' of Inl e \<Rightarrow> Some e | Inr _ \<Rightarrow> None"
    "\<lambda>q. \<lparr>sj_KeyId = nj_KeyID q, sj_ClaimsJson = projr (objectJSON (nj_Claims q) ''nats jwt claims''),
          sj_ExpectedType = nj_ExpectedType q, sj_Ttl = durationOrNil (nj_TTL q),
          sj_ExpiresAt = timestampOrNil (nj_ExpiresAt q), sj_IssuedAt = timestampOrNil (nj_IssuedAt q),
          sj_JtiMode = nj_JtiMode q\<rparr>"
    "\<lambda>r. Inr (credentialFromProto r)" "\<lambda>rt c ctx q. SignNatsJwt rt c sv ctx q" for sv
  by unfold_locales (simp add: SignNatsJwt_def mint_def split_beta split: sum.splits)

interpretation validate_nats_jwt: unary_rpc "nt_ValidateNatsJwt sv"
    "\<lambda>q. case allowedSigners (vn_AllowedSigners q) of Inl e \<Rightarrow> Some e | Inr _ \<Rightarrow> None"
    "\<lambda>q. \<lparr>pvn_Jwt = vn_JWT q, pvn_AllowedSigners = projr (allowedSigners (vn_AllowedSigners q)),
          pvn_ExpectedType = vn_ExpectedType q\<rparr>"
    "\<lambda>r. Inr (natsJwtValidationFromProto r)" "\<lambda>rt c ctx q. ValidateNatsJwt rt c sv ctx q" for sv
  by unfold_locales (simp add: ValidateNatsJwt_def split_beta split: sum.splits)

interpretation issue_certificate: unary_rpc "mi_IssueCertificate sv" "\<lambda>_. None"
    "\<lambda>q. \<lparr>isc_IssuerKeyId = cq_IssuerKeyID q, isc_CommonName = cq_CommonName q,
              isc_DnsSans = cq_DNSSANs q, isc_IpSans = cq_IPSANs q, isc_Ttl = durationOrNil (cq_TTL q)\<rparr>"
    "\<lambda>r. Inr \<lparr>cert_CertChainDER = iscr_CertChainDer r, cert_PrivateKeyDER = iscr_PrivateKeyDer r,
                cert_CAChainDER = iscr_CaChainDer r\<rparr>" "\<lambda>rt c ctx q. IssueCertificate rt c sv ctx q" for sv
  by unfold_locales (simp add: IssueCertificate_def split_beta)

section \<open>Facts\<close>

text \<open>The bytes a value of \<open>Claims\<close> stands for before trimming.\<close>

fun claims_bytes :: "claims \<Rightarrow> bytes option" where
  "claims_bytes ClaimsNil = None"
| "claims_bytes (ClaimsRawMessage b) = Some b"
| "claims_bytes (ClaimsBytes b) = Some b"
| "claims_bytes (ClaimsString s) = Some (bytes_of s)"
| "claims_bytes (ClaimsOther (Inr b)) = Some b"
| "claims_bytes (ClaimsOther (Inl e)) = None"

definition json_object :: "bytes \<Rightarrow> bool" where
  "json_object raw \<longleftrightarrow> json_Valid raw \<and> raw \<noteq> [] \<and> hd raw = 0x7B"

lemma objectJSON_ok_iff:
  "objectJSON v label = Inr out \<longleftrightarrow>
     (\<exists>raw. claims_bytes v = Some raw \<and> out = TrimSpace raw \<and> json_object out)"
  by (cases v rule: claims_bytes.cases)
    (auto simp: objectJSON_def json_object_def Let_def hd_conv_nth split: if_splits)

lemma allowedSigners_ok_iff:
  "allowedSigners ss = Inr ps \<longleftrightarrow> list_all2 (\<lambda>s p. AllowedSigner_toProto s = Inr p) ss ps"
proof (induction ss arbitrary: ps)
  case (Cons s ss)
  show ?case
    by (cases ps) (auto simp: Cons.IH [symmetric] split: sum.splits)
qed auto

lemma timestampOrNil_roundtrip:
  "wf_time t \<Longrightarrow> (case timestampOrNil t of None \<Rightarrow> zero_time | Some ts \<Rightarrow> AsTime ts) = t"
  by (auto simp: timestampOrNil_def IsZero_iff AsTime_New)

lemma durationOrNil_value:
  "durationOrNil d = Some p \<longleftrightarrow> 0 < d \<and> p = \<lparr>du_seconds = d div 1000000000, du_nanos = d mod 1000000000\<rparr>"
  by (auto simp: durationOrNil_def durationpb_New_def)

end
