(* ===== verification/ClientProps.thy ===== *)
theory ClientProps
  imports Signing AeadClient Secret Invocation Admin Minting
begin

text \<open>
  The properties of the broker client: errors, deadlines and dialling, and what the sub-clients do
  with requests and responses. Each property is stated for arbitrary stubs.
\<close>

section \<open>Errors\<close>

text \<open>
  C34. \<open>FromError\<close> keeps nil, turns an error of the grpc status package into a \<open>StatusError\<close> with the
  status' code and message and the reason and operation of its first \<open>BrokerErrorInfo\<close> detail, and
  leaves an error that carries no status as it is; every \<open>StatusError\<close> it makes is found again by
  \<open>AsStatusError\<close>, and its \<open>GRPCStatus\<close> has the original code and message.
\<close>

theorem from_error_decodes:
  assumes "from_error_law fe"
  shows "FromError fe None = None \<and>
    FromError fe (Some (GrpcError st)) = Some (BasilStatus (decoded st)) \<and>
    FromError fe (Some (PlainError f args)) = Some (PlainError f args) \<and>
    FromError fe (Some IoEOF) = Some IoEOF \<and>
    AsStatusError (WrapError f args (statusError fe (GrpcError st))) = Some (decoded st) \<and>
    st_Code (GRPCStatus (decoded st)) = st_Code st \<and> st_Message (GRPCStatus (decoded st)) = st_Message st"
proof -
  have "st_Code (GRPCStatus (decoded st)) = st_Code st" "st_Message (GRPCStatus (decoded st)) = st_Message st"
    by (simp_all add: GRPCStatus_def decoded_def split: list.splits)
  then show ?thesis
    using assms statusError_grpc [OF assms] by (simp add: from_error_law_def FromError_def decoded_eq)
qed

definition denied :: grpc_status where
  "denied = \<lparr>st_Code = 7, st_Message = ''denied'',
     st_Details = [OtherDetail ''x'', BrokerErrorInfo ''UNAUTHORIZED'' ''sign'']\<rparr>"

definition denied_error :: StatusError where
  "denied_error = \<lparr>se_Code = 7, se_Reason = ''UNAUTHORIZED'', se_Op = ''sign'', se_Message = ''denied''\<rparr>"

lemma decoded_denied [simp]: "decoded denied = denied_error"
  by (simp add: decoded_def denied_def denied_error_def)

theorem from_error_decodes_witness:
  "FromError std_from_error None = None \<and>
   FromError std_from_error (Some (GrpcError denied)) = Some (BasilStatus denied_error) \<and>
   AsStatusError (WrapError ''op: %w'' [] (statusError std_from_error (GrpcError denied))) = Some denied_error"
  using from_error_decodes [OF std_from_error_law, of denied "''op: %w''" "[]"] by simp

text \<open>
  \<open>FromError\<close> is not idempotent: applied to a \<open>StatusError\<close> it already made, it keeps code
  and message and drops the reason and the operation.
\<close>

lemma from_error_forgets_detail:
  assumes "from_error_law fe"
  shows "FromError fe (FromError fe (Some (GrpcError st))) =
    Some (BasilStatus ((decoded st)\<lparr>se_Reason := [], se_Op := []\<rparr>))"
proof -
  have "st_Code (GRPCStatus (decoded st)) = st_Code st" "st_Message (GRPCStatus (decoded st)) = st_Message st"
    "st_Details (GRPCStatus (decoded st)) = []"
    by (simp_all add: GRPCStatus_def decoded_def split: list.splits)
  then show ?thesis
    using assms by (simp add: from_error_law_def FromError_def decoded_eq) (simp add: decoded_def split: list.splits)
qed

section \<open>Every unary method\<close>


text \<open>A broker that denies everything and counts the calls, and a client with the default timeout.\<close>

definition deny :: "(nat, 'q, 'r) stub" where
  "deny ctx q b = (Inl (GrpcError denied), b + 1)"

definition deny_signing :: "nat signing_service" where
  "deny_signing = \<lparr>sv_Sign = deny, sv_Verify = deny, sv_GetPublicKey = deny, sv_NewKey = deny,
     sv_Import = deny, sv_ImportSet = deny\<rparr>"

definition deny_aead :: "nat aead_service" where
  "deny_aead = \<lparr>ae_Encrypt = deny, ae_Decrypt = deny, ae_WrapEnvelope = deny, ae_UnwrapEnvelope = deny,
     ae_UnsealCose = deny\<rparr>"

definition deny_secret :: "(nat, pb_CatalogEntry list \<times> go_error) secret_service" where
  "deny_secret = \<lparr>sc_GetSecret = deny, sc_SetSecret = deny, sc_RotateSecret = deny, sc_ListCatalog = deny,
     sc_Recv = script_recv\<rparr>"

definition test_rt :: runtime where
  "test_rt = \<lparr>now = 0, from_error = std_from_error\<rparr>"

definition test_client :: "unit client" where
  "test_client = \<lparr>conn = (), timeout = DefaultTimeout\<rparr>"

definition no_deadline :: go_ctx where
  "no_deadline = \<lparr>Deadline = None\<rparr>"

lemma test_rt_law [simp]: "from_error_law (from_error test_rt)"
  by (simp add: test_rt_def std_from_error_law)



definition deny_admin :: "(nat, pb_Event list \<times> go_error) admin_service" where
  "deny_admin = \<lparr>ad_Status = deny, ad_Health = deny, ad_Readiness = deny, ad_Reload = deny, ad_Explain = deny,
     ad_Revoke = deny, ad_Watch = deny, ad_Recv = script_recv\<rparr>"

definition deny_invocation :: "nat invocation_service" where
  "deny_invocation = \<lparr>iv_GetInvocationCapabilities = deny, iv_GetInvocationChallenge = deny\<rparr>"

definition deny_minting :: "nat minting_service" where
  "deny_minting = \<lparr>mi_MintJwt = deny, mi_IssueCertificate = deny\<rparr>"

definition deny_nats :: "nat nats_service" where
  "deny_nats = \<lparr>nt_MintNatsUser = deny, nt_MintNatsAccount = deny, nt_MintNatsOperator = deny, nt_MintNatsSigner = deny,
     nt_MintNatsServer = deny, nt_MintNatsCurve = deny, nt_EncryptNatsCurve = deny, nt_DecryptNatsCurve = deny,
     nt_SignNatsJwt = deny, nt_ValidateNatsJwt = deny\<rparr>"


section \<open>Requests the client refuses\<close>


definition bare_entry :: ImportEntry where
  "bare_entry = \<lparr>ie_KeyID = ''b'', ie_KeyType = 1, ie_Material = None\<rparr>"

definition seed_entry :: ImportEntry where
  "seed_entry = \<lparr>ie_KeyID = ''a'', ie_KeyType = 1, ie_Material = Some (Ed25519SeedMaterial [1, 2])\<rparr>"

definition no_claims :: NatsJwtRequest where
  "no_claims = \<lparr>nj_KeyID = ''k'', nj_Claims = ClaimsNil, nj_ExpectedType = 0, nj_TTL = 0, nj_ExpiresAt = zero_time,
     nj_IssuedAt = zero_time, nj_JtiMode = 0\<rparr>"

definition empty_signer :: ValidateNatsJwtRequest where
  "empty_signer = \<lparr>vn_JWT = ''t'',
     vn_AllowedSigners = [AllowedSignerKeyID ''x'', AllowedSignerNatsPublicKey []], vn_ExpectedType = 0\<rparr>"


section \<open>Deadlines and dialling\<close>

text \<open>
  A call's deadline is the caller's own if it has one, otherwise the client's timeout from now if
  that is positive, and none otherwise; applying the rule again changes nothing. \<open>Watch\<close> passes the
  caller's context on untouched.
\<close>

lemma call_deadline:
  "Deadline (withTimeout rt c ctx) =
     (case Deadline ctx of
        Some d \<Rightarrow> Some d
      | None \<Rightarrow> if 0 < timeout c then Some (now rt + timeout c) else None) \<and>
   withTimeout rt' c (withTimeout rt c ctx) = withTimeout rt c ctx \<and>
   snd (Watch rt ad ctx kinds b) = snd (ad_Watch ad ctx \<lparr>wat_Kinds = kinds\<rparr> b)"
  by (auto simp: withTimeout_def Watch_def split: option.splits prod.splits sum.splits)

text \<open>
  C27. Whatever options the caller gives, a client that \<open>Dial\<close> returns was made with insecure
  credentials, the authority \<open>localhost\<close> and a dialer to the Unix socket as the last (and so the
  effective) setting of each kind; the target is the socket path; the timeout is that of the last
  \<open>WithTimeout\<close>, or the default.
\<close>

fun last_timeout :: "int \<Rightarrow> int list \<Rightarrow> int" where
  "last_timeout d ts = (if ts = [] then d else last ts)"


definition opts_lib :: "dial_option list grpc_lib" where
  "opts_lib = \<lparr>grpc_NewClient = (\<lambda>target opts. Inr opts), conn_Close = (\<lambda>cn. (None, cn))\<rparr>"


section \<open>Round trips through the broker\<close>

text \<open>
  If the broker opens every envelope it sealed, for the same key and additional data, then
  \<open>Decrypt\<close> of what \<open>Encrypt\<close> returned gives the plaintext, and \<open>UnwrapEnvelope\<close> of what
  \<open>WrapEnvelope\<close> returned gives the plaintext: the client hands the envelope back unchanged, and keeps
  absent additional data apart from empty.
\<close>

lemma envelope_roundtrip:
  assumes "\<And>ctx1 ctx2 m aad r b1 b2 b3. ae_Encrypt ae ctx1 \<lparr>enc_KeyId = k, enc_Algorithm = alg, enc_Plaintext = m, enc_Aad = aad\<rparr> b1 = (Inr r, b2) \<Longrightarrow>
      \<exists>b4. ae_Decrypt ae ctx2 \<lparr>dec_KeyId = k, dec_Envelope = encr_Envelope r, dec_Aad = aad\<rparr> b3 = (Inr \<lparr>decr_Plaintext = m\<rparr>, b4)"
    and "\<And>ctx1 ctx2 m aad r b1 b2 b3. ae_WrapEnvelope ae ctx1 \<lparr>wrap_KeyId = k, wrap_KemAlgorithm = kem, wrap_EnvelopeAlgorithm = env,
        wrap_Plaintext = m, wrap_Aad = aad\<rparr> b1 = (Inr r, b2) \<Longrightarrow>
      \<exists>b4. ae_UnwrapEnvelope ae ctx2 \<lparr>unw_KeyId = k, unw_Envelope = wrapr_Envelope r, unw_Aad = aad\<rparr> b3 = (Inr \<lparr>unwr_Plaintext = m\<rparr>, b4)"
    and "Encrypt rt c ae ctx k alg p aad b = (Inr ct, b1)"
    and "WrapEnvelope rt c ae ctx k kem env q aad' b1 = (Inr ke, b2)"
  shows "(\<exists>b4. Decrypt rt c' ae ctx' k (Some ct) aad b3 = (Inr p, b4)) \<and>
    (\<exists>b4. UnwrapEnvelope rt c' ae ctx' k (Some ke) aad' b3 = (Inr q, b4))"
proof -
  obtain r where r: "ae_Encrypt ae (withTimeout rt c ctx) \<lparr>enc_KeyId = k, enc_Algorithm = alg, enc_Plaintext = p, enc_Aad = aad\<rparr> b = (Inr r, b1)"
    "readCiphertext r = Inr ct"
    using assms(3) by (auto simp: encrypt.success_iff [where a = "(k, alg, p, aad)", simplified])
  obtain r' where r': "ae_WrapEnvelope ae (withTimeout rt c ctx) \<lparr>wrap_KeyId = k, wrap_KemAlgorithm = kem, wrap_EnvelopeAlgorithm = env,
      wrap_Plaintext = q, wrap_Aad = aad'\<rparr> b1 = (Inr r', b2)" "readKemEnvelope r' = Inr ke"
    using assms(4) by (auto simp: wrap_envelope.success_iff [where a = "(k, kem, env, q, aad')", simplified])
  show ?thesis
    using assms(1) [OF r(1), of "withTimeout rt c' ctx'" b3] assms(2) [OF r'(1), of "withTimeout rt c' ctx'" b3]
    by (auto simp: Decrypt_def UnwrapEnvelope_def ciphertextToProto_read [OF r(2)] kemEnvelopeToProto_read [OF r'(2)])
qed

section \<open>Server streams\<close>

text \<open>
  C33. For every stream that ends, \<open>ListCatalog\<close> returns: all entries in the order of the stream,
  each with its key type normalized, if the stream ends with \<open>io.EOF\<close>, and otherwise only the
  normalized error, never a partial listing. A failure to open the stream is reported as such.
\<close>

theorem list_catalog_complete:
  assumes "recv_stream (sc_Recv sv) items ending"
    and "sc_ListCatalog sv (withTimeout rt c ctx) \<lparr>lc_Prefix = prefix\<rparr> b = (opened, b1)"
  shows "ListCatalog rt c sv ctx prefix b =
    Some (case opened of
            Inl e \<Rightarrow> Inl (statusError (from_error rt) e)
          | Inr s \<Rightarrow>
              (if is_EOF (ending s) then Inr (map catalogEntryFromProto (items s))
               else Inl (statusError (from_error rt) (ending s))), b1)"
proof (cases opened)
  case (Inr s)
  have "catalog_stream (sc_Recv sv) items ending" by (rule catalog_stream.intro [OF assms(1)])
  from catalog_stream.drainCatalog_spec [OF this, of rt "[]" s] show ?thesis
    using assms(2) Inr by (auto simp: ListCatalog_def)
qed (use assms(2) in \<open>simp add: ListCatalog_def\<close>)

definition two_entries :: "pb_CatalogEntry list" where
  "two_entries = [\<lparr>pbc_Name = ''a'', pbc_Kind = 1, pbc_KeyType = Some 99, pbc_LatestVersion = 3\<rparr>,
     \<lparr>pbc_Name = ''b'', pbc_Kind = 2, pbc_KeyType = None, pbc_LatestVersion = 1\<rparr>]"

definition list_service :: "go_error \<Rightarrow> (nat, pb_CatalogEntry list \<times> go_error) secret_service" where
  "list_service fin = deny_secret\<lparr>sc_ListCatalog := (\<lambda>ctx q b. (Inr (two_entries, fin), b + 1))\<rparr>"

theorem list_catalog_complete_witness:
  "ListCatalog test_rt test_client (list_service IoEOF) no_deadline None 0 =
     Some (Inr [\<lparr>ce_Name = ''a'', ce_Kind = 1, ce_KeyType = Some 0, ce_LatestVersion = 3\<rparr>,
                \<lparr>ce_Name = ''b'', ce_Kind = 2, ce_KeyType = None, ce_LatestVersion = 1\<rparr>], 1) \<and>
   ListCatalog test_rt test_client (list_service (GrpcError denied)) no_deadline None 0 =
     Some (Inl (BasilStatus denied_error), 1)"
proof -
  have r: "recv_stream (sc_Recv (list_service fin)) fst snd" for fin
    using script_recv.recv_stream_axioms by (simp add: list_service_def deny_secret_def)
  have o: "sc_ListCatalog (list_service fin) ctx q 0 = (Inr (two_entries, fin), 1)" for fin ctx q
    by (simp add: list_service_def)
  show ?thesis
    using list_catalog_complete [OF r o, where rt = test_rt and c = test_client and ctx = no_deadline and prefix = None]
    by (simp add: two_entries_def catalogEntryFromProto_def keyTypeFromProto_def pb_KeyTypes_def
      statusError_grpc [OF test_rt_law])
qed

text \<open>
  C32. Ranging over \<open>Events\<close> of a stream that ends terminates and hands every event to the consumer
  once, in order and with exactly the detail its message carries, until the consumer declines; a
  failure is handed over once, after the events, and a clean end is not handed over at all.
\<close>

theorem events_complete:
  assumes "recv_stream recv items ending"
  shows "\<exists>s'. Events rt recv yield s y =
    Some (s', feed yield (map eventFromProto (items (ws_stream s)))
      (if is_EOF (ending (ws_stream s)) then None
       else Some (statusError (from_error rt) (ending (ws_stream s)))) y)"
  by (rule event_stream.Events_spec) (rule event_stream.intro [OF assms])

definition rotated :: pb_Event where
  "rotated = \<lparr>pev_Kind = 1, pev_At = None, pev_Detail = Some (Event_KeyRotated ''k'' 2)\<rparr>"

text \<open>A consumer that keeps what it got.\<close>

definition collect :: "(go_error, Event) result list yield_fn" where
  "collect r y = (True, y @ [r])"

theorem events_complete_witness:
  "\<exists>s'. Events test_rt script_recv collect \<lparr>ws_stream = ([rotated], GrpcError denied), ws_cancelled = False\<rparr> [] =
     Some (s', [Inr \<lparr>ev_Kind = 1, ev_At = zero_time, ev_KeyRotated = Some \<lparr>kr_KeyID = ''k'', kr_NewVersion = 2\<rparr>,
       ev_BundleChanged = None, ev_Revoked = None\<rparr>, Inl (BasilStatus denied_error)])"
  using events_complete [OF script_recv.recv_stream_axioms, of test_rt collect
      "\<lparr>ws_stream = ([rotated], GrpcError denied), ws_cancelled = False\<rparr>" "[]"]
  by (simp add: collect_def rotated_def eventFromProto_def statusError_grpc [OF test_rt_law])

section \<open>Responses the client refuses\<close>

text \<open>
  A capability report is returned only for the profiles host and courier, and a freshness
  challenge only with exactly 32 bytes; both carry the broker's other fields unchanged.
\<close>

lemma invocation_responses_checked:
  "(GetInvocationCapabilities rt c iv ctx b = (Inr caps, b1) \<longleftrightarrow>
     (\<exists>r. iv_GetInvocationCapabilities iv (withTimeout rt c ctx) () b = (Inr r, b1) \<and>
        gic_ListenerProfile r \<in> {ListenerProfile_HOST, ListenerProfile_COURIER} \<and>
        caps = \<lparr>ic_ListenerProfile = (if gic_ListenerProfile r = ListenerProfile_HOST then InvocationListenerHost
                                       else InvocationListenerCourier),
                ic_RequireChallenge = gic_RequireChallenge r,
                ic_CourierProtocolVersion = gic_CourierProtocolVersion r\<rparr>)) \<and>
   (GetInvocationChallenge rt c iv ctx jkt src b = (Inr ch, b1) \<longleftrightarrow>
     length jkt = 32 \<and>
     (\<exists>r. iv_GetInvocationChallenge iv (withTimeout rt c ctx)
           \<lparr>gicq_Jkt = jkt, gicq_CourierObservedSource = (if src = [] then None else Some src)\<rparr> b = (Inr r, b1) \<and>
        length (gicr_Challenge r) = InvocationChallengeLen \<and>
        ch = \<lparr>ich_Challenge = gicr_Challenge r, ich_Generation = gicr_Generation r,
              ich_ExpiresAtUnix = gicr_ExpiresAtUnix r\<rparr>))"
proof
  show "GetInvocationCapabilities rt c iv ctx b = (Inr caps, b1) \<longleftrightarrow>
     (\<exists>r. iv_GetInvocationCapabilities iv (withTimeout rt c ctx) () b = (Inr r, b1) \<and>
        gic_ListenerProfile r \<in> {ListenerProfile_HOST, ListenerProfile_COURIER} \<and>
        caps = \<lparr>ic_ListenerProfile = (if gic_ListenerProfile r = ListenerProfile_HOST then InvocationListenerHost
                                       else InvocationListenerCourier),
                ic_RequireChallenge = gic_RequireChallenge r,
                ic_CourierProtocolVersion = gic_CourierProtocolVersion r\<rparr>)"
    by (auto simp: GetInvocationCapabilities_def listenerProfile_def split: prod.splits sum.splits if_splits)
qed (auto simp: challenge.success_iff [where a = "(jkt, src)", simplified] split: if_splits)

end
