(* ===== verification/MintProps.thy ===== *)
theory MintProps
  imports ClientProps
begin

text \<open>
  The properties of the minting client: what reaches the broker for claims, lifetimes and signers,
  and what the caller gets of a credential or a validation.
\<close>

section \<open>Claims\<close>

text \<open>
  \<open>objectJSON\<close> succeeds exactly on values whose bytes, without surrounding white space, are a
  valid JSON text that starts with a brace; it returns that text, a contiguous part of the input with
  nothing but white space around it, and accepts its own result unchanged.
\<close>

lemma object_json_canonical:
  assumes "objectJSON v label = Inr out"
  shows "json_Valid out \<and> out \<noteq> [] \<and> hd out = 0x7B \<and>
    leading_space out = None \<and> trailing_space out = None \<and>
    (\<exists>raw pre post. claims_bytes v = Some raw \<and> raw = pre @ out @ post) \<and>
    objectJSON (ClaimsBytes out) label' = Inr out \<and> objectJSON (ClaimsString (string_of out)) label' = Inr out"
proof -
  obtain raw where raw: "claims_bytes v = Some raw" "out = TrimSpace raw" "json_object out"
    using assms by (auto simp: objectJSON_ok_iff)
  obtain pre post where "raw = pre @ out @ post" using TrimSpace_infix [of raw] raw(2) by auto
  moreover have "objectJSON w label' = Inr out" if "claims_bytes w = Some out" for w
    using that raw(2,3) by (auto simp: objectJSON_ok_iff)
  ultimately show ?thesis
    using raw TrimSpace_fixed [of raw] by (auto simp: json_object_def)
qed

text \<open>
  Claims that are missing, not JSON, or JSON of another kind are refused with the matching
  message and never reach the broker; generic JWT claims may be absent, NATS claims may not.
\<close>

lemma claims_errors:
  assumes "claims_bytes v = Some raw"
  shows "objectJSON v label =
      (if TrimSpace raw = [] then Inl (PlainError ''basil: invalid %s: missing JSON object'' [ArgStr label])
       else if \<not> json_Valid (TrimSpace raw) then Inl (PlainError ''basil: invalid %s: malformed JSON'' [ArgStr label])
       else if hd (TrimSpace raw) \<noteq> 0x7B then Inl (PlainError ''basil: invalid %s: expected JSON object'' [ArgStr label])
       else Inr (TrimSpace raw)) \<and>
    optionalObjectJSON v label = objectJSON v label \<and>
    optionalObjectJSON ClaimsNil label = Inr [] \<and>
    objectJSON ClaimsNil label = Inl (PlainError ''basil: invalid %s: missing JSON object'' [ArgStr label]) \<and>
    objectJSON (ClaimsOther (Inl e)) label = Inl (WrapError ''basil: invalid %s: %w'' [ArgStr label] e)"
  using assms
  by (cases v rule: claims_bytes.cases)
    (auto simp: objectJSON_def optionalObjectJSON_def Let_def hd_conv_nth)

section \<open>Lifetimes and times\<close>

text \<open>
  A positive lifetime reaches the broker exactly (seconds and nanoseconds add up to it and the
  nanoseconds are below a second); zero and every negative lifetime are sent as no lifetime at all,
  which the broker mints as a credential that does not expire.
\<close>

lemma ttl_on_the_wire:
  assumes "from_error_law (from_error rt)"
  shows "(durationOrNil d = None \<longleftrightarrow> d \<le> 0) \<and>
    (\<forall>p. durationOrNil d = Some p \<longrightarrow>
       du_seconds p * 1000000000 + du_nanos p = d \<and> 0 \<le> du_nanos p \<and> du_nanos p < 1000000000 \<and> 0 \<le> du_seconds p) \<and>
    (nv_TTL q < 0 \<longrightarrow> MintNatsServer rt c nt ctx q b = MintNatsServer rt c nt ctx (q\<lparr>nv_TTL := 0\<rparr>) b)"
  by (auto simp: durationOrNil_def durationpb_New_def MintNatsServer_def)

definition server_request :: NatsServerRequest where
  "server_request = \<lparr>nv_KeyID = ''k'', nv_SubjectServerNKey = ''N'', nv_Name = ''n'', nv_TTL = -5\<rparr>"

text \<open>
  Times survive the wire: what the broker reads of an expiry is the caller's time, and a
  credential's expiry read back is it again; the zero time stands for no expiry in both directions.
\<close>

lemma expiry_roundtrip:
  assumes "wf_time t"
  shows "cred_ExpiresAt (credentialFromProto \<lparr>crr_Token = tok, crr_ExpiresAt = timestampOrNil t\<rparr>) = t \<and>
    (timestampOrNil t = None \<longleftrightarrow> t = zero_time)"
  using timestampOrNil_roundtrip [OF assms] by (simp add: credentialFromProto_def) (simp add: timestampOrNil_def IsZero_iff)

section \<open>Signers and validation\<close>

text \<open>
  \<open>ValidateNatsJwt\<close> succeeds only if every signer names a key, and the broker is then asked about
  exactly the given signers, in order: a catalog key where one is named, otherwise the public key.
\<close>

fun signer_name :: "AllowedNatsSigner \<Rightarrow> AllowedSigner" where
  "signer_name (AllowedNatsSigner_KeyId k) = AllowedSignerKeyID k"
| "signer_name (AllowedNatsSigner_NatsPublicKey p) = AllowedSignerNatsPublicKey p"

definition built :: "AllowedSigner \<Rightarrow> bool" where
  "built s \<longleftrightarrow> (\<exists>k. k \<noteq> [] \<and> (s = AllowedSignerKeyID k \<or> s = AllowedSignerNatsPublicKey k))"

lemma signers_on_the_wire:
  assumes "ValidateNatsJwt rt c nt ctx q b = (Inr v, b1)" "\<forall>s \<in> set (vn_AllowedSigners q). built s"
  shows "\<exists>allowed r. map signer_name allowed = vn_AllowedSigners q \<and>
    nt_ValidateNatsJwt nt (withTimeout rt c ctx)
      \<lparr>pvn_Jwt = vn_JWT q, pvn_AllowedSigners = allowed, pvn_ExpectedType = vn_ExpectedType q\<rparr> b = (Inr r, b1) \<and>
    v = natsJwtValidationFromProto r"
proof -
  have one: "signer_name p = s" if "AllowedSigner_toProto s = Inr p" "built s" for s p
    using that by (auto simp: built_def AllowedSigner_toProto_def AllowedSignerKeyID_def AllowedSignerNatsPublicKey_def)
  have all: "map signer_name ps = ss" if "allowedSigners ss = Inr ps" "\<forall>s \<in> set ss. built s" for ss ps
    using that by (induction ss arbitrary: ps) (auto simp: one split: sum.splits)
  show ?thesis
    using assms(1) all [OF _ assms(2)] by (auto simp: ValidateNatsJwt_def split: sum.splits prod.splits)
qed

definition future_validation :: ValidateNatsJwtResponse where
  "future_validation = \<lparr>vnr_Valid = True, vnr_Reason = 99, vnr_Subject = ''s'', vnr_Issuer = ''i'',
     vnr_MatchedSignerKeyId = [], vnr_JwtType = 1, vnr_ExpiresAtUnix = 0, vnr_IssuedAtUnix = 5\<rparr>"

text \<open>
  The validation result is what the broker sent, unchecked: a result may be valid with a reason
  other than valid, and a reason unknown to this client stays as it is and is not turned into
  \<open>NatsJwtValidationReasonUnknown\<close>; expiry and issue time are the broker's seconds, absent when zero.
\<close>

lemma validation_as_reported:
  "(\<forall>r. val_Valid (natsJwtValidationFromProto r) = vnr_Valid r \<and> val_Reason (natsJwtValidationFromProto r) = vnr_Reason r \<and>
      t_sec (val_IssuedAt (natsJwtValidationFromProto r)) =
        (if vnr_IssuedAtUnix r = 0 then 0 else vnr_IssuedAtUnix r + unixToInternal)) \<and>
   (\<exists>r. val_Valid (natsJwtValidationFromProto r) \<and> val_Reason (natsJwtValidationFromProto r) = NatsJwtValidationReasonMalformed) \<and>
   (\<exists>r. val_Reason (natsJwtValidationFromProto r) \<notin> {0, 1, 2, 3, 4, 5, 6, 7})"
proof (intro conjI)
  show "\<exists>r. val_Valid (natsJwtValidationFromProto r) \<and> val_Reason (natsJwtValidationFromProto r) = NatsJwtValidationReasonMalformed"
    by (rule exI [of _ "future_validation\<lparr>vnr_Reason := 2\<rparr>"]) (simp add: natsJwtValidationFromProto_def future_validation_def)
  show "\<exists>r. val_Reason (natsJwtValidationFromProto r) \<notin> {0, 1, 2, 3, 4, 5, 6, 7}"
    by (rule exI [of _ future_validation]) (simp add: natsJwtValidationFromProto_def future_validation_def)
qed (simp add: natsJwtValidationFromProto_def time_Unix_def zero_time_def)

end
