(* ===== verification/Utf8.thy ===== *)
theory Utf8
  imports Prelude
begin

text \<open>
  \<open>utf8.Valid\<close> of Go's standard library: well-formed UTF-8 after the table of the Unicode standard (no overlong
  forms, no surrogates, nothing above \<open>0x10FFFF\<close>).
\<close>

definition continuation :: "byte \<Rightarrow> bool" where
  "continuation b \<longleftrightarrow> 0x80 \<le> b \<and> b \<le> 0xBF"

text \<open>The range of the second byte after a given first byte of a three- or four-byte sequence.\<close>

definition second_range :: "byte \<Rightarrow> byte \<times> byte" where
  "second_range b0 =
     (if b0 = 0xE0 then (0xA0, 0xBF) else if b0 = 0xED then (0x80, 0x9F)
      else if b0 = 0xF0 then (0x90, 0xBF) else if b0 = 0xF4 then (0x80, 0x8F) else (0x80, 0xBF))"

definition second_ok :: "byte \<Rightarrow> byte \<Rightarrow> bool" where
  "second_ok b0 b1 \<longleftrightarrow> fst (second_range b0) \<le> b1 \<and> b1 \<le> snd (second_range b0)"

fun utf8_Valid :: "bytes \<Rightarrow> bool" where
  "utf8_Valid [] \<longleftrightarrow> True"
| "utf8_Valid (b0 # r) \<longleftrightarrow>
     (if b0 < 0x80 then utf8_Valid r
      else if 0xC2 \<le> b0 \<and> b0 \<le> 0xDF
      then (case r of b1 # r1 \<Rightarrow> continuation b1 \<and> utf8_Valid r1 | _ \<Rightarrow> False)
      else if 0xE0 \<le> b0 \<and> b0 \<le> 0xEF
      then (case r of b1 # b2 # r2 \<Rightarrow> second_ok b0 b1 \<and> continuation b2 \<and> utf8_Valid r2 | _ \<Rightarrow> False)
      else if 0xF0 \<le> b0 \<and> b0 \<le> 0xF4
      then (case r of b1 # b2 # b3 # r3 \<Rightarrow> second_ok b0 b1 \<and> continuation b2 \<and> continuation b3 \<and> utf8_Valid r3 | _ \<Rightarrow> False)
      else False)"

lemma utf8_Valid_ascii: "\<forall>b \<in> set bs. b < 0x80 \<Longrightarrow> utf8_Valid bs"
  by (induction bs) simp_all

end
