(* ===== verification/NixCacheCodec.thy ===== *)
theory NixCacheCodec
  imports Errors Utf8
begin

text \<open>
  \<open>src/basil/nix_cache_codec.go\<close>: the strict protobuf codec of the Nix cache calls, and from
  \<open>src/basil/nix_cache.go\<close> the limits and the key-name rule it shares with the client. The
  \<open>protowire\<close> package and \<open>proto.Marshal\<close>/\<open>proto.Unmarshal\<close> are parameters.
\<close>

unbundle bit_operations_syntax

section \<open>Parameters\<close>

text \<open>
  The consuming functions of \<open>protowire\<close>: the error of a negative length (as \<open>ParseError\<close> gives
  it), or the value and the number of bytes consumed. A field number is an \<open>int32\<close>, a wire type a
  small integer.
\<close>

record protowire =
  ConsumeTag :: "bytes \<Rightarrow> (go_error, int \<times> nat \<times> nat) result"
  ConsumeBytes :: "bytes \<Rightarrow> (go_error, bytes \<times> nat) result"
  ConsumeVarint :: "bytes \<Rightarrow> (go_error, u64 \<times> nat) result"

abbreviation (input) VarintType :: nat where "VarintType \<equiv> 0"
abbreviation (input) BytesType :: nat where "BytesType \<equiv> 2"

section \<open>Messages\<close>

record DescribeNixCacheKeyRequest =
  dq_KeyId :: string
  dq_BatchId :: bytes
  dq_RequestId :: bytes

record DescribeNixCacheKeyResponse =
  dr_KeyName :: string
  dr_PublicKey :: bytes
  dr_BackendVersion :: u32
  dr_BatchId :: bytes
  dr_RequestId :: bytes

record EnrollNixCacheKeyRequest =
  eq_KeyId :: string
  eq_BatchId :: bytes
  eq_RequestId :: bytes

record EnrollNixCacheKeyResponse =
  er_KeyName :: string
  er_PublicKey :: bytes
  er_BackendVersion :: u32
  er_Disposition :: "32 word"
  er_BatchId :: bytes
  er_RequestId :: bytes

record SignNixCacheFingerprintRequest =
  sq_KeyId :: string
  sq_Profile :: string
  sq_Fingerprint :: bytes
  sq_BatchId :: bytes
  sq_RequestId :: bytes

record SignNixCacheFingerprintResponse =
  sr_KeyName :: string
  sr_PublicKey :: bytes
  sr_BackendVersion :: u32
  sr_Signature :: bytes
  sr_BatchId :: bytes
  sr_RequestId :: bytes

text \<open>What gRPC hands to a codec: a protobuf message of a known or another type, or no message.\<close>

datatype go_value =
    DescribeRequest DescribeNixCacheKeyRequest
  | DescribeResponse DescribeNixCacheKeyResponse
  | EnrollRequest EnrollNixCacheKeyRequest
  | EnrollResponse EnrollNixCacheKeyResponse
  | SignRequest SignNixCacheFingerprintRequest
  | SignResponse SignNixCacheFingerprintResponse
  | OtherMessage string
  | NoMessage string

text \<open>
  \<open>proto.Unmarshal\<close> fills the message it is given, of which only the type matters.
\<close>

record proto_lib =
  wire :: protowire
  proto_Marshal :: "go_value \<Rightarrow> (go_error, bytes) result"
  proto_Unmarshal :: "bytes \<Rightarrow> go_value \<Rightarrow> (go_error, go_value) result"

section \<open>Limits\<close>

definition describeNixCacheKeyRequestMax :: nat where "describeNixCacheKeyRequestMax = 295"
definition describeNixCacheKeyResponseMax :: nat where "describeNixCacheKeyResponseMax = 203"
definition enrollNixCacheKeyRequestMax :: nat where "enrollNixCacheKeyRequestMax = 295"
definition enrollNixCacheKeyResponseMax :: nat where "enrollNixCacheKeyResponseMax = 205"
definition signNixCacheFingerprintRequestMax :: nat where "signNixCacheFingerprintRequestMax = 524939"
definition signNixCacheFingerprintResponseMax :: nat where "signNixCacheFingerprintResponseMax = 269"
definition nixCacheFingerprintMax :: nat where "nixCacheFingerprintMax = 524626"

lemmas nix_limits = describeNixCacheKeyRequestMax_def describeNixCacheKeyResponseMax_def enrollNixCacheKeyRequestMax_def
  enrollNixCacheKeyResponseMax_def signNixCacheFingerprintRequestMax_def signNixCacheFingerprintResponseMax_def
  nixCacheFingerprintMax_def

section \<open>Field rules\<close>

datatype nixCacheSchema =
    nixDescribeRequest | nixDescribeResponse | nixEnrollRequest | nixEnrollResponse | nixSignRequest | nixSignResponse

datatype nixCacheFieldKind =
    nixKeyID | nixKeyName | nixPublicKey | nixIdentifier | nixProfile | nixFingerprint | nixSignature
  | nixBackendVersion | nixEnrollmentDisposition

text \<open>\<open>%T\<close> of a value.\<close>

fun go_type :: "go_value \<Rightarrow> string" where
  "go_type (OtherMessage t) = t"
| "go_type (NoMessage t) = t"
| "go_type (DescribeRequest m) = ''*pb.DescribeNixCacheKeyRequest''"
| "go_type (DescribeResponse m) = ''*pb.DescribeNixCacheKeyResponse''"
| "go_type (EnrollRequest m) = ''*pb.EnrollNixCacheKeyRequest''"
| "go_type (EnrollResponse m) = ''*pb.EnrollNixCacheKeyResponse''"
| "go_type (SignRequest m) = ''*pb.SignNixCacheFingerprintRequest''"
| "go_type (SignResponse m) = ''*pb.SignNixCacheFingerprintResponse''"

fun nixCacheMessageSchema :: "go_value \<Rightarrow> (go_error, nixCacheSchema \<times> nat \<times> nat) result" where
  "nixCacheMessageSchema (DescribeRequest m) = Inr (nixDescribeRequest, describeNixCacheKeyRequestMax, 3)"
| "nixCacheMessageSchema (DescribeResponse m) = Inr (nixDescribeResponse, describeNixCacheKeyResponseMax, 5)"
| "nixCacheMessageSchema (EnrollRequest m) = Inr (nixEnrollRequest, enrollNixCacheKeyRequestMax, 3)"
| "nixCacheMessageSchema (EnrollResponse m) = Inr (nixEnrollResponse, enrollNixCacheKeyResponseMax, 6)"
| "nixCacheMessageSchema (SignRequest m) = Inr (nixSignRequest, signNixCacheFingerprintRequestMax, 5)"
| "nixCacheMessageSchema (SignResponse m) = Inr (nixSignResponse, signNixCacheFingerprintResponseMax, 6)"
| "nixCacheMessageSchema v = Inl (PlainError ''basil: strict Nix codec does not support %T'' [ArgStr (go_type v)])"

definition nixCacheIdentityField :: "int \<Rightarrow> int \<Rightarrow> (nixCacheFieldKind \<times> nat) option" where
  "nixCacheIdentityField number firstID =
     (if number = 1 then Some (nixKeyName, BytesType)
      else if number = 2 then Some (nixPublicKey, BytesType)
      else if number = 3 then Some (nixBackendVersion, VarintType)
      else if number = firstID \<or> number = firstID + 1 then Some (nixIdentifier, BytesType)
      else None)"

fun nixCacheFieldRule :: "nixCacheSchema \<Rightarrow> int \<Rightarrow> (nixCacheFieldKind \<times> nat) option" where
  "nixCacheFieldRule nixDescribeRequest number =
     (if number = 1 then Some (nixKeyID, BytesType)
      else if number = 2 \<or> number = 3 then Some (nixIdentifier, BytesType) else None)"
| "nixCacheFieldRule nixEnrollRequest number =
     (if number = 1 then Some (nixKeyID, BytesType)
      else if number = 2 \<or> number = 3 then Some (nixIdentifier, BytesType) else None)"
| "nixCacheFieldRule nixDescribeResponse number = nixCacheIdentityField number 4"
| "nixCacheFieldRule nixEnrollResponse number =
     (if number = 4 then Some (nixEnrollmentDisposition, VarintType) else nixCacheIdentityField number 5)"
| "nixCacheFieldRule nixSignRequest number =
     (if number = 1 then Some (nixKeyID, BytesType)
      else if number = 2 then Some (nixProfile, BytesType)
      else if number = 3 then Some (nixFingerprint, BytesType)
      else if number = 4 \<or> number = 5 then Some (nixIdentifier, BytesType) else None)"
| "nixCacheFieldRule nixSignResponse number =
     (if number = 1 then Some (nixKeyName, BytesType)
      else if number = 2 then Some (nixPublicKey, BytesType)
      else if number = 3 then Some (nixBackendVersion, VarintType)
      else if number = 4 then Some (nixSignature, BytesType)
      else if number = 5 \<or> number = 6 then Some (nixIdentifier, BytesType) else None)"

section \<open>Value rules\<close>

definition allZeroBytes :: "bytes \<Rightarrow> bool" where
  "allZeroBytes value \<longleftrightarrow> list_all (\<lambda>octet. octet = 0) value"

text \<open>The loop over the bytes of a key name, with the index of the first one.\<close>

fun keyNameBytes :: "nat \<Rightarrow> bytes \<Rightarrow> bool" where
  "keyNameBytes index [] \<longleftrightarrow> True"
| "keyNameBytes index (character # rest) \<longleftrightarrow>
     (let valid = (65 \<le> character \<and> character \<le> 90 \<or> 97 \<le> character \<and> character \<le> 122 \<or> 48 \<le> character \<and> character \<le> 57);
          valid = (if 0 < index then valid \<or> character = 46 \<or> character = 95 \<or> character = 45 else valid)
      in valid \<and> keyNameBytes (Suc index) rest)"

definition validNixCacheKeyName :: "string \<Rightarrow> bool" where
  "validNixCacheKeyName value \<longleftrightarrow> \<not> (length value = 0 \<or> length value > 128) \<and> keyNameBytes 0 (bytes_of value)"

definition control_byte :: "byte \<Rightarrow> bool" where
  "control_byte octet \<longleftrightarrow> octet < 0x20 \<or> octet = 0x7F"

definition field_error :: "string \<Rightarrow> int \<Rightarrow> (go_error, 'a) result" where
  "field_error f number = Inl (PlainError f [ArgInt number])"

definition validateNixCacheBytes :: "int \<Rightarrow> nixCacheFieldKind \<Rightarrow> bytes \<Rightarrow> (go_error, unit) result" where
  "validateNixCacheBytes number kind value =
     (case kind of
        nixKeyID \<Rightarrow>
          if \<not> utf8_Valid value \<or> length value < 1 \<or> length value > 256
          then field_error ''basil: Nix cache protobuf field %d must be 1..=256 valid UTF-8 bytes'' number
          else if list_ex control_byte value
          then field_error ''basil: Nix cache protobuf field %d contains a control byte'' number
          else Inr ()
      | nixKeyName \<Rightarrow>
          if \<not> validNixCacheKeyName (string_of value)
          then field_error ''basil: Nix cache protobuf field %d is not a valid key name'' number
          else Inr ()
      | nixPublicKey \<Rightarrow>
          if length value \<noteq> 32 then field_error ''basil: Nix cache protobuf field %d must be 32 bytes'' number
          else Inr ()
      | nixIdentifier \<Rightarrow>
          if length value \<noteq> 16 \<or> allZeroBytes value
          then field_error ''basil: Nix cache protobuf field %d must be 16 nonzero bytes'' number
          else Inr ()
      | nixProfile \<Rightarrow>
          if string_of value \<noteq> ''PATH_INFO_V1''
          then field_error ''basil: Nix cache protobuf field %d must equal PATH_INFO_V1'' number
          else Inr ()
      | nixFingerprint \<Rightarrow>
          if length value < 1 \<or> length value > nixCacheFingerprintMax
          then Inl (PlainError ''basil: Nix cache protobuf field %d must be 1..=%d bytes''
                     [ArgInt number, ArgInt (int nixCacheFingerprintMax)])
          else Inr ()
      | nixSignature \<Rightarrow>
          if length value \<noteq> 64 then field_error ''basil: Nix cache protobuf field %d must be 64 bytes'' number
          else Inr ()
      | _ \<Rightarrow> field_error ''basil: Nix cache protobuf field %d has an invalid bytes rule'' number)"

definition validateNixCacheVarint :: "int \<Rightarrow> nixCacheFieldKind \<Rightarrow> u64 \<Rightarrow> (go_error, unit) result" where
  "validateNixCacheVarint number kind value =
     (case kind of
        nixBackendVersion \<Rightarrow>
          if value \<noteq> 1 then field_error ''basil: Nix cache protobuf field %d must equal 1'' number else Inr ()
      | nixEnrollmentDisposition \<Rightarrow>
          if value \<noteq> 1 \<and> value \<noteq> 2
          then Inl (PlainError ''basil: Nix cache protobuf field %d has invalid enum value %d''
                     [ArgInt number, ArgInt (uint value)])
          else Inr ()
      | _ \<Rightarrow> field_error ''basil: Nix cache protobuf field %d has an invalid varint rule'' number)"

section \<open>The preflight\<close>

definition field_bit :: "int \<Rightarrow> u64" where
  "field_bit number = push_bit (nat (number - 1)) 1"

text \<open>The body of the loop after the tag: the new set of fields seen and the rest of the message.\<close>

definition preflight_field ::
  "protowire \<Rightarrow> nixCacheSchema \<Rightarrow> u64 \<Rightarrow> int \<Rightarrow> nat \<Rightarrow> bytes \<Rightarrow> (go_error, u64 \<times> bytes) result" where
  "preflight_field w schema seen number wireType raw =
     (case nixCacheFieldRule schema number of
        None \<Rightarrow> field_error ''basil: Nix cache protobuf has unknown field %d'' number
      | Some (kind, expectedWire) \<Rightarrow>
          if seen AND field_bit number \<noteq> 0
          then field_error ''basil: Nix cache protobuf has duplicate field %d'' number
          else if wireType \<noteq> expectedWire
          then Inl (PlainError ''basil: Nix cache protobuf field %d has wire type %d; expected %d''
                     [ArgInt number, ArgInt (int wireType), ArgInt (int expectedWire)])
          else if expectedWire = BytesType
          then (case ConsumeBytes w raw of
                  Inl e \<Rightarrow> Inl (WrapError ''basil: invalid Nix cache protobuf field %d: %w'' [ArgInt number] e)
                | Inr (value, len) \<Rightarrow>
                    (case validateNixCacheBytes number kind value of
                       Inl e \<Rightarrow> Inl e
                     | Inr u \<Rightarrow> Inr (seen OR field_bit number, drop len raw)))
          else if expectedWire = VarintType
          then (case ConsumeVarint w raw of
                  Inl e \<Rightarrow> Inl (WrapError ''basil: invalid Nix cache protobuf field %d: %w'' [ArgInt number] e)
                | Inr (value, len) \<Rightarrow>
                    (case validateNixCacheVarint number kind value of
                       Inl e \<Rightarrow> Inl e
                     | Inr u \<Rightarrow> Inr (seen OR field_bit number, drop len raw)))
          else Inl (PlainError ''basil: unsupported Nix cache protobuf wire type %d'' [ArgInt (int expectedWire)]))"

text \<open>The loop ends only if every tag consumes something; \<open>None\<close> is the loop that does not.\<close>

partial_function (option) preflight_loop ::
  "protowire \<Rightarrow> nixCacheSchema \<Rightarrow> u64 \<Rightarrow> bytes \<Rightarrow> (go_error, u64) result option" where
  "preflight_loop w schema seen raw =
     (if raw = [] then Some (Inr seen)
      else
        (case ConsumeTag w raw of
           Inl e \<Rightarrow> Some (Inl (WrapError ''basil: invalid Nix cache protobuf tag: %w'' [] e))
         | Inr (number, wireType, consumed) \<Rightarrow>
             (case preflight_field w schema seen number wireType (drop consumed raw) of
                Inl e \<Rightarrow> Some (Inl e)
              | Inr (seen1, raw1) \<Rightarrow> preflight_loop w schema seen1 raw1)))"

text \<open>The search for the first missing field, from \<open>number\<close> up.\<close>

fun missing_from :: "u64 \<Rightarrow> nat \<Rightarrow> nat \<Rightarrow> (go_error, unit) result" where
  "missing_from seen number 0 = Inr ()"
| "missing_from seen number (Suc k) =
     (if seen AND field_bit (int number) = 0
      then field_error ''basil: Nix cache protobuf is missing required field %d'' (int number)
      else missing_from seen (Suc number) k)"

definition preflightNixCacheProto :: "protowire \<Rightarrow> bytes \<Rightarrow> go_value \<Rightarrow> (go_error, unit) result option" where
  "preflightNixCacheProto w raw message =
     (case nixCacheMessageSchema message of
        Inl e \<Rightarrow> Some (Inl e)
      | Inr (schema, maximum, nfields) \<Rightarrow>
          if length raw > maximum
          then Some (Inl (PlainError ''basil: Nix cache protobuf is %d bytes; maximum is %d''
                           [ArgInt (int (length raw)), ArgInt (int maximum)]))
          else
            (case preflight_loop w schema 0 raw of
               None \<Rightarrow> None
             | Some (Inl e) \<Rightarrow> Some (Inl e)
             | Some (Inr seen) \<Rightarrow>
                 if seen \<noteq> push_bit nfields 1 - 1 then Some (missing_from seen 1 nfields) else Some (Inr ())))"

section \<open>The codec\<close>

definition codec_Name :: string where
  "codec_Name = ''proto''"

definition codec_Marshal :: "proto_lib \<Rightarrow> go_value \<Rightarrow> (go_error, bytes) result option" where
  "codec_Marshal P value =
     (case value of
        NoMessage t \<Rightarrow> Some (Inl (PlainError ''basil: strict Nix codec cannot marshal %T'' [ArgStr t]))
      | message \<Rightarrow>
          (case proto_Marshal P message of
             Inl e \<Rightarrow> Some (Inl e)
           | Inr raw \<Rightarrow>
               (case preflightNixCacheProto (wire P) raw message of
                  None \<Rightarrow> None
                | Some (Inl e) \<Rightarrow> Some (Inl e)
                | Some (Inr u) \<Rightarrow> Some (Inr raw))))"

definition codec_Unmarshal :: "proto_lib \<Rightarrow> bytes \<Rightarrow> go_value \<Rightarrow> (go_error, go_value) result option" where
  "codec_Unmarshal P raw value =
     (case value of
        NoMessage t \<Rightarrow> Some (Inl (PlainError ''basil: strict Nix codec cannot unmarshal %T'' [ArgStr t]))
      | message \<Rightarrow>
          (case preflightNixCacheProto (wire P) raw message of
             None \<Rightarrow> None
           | Some (Inl e) \<Rightarrow> Some (Inl e)
           | Some (Inr u) \<Rightarrow> Some (proto_Unmarshal P raw message)))"

end
