(* ===== verification/NixCache.thy ===== *)
theory NixCache
  imports Client NixCacheCodec
begin

text \<open>
  \<open>src/basil/nix_cache.go\<close>: describing, enrolling and signing with a Nix binary-cache key. A stub
  of this service also takes the call options, which force the strict codec and the size limits. A Go
  array \<open>[n]byte\<close> is a byte list of that length.
\<close>

section \<open>Types\<close>

record NixCacheKey =
  nk_KeyName :: string
  nk_PublicKey :: bytes
  nk_BackendVersion :: u32

type_synonym NixCacheEnrollmentDisposition = "32 word"

abbreviation (input) NixCacheEnrollmentCreated :: NixCacheEnrollmentDisposition where "NixCacheEnrollmentCreated \<equiv> 1"
abbreviation (input) NixCacheEnrollmentExisting :: NixCacheEnrollmentDisposition where "NixCacheEnrollmentExisting \<equiv> 2"

record NixCacheEnrollment =
  ne_Key :: NixCacheKey
  ne_Disposition :: NixCacheEnrollmentDisposition

record NixCacheSignature =
  ns_Key :: NixCacheKey
  ns_Signature :: bytes

datatype call_option = ForceCodec string | MaxCallSendMsgSize nat | MaxCallRecvMsgSize nat

record 'b nix_service =
  nx_DescribeNixCacheKey :: "call_option list \<Rightarrow> ('b, DescribeNixCacheKeyRequest, DescribeNixCacheKeyResponse) stub"
  nx_EnrollNixCacheKey :: "call_option list \<Rightarrow> ('b, EnrollNixCacheKeyRequest, EnrollNixCacheKeyResponse) stub"
  nx_SignNixCacheFingerprint :: "call_option list \<Rightarrow> ('b, SignNixCacheFingerprintRequest, SignNixCacheFingerprintResponse) stub"

section \<open>Checks\<close>

definition nixCacheCallOptions :: "nat \<Rightarrow> nat \<Rightarrow> call_option list" where
  "nixCacheCallOptions maximumSend maximumReceive =
     [ForceCodec codec_Name, MaxCallSendMsgSize maximumSend, MaxCallRecvMsgSize maximumReceive]"

definition allZero16 :: "bytes \<Rightarrow> bool" where
  "allZero16 value \<longleftrightarrow> list_all (\<lambda>octet. octet = 0) value"

definition validateNixCacheRequest :: "string \<Rightarrow> bytes \<Rightarrow> bytes \<Rightarrow> go_error option" where
  "validateNixCacheRequest keyID batchID requestID =
     (if \<not> utf8_Valid (bytes_of keyID) \<or> length keyID = 0 \<or> length keyID > 256
      then Some (PlainError ''basil: Nix cache key ID length must be 1..=256 valid UTF-8 bytes'' [])
      else if list_ex (\<lambda>value. value < 0x20 \<or> value = 0x7F) (bytes_of keyID)
      then Some (PlainError ''basil: Nix cache key ID contains a control byte'' [])
      else if allZero16 batchID \<or> allZero16 requestID
      then Some (PlainError ''basil: Nix cache batch and request IDs must not be all zero'' [])
      else None)"

definition sameIDs :: "bytes \<Rightarrow> bytes \<Rightarrow> bytes \<Rightarrow> bytes \<Rightarrow> go_error option" where
  "sameIDs actualBatch actualRequest batchID requestID =
     (if actualBatch \<noteq> batchID \<or> actualRequest \<noteq> requestID
      then Some (PlainError ''basil: Nix cache response changed a correlation ID'' [])
      else None)"

fun validateNixCacheResponseEcho :: "go_value \<Rightarrow> bytes \<Rightarrow> bytes \<Rightarrow> go_error option" where
  "validateNixCacheResponseEcho (DescribeResponse r) batchID requestID = sameIDs (dr_BatchId r) (dr_RequestId r) batchID requestID"
| "validateNixCacheResponseEcho (EnrollResponse r) batchID requestID = sameIDs (er_BatchId r) (er_RequestId r) batchID requestID"
| "validateNixCacheResponseEcho (SignResponse r) batchID requestID = sameIDs (sr_BatchId r) (sr_RequestId r) batchID requestID"
| "validateNixCacheResponseEcho m batchID requestID =
     Some (PlainError ''basil: unsupported Nix cache response type %T'' [ArgStr (go_type m)])"

text \<open>The zero value that Go returns beside an error.\<close>

definition zeroKey :: NixCacheKey where
  "zeroKey = \<lparr>nk_KeyName = [], nk_PublicKey = replicate 32 0, nk_BackendVersion = 0\<rparr>"

definition nixCacheKey :: "string \<Rightarrow> bytes \<Rightarrow> u32 \<Rightarrow> NixCacheKey \<times> go_error option" where
  "nixCacheKey keyName publicKey backendVersion =
     (if \<not> validNixCacheKeyName keyName then (zeroKey, Some (PlainError ''basil: invalid Nix cache key name'' []))
      else if length publicKey \<noteq> 32
      then (zeroKey, Some (PlainError ''basil: Nix cache public key is %d bytes; expected 32'' [ArgInt (int (length publicKey))]))
      else if backendVersion \<noteq> 1
      then (zeroKey, Some (PlainError ''basil: Nix cache backend version is %d; expected 1'' [ArgInt (uint backendVersion)]))
      else (\<lparr>nk_KeyName = keyName, nk_PublicKey = publicKey, nk_BackendVersion = backendVersion\<rparr>, None))"

section \<open>Operations\<close>

text \<open>
  \<open>DescribeNixCacheKey\<close> returns a pointer to the key and the error side by side; a nil pointer is
  \<open>None\<close>.
\<close>

definition DescribeNixCacheKey ::
  "runtime \<Rightarrow> 'conn client \<Rightarrow> 'b nix_service \<Rightarrow> go_ctx \<Rightarrow> string \<Rightarrow> bytes \<Rightarrow> bytes \<Rightarrow> 'b \<Rightarrow>
   (NixCacheKey option \<times> go_error option) \<times> 'b" where
  "DescribeNixCacheKey rt c sv ctx keyID batchID requestID b =
     (case validateNixCacheRequest keyID batchID requestID of
        Some e \<Rightarrow> ((None, Some e), b)
      | None \<Rightarrow>
          (case nx_DescribeNixCacheKey sv (nixCacheCallOptions describeNixCacheKeyRequestMax describeNixCacheKeyResponseMax)
                  (withTimeout rt c ctx) \<lparr>dq_KeyId = keyID, dq_BatchId = batchID, dq_RequestId = requestID\<rparr> b of
             (Inl e, b1) \<Rightarrow> ((None, Some (statusError (from_error rt) e)), b1)
           | (Inr r, b1) \<Rightarrow>
               (case validateNixCacheResponseEcho (DescribeResponse r) batchID requestID of
                  Some e \<Rightarrow> ((None, Some e), b1)
                | None \<Rightarrow>
                    (case nixCacheKey (dr_KeyName r) (dr_PublicKey r) (dr_BackendVersion r) of
                       (key, err) \<Rightarrow> ((Some key, err), b1)))))"

definition EnrollNixCacheKey ::
  "runtime \<Rightarrow> 'conn client \<Rightarrow> 'b nix_service \<Rightarrow> go_ctx \<Rightarrow> string \<Rightarrow> bytes \<Rightarrow> bytes \<Rightarrow> 'b \<Rightarrow>
   (go_error, NixCacheEnrollment) result \<times> 'b" where
  "EnrollNixCacheKey rt c sv ctx keyID batchID requestID b =
     (case validateNixCacheRequest keyID batchID requestID of
        Some e \<Rightarrow> (Inl e, b)
      | None \<Rightarrow>
          (case nx_EnrollNixCacheKey sv (nixCacheCallOptions enrollNixCacheKeyRequestMax enrollNixCacheKeyResponseMax)
                  (withTimeout rt c ctx) \<lparr>eq_KeyId = keyID, eq_BatchId = batchID, eq_RequestId = requestID\<rparr> b of
             (Inl e, b1) \<Rightarrow> (Inl (statusError (from_error rt) e), b1)
           | (Inr r, b1) \<Rightarrow>
               (case validateNixCacheResponseEcho (EnrollResponse r) batchID requestID of
                  Some e \<Rightarrow> (Inl e, b1)
                | None \<Rightarrow>
                    if er_Disposition r \<noteq> NixCacheEnrollmentCreated \<and> er_Disposition r \<noteq> NixCacheEnrollmentExisting
                    then (Inl (PlainError ''basil: Nix cache response has invalid enrollment disposition %d''
                                [ArgInt (sint (er_Disposition r))]), b1)
                    else
                      (case nixCacheKey (er_KeyName r) (er_PublicKey r) (er_BackendVersion r) of
                         (key, Some e) \<Rightarrow> (Inl e, b1)
                       | (key, None) \<Rightarrow> (Inr \<lparr>ne_Key = key, ne_Disposition = er_Disposition r\<rparr>, b1)))))"

definition SignNixCacheFingerprint ::
  "runtime \<Rightarrow> 'conn client \<Rightarrow> 'b nix_service \<Rightarrow> go_ctx \<Rightarrow> string \<Rightarrow> bytes \<Rightarrow> bytes \<Rightarrow> bytes \<Rightarrow> 'b \<Rightarrow>
   (go_error, NixCacheSignature) result \<times> 'b" where
  "SignNixCacheFingerprint rt c sv ctx keyID fingerprint batchID requestID b =
     (case validateNixCacheRequest keyID batchID requestID of
        Some e \<Rightarrow> (Inl e, b)
      | None \<Rightarrow>
          if length fingerprint = 0 \<or> length fingerprint > nixCacheFingerprintMax
          then (Inl (PlainError ''basil: Nix cache fingerprint length %d is outside 1..=%d''
                      [ArgInt (int (length fingerprint)), ArgInt (int nixCacheFingerprintMax)]), b)
          else
            (case nx_SignNixCacheFingerprint sv (nixCacheCallOptions signNixCacheFingerprintRequestMax signNixCacheFingerprintResponseMax)
                    (withTimeout rt c ctx)
                    \<lparr>sq_KeyId = keyID, sq_Profile = ''PATH_INFO_V1'', sq_Fingerprint = fingerprint, sq_BatchId = batchID,
                     sq_RequestId = requestID\<rparr> b of
               (Inl e, b1) \<Rightarrow> (Inl (statusError (from_error rt) e), b1)
             | (Inr r, b1) \<Rightarrow>
                 (case validateNixCacheResponseEcho (SignResponse r) batchID requestID of
                    Some e \<Rightarrow> (Inl e, b1)
                  | None \<Rightarrow>
                      if length (sr_Signature r) \<noteq> 64
                      then (Inl (PlainError ''basil: Nix cache response signature is %d bytes; expected 64''
                                  [ArgInt (int (length (sr_Signature r)))]), b1)
                      else
                        (case nixCacheKey (sr_KeyName r) (sr_PublicKey r) (sr_BackendVersion r) of
                           (key, Some e) \<Rightarrow> (Inl e, b1)
                         | (key, None) \<Rightarrow> (Inr \<lparr>ns_Key = key, ns_Signature = sr_Signature r\<rparr>, b1)))))"

section \<open>The methods meet the RPC contract\<close>

text \<open>A Go pair whose error decides.\<close>

fun go_result :: "'a option \<times> go_error option \<Rightarrow> (go_error, 'a option) result" where
  "go_result (v, Some e) = Inl e"
| "go_result (v, None) = Inr v"

definition describe_response :: "bytes \<Rightarrow> bytes \<Rightarrow> DescribeNixCacheKeyResponse \<Rightarrow> (go_error, NixCacheKey option) result" where
  "describe_response batchID requestID r =
     (case validateNixCacheResponseEcho (DescribeResponse r) batchID requestID of
        Some e \<Rightarrow> Inl e
      | None \<Rightarrow> go_result (apfst Some (nixCacheKey (dr_KeyName r) (dr_PublicKey r) (dr_BackendVersion r))))"

interpretation describe_key: unary_rpc
    "nx_DescribeNixCacheKey sv (nixCacheCallOptions describeNixCacheKeyRequestMax describeNixCacheKeyResponseMax)"
    "\<lambda>keyID. validateNixCacheRequest keyID batchID requestID"
    "\<lambda>keyID. \<lparr>dq_KeyId = keyID, dq_BatchId = batchID, dq_RequestId = requestID\<rparr>"
    "describe_response batchID requestID"
    "\<lambda>rt c ctx keyID b. apfst go_result (DescribeNixCacheKey rt c sv ctx keyID batchID requestID b)" for sv batchID requestID
  by unfold_locales (auto simp: DescribeNixCacheKey_def describe_response_def apfst_def split: option.split sum.split prod.split)

definition enroll_response :: "bytes \<Rightarrow> bytes \<Rightarrow> EnrollNixCacheKeyResponse \<Rightarrow> (go_error, NixCacheEnrollment) result" where
  "enroll_response batchID requestID r =
     (case validateNixCacheResponseEcho (EnrollResponse r) batchID requestID of
        Some e \<Rightarrow> Inl e
      | None \<Rightarrow>
          if er_Disposition r \<noteq> 1 \<and> er_Disposition r \<noteq> 2
          then Inl (PlainError ''basil: Nix cache response has invalid enrollment disposition %d'' [ArgInt (sint (er_Disposition r))])
          else
            (case nixCacheKey (er_KeyName r) (er_PublicKey r) (er_BackendVersion r) of
               (key, Some e) \<Rightarrow> Inl e
             | (key, None) \<Rightarrow> Inr \<lparr>ne_Key = key, ne_Disposition = er_Disposition r\<rparr>))"

interpretation enroll_key: unary_rpc
    "nx_EnrollNixCacheKey sv (nixCacheCallOptions enrollNixCacheKeyRequestMax enrollNixCacheKeyResponseMax)"
    "\<lambda>keyID. validateNixCacheRequest keyID batchID requestID"
    "\<lambda>keyID. \<lparr>eq_KeyId = keyID, eq_BatchId = batchID, eq_RequestId = requestID\<rparr>"
    "enroll_response batchID requestID"
    "\<lambda>rt c ctx keyID. EnrollNixCacheKey rt c sv ctx keyID batchID requestID" for sv batchID requestID
  by unfold_locales (auto simp: EnrollNixCacheKey_def enroll_response_def split: option.split sum.split prod.split)

definition sign_response :: "bytes \<Rightarrow> bytes \<Rightarrow> SignNixCacheFingerprintResponse \<Rightarrow> (go_error, NixCacheSignature) result" where
  "sign_response batchID requestID r =
     (case validateNixCacheResponseEcho (SignResponse r) batchID requestID of
        Some e \<Rightarrow> Inl e
      | None \<Rightarrow>
          if length (sr_Signature r) \<noteq> 64
          then Inl (PlainError ''basil: Nix cache response signature is %d bytes; expected 64'' [ArgInt (int (length (sr_Signature r)))])
          else
            (case nixCacheKey (sr_KeyName r) (sr_PublicKey r) (sr_BackendVersion r) of
               (key, Some e) \<Rightarrow> Inl e
             | (key, None) \<Rightarrow> Inr \<lparr>ns_Key = key, ns_Signature = sr_Signature r\<rparr>))"

definition sign_guard :: "string \<Rightarrow> bytes \<Rightarrow> bytes \<Rightarrow> bytes \<Rightarrow> go_error option" where
  "sign_guard keyID fingerprint batchID requestID =
     (case validateNixCacheRequest keyID batchID requestID of
        Some e \<Rightarrow> Some e
      | None \<Rightarrow>
          if length fingerprint = 0 \<or> length fingerprint > nixCacheFingerprintMax
          then Some (PlainError ''basil: Nix cache fingerprint length %d is outside 1..=%d''
                      [ArgInt (int (length fingerprint)), ArgInt (int nixCacheFingerprintMax)])
          else None)"

interpretation sign_fingerprint: unary_rpc
    "nx_SignNixCacheFingerprint sv (nixCacheCallOptions signNixCacheFingerprintRequestMax signNixCacheFingerprintResponseMax)"
    "\<lambda>(keyID, fingerprint). sign_guard keyID fingerprint batchID requestID"
    "\<lambda>(keyID, fingerprint). \<lparr>sq_KeyId = keyID, sq_Profile = ''PATH_INFO_V1'', sq_Fingerprint = fingerprint, sq_BatchId = batchID,
       sq_RequestId = requestID\<rparr>"
    "sign_response batchID requestID"
    "\<lambda>rt c ctx (keyID, fingerprint). SignNixCacheFingerprint rt c sv ctx keyID fingerprint batchID requestID" for sv batchID requestID
  by unfold_locales (auto simp: SignNixCacheFingerprint_def sign_response_def sign_guard_def split: option.split sum.split prod.split)

section \<open>Facts\<close>

lemma nixCacheKey_ok:
  "nixCacheKey name pk v = (key, None) \<longleftrightarrow>
     validNixCacheKeyName name \<and> length pk = 32 \<and> v = 1 \<and> key = \<lparr>nk_KeyName = name, nk_PublicKey = pk, nk_BackendVersion = 1\<rparr>"
  by (auto simp: nixCacheKey_def)

lemma sameIDs_ok: "sameIDs a r batchID requestID = None \<longleftrightarrow> a = batchID \<and> r = requestID"
  by (simp add: sameIDs_def)

end
