(* ===== verification/NixCacheSpec.thy ===== *)
theory NixCacheSpec
  imports NixCacheCodec
begin

text \<open>
  What the strict codec accepts, stated without its loop and its bit mask: a message is a sequence
  of fields, and a well-formed one has every field of its schema exactly once with an admissible value.
\<close>

section \<open>Messages as field sequences\<close>

datatype wire_value = WBytes bytes | WVarint u64

definition value_of :: "protowire \<Rightarrow> nat \<Rightarrow> bytes \<Rightarrow> (wire_value \<times> nat) option" where
  "value_of w wt raw =
     (if wt = BytesType then (case ConsumeBytes w raw of Inl e \<Rightarrow> None | Inr (b, l) \<Rightarrow> Some (WBytes b, l))
      else if wt = VarintType then (case ConsumeVarint w raw of Inl e \<Rightarrow> None | Inr (u, l) \<Rightarrow> Some (WVarint u, l))
      else None)"

inductive fields_of :: "protowire \<Rightarrow> bytes \<Rightarrow> (int \<times> wire_value) list \<Rightarrow> bool" for w where
  empty: "fields_of w [] []"
| field: "raw \<noteq> [] \<Longrightarrow> ConsumeTag w raw = Inr (n, wt, k) \<Longrightarrow> value_of w wt (drop k raw) = Some (v, l) \<Longrightarrow>
    fields_of w (drop l (drop k raw)) fs \<Longrightarrow> fields_of w raw ((n, v) # fs)"

inductive_cases fields_of_NilE: "fields_of w [] fs"
inductive_cases fields_of_ConsE: "fields_of w raw ((n, v) # fs)"

section \<open>Well-formed messages\<close>

text \<open>The kinds of fields 1, 2, \<open>\<dots>\<close> of a message.\<close>

fun kinds_of :: "nixCacheSchema \<Rightarrow> nixCacheFieldKind list" where
  "kinds_of nixDescribeRequest = [nixKeyID, nixIdentifier, nixIdentifier]"
| "kinds_of nixDescribeResponse = [nixKeyName, nixPublicKey, nixBackendVersion, nixIdentifier, nixIdentifier]"
| "kinds_of nixEnrollRequest = [nixKeyID, nixIdentifier, nixIdentifier]"
| "kinds_of nixEnrollResponse = [nixKeyName, nixPublicKey, nixBackendVersion, nixEnrollmentDisposition, nixIdentifier, nixIdentifier]"
| "kinds_of nixSignRequest = [nixKeyID, nixProfile, nixFingerprint, nixIdentifier, nixIdentifier]"
| "kinds_of nixSignResponse = [nixKeyName, nixPublicKey, nixBackendVersion, nixSignature, nixIdentifier, nixIdentifier]"

fun valid_value :: "nixCacheFieldKind \<Rightarrow> wire_value \<Rightarrow> bool" where
  "valid_value nixKeyID (WBytes b) \<longleftrightarrow> utf8_Valid b \<and> 1 \<le> length b \<and> length b \<le> 256 \<and> (\<forall>x \<in> set b. \<not> control_byte x)"
| "valid_value nixKeyName (WBytes b) \<longleftrightarrow> validNixCacheKeyName (string_of b)"
| "valid_value nixPublicKey (WBytes b) \<longleftrightarrow> length b = 32"
| "valid_value nixIdentifier (WBytes b) \<longleftrightarrow> length b = 16 \<and> (\<exists>x \<in> set b. x \<noteq> 0)"
| "valid_value nixProfile (WBytes b) \<longleftrightarrow> b = bytes_of ''PATH_INFO_V1''"
| "valid_value nixFingerprint (WBytes b) \<longleftrightarrow> 1 \<le> length b \<and> length b \<le> 524626"
| "valid_value nixSignature (WBytes b) \<longleftrightarrow> length b = 64"
| "valid_value nixBackendVersion (WVarint u) \<longleftrightarrow> u = 1"
| "valid_value nixEnrollmentDisposition (WVarint u) \<longleftrightarrow> u = 1 \<or> u = 2"
| "valid_value _ _ \<longleftrightarrow> False"

definition kind_at :: "nixCacheSchema \<Rightarrow> int \<Rightarrow> nixCacheFieldKind" where
  "kind_at schema n = kinds_of schema ! nat (n - 1)"

definition known :: "nixCacheSchema \<Rightarrow> int \<Rightarrow> bool" where
  "known schema n \<longleftrightarrow> 1 \<le> n \<and> n \<le> int (length (kinds_of schema))"

definition well_formed :: "nixCacheSchema \<Rightarrow> (int \<times> wire_value) list \<Rightarrow> bool" where
  "well_formed schema fs \<longleftrightarrow>
     distinct (map fst fs) \<and> fst ` set fs = {1..int (length (kinds_of schema))} \<and>
     (\<forall>(n, v) \<in> set fs. valid_value (kind_at schema n) v)"

section \<open>Field rules\<close>

definition wire_of :: "nixCacheFieldKind \<Rightarrow> nat" where
  "wire_of k = (if k = nixBackendVersion \<or> k = nixEnrollmentDisposition then VarintType else BytesType)"

lemma field_cases:
  assumes "1 \<le> n" "n \<le> (6 :: int)"
  obtains "n = 1" | "n = 2" | "n = 3" | "n = 4" | "n = 5" | "n = 6"
  using assms by linarith

lemma known_le: "known schema n \<Longrightarrow> 1 \<le> n \<and> n \<le> 6"
  by (cases schema) (auto simp: known_def)

lemma rule_outside: "\<not> known schema n \<Longrightarrow> nixCacheFieldRule schema n = None"
  by (cases schema) (auto simp: known_def nixCacheIdentityField_def)

lemma rule_inside:
  assumes "known schema n"
  shows "nixCacheFieldRule schema n = Some (kind_at schema n, wire_of (kind_at schema n))"
proof -
  have "1 \<le> n" "n \<le> 6" using known_le [OF assms] by auto
  then show ?thesis
    by (cases rule: field_cases; cases schema)
      (use assms in \<open>simp_all add: known_def kind_at_def wire_of_def nixCacheIdentityField_def nth_Cons'\<close>)
qed

lemma string_of_eq: "string_of b = s \<longleftrightarrow> b = bytes_of s"
  by auto

lemma bytes_rule:
  "wire_of kind = BytesType \<Longrightarrow> validateNixCacheBytes n kind b = Inr () \<longleftrightarrow> valid_value kind (WBytes b)"
  by (cases kind) (auto simp: wire_of_def validateNixCacheBytes_def field_error_def allZeroBytes_def list_all_iff list_ex_iff
      nixCacheFingerprintMax_def Suc_le_eq string_of_eq split: if_splits)

lemma varint_rule:
  "wire_of kind = VarintType \<Longrightarrow> validateNixCacheVarint n kind u = Inr () \<longleftrightarrow> valid_value kind (WVarint u)"
  by (cases kind) (auto simp: wire_of_def validateNixCacheVarint_def field_error_def)

lemma valid_wire: "valid_value kind (WBytes b) \<Longrightarrow> wire_of kind = BytesType" "valid_value kind (WVarint u) \<Longrightarrow> wire_of kind = VarintType"
  by (cases kind; simp add: wire_of_def)+

section \<open>The bit mask\<close>

lemma field_bit_seen: "1 \<le> n \<Longrightarrow> n \<le> 64 \<Longrightarrow> seen AND field_bit n = 0 \<longleftrightarrow> \<not> bit seen (nat (n - 1))"
proof -
  assume "1 \<le> n" "n \<le> 64"
  then have "nat (n - 1) < 64" by linarith
  then show ?thesis
    unfolding field_bit_def by (subst bit_eq_iff) (auto simp: bit_simps)
qed

lemma field_bit_or: "1 \<le> n \<Longrightarrow> n \<le> 64 \<Longrightarrow> bit (seen OR field_bit n) i \<longleftrightarrow> bit seen i \<or> i = nat (n - 1)"
  unfolding field_bit_def by (auto simp: bit_simps)

definition marked :: "(int \<times> wire_value) list \<Rightarrow> u64 \<Rightarrow> u64" where
  "marked fs seen = fold (\<lambda>(n, v) s. s OR field_bit n) fs seen"

lemma marked_simps [simp]: "marked [] seen = seen" "marked ((n, v) # fs) seen = marked fs (seen OR field_bit n)"
  by (simp_all add: marked_def)

lemma bit_marked:
  "\<forall>(n, v) \<in> set fs. 1 \<le> n \<and> n \<le> 64 \<Longrightarrow> bit (marked fs seen) i \<longleftrightarrow> bit seen i \<or> (\<exists>(n, v) \<in> set fs. i = nat (n - 1))"
proof (induction fs arbitrary: seen)
  case (Cons f fs)
  obtain n v where "f = (n, v)" by (cases f)
  with Cons show ?case by (simp add: field_bit_or)
qed simp

section \<open>One field\<close>

lemma preflight_field_iff:
  "preflight_field w schema seen n wt raw = Inr (seen', raw') \<longleftrightarrow>
     known schema n \<and> \<not> bit seen (nat (n - 1)) \<and>
     (\<exists>v l. value_of w wt raw = Some (v, l) \<and> valid_value (kind_at schema n) v \<and> seen' = seen OR field_bit n \<and> raw' = drop l raw)"
proof (cases "known schema n")
  case True
  have b: "seen AND field_bit n = 0 \<longleftrightarrow> \<not> bit seen (nat (n - 1))"
    using known_le [OF True] by (intro field_bit_seen) auto
  have val: "value_of w wt raw = Some (v, l) \<and> valid_value (kind_at schema n) v \<longleftrightarrow>
      wt = wire_of (kind_at schema n) \<and> value_of w (wire_of (kind_at schema n)) raw = Some (v, l) \<and> valid_value (kind_at schema n) v" for v l
    by (cases v) (auto simp: value_of_def dest: valid_wire split: if_splits sum.splits)
  have "wire_of (kind_at schema n) = BytesType \<or> wire_of (kind_at schema n) = VarintType"
    by (simp add: wire_of_def)
  then have "preflight_field w schema seen n wt raw = Inr (seen', raw') \<longleftrightarrow>
      \<not> bit seen (nat (n - 1)) \<and> (\<exists>v l. (wt = wire_of (kind_at schema n) \<and> value_of w (wire_of (kind_at schema n)) raw = Some (v, l) \<and>
        valid_value (kind_at schema n) v) \<and> seen' = seen OR field_bit n \<and> raw' = drop l raw)"
  proof
    assume k: "wire_of (kind_at schema n) = BytesType"
    show ?thesis
    proof (cases "ConsumeBytes w raw")
      case (Inr vl)
      then obtain v l where c: "ConsumeBytes w raw = Inr (v, l)" by (cases vl) simp
      show ?thesis
        by (cases "validateNixCacheBytes n (kind_at schema n) v")
          (auto simp: preflight_field_def rule_inside [OF True] b k c value_of_def field_error_def bytes_rule [OF k, of n, symmetric])
    qed (simp add: preflight_field_def rule_inside [OF True] b k value_of_def field_error_def)
  next
    assume k: "wire_of (kind_at schema n) = VarintType"
    show ?thesis
    proof (cases "ConsumeVarint w raw")
      case (Inr vl)
      then obtain v l where c: "ConsumeVarint w raw = Inr (v, l)" by (cases vl) simp
      show ?thesis
        by (cases "validateNixCacheVarint n (kind_at schema n) v")
          (auto simp: preflight_field_def rule_inside [OF True] b k c value_of_def field_error_def varint_rule [OF k, of n, symmetric])
    qed (simp add: preflight_field_def rule_inside [OF True] b k value_of_def field_error_def)
  qed
  then show ?thesis by (simp only: True simp_thms val [symmetric] conj_assoc)
qed (simp add: preflight_field_def rule_outside field_error_def)
section \<open>The loop\<close>

text \<open>What the loop accepts, from a set of fields already seen.\<close>

definition accepted_fields :: "nixCacheSchema \<Rightarrow> u64 \<Rightarrow> (int \<times> wire_value) list \<Rightarrow> bool" where
  "accepted_fields schema seen fs \<longleftrightarrow>
     distinct (map fst fs) \<and>
     (\<forall>(n, v) \<in> set fs. known schema n \<and> \<not> bit seen (nat (n - 1)) \<and> valid_value (kind_at schema n) v)"

lemma accepted_fields_Cons:
  "accepted_fields schema seen ((n, v) # fs) \<longleftrightarrow>
     known schema n \<and> \<not> bit seen (nat (n - 1)) \<and> valid_value (kind_at schema n) v \<and> accepted_fields schema (seen OR field_bit n) fs"
proof (cases "known schema n")
  case True
  then have "1 \<le> n" "n \<le> 64" using known_le by fastforce+
  moreover have "nat (m - 1) = nat (n - 1) \<longleftrightarrow> m = n" if "known schema m" for m
    using known_le [OF that] known_le [OF True] by auto
  ultimately show ?thesis
    by (fastforce simp: accepted_fields_def field_bit_or)
qed (simp add: accepted_fields_def)

lemma loop_sound:
  assumes "preflight_loop w schema seen raw = Some r"
  shows "\<forall>seen'. r = Inr seen' \<longrightarrow> (\<exists>fs. fields_of w raw fs \<and> accepted_fields schema seen fs \<and> seen' = marked fs seen)"
proof (rule preflight_loop.raw_induct [OF _ assms], goal_cases)
  case (1 loop w schema seen raw r)
  show ?case
  proof (cases "raw = []")
    case True
    with 1(2) show ?thesis by (auto intro!: exI [of _ "[]"] fields_of.empty simp: accepted_fields_def)
  next
    case False
    show ?thesis
    proof (intro allI impI)
      fix seen' assume r: "r = Inr seen'"
      with 1(2) False obtain n wt k seen1 raw1 where s: "ConsumeTag w raw = Inr (n, wt, k)"
          "preflight_field w schema seen n wt (drop k raw) = Inr (seen1, raw1)" "loop w schema seen1 raw1 = Some (Inr seen')"
        by (auto split: sum.splits)
      obtain fs where fs: "fields_of w raw1 fs" "accepted_fields schema seen1 fs" "seen' = marked fs seen1"
        using 1(1) [OF s(3)] by auto
      from s(2) obtain v l where "known schema n" "\<not> bit seen (nat (n - 1))" "value_of w wt (drop k raw) = Some (v, l)"
          "valid_value (kind_at schema n) v" "seen1 = seen OR field_bit n" "raw1 = drop l (drop k raw)"
        unfolding preflight_field_iff by blast
      with fs s(1) False show "\<exists>fs. fields_of w raw fs \<and> accepted_fields schema seen fs \<and> seen' = marked fs seen"
        by (intro exI [of _ "(n, v) # fs"]) (simp add: accepted_fields_Cons fields_of.field)
    qed
  qed
qed

lemma loop_complete:
  "fields_of w raw fs \<Longrightarrow> accepted_fields schema seen fs \<Longrightarrow> preflight_loop w schema seen raw = Some (Inr (marked fs seen))"
proof (induction arbitrary: seen rule: fields_of.induct)
  case empty
  then show ?case by (simp add: preflight_loop.simps)
next
  case (field raw n wt k v l fs)
  then have "preflight_field w schema seen n wt (drop k raw) = Inr (seen OR field_bit n, drop l (drop k raw))"
    unfolding preflight_field_iff by (auto simp: accepted_fields_Cons)
  with field show ?case
    by (subst preflight_loop.simps) (simp add: accepted_fields_Cons)
qed

lemma loop_iff:
  "preflight_loop w schema seen raw = Some (Inr seen') \<longleftrightarrow>
     (\<exists>fs. fields_of w raw fs \<and> accepted_fields schema seen fs \<and> seen' = marked fs seen)"
  using loop_sound loop_complete by blast

section \<open>The required fields\<close>

lemma missing_from_iff:
  "1 \<le> m \<Longrightarrow> m + k \<le> 65 \<Longrightarrow> missing_from seen m k = Inr () \<longleftrightarrow> (\<forall>i \<in> {m..<m + k}. bit seen (i - 1))"
proof (induction seen m k rule: missing_from.induct)
  case (2 seen m k)
  then have "seen AND field_bit (int m) = 0 \<longleftrightarrow> \<not> bit seen (m - 1)"
    using field_bit_seen [of "int m" seen] by (simp add: nat_diff_distrib)
  moreover have "{m..<m + Suc k} = insert m {Suc m..<Suc m + k}" by auto
  ultimately show ?case using 2 by (simp add: field_error_def)
qed simp

lemma all_bits_of_accepted:
  assumes "accepted_fields schema 0 fs"
  shows "(\<forall>i < length (kinds_of schema). bit (marked fs 0) i) \<longleftrightarrow> fst ` set fs = {1..int (length (kinds_of schema))}"
proof -
  have k: "\<forall>(n, v) \<in> set fs. 1 \<le> n \<and> n \<le> int (length (kinds_of schema))"
    using assms by (auto simp: accepted_fields_def known_def)
  have "\<forall>(n, v) \<in> set fs. 1 \<le> n \<and> n \<le> 64"
    using assms known_le by (fastforce simp: accepted_fields_def)
  then have b: "bit (marked fs 0) i \<longleftrightarrow> (\<exists>(n, v) \<in> set fs. i = nat (n - 1))" for i
    by (simp add: bit_marked)
  show ?thesis
  proof
    assume all: "\<forall>i < length (kinds_of schema). bit (marked fs 0) i"
    have "n \<in> fst ` set fs" if "1 \<le> n" "n \<le> int (length (kinds_of schema))" for n
    proof -
      have "nat (n - 1) < length (kinds_of schema)" using that by linarith
      with all b obtain n' v where "(n', v) \<in> set fs" "nat (n - 1) = nat (n' - 1)" by blast
      moreover have "1 \<le> n'" using k calculation(1) by auto
      ultimately have "n' = n" using that by linarith
      with \<open>(n', v) \<in> set fs\<close> show ?thesis by force
    qed
    with k show "fst ` set fs = {1..int (length (kinds_of schema))}" by auto
  next
    assume eq: "fst ` set fs = {1..int (length (kinds_of schema))}"
    show "\<forall>i < length (kinds_of schema). bit (marked fs 0) i"
    proof (intro allI impI)
      fix i assume "i < length (kinds_of schema)"
      then have "int i + 1 \<in> fst ` set fs" by (simp add: eq)
      then show "bit (marked fs 0) i" unfolding b by force
    qed
  qed
qed

section \<open>The preflight\<close>

lemma well_formed_iff:
  "well_formed schema fs \<longleftrightarrow> accepted_fields schema 0 fs \<and> fst ` set fs = {1..int (length (kinds_of schema))}"
proof -
  have "known schema n" if "(n, v) \<in> set fs" "fst ` set fs = {1..int (length (kinds_of schema))}" for n v
    using that(2) imageI [OF that(1), of fst] by (simp add: known_def)
  then show ?thesis by (auto simp: well_formed_def accepted_fields_def)
qed

lemma required_iff:
  assumes "accepted_fields schema 0 fs"
  shows "marked fs 0 = push_bit (length (kinds_of schema)) 1 - 1 \<or> missing_from (marked fs 0) 1 (length (kinds_of schema)) = Inr ()
    \<longleftrightarrow> fst ` set fs = {1..int (length (kinds_of schema))}"
proof -
  let ?n = "length (kinds_of schema)"
  have n: "?n \<le> 6" by (cases schema) simp_all
  have "(push_bit ?n 1 - 1 :: u64) = mask ?n" by (simp add: mask_eq_exp_minus_1)
  moreover have "\<forall>i < ?n. bit (mask ?n :: u64) i" using n by (simp add: bit_mask_iff)
  moreover have "missing_from (marked fs 0) 1 ?n = Inr () \<longleftrightarrow> (\<forall>i < ?n. bit (marked fs 0) i)"
  proof -
    have "(\<forall>i \<in> {1..<1 + ?n}. bit (marked fs 0) (i - 1)) \<longleftrightarrow> (\<forall>i < ?n. bit (marked fs 0) i)"
      using image_Suc_atLeastLessThan [of 0 ?n] by (auto simp flip: image_Suc_atLeastLessThan)
    then show ?thesis using missing_from_iff [of 1 ?n "marked fs 0"] n by simp
  qed
  ultimately show ?thesis using all_bits_of_accepted [OF assms] by auto
qed

lemma schema_fields: "nixCacheMessageSchema m = Inr (schema, maximum, n) \<Longrightarrow> n = length (kinds_of schema)"
  by (cases m) auto

lemma preflight_iff:
  assumes "nixCacheMessageSchema m = Inr (schema, maximum, n)"
  shows "preflightNixCacheProto w raw m = Some (Inr ()) \<longleftrightarrow>
    length raw \<le> maximum \<and> (\<exists>fs. fields_of w raw fs \<and> well_formed schema fs)"
proof -
  have n: "n = length (kinds_of schema)" by (rule schema_fields [OF assms])
  have "preflightNixCacheProto w raw m = Some (Inr ()) \<longleftrightarrow> length raw \<le> maximum \<and>
      (\<exists>seen. preflight_loop w schema 0 raw = Some (Inr seen) \<and> (seen = push_bit n 1 - 1 \<or> missing_from seen 1 n = Inr ()))"
    by (simp add: preflightNixCacheProto_def assms split: option.split sum.split)
  also have "\<dots> \<longleftrightarrow> length raw \<le> maximum \<and> (\<exists>fs. fields_of w raw fs \<and> accepted_fields schema 0 fs \<and>
      (marked fs 0 = push_bit n 1 - 1 \<or> missing_from (marked fs 0) 1 n = Inr ()))"
    unfolding loop_iff by blast
  also have "\<dots> \<longleftrightarrow> length raw \<le> maximum \<and> (\<exists>fs. fields_of w raw fs \<and> well_formed schema fs)"
    unfolding n well_formed_iff by (simp only: required_iff cong: conj_cong)
  finally show ?thesis .
qed

text \<open>Documented behaviour of \<open>protowire\<close>: what is consumed is there, and a tag is at least one byte.\<close>

definition wire_law :: "protowire \<Rightarrow> bool" where
  "wire_law w \<longleftrightarrow>
     (\<forall>raw n wt k. ConsumeTag w raw = Inr (n, wt, k) \<longrightarrow> 1 \<le> k \<and> k \<le> length raw) \<and>
     (\<forall>raw b k. ConsumeBytes w raw = Inr (b, k) \<longrightarrow> k \<le> length raw) \<and>
     (\<forall>raw u k. ConsumeVarint w raw = Inr (u, k) \<longrightarrow> k \<le> length raw)"

lemma preflight_field_rest: "preflight_field w schema seen n wt raw = Inr (seen1, raw1) \<Longrightarrow> length raw1 \<le> length raw"
  by (auto simp: preflight_field_iff)

lemma loop_total: "wire_law w \<Longrightarrow> \<exists>r. preflight_loop w schema seen raw = Some r"
proof (induction "length raw" arbitrary: seen raw rule: less_induct)
  case less
  have "length raw1 < length raw" if "raw \<noteq> []" "ConsumeTag w raw = Inr (n, wt, k)"
      "preflight_field w schema seen n wt (drop k raw) = Inr (seen1, raw1)" for n wt k seen1 raw1
  proof -
    have "1 \<le> k" using less.prems that(2) by (auto simp: wire_law_def)
    moreover have "length raw1 \<le> length raw - k" using preflight_field_rest [OF that(3)] by simp
    moreover have "0 < length raw" using that(1) by simp
    ultimately show ?thesis by linarith
  qed
  with less.hyps less.prems show ?case
    by (subst preflight_loop.simps) (auto split: sum.split prod.split)
qed

lemma preflight_total: "wire_law w \<Longrightarrow> \<exists>r. preflightNixCacheProto w raw m = Some r"
  using loop_total [of w _ 0 raw] by (auto simp: preflightNixCacheProto_def split: sum.split option.split) (metis not_Some_eq)

end
