(* ===== verification/NixCacheWire.thy ===== *)
theory NixCacheWire
  imports NixCacheSpec
begin

text \<open>
  The protobuf wire format as far as the Nix cache messages use it: how the fields of a message are
  encoded with minimal varints, and that the codec accepts every well-formed message so encoded. A
  concrete varint codec shows that the assumptions on \<open>protowire\<close> hold together.
\<close>

section \<open>Documented format\<close>

text \<open>
  \<open>varint\<close> is the minimal encoding of a number; a tag is the varint of eight times the field number plus
  the wire type, a byte string is preceded by the varint of its length.
\<close>

definition wire_format :: "protowire \<Rightarrow> (nat \<Rightarrow> bytes) \<Rightarrow> bool" where
  "wire_format w varint \<longleftrightarrow>
     (\<forall>n. varint n \<noteq> []) \<and> (\<forall>n < 128. length (varint n) = 1) \<and>
     (\<forall>n. 128 \<le> n \<longrightarrow> n < 128 ^ 2 \<longrightarrow> length (varint n) = 2) \<and> (\<forall>n. 128 ^ 2 \<le> n \<longrightarrow> n < 128 ^ 3 \<longrightarrow> length (varint n) = 3) \<and>
     (\<forall>u rest. ConsumeVarint w (varint (unat u) @ rest) = Inr (u, length (varint (unat u)))) \<and>
     (\<forall>n wt rest. 1 \<le> n \<longrightarrow> n < 2 ^ 29 \<longrightarrow> wt < 8 \<longrightarrow>
        ConsumeTag w (varint (8 * n + wt) @ rest) = Inr (int n, wt, length (varint (8 * n + wt)))) \<and>
     (\<forall>b rest. length b < 2 ^ 31 \<longrightarrow>
        ConsumeBytes w (varint (length b) @ b @ rest) = Inr (b, length (varint (length b)) + length b))"

fun enc_field :: "(nat \<Rightarrow> bytes) \<Rightarrow> int \<times> wire_value \<Rightarrow> bytes" where
  "enc_field varint (n, WBytes b) = varint (8 * nat n + BytesType) @ varint (length b) @ b"
| "enc_field varint (n, WVarint u) = varint (8 * nat n + VarintType) @ varint (unat u)"

definition encode :: "(nat \<Rightarrow> bytes) \<Rightarrow> (int \<times> wire_value) list \<Rightarrow> bytes" where
  "encode varint fs = concat (map (enc_field varint) fs)"

section \<open>Well-formed messages are accepted\<close>

lemma valid_length: "valid_value kind (WBytes b) \<Longrightarrow> length b < 2 ^ 31"
proof (cases kind)
  case nixKeyName
  assume "valid_value kind (WBytes b)"
  with nixKeyName have "length (string_of b) \<le> 128" by (simp add: validNixCacheKeyName_def)
  then show ?thesis by (simp add: string_of_def)
qed auto

lemma fields_of_encode:
  assumes "wire_format w varint"
  shows "\<forall>(n, v) \<in> set fs. known schema n \<and> valid_value (kind_at schema n) v \<Longrightarrow> fields_of w (encode varint fs) fs"
proof (induction fs)
  case Nil
  then show ?case by (simp add: encode_def fields_of.empty)
next
  case (Cons f fs)
  obtain n v where f: "f = (n, v)" by (cases f)
  with Cons.prems have k: "known schema n" "valid_value (kind_at schema n) v" by auto
  then have n: "1 \<le> nat n" "nat n < 2 ^ 29" "int (nat n) = n" using known_le [OF k(1)] by auto
  have tag: "ConsumeTag w (varint (8 * nat n + wt) @ rest) = Inr (n, wt, length (varint (8 * nat n + wt)))" if "wt < 8" for wt rest
    using assms n that unfolding wire_format_def by metis
  have ne: "varint m \<noteq> []" for m using assms by (simp add: wire_format_def)
  have rest: "fields_of w (encode varint fs) fs" using Cons by auto
  show ?case
  proof (cases v)
    case (WBytes b)
    have "ConsumeBytes w (varint (length b) @ b @ rest) = Inr (b, length (varint (length b)) + length b)" for rest
      using assms valid_length k(2) WBytes unfolding wire_format_def by blast
    then have "value_of w BytesType (varint (length b) @ b @ encode varint fs) = Some (WBytes b, length (varint (length b)) + length b)"
      by (simp add: value_of_def)
    with rest tag [of BytesType "varint (length b) @ b @ encode varint fs"] ne show ?thesis
      unfolding f WBytes
      by (intro fields_of.field [where wt = BytesType and k = "length (varint (8 * nat n + BytesType))" and l = "length (varint (length b)) + length b"])
        (simp_all add: encode_def)
  next
    case (WVarint u)
    have "value_of w VarintType (varint (unat u) @ encode varint fs) = Some (WVarint u, length (varint (unat u)))"
      using assms by (simp add: value_of_def wire_format_def)
    with rest tag [of VarintType "varint (unat u) @ encode varint fs"] ne show ?thesis
      unfolding f WVarint
      by (intro fields_of.field [where wt = VarintType and k = "length (varint (8 * nat n + VarintType))" and l = "length (varint (unat u))"])
        (simp_all add: encode_def)
  qed
qed

section \<open>Sizes\<close>

fun largest :: "nixCacheFieldKind \<Rightarrow> nat" where
  "largest nixKeyID = 259"
| "largest nixKeyName = 131"
| "largest nixPublicKey = 34"
| "largest nixIdentifier = 18"
| "largest nixProfile = 14"
| "largest nixFingerprint = 524630"
| "largest nixSignature = 66"
| "largest nixBackendVersion = 2"
| "largest nixEnrollmentDisposition = 2"

lemma varint_small: "wire_format w varint \<Longrightarrow> n < 128 \<Longrightarrow> length (varint n) = 1"
  by (simp add: wire_format_def)

lemma varint_two: "wire_format w varint \<Longrightarrow> n < 16384 \<Longrightarrow> length (varint n) \<le> 2"
  by (cases "n < 128") (simp_all add: wire_format_def)

lemma varint_three: "wire_format w varint \<Longrightarrow> n < 2097152 \<Longrightarrow> length (varint n) \<le> 3"
  using varint_two [of w varint n] by (cases "n < 16384") (simp_all add: wire_format_def)

lemma enc_field_length:
  assumes "wire_format w varint" "known schema n" "valid_value (kind_at schema n) v"
  shows "length (enc_field varint (n, v)) \<le> largest (kind_at schema n)"
proof -
  have t: "length (varint (8 * nat n + wt)) = 1" if "wt < 8" for wt
    using known_le [OF assms(2)] that by (intro varint_small [OF assms(1)]) linarith
  have s [simp]: "length (string_of b) = length b" for b by (simp add: string_of_def)
  note small = varint_small [OF assms(1)] varint_two [OF assms(1)] varint_three [OF assms(1)]
  show ?thesis
  proof (cases v)
    case (WBytes b)
    have "kind_at schema n = nixProfile \<Longrightarrow> length b = 12" using assms(3) WBytes by simp
    then show ?thesis
      using assms(3) WBytes small [of "length b"] t [of BytesType]
      by (cases "kind_at schema n") (auto simp: validNixCacheKeyName_def)
  next
    case (WVarint u)
    then have "unat u < 128" using assms(3) by (cases "kind_at schema n") auto
    then show ?thesis
      using assms(3) WVarint small(1) [of "unat u"] t [of VarintType] by (cases "kind_at schema n") auto
  qed
qed

lemma kinds_upto: "map (kind_at schema) [1..int (length (kinds_of schema))] = kinds_of schema"
  by (rule nth_equalityI) (simp_all add: kind_at_def nth_upto)

lemma encode_length_le:
  assumes "wire_format w varint" "well_formed schema fs"
  shows "length (encode varint fs) \<le> sum_list (map largest (kinds_of schema))"
proof -
  have k: "\<forall>(n, v) \<in> set fs. known schema n \<and> valid_value (kind_at schema n) v"
    using assms(2) by (auto simp: well_formed_iff accepted_fields_def)
  have "length (encode varint fs) = sum_list (map (length \<circ> enc_field varint) fs)"
    by (simp add: encode_def length_concat comp_def)
  also have "\<dots> \<le> sum_list (map (\<lambda>f. largest (kind_at schema (fst f))) fs)"
    using k enc_field_length [OF assms(1)] by (intro sum_list_mono) auto
  also have "\<dots> = sum (\<lambda>n. largest (kind_at schema n)) (set (map fst fs))"
    using sum_list_distinct_conv_sum_set [of "map fst fs" "\<lambda>n. largest (kind_at schema n)"] assms(2)
    by (simp add: well_formed_def comp_def)
  also have "\<dots> = sum (\<lambda>n. largest (kind_at schema n)) {1..int (length (kinds_of schema))}"
    using assms(2) by (simp add: well_formed_def)
  also have "\<dots> = sum_list (map (\<lambda>n. largest (kind_at schema n)) [1..int (length (kinds_of schema))])"
    by (simp add: sum_list_distinct_conv_sum_set)
  also have "\<dots> = sum_list (map largest (kinds_of schema))"
    by (simp only: list.map_comp [of largest "kind_at schema", symmetric, unfolded comp_def] kinds_upto)
  finally show ?thesis .
qed

text \<open>The limits are reached.\<close>

definition largest_value :: "nixCacheFieldKind \<Rightarrow> wire_value" where
  "largest_value k =
     (case k of
        nixKeyID \<Rightarrow> WBytes (replicate 256 65) | nixKeyName \<Rightarrow> WBytes (replicate 128 65)
      | nixPublicKey \<Rightarrow> WBytes (replicate 32 0) | nixIdentifier \<Rightarrow> WBytes (replicate 16 1)
      | nixProfile \<Rightarrow> WBytes (bytes_of ''PATH_INFO_V1'') | nixFingerprint \<Rightarrow> WBytes (replicate 524626 0)
      | nixSignature \<Rightarrow> WBytes (replicate 64 0) | nixBackendVersion \<Rightarrow> WVarint 1 | nixEnrollmentDisposition \<Rightarrow> WVarint 2)"

definition largest_fields :: "nixCacheSchema \<Rightarrow> (int \<times> wire_value) list" where
  "largest_fields schema = map (\<lambda>n. (n, largest_value (kind_at schema n))) [1..int (length (kinds_of schema))]"

lemma length_string_of: "length (string_of b) = length b"
  by (simp add: string_of_def)

lemma keyNameBytes_letters: "keyNameBytes i (replicate k 65)"
  by (induction k arbitrary: i) simp_all

lemma largest_valid: "valid_value k (largest_value k)"
  by (cases k) (simp_all add: largest_value_def utf8_Valid_ascii control_byte_def validNixCacheKeyName_def keyNameBytes_letters length_string_of)

lemma largest_well_formed: "well_formed schema (largest_fields schema)"
  by (auto simp: well_formed_def largest_fields_def comp_def largest_valid image_image)

lemma largest_length:
  assumes "wire_format w varint" "1 \<le> n" "n \<le> 6"
  shows "length (enc_field varint (n, largest_value k)) = largest k"
proof -
  have t: "length (varint (8 * nat n + wt)) = 1" if "wt < 8" for wt
    using assms(2,3) that by (intro varint_small [OF assms(1)]) linarith
  have "length (varint 12) = 1" "length (varint 16) = 1" "length (varint 32) = 1" "length (varint 64) = 1" "length (varint 1) = 1"
      "length (varint 2) = 1" "length (varint 128) = 2" "length (varint 256) = 2" "length (varint 524626) = 3"
    using assms(1) by (simp_all add: wire_format_def)
  moreover have "length (varint (length (bytes_of ''PATH_INFO_V1''))) = 1"
    by (rule varint_small [OF assms(1)]) simp
  ultimately show ?thesis
    using t [of BytesType] t [of VarintType]
    by (cases k) (simp_all add: largest_value_def)
qed

lemma largest_fields_length:
  assumes "wire_format w varint"
  shows "length (encode varint (largest_fields schema)) = sum_list (map largest (kinds_of schema))"
proof -
  have "length (enc_field varint f) = largest (kind_at schema (fst f))" if "f \<in> set (largest_fields schema)" for f
    using that largest_length [OF assms] known_le [of schema "fst f"] by (auto simp: largest_fields_def known_def)
  then have "length (encode varint (largest_fields schema)) = sum_list (map (\<lambda>f. largest (kind_at schema (fst f))) (largest_fields schema))"
    by (simp add: encode_def length_concat comp_def cong: map_cong)
  also have "\<dots> = sum_list (map largest (map (kind_at schema) [1..int (length (kinds_of schema))]))"
    by (simp add: largest_fields_def comp_def)
  also have "\<dots> = sum_list (map largest (kinds_of schema))" by (simp only: kinds_upto)
  finally show ?thesis .
qed

lemma schema_maximum: "nixCacheMessageSchema m = Inr (schema, maximum, n) \<Longrightarrow> sum_list (map largest (kinds_of schema)) = maximum"
  by (cases m) (auto simp: nix_limits)

section \<open>A concrete codec\<close>

function enc_varint :: "nat \<Rightarrow> bytes" where
  "enc_varint n = (if n < 128 then [of_nat n] else of_nat (128 + n mod 128) # enc_varint (n div 128))"
  by auto
termination by (relation "measure id") auto

declare enc_varint.simps [simp del]

fun dec_varint :: "bytes \<Rightarrow> (nat \<times> nat) option" where
  "dec_varint [] = None"
| "dec_varint (b # bs) =
     (if unat b < 128 then Some (unat b, 1)
      else (case dec_varint bs of None \<Rightarrow> None | Some (n, k) \<Rightarrow> Some (unat b - 128 + 128 * n, Suc k)))"

definition wire_eof :: go_error where
  "wire_eof = PlainError ''unexpected EOF'' []"

definition std_wire :: protowire where
  "std_wire =
     \<lparr>ConsumeTag = (\<lambda>raw. case dec_varint raw of None \<Rightarrow> Inl wire_eof | Some (n, k) \<Rightarrow> Inr (int (n div 8), n mod 8, k)),
      ConsumeBytes = (\<lambda>raw. case dec_varint raw of None \<Rightarrow> Inl wire_eof
        | Some (n, k) \<Rightarrow> if length raw - k < n then Inl wire_eof else Inr (take n (drop k raw), k + n)),
      ConsumeVarint = (\<lambda>raw. case dec_varint raw of None \<Rightarrow> Inl wire_eof | Some (n, k) \<Rightarrow> Inr (of_nat n, k))\<rparr>"

lemma dec_enc_varint: "dec_varint (enc_varint n @ rest) = Some (n, length (enc_varint n))"
proof (induction n rule: enc_varint.induct)
  case (1 n)
  show ?case
  proof (cases "n < 128")
    case True
    then have "unat (of_nat n :: byte) = n" by (simp add: unat_of_nat take_bit_nat_eq_self)
    with True show ?thesis by (simp add: enc_varint.simps [of n])
  next
    case False
    have "unat (of_nat (128 + n mod 128) :: byte) = 128 + n mod 128"
      by (subst unat_of_nat) (simp add: take_bit_nat_eq_self)
    with False 1 show ?thesis by (simp add: enc_varint.simps [of n])
  qed
qed

lemma dec_varint_consumed: "dec_varint raw = Some (n, k) \<Longrightarrow> 1 \<le> k \<and> k \<le> length raw"
  by (induction raw arbitrary: n k) (auto split: if_splits option.splits)

lemma std_wire_law: "wire_law std_wire"
  using dec_varint_consumed by (fastforce simp: wire_law_def std_wire_def split: option.splits if_splits)

lemma std_wire_format: "wire_format std_wire enc_varint"
proof -
  have "enc_varint n \<noteq> []" for n by (subst enc_varint.simps) simp
  moreover have one: "length (enc_varint n) = 1" if "n < 128" for n
    using that by (subst enc_varint.simps) simp
  moreover have two: "length (enc_varint n) = 2" if "128 \<le> n" "n < 128 ^ 2" for n
    using that one [of "n div 128"] by (subst enc_varint.simps) (simp add: less_mult_imp_div_less)
  moreover have "length (enc_varint n) = 3" if "128 ^ 2 \<le> n" "n < 128 ^ 3" for n
    using that two [of "n div 128"] by (subst enc_varint.simps) (simp add: less_mult_imp_div_less div_greater_zero_iff Suc_le_eq less_eq_div_iff_mult_less_eq)
  ultimately show ?thesis
    by (simp add: wire_format_def std_wire_def dec_enc_varint)
qed

end
