(* ===== verification/NixProps.thy ===== *)
theory NixProps
  imports NixCache NixCacheWire
begin

text \<open>
  The properties of the Nix cache client and its strict codec: what the codec accepts, that its size limits
  are exact, and that the client's own checks and the codec agree.
\<close>

section \<open>Messages and their fields\<close>

definition bytes_at :: "(int \<rightharpoonup> wire_value) \<Rightarrow> int \<Rightarrow> bytes" where
  "bytes_at f n = (case f n of Some (WBytes b) \<Rightarrow> b | _ \<Rightarrow> [])"

definition varint_at :: "(int \<rightharpoonup> wire_value) \<Rightarrow> int \<Rightarrow> 64 word" where
  "varint_at f n = (case f n of Some (WVarint u) \<Rightarrow> u | _ \<Rightarrow> 0)"

definition describe_of :: "(int \<rightharpoonup> wire_value) \<Rightarrow> DescribeNixCacheKeyResponse" where
  "describe_of f = \<lparr>dr_KeyName = string_of (bytes_at f 1), dr_PublicKey = bytes_at f 2, dr_BackendVersion = ucast (varint_at f 3),
     dr_BatchId = bytes_at f 4, dr_RequestId = bytes_at f 5\<rparr>"

definition enroll_of :: "(int \<rightharpoonup> wire_value) \<Rightarrow> EnrollNixCacheKeyResponse" where
  "enroll_of f = \<lparr>er_KeyName = string_of (bytes_at f 1), er_PublicKey = bytes_at f 2, er_BackendVersion = ucast (varint_at f 3),
     er_Disposition = ucast (varint_at f 4), er_BatchId = bytes_at f 5, er_RequestId = bytes_at f 6\<rparr>"

definition sign_of :: "(int \<rightharpoonup> wire_value) \<Rightarrow> SignNixCacheFingerprintResponse" where
  "sign_of f = \<lparr>sr_KeyName = string_of (bytes_at f 1), sr_PublicKey = bytes_at f 2, sr_BackendVersion = ucast (varint_at f 3),
     sr_Signature = bytes_at f 4, sr_BatchId = bytes_at f 5, sr_RequestId = bytes_at f 6\<rparr>"

definition request_fields :: "string \<Rightarrow> bytes \<Rightarrow> bytes \<Rightarrow> (int \<times> wire_value) list" where
  "request_fields keyID batchID requestID = [(1, WBytes (bytes_of keyID)), (2, WBytes batchID), (3, WBytes requestID)]"

text \<open>
  Documented behaviour of \<open>proto.Marshal\<close> and \<open>proto.Unmarshal\<close> for the messages of the service: the non-empty
  fields are written with their numbers, and a message without repeated fields reads as its fields.
\<close>

definition unmarshal_law :: "proto_lib \<Rightarrow> bool" where
  "unmarshal_law P \<longleftrightarrow>
     (\<forall>raw fs m x. fields_of (wire P) raw fs \<longrightarrow> distinct (map fst fs) \<longrightarrow>
        proto_Unmarshal P raw (DescribeResponse x) = Inr m \<longrightarrow> m = DescribeResponse (describe_of (map_of fs))) \<and>
     (\<forall>raw fs m x. fields_of (wire P) raw fs \<longrightarrow> distinct (map fst fs) \<longrightarrow>
        proto_Unmarshal P raw (EnrollResponse x) = Inr m \<longrightarrow> m = EnrollResponse (enroll_of (map_of fs))) \<and>
     (\<forall>raw fs m x. fields_of (wire P) raw fs \<longrightarrow> distinct (map fst fs) \<longrightarrow>
        proto_Unmarshal P raw (SignResponse x) = Inr m \<longrightarrow> m = SignResponse (sign_of (map_of fs)))"

definition marshal_law :: "proto_lib \<Rightarrow> (nat \<Rightarrow> bytes) \<Rightarrow> bool" where
  "marshal_law P varint \<longleftrightarrow> wire_format (wire P) varint \<and>
     (\<forall>q. dq_KeyId q \<noteq> [] \<longrightarrow> dq_BatchId q \<noteq> [] \<longrightarrow> dq_RequestId q \<noteq> [] \<longrightarrow>
        proto_Marshal P (DescribeRequest q) = Inr (encode varint (request_fields (dq_KeyId q) (dq_BatchId q) (dq_RequestId q)))) \<and>
     (\<forall>q. eq_KeyId q \<noteq> [] \<longrightarrow> eq_BatchId q \<noteq> [] \<longrightarrow> eq_RequestId q \<noteq> [] \<longrightarrow>
        proto_Marshal P (EnrollRequest q) = Inr (encode varint (request_fields (eq_KeyId q) (eq_BatchId q) (eq_RequestId q)))) \<and>
     (\<forall>q. sq_KeyId q \<noteq> [] \<longrightarrow> sq_Profile q \<noteq> [] \<longrightarrow> sq_Fingerprint q \<noteq> [] \<longrightarrow> sq_BatchId q \<noteq> [] \<longrightarrow> sq_RequestId q \<noteq> [] \<longrightarrow>
        proto_Marshal P (SignRequest q) = Inr (encode varint [(1, WBytes (bytes_of (sq_KeyId q))), (2, WBytes (bytes_of (sq_Profile q))),
          (3, WBytes (sq_Fingerprint q)), (4, WBytes (sq_BatchId q)), (5, WBytes (sq_RequestId q))]))"

section \<open>Accepted fields\<close>

lemma unmarshal_lawD:
  assumes "unmarshal_law P" "fields_of (wire P) raw fs" "well_formed schema fs"
  shows "proto_Unmarshal P raw (DescribeResponse x) = Inr m \<Longrightarrow> m = DescribeResponse (describe_of (map_of fs))"
    "proto_Unmarshal P raw (EnrollResponse y) = Inr m \<Longrightarrow> m = EnrollResponse (enroll_of (map_of fs))"
    "proto_Unmarshal P raw (SignResponse z) = Inr m \<Longrightarrow> m = SignResponse (sign_of (map_of fs))"
proof -
  have d: "distinct (map fst fs)" using assms(3) by (simp add: well_formed_def)
  note l = assms(1) [unfolded unmarshal_law_def, THEN conjunct1, rule_format, OF assms(2) d]
    assms(1) [unfolded unmarshal_law_def, THEN conjunct2, THEN conjunct1, rule_format, OF assms(2) d]
    assms(1) [unfolded unmarshal_law_def, THEN conjunct2, THEN conjunct2, rule_format, OF assms(2) d]
  show "proto_Unmarshal P raw (DescribeResponse x) = Inr m \<Longrightarrow> m = DescribeResponse (describe_of (map_of fs))" by (rule l(1))
  show "proto_Unmarshal P raw (EnrollResponse y) = Inr m \<Longrightarrow> m = EnrollResponse (enroll_of (map_of fs))" by (rule l(2))
  show "proto_Unmarshal P raw (SignResponse z) = Inr m \<Longrightarrow> m = SignResponse (sign_of (map_of fs))" by (rule l(3))
qed

lemma preflight_encode:
  assumes "wire_format w varint" "nixCacheMessageSchema m = Inr (schema, maximum, n)" "well_formed schema fs"
  shows "length (encode varint fs) \<le> maximum \<and> preflightNixCacheProto w (encode varint fs) m = Some (Inr ())"
proof -
  have "length (encode varint fs) \<le> maximum"
    using encode_length_le [OF assms(1,3)] schema_maximum [OF assms(2)] by simp
  moreover have "fields_of w (encode varint fs) fs"
    using assms(3) by (intro fields_of_encode [OF assms(1), where schema = schema]) (auto simp: well_formed_iff accepted_fields_def)
  ultimately show ?thesis using preflight_iff [OF assms(2)] assms(3) by blast
qed

lemma accepted_field:
  assumes "well_formed schema fs" "known schema n"
  shows "\<exists>v. map_of fs n = Some v \<and> valid_value (kind_at schema n) v"
proof -
  have "n \<in> fst ` set fs" using assms by (simp add: well_formed_def known_def)
  then obtain v where v: "(n, v) \<in> set fs" by auto
  with assms(1) show ?thesis by (auto simp: well_formed_def map_of_is_SomeI)
qed

lemma accepted_bytes:
  assumes "well_formed schema fs" "known schema n" "wire_of (kind_at schema n) = BytesType"
  shows "valid_value (kind_at schema n) (WBytes (bytes_at (map_of fs) n))"
proof -
  obtain v where "map_of fs n = Some v" "valid_value (kind_at schema n) v" using accepted_field [OF assms(1,2)] by blast
  with assms(3) show ?thesis by (cases v) (auto simp: bytes_at_def dest: valid_wire)
qed

lemma accepted_varint:
  assumes "well_formed schema fs" "known schema n" "wire_of (kind_at schema n) = VarintType"
  shows "valid_value (kind_at schema n) (WVarint (varint_at (map_of fs) n))"
proof -
  obtain v where "map_of fs n = Some v" "valid_value (kind_at schema n) v" using accepted_field [OF assms(1,2)] by blast
  with assms(3) show ?thesis by (cases v) (auto simp: varint_at_def dest: valid_wire)
qed

lemma unmarshal_accepted:
  assumes "codec_Unmarshal P raw m = Some (Inr out)" "nixCacheMessageSchema m = Inr (schema, maximum, n)"
  obtains fs where "fields_of (wire P) raw fs" "well_formed schema fs" "proto_Unmarshal P raw m = Inr out"
proof -
  have "preflightNixCacheProto (wire P) raw m = Some (Inr ()) \<and> proto_Unmarshal P raw m = Inr out"
    using assms by (cases m) (auto simp: codec_Unmarshal_def split: option.splits sum.splits)
  with preflight_iff [OF assms(2)] that show ?thesis by blast
qed

lemma describe_invariant:
  assumes "unmarshal_law P" "codec_Unmarshal P raw (DescribeResponse x) = Some (Inr m)"
  shows "\<exists>r key. m = DescribeResponse r \<and> nixCacheKey (dr_KeyName r) (dr_PublicKey r) (dr_BackendVersion r) = (key, None) \<and>
    length (dr_BatchId r) = 16 \<and> \<not> allZero16 (dr_BatchId r) \<and> length (dr_RequestId r) = 16 \<and> \<not> allZero16 (dr_RequestId r)"
proof -
  obtain fs where fs: "fields_of (wire P) raw fs" "well_formed nixDescribeResponse fs" "proto_Unmarshal P raw (DescribeResponse x) = Inr m"
    by (rule unmarshal_accepted [OF assms(2)]) simp_all
  then have "m = DescribeResponse (describe_of (map_of fs))" by (rule unmarshal_lawD(1) [OF assms(1)])
  then show ?thesis
    using accepted_bytes [OF fs(2), of 1] accepted_bytes [OF fs(2), of 2] accepted_varint [OF fs(2), of 3] accepted_bytes [OF fs(2), of 4]
      accepted_bytes [OF fs(2), of 5]
    by (simp add: describe_of_def nixCacheKey_ok known_def kind_at_def wire_of_def allZero16_def list_all_iff)
qed

lemma enroll_invariant:
  assumes "unmarshal_law P" "codec_Unmarshal P raw (EnrollResponse x) = Some (Inr m)"
  shows "\<exists>r key. m = EnrollResponse r \<and> nixCacheKey (er_KeyName r) (er_PublicKey r) (er_BackendVersion r) = (key, None) \<and>
    (er_Disposition r = 1 \<or> er_Disposition r = 2) \<and>
    length (er_BatchId r) = 16 \<and> \<not> allZero16 (er_BatchId r) \<and> length (er_RequestId r) = 16 \<and> \<not> allZero16 (er_RequestId r)"
proof -
  obtain fs where fs: "fields_of (wire P) raw fs" "well_formed nixEnrollResponse fs" "proto_Unmarshal P raw (EnrollResponse x) = Inr m"
    by (rule unmarshal_accepted [OF assms(2)]) simp_all
  then have "m = EnrollResponse (enroll_of (map_of fs))" by (rule unmarshal_lawD(2) [OF assms(1)])
  then show ?thesis
    using accepted_bytes [OF fs(2), of 1] accepted_bytes [OF fs(2), of 2] accepted_varint [OF fs(2), of 3] accepted_varint [OF fs(2), of 4]
      accepted_bytes [OF fs(2), of 5] accepted_bytes [OF fs(2), of 6]
    by (auto simp: enroll_of_def nixCacheKey_ok known_def kind_at_def wire_of_def allZero16_def list_all_iff)
qed

lemma sign_invariant:
  assumes "unmarshal_law P" "codec_Unmarshal P raw (SignResponse x) = Some (Inr m)"
  shows "\<exists>r key. m = SignResponse r \<and> nixCacheKey (sr_KeyName r) (sr_PublicKey r) (sr_BackendVersion r) = (key, None) \<and>
    length (sr_Signature r) = 64 \<and>
    length (sr_BatchId r) = 16 \<and> \<not> allZero16 (sr_BatchId r) \<and> length (sr_RequestId r) = 16 \<and> \<not> allZero16 (sr_RequestId r)"
proof -
  obtain fs where fs: "fields_of (wire P) raw fs" "well_formed nixSignResponse fs" "proto_Unmarshal P raw (SignResponse x) = Inr m"
    by (rule unmarshal_accepted [OF assms(2)]) simp_all
  then have "m = SignResponse (sign_of (map_of fs))" by (rule unmarshal_lawD(3) [OF assms(1)])
  then show ?thesis
    using accepted_bytes [OF fs(2), of 1] accepted_bytes [OF fs(2), of 2] accepted_varint [OF fs(2), of 3] accepted_bytes [OF fs(2), of 4]
      accepted_bytes [OF fs(2), of 5] accepted_bytes [OF fs(2), of 6]
    by (simp add: sign_of_def nixCacheKey_ok known_def kind_at_def wire_of_def allZero16_def list_all_iff)
qed

section \<open>A concrete protobuf library\<close>

fun parse_fields :: "nat \<Rightarrow> protowire \<Rightarrow> bytes \<Rightarrow> (int \<times> wire_value) list option" where
  "parse_fields 0 w raw = (if raw = [] then Some [] else None)"
| "parse_fields (Suc f) w raw =
     (if raw = [] then Some []
      else case ConsumeTag w raw of
        Inl e \<Rightarrow> None
      | Inr (n, wt, k) \<Rightarrow>
          (case value_of w wt (drop k raw) of
             None \<Rightarrow> None
           | Some (v, l) \<Rightarrow> map_option (Cons (n, v)) (parse_fields f w (drop l (drop k raw)))))"

lemma parse_fields_complete: "fields_of w raw fs \<Longrightarrow> wire_law w \<Longrightarrow> length raw \<le> f \<Longrightarrow> parse_fields f w raw = Some fs"
proof (induction arbitrary: f rule: fields_of.induct)
  case empty
  then show ?case by (cases f) simp_all
next
  case (field raw n wt k v l fs)
  have "1 \<le> k" using field.hyps(2) field.prems(1) by (auto simp: wire_law_def)
  moreover obtain f' where f: "f = Suc f'" using field.hyps(1) field.prems(2) by (cases f) auto
  ultimately have "parse_fields f' w (drop l (drop k raw)) = Some fs"
    using field.prems by (intro field.IH) simp_all
  with field.hyps f show ?case by simp
qed

definition std_proto :: proto_lib where
  "std_proto =
     \<lparr>wire = std_wire,
      proto_Marshal = (\<lambda>m. case m of
          DescribeRequest q \<Rightarrow> Inr (encode enc_varint (request_fields (dq_KeyId q) (dq_BatchId q) (dq_RequestId q)))
        | EnrollRequest q \<Rightarrow> Inr (encode enc_varint (request_fields (eq_KeyId q) (eq_BatchId q) (eq_RequestId q)))
        | SignRequest q \<Rightarrow> Inr (encode enc_varint [(1, WBytes (bytes_of (sq_KeyId q))), (2, WBytes (bytes_of (sq_Profile q))),
            (3, WBytes (sq_Fingerprint q)), (4, WBytes (sq_BatchId q)), (5, WBytes (sq_RequestId q))])
        | _ \<Rightarrow> Inl wire_eof),
      proto_Unmarshal = (\<lambda>raw m. case parse_fields (length raw) std_wire raw of
          None \<Rightarrow> Inl wire_eof
        | Some fs \<Rightarrow>
            (case m of
               DescribeResponse x \<Rightarrow> Inr (DescribeResponse (describe_of (map_of fs)))
             | EnrollResponse x \<Rightarrow> Inr (EnrollResponse (enroll_of (map_of fs)))
             | SignResponse x \<Rightarrow> Inr (SignResponse (sign_of (map_of fs)))
             | _ \<Rightarrow> Inl wire_eof))\<rparr>"

lemma std_unmarshal_law: "unmarshal_law std_proto"
  by (simp add: unmarshal_law_def std_proto_def parse_fields_complete std_wire_law)

lemma std_marshal_law: "marshal_law std_proto enc_varint"
  by (simp add: marshal_law_def std_proto_def std_wire_format)

section \<open>Requests\<close>

lemma validated_request:
  assumes "validateNixCacheRequest keyID batchID requestID = None" "length batchID = 16" "length requestID = 16"
  shows "valid_value nixKeyID (WBytes (bytes_of keyID))" "valid_value nixIdentifier (WBytes batchID)" "valid_value nixIdentifier (WBytes requestID)"
    "keyID \<noteq> []" "batchID \<noteq> []" "requestID \<noteq> []"
  using assms by (auto simp: validateNixCacheRequest_def allZero16_def list_all_iff list_ex_iff control_byte_def Suc_le_eq split: if_splits)

lemma request_fields_well_formed:
  assumes "valid_value nixKeyID (WBytes (bytes_of keyID))" "valid_value nixIdentifier (WBytes batchID)" "valid_value nixIdentifier (WBytes requestID)"
  shows "well_formed nixDescribeRequest (request_fields keyID batchID requestID)" "well_formed nixEnrollRequest (request_fields keyID batchID requestID)"
  using assms by (auto simp: well_formed_def request_fields_def kind_at_def)

lemma codec_marshal_accepts:
  assumes "wire_format (wire P) varint" "nixCacheMessageSchema m = Inr (schema, maximum, n)" "well_formed schema fs"
    "proto_Marshal P m = Inr (encode varint fs)"
  shows "codec_Marshal P m = Some (Inr (encode varint fs))"
  using preflight_encode [OF assms(1-3)] assms(2,4) by (cases m) (auto simp: codec_Marshal_def)

section \<open>Results\<close>

lemmas nix_options = nixCacheCallOptions_def codec_Name_def nix_limits

lemma describe_ok_iff:
  "DescribeNixCacheKey rt c sv ctx keyID batchID requestID b = ((Some key, None), b1) \<longleftrightarrow>
     validateNixCacheRequest keyID batchID requestID = None \<and>
     (\<exists>r. nx_DescribeNixCacheKey sv [ForceCodec ''proto'', MaxCallSendMsgSize 295, MaxCallRecvMsgSize 203] (withTimeout rt c ctx)
            \<lparr>dq_KeyId = keyID, dq_BatchId = batchID, dq_RequestId = requestID\<rparr> b = (Inr r, b1) \<and>
          dr_BatchId r = batchID \<and> dr_RequestId r = requestID \<and> validNixCacheKeyName (dr_KeyName r) \<and> length (dr_PublicKey r) = 32 \<and>
          dr_BackendVersion r = 1 \<and> key = \<lparr>nk_KeyName = dr_KeyName r, nk_PublicKey = dr_PublicKey r, nk_BackendVersion = 1\<rparr>)"
  by (auto simp: DescribeNixCacheKey_def nix_options nixCacheKey_ok sameIDs_ok split: option.split sum.split prod.split)
    (auto simp: nixCacheKey_def sameIDs_def)

lemma describe_error_key:
  "case DescribeNixCacheKey rt c sv ctx keyID batchID requestID b of ((Some k, Some e), b2) \<Rightarrow> k = zeroKey | _ \<Rightarrow> True"
  by (auto simp: DescribeNixCacheKey_def nixCacheKey_def split: option.split sum.split prod.split)

lemma enroll_response_ok:
  "enroll_response batchID requestID r = Inr en \<longleftrightarrow>
     er_BatchId r = batchID \<and> er_RequestId r = requestID \<and> (er_Disposition r = 1 \<or> er_Disposition r = 2) \<and>
     validNixCacheKeyName (er_KeyName r) \<and> length (er_PublicKey r) = 32 \<and> er_BackendVersion r = 1 \<and>
     en = \<lparr>ne_Key = \<lparr>nk_KeyName = er_KeyName r, nk_PublicKey = er_PublicKey r, nk_BackendVersion = 1\<rparr>, ne_Disposition = er_Disposition r\<rparr>"
  by (auto simp: enroll_response_def nixCacheKey_def sameIDs_def)

lemma sign_response_ok:
  "sign_response batchID requestID r = Inr sg \<longleftrightarrow>
     sr_BatchId r = batchID \<and> sr_RequestId r = requestID \<and> length (sr_Signature r) = 64 \<and>
     validNixCacheKeyName (sr_KeyName r) \<and> length (sr_PublicKey r) = 32 \<and> sr_BackendVersion r = 1 \<and>
     sg = \<lparr>ns_Key = \<lparr>nk_KeyName = sr_KeyName r, nk_PublicKey = sr_PublicKey r, nk_BackendVersion = 1\<rparr>, ns_Signature = sr_Signature r\<rparr>"
  by (auto simp: sign_response_def nixCacheKey_def sameIDs_def)

lemma sign_guard_ok:
  "sign_guard keyID fingerprint batchID requestID = None \<longleftrightarrow>
     validateNixCacheRequest keyID batchID requestID = None \<and> 1 \<le> length fingerprint \<and> length fingerprint \<le> nixCacheFingerprintMax"
  by (simp add: sign_guard_def Suc_le_eq not_less split: option.split)

lemma enroll_ok_iff:
  "EnrollNixCacheKey rt c sv ctx keyID batchID requestID b = (Inr en, b1) \<longleftrightarrow>
     validateNixCacheRequest keyID batchID requestID = None \<and>
     (\<exists>r. nx_EnrollNixCacheKey sv [ForceCodec ''proto'', MaxCallSendMsgSize 295, MaxCallRecvMsgSize 205] (withTimeout rt c ctx)
            \<lparr>eq_KeyId = keyID, eq_BatchId = batchID, eq_RequestId = requestID\<rparr> b = (Inr r, b1) \<and>
          er_BatchId r = batchID \<and> er_RequestId r = requestID \<and> (er_Disposition r = 1 \<or> er_Disposition r = 2) \<and>
          validNixCacheKeyName (er_KeyName r) \<and> length (er_PublicKey r) = 32 \<and> er_BackendVersion r = 1 \<and>
          en = \<lparr>ne_Key = \<lparr>nk_KeyName = er_KeyName r, nk_PublicKey = er_PublicKey r, nk_BackendVersion = 1\<rparr>, ne_Disposition = er_Disposition r\<rparr>)"
  by (simp only: enroll_key.success_iff enroll_response_ok nix_options)

lemma sign_ok_iff:
  "SignNixCacheFingerprint rt c sv ctx keyID fingerprint batchID requestID b = (Inr sg, b1) \<longleftrightarrow>
     validateNixCacheRequest keyID batchID requestID = None \<and> 1 \<le> length fingerprint \<and> length fingerprint \<le> 524626 \<and>
     (\<exists>r. nx_SignNixCacheFingerprint sv [ForceCodec ''proto'', MaxCallSendMsgSize 524939, MaxCallRecvMsgSize 269] (withTimeout rt c ctx)
            \<lparr>sq_KeyId = keyID, sq_Profile = ''PATH_INFO_V1'', sq_Fingerprint = fingerprint, sq_BatchId = batchID, sq_RequestId = requestID\<rparr> b = (Inr r, b1) \<and>
          sr_BatchId r = batchID \<and> sr_RequestId r = requestID \<and> length (sr_Signature r) = 64 \<and>
          validNixCacheKeyName (sr_KeyName r) \<and> length (sr_PublicKey r) = 32 \<and> sr_BackendVersion r = 1 \<and>
          sg = \<lparr>ns_Key = \<lparr>nk_KeyName = sr_KeyName r, nk_PublicKey = sr_PublicKey r, nk_BackendVersion = 1\<rparr>, ns_Signature = sr_Signature r\<rparr>)"
  using sign_fingerprint.success_iff [where a = "(keyID, fingerprint)"]
  by (simp add: sign_response_ok sign_guard_ok nix_options)

section \<open>Properties\<close>

text \<open>
  C7. The strict codec's scan of a message ends, and it accepts exactly the messages within the size limit
  that read as a sequence of fields in which every field of the schema occurs once, in any order, no
  other field occurs, and every value is admissible for its field.
\<close>

theorem nix_codec_exact:
  assumes "wire_law w" "nixCacheMessageSchema m = Inr (schema, maximum, n)"
  shows "(\<exists>r. preflightNixCacheProto w raw m = Some r) \<and>
    (preflightNixCacheProto w raw m = Some (Inr ()) \<longleftrightarrow> length raw \<le> maximum \<and> (\<exists>fs. fields_of w raw fs \<and> well_formed schema fs))"
  using preflight_total [OF assms(1)] preflight_iff [OF assms(2)] by blast

theorem nix_codec_exact_witness:
  "\<exists>raw fs. preflightNixCacheProto std_wire raw (DescribeRequest \<lparr>dq_KeyId = [], dq_BatchId = [], dq_RequestId = []\<rparr>) = Some (Inr ()) \<and>
     fields_of std_wire raw fs \<and> map fst fs = [1, 2, 3]"
proof -
  let ?m = "DescribeRequest \<lparr>dq_KeyId = [], dq_BatchId = [], dq_RequestId = []\<rparr>" and ?fs = "largest_fields nixDescribeRequest"
  have s: "nixCacheMessageSchema ?m = Inr (nixDescribeRequest, describeNixCacheKeyRequestMax, 3)" by simp
  have k: "well_formed nixDescribeRequest ?fs" by (rule largest_well_formed)
  then have f: "fields_of std_wire (encode enc_varint ?fs) ?fs"
    by (intro fields_of_encode [OF std_wire_format, where schema = nixDescribeRequest]) (auto simp: well_formed_iff accepted_fields_def)
  have "length (encode enc_varint ?fs) \<le> describeNixCacheKeyRequestMax"
    using encode_length_le [OF std_wire_format k] schema_maximum [OF s] by simp
  with nix_codec_exact [OF std_wire_law s, of "encode enc_varint ?fs"] f k
  have "preflightNixCacheProto std_wire (encode enc_varint ?fs) ?m = Some (Inr ())" by blast
  moreover have "map fst ?fs = [1, 2, 3]" by (simp add: largest_fields_def comp_def upto_rec1)
  ultimately show ?thesis using f by (intro exI [of _ "encode enc_varint ?fs"] exI [of _ ?fs]) simp
qed

text \<open>
  C18. The size limits are exact. Every well-formed message of each of the six types, encoded with minimal
  varints in any field order, is within its limit and passes the codec, and some well-formed message reaches the limit.
\<close>

theorem nix_limits_exact:
  assumes "wire_format w varint" "nixCacheMessageSchema m = Inr (schema, maximum, n)"
  shows "(\<forall>fs. well_formed schema fs \<longrightarrow>
      length (encode varint fs) \<le> maximum \<and> preflightNixCacheProto w (encode varint fs) m = Some (Inr ())) \<and>
    (\<exists>fs. well_formed schema fs \<and> length (encode varint fs) = maximum)"
  using preflight_encode [OF assms] largest_well_formed largest_fields_length [OF assms(1)] schema_maximum [OF assms(2)] by metis

theorem nix_limits_exact_witness:
  "\<exists>fs. well_formed nixSignResponse fs \<and> length (encode enc_varint fs) = 269"
proof -
  have "nixCacheMessageSchema (SignResponse undefined) = Inr (nixSignResponse, signNixCacheFingerprintResponseMax, 6)" by simp
  from nix_limits_exact [OF std_wire_format this] show ?thesis by (simp add: nix_limits)
qed

text \<open>
  C19. A response that the strict codec hands to the client satisfies the service's invariant: a valid key
  name, a 32-byte public key, backend version 1, a disposition of created or existing, a 64-byte signature, and
  16-byte identifiers that are not all zero. The client's own checks of key, disposition and signature therefore
  never fail on such a response.
\<close>

theorem nix_responses_invariant:
  assumes "unmarshal_law P"
  shows "(\<forall>raw x m. codec_Unmarshal P raw (DescribeResponse x) = Some (Inr m) \<longrightarrow>
      (\<exists>r key. m = DescribeResponse r \<and> nixCacheKey (dr_KeyName r) (dr_PublicKey r) (dr_BackendVersion r) = (key, None) \<and>
         length (dr_BatchId r) = 16 \<and> \<not> allZero16 (dr_BatchId r) \<and> length (dr_RequestId r) = 16 \<and> \<not> allZero16 (dr_RequestId r))) \<and>
    (\<forall>raw x m. codec_Unmarshal P raw (EnrollResponse x) = Some (Inr m) \<longrightarrow>
      (\<exists>r key. m = EnrollResponse r \<and> nixCacheKey (er_KeyName r) (er_PublicKey r) (er_BackendVersion r) = (key, None) \<and>
         (er_Disposition r = 1 \<or> er_Disposition r = 2) \<and>
         length (er_BatchId r) = 16 \<and> \<not> allZero16 (er_BatchId r) \<and> length (er_RequestId r) = 16 \<and> \<not> allZero16 (er_RequestId r))) \<and>
    (\<forall>raw x m. codec_Unmarshal P raw (SignResponse x) = Some (Inr m) \<longrightarrow>
      (\<exists>r key. m = SignResponse r \<and> nixCacheKey (sr_KeyName r) (sr_PublicKey r) (sr_BackendVersion r) = (key, None) \<and>
         length (sr_Signature r) = 64 \<and>
         length (sr_BatchId r) = 16 \<and> \<not> allZero16 (sr_BatchId r) \<and> length (sr_RequestId r) = 16 \<and> \<not> allZero16 (sr_RequestId r)))"
  using describe_invariant [OF assms] enroll_invariant [OF assms] sign_invariant [OF assms] by blast

theorem nix_responses_invariant_witness:
  "\<exists>raw r key. codec_Unmarshal std_proto raw (DescribeResponse undefined) = Some (Inr (DescribeResponse r)) \<and>
     nixCacheKey (dr_KeyName r) (dr_PublicKey r) (dr_BackendVersion r) = (key, None)"
proof -
  let ?fs = "largest_fields nixDescribeResponse"
  let ?m = "DescribeResponse (describe_of (map_of ?fs))" and ?raw = "encode enc_varint ?fs"
  have "preflightNixCacheProto std_wire ?raw (DescribeResponse undefined) = Some (Inr ())"
    using preflight_encode [OF std_wire_format _ largest_well_formed] by simp
  moreover have "fields_of std_wire ?raw ?fs"
    using largest_well_formed by (intro fields_of_encode [OF std_wire_format, where schema = nixDescribeResponse])
      (auto simp: well_formed_iff accepted_fields_def)
  ultimately have u: "codec_Unmarshal std_proto ?raw (DescribeResponse undefined) = Some (Inr ?m)"
    by (simp add: codec_Unmarshal_def std_proto_def parse_fields_complete std_wire_law)
  obtain r key where "?m = DescribeResponse r" "nixCacheKey (dr_KeyName r) (dr_PublicKey r) (dr_BackendVersion r) = (key, None)"
    using nix_responses_invariant [OF std_unmarshal_law, THEN conjunct1, rule_format, OF u] by blast
  with u show ?thesis by (intro exI [of _ ?raw] exI [of _ r] exI [of _ key]) simp
qed



text \<open>
  C30. Each Nix cache method succeeds exactly when the request passes the client's checks, the stub (called
  once, with the strict codec and the message's limits) answers, the answer echoes both identifiers, and
  key, disposition and signature are valid; the result is then the answer's. Only \<open>DescribeNixCacheKey\<close> returns a key
  (the zero key) beside the error of an invalid one.
\<close>

theorem nix_results_checked:
  "(DescribeNixCacheKey rt c sv ctx keyID batchID requestID b = ((Some key, None), b1) \<longleftrightarrow>
     validateNixCacheRequest keyID batchID requestID = None \<and>
     (\<exists>r. nx_DescribeNixCacheKey sv [ForceCodec ''proto'', MaxCallSendMsgSize 295, MaxCallRecvMsgSize 203] (withTimeout rt c ctx)
            \<lparr>dq_KeyId = keyID, dq_BatchId = batchID, dq_RequestId = requestID\<rparr> b = (Inr r, b1) \<and>
          dr_BatchId r = batchID \<and> dr_RequestId r = requestID \<and> validNixCacheKeyName (dr_KeyName r) \<and> length (dr_PublicKey r) = 32 \<and>
          dr_BackendVersion r = 1 \<and> key = \<lparr>nk_KeyName = dr_KeyName r, nk_PublicKey = dr_PublicKey r, nk_BackendVersion = 1\<rparr>)) \<and>
   (case DescribeNixCacheKey rt c sv ctx keyID batchID requestID b of ((Some k, Some e), b2) \<Rightarrow> k = zeroKey | _ \<Rightarrow> True) \<and>
   (EnrollNixCacheKey rt c sv ctx keyID batchID requestID b = (Inr en, b1) \<longleftrightarrow>
     validateNixCacheRequest keyID batchID requestID = None \<and>
     (\<exists>r. nx_EnrollNixCacheKey sv [ForceCodec ''proto'', MaxCallSendMsgSize 295, MaxCallRecvMsgSize 205] (withTimeout rt c ctx)
            \<lparr>eq_KeyId = keyID, eq_BatchId = batchID, eq_RequestId = requestID\<rparr> b = (Inr r, b1) \<and>
          er_BatchId r = batchID \<and> er_RequestId r = requestID \<and> (er_Disposition r = 1 \<or> er_Disposition r = 2) \<and>
          validNixCacheKeyName (er_KeyName r) \<and> length (er_PublicKey r) = 32 \<and> er_BackendVersion r = 1 \<and>
          en = \<lparr>ne_Key = \<lparr>nk_KeyName = er_KeyName r, nk_PublicKey = er_PublicKey r, nk_BackendVersion = 1\<rparr>, ne_Disposition = er_Disposition r\<rparr>)) \<and>
   (SignNixCacheFingerprint rt c sv ctx keyID fingerprint batchID requestID b = (Inr sg, b1) \<longleftrightarrow>
     validateNixCacheRequest keyID batchID requestID = None \<and> 1 \<le> length fingerprint \<and> length fingerprint \<le> 524626 \<and>
     (\<exists>r. nx_SignNixCacheFingerprint sv [ForceCodec ''proto'', MaxCallSendMsgSize 524939, MaxCallRecvMsgSize 269] (withTimeout rt c ctx)
            \<lparr>sq_KeyId = keyID, sq_Profile = ''PATH_INFO_V1'', sq_Fingerprint = fingerprint, sq_BatchId = batchID, sq_RequestId = requestID\<rparr> b = (Inr r, b1) \<and>
          sr_BatchId r = batchID \<and> sr_RequestId r = requestID \<and> length (sr_Signature r) = 64 \<and>
          validNixCacheKeyName (sr_KeyName r) \<and> length (sr_PublicKey r) = 32 \<and> sr_BackendVersion r = 1 \<and>
          sg = \<lparr>ns_Key = \<lparr>nk_KeyName = sr_KeyName r, nk_PublicKey = sr_PublicKey r, nk_BackendVersion = 1\<rparr>, ns_Signature = sr_Signature r\<rparr>))"
  by (intro conjI describe_ok_iff describe_error_key enroll_ok_iff sign_ok_iff)

end
