(* ===== verification/Spiffe.thy ===== *)
theory Spiffe
  imports Client
begin

text \<open>
  \<open>src/spiffe/spiffe.go\<close>: the SPIFFE Workload API client. The go-spiffe library is a parameter: its
  client constructor, its sources and its calls. The locale \<open>workload_call\<close> is the contract of the
  one-shot calls.
\<close>

section \<open>Types\<close>

definition spiffe_DefaultTimeout :: int where
  "spiffe_DefaultTimeout = 30 * 1000000000"

text \<open>A \<open>workloadapi.ClientOption\<close>: the two kinds that \<open>clientOptions\<close> fixes, or another one.\<close>

datatype client_option = is_WithAddr: WithAddr string | WithDialOptions_wl "dial_option list" | OtherClientOption string

record spiffe_config =
  sc_timeout :: int
  sc_clientOpts :: "client_option list"

type_synonym spiffe_option = "spiffe_config \<Rightarrow> spiffe_config"

record 'wl spiffe_client =
  wl :: 'wl
  sp_timeout :: int

text \<open>\<open>jwtsvid.Params\<close> as the client fills it.\<close>

record jwt_params =
  Audience :: string
  ExtraAudiences :: "string list"

text \<open>
  go-spiffe: the constructors, and the calls of a client on the state \<open>'s\<close> behind it. The types of
  the results (SVIDs, bundle sets, contexts) and of the watchers are left open.
\<close>

type_synonym ('s, 'q, 'r) wl_call = "go_ctx \<Rightarrow> 'q \<Rightarrow> 's \<Rightarrow> (go_error, 'r) result \<times> 's"

record ('wl, 'src, 'jsrc) workloadapi =
  workloadapi_New :: "go_ctx \<Rightarrow> client_option list \<Rightarrow> (go_error, 'wl) result"
  wl_Close :: "'wl \<Rightarrow> go_error option \<times> 'wl"
  workloadapi_NewX509Source :: "go_ctx \<Rightarrow> client_option list \<Rightarrow> (go_error, 'src) result"
  workloadapi_NewJWTSource :: "go_ctx \<Rightarrow> client_option list \<Rightarrow> (go_error, 'jsrc) result"

record ('s, 'x509, 'bundles, 'xctx, 'jwt, 'jbundles, 'xw, 'jw) workload_service =
  wl_FetchX509SVID :: "('s, unit, 'x509) wl_call"
  wl_FetchX509SVIDs :: "('s, unit, 'x509 list) wl_call"
  wl_FetchX509Bundles :: "('s, unit, 'bundles) wl_call"
  wl_FetchX509Context :: "('s, unit, 'xctx) wl_call"
  wl_FetchJWTSVID :: "('s, jwt_params, 'jwt) wl_call"
  wl_FetchJWTSVIDs :: "('s, jwt_params, 'jwt list) wl_call"
  wl_FetchJWTBundles :: "('s, unit, 'jbundles) wl_call"
  wl_ValidateJWTSVID :: "('s, string \<times> string, 'jwt) wl_call"
  wl_WatchX509Context :: "go_ctx \<Rightarrow> 'xw \<Rightarrow> 's \<Rightarrow> go_error option \<times> 's"
  wl_WatchJWTBundles :: "go_ctx \<Rightarrow> 'jw \<Rightarrow> 's \<Rightarrow> go_error option \<times> 's"

section \<open>Dialling\<close>

definition spiffe_WithTimeout :: "int \<Rightarrow> spiffe_option" where
  "spiffe_WithTimeout d c = c\<lparr>sc_timeout := d\<rparr>"

definition spiffe_WithClientOptions :: "client_option list \<Rightarrow> spiffe_option" where
  "spiffe_WithClientOptions opts c = c\<lparr>sc_clientOpts := sc_clientOpts c @ opts\<rparr>"

text \<open>\<open>strings.Contains\<close>.\<close>

fun strings_Contains :: "string \<Rightarrow> string \<Rightarrow> bool" where
  "strings_Contains [] sub \<longleftrightarrow> sub = []"
| "strings_Contains (c # cs) sub \<longleftrightarrow> take (length sub) (c # cs) = sub \<or> strings_Contains cs sub"

definition socketAddr :: "string \<Rightarrow> string" where
  "socketAddr path = (if strings_Contains path ''://'' then path else ''unix://'' @ path)"

definition clientOptions :: "string \<Rightarrow> client_option list \<Rightarrow> client_option list" where
  "clientOptions socketPath extra =
     extra @ [WithAddr (socketAddr socketPath), WithDialOptions_wl [WithAuthority ''localhost'']]"

definition spiffe_Dial ::
  "('wl, 'src, 'jsrc) workloadapi \<Rightarrow> go_ctx \<Rightarrow> string \<Rightarrow> spiffe_option list \<Rightarrow> (go_error, 'wl spiffe_client) result" where
  "spiffe_Dial api ctx socketPath opts =
     (if socketPath = [] then Inl (PlainError ''basil/spiffe: empty socket path'' [])
      else
        (let cfg = fold (\<lambda>opt c. opt c) opts \<lparr>sc_timeout = spiffe_DefaultTimeout, sc_clientOpts = []\<rparr>
         in case workloadapi_New api ctx (clientOptions socketPath (sc_clientOpts cfg)) of
              Inl e \<Rightarrow> Inl (WrapError ''basil/spiffe: dial %q: %w'' [ArgStr socketPath] e)
            | Inr w \<Rightarrow> Inr \<lparr>wl = w, sp_timeout = sc_timeout cfg\<rparr>))"

definition spiffe_Close :: "('wl, 'src, 'jsrc) workloadapi \<Rightarrow> 'wl spiffe_client \<Rightarrow> go_error option \<times> 'wl spiffe_client" where
  "spiffe_Close api c = (case wl_Close api (wl c) of (e, w) \<Rightarrow> (e, c\<lparr>wl := w\<rparr>))"

definition Workload :: "'wl spiffe_client \<Rightarrow> 'wl" where
  "Workload c = wl c"

definition NewX509Source ::
  "('wl, 'src, 'jsrc) workloadapi \<Rightarrow> go_ctx \<Rightarrow> string \<Rightarrow> client_option list \<Rightarrow> (go_error, 'src) result" where
  "NewX509Source api ctx socketPath extra =
     (case workloadapi_NewX509Source api ctx (clientOptions socketPath extra) of
        Inl e \<Rightarrow> Inl (WrapError ''basil/spiffe: x509 source %q: %w'' [ArgStr socketPath] e)
      | Inr src \<Rightarrow> Inr src)"

definition NewJWTSource ::
  "('wl, 'src, 'jsrc) workloadapi \<Rightarrow> go_ctx \<Rightarrow> string \<Rightarrow> client_option list \<Rightarrow> (go_error, 'jsrc) result" where
  "NewJWTSource api ctx socketPath extra =
     (case workloadapi_NewJWTSource api ctx (clientOptions socketPath extra) of
        Inl e \<Rightarrow> Inl (WrapError ''basil/spiffe: jwt source %q: %w'' [ArgStr socketPath] e)
      | Inr src \<Rightarrow> Inr src)"

section \<open>Calls\<close>

definition spiffe_withTimeout :: "runtime \<Rightarrow> 'wl spiffe_client \<Rightarrow> go_ctx \<Rightarrow> go_ctx" where
  "spiffe_withTimeout rt c ctx =
     (if sp_timeout c \<le> 0 then ctx
      else if Deadline ctx \<noteq> None then ctx
      else ctx\<lparr>Deadline := Some (now rt + sp_timeout c)\<rparr>)"

text \<open>\<open>return v, basil.FromError(err)\<close> on the pair that a go-spiffe call returned.\<close>

definition typed_result :: "runtime \<Rightarrow> (go_error, 'r) result \<times> 's \<Rightarrow> (go_error, 'r) result \<times> 's" where
  "typed_result rt out =
     (case out of
        (Inl e, s1) \<Rightarrow> (case FromError (from_error rt) (Some e) of Some e' \<Rightarrow> (Inl e', s1) | None \<Rightarrow> (Inl e, s1))
      | (Inr v, s1) \<Rightarrow> (Inr v, s1))"

definition FetchX509SVID :: "runtime \<Rightarrow> 'wl spiffe_client \<Rightarrow> ('s, 'x509, 'bundles, 'xctx, 'jwt, 'jbundles, 'xw, 'jw) workload_service \<Rightarrow> go_ctx \<Rightarrow> 's \<Rightarrow> (go_error, 'x509) result \<times> 's" where
  "FetchX509SVID rt c ws ctx s = typed_result rt (wl_FetchX509SVID ws (spiffe_withTimeout rt c ctx) () s)"

definition FetchX509SVIDs :: "runtime \<Rightarrow> 'wl spiffe_client \<Rightarrow> ('s, 'x509, 'bundles, 'xctx, 'jwt, 'jbundles, 'xw, 'jw) workload_service \<Rightarrow> go_ctx \<Rightarrow> 's \<Rightarrow> (go_error, 'x509 list) result \<times> 's" where
  "FetchX509SVIDs rt c ws ctx s = typed_result rt (wl_FetchX509SVIDs ws (spiffe_withTimeout rt c ctx) () s)"

definition FetchX509Bundles :: "runtime \<Rightarrow> 'wl spiffe_client \<Rightarrow> ('s, 'x509, 'bundles, 'xctx, 'jwt, 'jbundles, 'xw, 'jw) workload_service \<Rightarrow> go_ctx \<Rightarrow> 's \<Rightarrow> (go_error, 'bundles) result \<times> 's" where
  "FetchX509Bundles rt c ws ctx s = typed_result rt (wl_FetchX509Bundles ws (spiffe_withTimeout rt c ctx) () s)"

definition FetchX509Context :: "runtime \<Rightarrow> 'wl spiffe_client \<Rightarrow> ('s, 'x509, 'bundles, 'xctx, 'jwt, 'jbundles, 'xw, 'jw) workload_service \<Rightarrow> go_ctx \<Rightarrow> 's \<Rightarrow> (go_error, 'xctx) result \<times> 's" where
  "FetchX509Context rt c ws ctx s = typed_result rt (wl_FetchX509Context ws (spiffe_withTimeout rt c ctx) () s)"

definition FetchJWTSVID :: "runtime \<Rightarrow> 'wl spiffe_client \<Rightarrow> ('s, 'x509, 'bundles, 'xctx, 'jwt, 'jbundles, 'xw, 'jw) workload_service \<Rightarrow> go_ctx \<Rightarrow> string \<Rightarrow> string list \<Rightarrow> 's \<Rightarrow> (go_error, 'jwt) result \<times> 's" where
  "FetchJWTSVID rt c ws ctx audience extraAudiences s =
     typed_result rt (wl_FetchJWTSVID ws (spiffe_withTimeout rt c ctx) \<lparr>Audience = audience, ExtraAudiences = extraAudiences\<rparr> s)"

definition FetchJWTSVIDs :: "runtime \<Rightarrow> 'wl spiffe_client \<Rightarrow> ('s, 'x509, 'bundles, 'xctx, 'jwt, 'jbundles, 'xw, 'jw) workload_service \<Rightarrow> go_ctx \<Rightarrow> string \<Rightarrow> string list \<Rightarrow> 's \<Rightarrow> (go_error, 'jwt list) result \<times> 's" where
  "FetchJWTSVIDs rt c ws ctx audience extraAudiences s =
     typed_result rt (wl_FetchJWTSVIDs ws (spiffe_withTimeout rt c ctx) \<lparr>Audience = audience, ExtraAudiences = extraAudiences\<rparr> s)"

definition FetchJWTBundles :: "runtime \<Rightarrow> 'wl spiffe_client \<Rightarrow> ('s, 'x509, 'bundles, 'xctx, 'jwt, 'jbundles, 'xw, 'jw) workload_service \<Rightarrow> go_ctx \<Rightarrow> 's \<Rightarrow> (go_error, 'jbundles) result \<times> 's" where
  "FetchJWTBundles rt c ws ctx s = typed_result rt (wl_FetchJWTBundles ws (spiffe_withTimeout rt c ctx) () s)"

definition ValidateJWTSVID :: "runtime \<Rightarrow> 'wl spiffe_client \<Rightarrow> ('s, 'x509, 'bundles, 'xctx, 'jwt, 'jbundles, 'xw, 'jw) workload_service \<Rightarrow> go_ctx \<Rightarrow> string \<Rightarrow> string \<Rightarrow> 's \<Rightarrow> (go_error, 'jwt) result \<times> 's" where
  "ValidateJWTSVID rt c ws ctx token audience s =
     typed_result rt (wl_ValidateJWTSVID ws (spiffe_withTimeout rt c ctx) (token, audience) s)"

definition WatchX509Context :: "runtime \<Rightarrow> 'wl spiffe_client \<Rightarrow> ('s, 'x509, 'bundles, 'xctx, 'jwt, 'jbundles, 'xw, 'jw) workload_service \<Rightarrow> go_ctx \<Rightarrow> 'xw \<Rightarrow> 's \<Rightarrow> go_error option \<times> 's" where
  "WatchX509Context rt c ws ctx watcher s = apfst (FromError (from_error rt)) (wl_WatchX509Context ws ctx watcher s)"

definition WatchJWTBundles :: "runtime \<Rightarrow> 'wl spiffe_client \<Rightarrow> ('s, 'x509, 'bundles, 'xctx, 'jwt, 'jbundles, 'xw, 'jw) workload_service \<Rightarrow> go_ctx \<Rightarrow> 'jw \<Rightarrow> 's \<Rightarrow> go_error option \<times> 's" where
  "WatchJWTBundles rt c ws ctx watcher s = apfst (FromError (from_error rt)) (wl_WatchJWTBundles ws ctx watcher s)"

section \<open>The contract of a one-shot call\<close>

text \<open>One call of go-spiffe, under the client's deadline rule, whose error is normalized.\<close>

locale workload_call =
  fixes call :: "('s, 'q, 'r) wl_call"
    and op :: "runtime \<Rightarrow> 'wl spiffe_client \<Rightarrow> go_ctx \<Rightarrow> 'q \<Rightarrow> 's \<Rightarrow> (go_error, 'r) result \<times> 's"
  assumes op_eq: "op rt c ctx q s = typed_result rt (call (spiffe_withTimeout rt c ctx) q s)"
begin

lemma ok_iff: "op rt c ctx q s = (Inr v, s1) \<longleftrightarrow> call (spiffe_withTimeout rt c ctx) q s = (Inr v, s1)"
  by (auto simp: op_eq typed_result_def split: go_splits)

lemma typed: "from_error_law (from_error rt) \<Longrightarrow> typed_failure (op rt c ctx q s) (call (spiffe_withTimeout rt c ctx) q s)"
  by (rule typed_failureI) (simp add: op_eq typed_result_def FromError_def from_error_law_def decoded_eq)

lemma one_call: "snd (op rt c ctx q s) = snd (call (spiffe_withTimeout rt c ctx) q s)"
  by (auto simp: op_eq typed_result_def split: go_splits)

end

interpretation fetch_x509: workload_call "wl_FetchX509SVID ws" "\<lambda>rt c ctx _. FetchX509SVID rt c ws ctx" for ws
  by unfold_locales (simp add: FetchX509SVID_def)

interpretation fetch_x509s: workload_call "wl_FetchX509SVIDs ws" "\<lambda>rt c ctx _. FetchX509SVIDs rt c ws ctx" for ws
  by unfold_locales (simp add: FetchX509SVIDs_def)

interpretation fetch_bundles: workload_call "wl_FetchX509Bundles ws" "\<lambda>rt c ctx _. FetchX509Bundles rt c ws ctx" for ws
  by unfold_locales (simp add: FetchX509Bundles_def)

interpretation fetch_context: workload_call "wl_FetchX509Context ws" "\<lambda>rt c ctx _. FetchX509Context rt c ws ctx" for ws
  by unfold_locales (simp add: FetchX509Context_def)

lemma jwt_params_eta [simp]: "\<lparr>Audience = Audience q, ExtraAudiences = ExtraAudiences q\<rparr> = (q :: jwt_params)"
  by (cases q) simp

interpretation fetch_jwt: workload_call "wl_FetchJWTSVID ws" "\<lambda>rt c ctx q. FetchJWTSVID rt c ws ctx (Audience q) (ExtraAudiences q)" for ws
  by unfold_locales (simp add: FetchJWTSVID_def)

interpretation fetch_jwts: workload_call "wl_FetchJWTSVIDs ws" "\<lambda>rt c ctx q. FetchJWTSVIDs rt c ws ctx (Audience q) (ExtraAudiences q)" for ws
  by unfold_locales (simp add: FetchJWTSVIDs_def)

interpretation fetch_jwt_bundles: workload_call "wl_FetchJWTBundles ws" "\<lambda>rt c ctx _. FetchJWTBundles rt c ws ctx" for ws
  by unfold_locales (simp add: FetchJWTBundles_def)

interpretation validate_jwt: workload_call "wl_ValidateJWTSVID ws" "\<lambda>rt c ctx (token, audience). ValidateJWTSVID rt c ws ctx token audience" for ws
  by unfold_locales (simp add: ValidateJWTSVID_def split: prod.split)

section \<open>Facts\<close>

lemma Contains_append: "strings_Contains (p @ sub @ r) sub"
proof (induction p)
  case Nil
  then show ?case by (cases "sub @ r") (auto, metis append_eq_conv_conj append_Nil2 strings_Contains.simps(1))
qed simp

lemma socketAddr_scheme: "strings_Contains (socketAddr path) ''://''"
  using Contains_append [of "''unix''" "''://''" path] by (simp add: socketAddr_def)

text \<open>go-spiffe keeps the last address; dial options accumulate.\<close>

definition effective_addr :: "client_option list \<Rightarrow> string option" where
  "effective_addr opts = (case rev (filter is_WithAddr opts) of WithAddr a # _ \<Rightarrow> Some a | _ \<Rightarrow> None)"

definition all_dial_options :: "client_option list \<Rightarrow> dial_option list" where
  "all_dial_options opts = concat (map (\<lambda>opt. case opt of WithDialOptions_wl ds \<Rightarrow> ds | _ \<Rightarrow> []) opts)"

lemma clientOptions_addr: "effective_addr (clientOptions path extra) = Some (socketAddr path)"
  by (simp add: effective_addr_def clientOptions_def)

lemma clientOptions_authority:
  "last_option is_WithAuthority (all_dial_options (clientOptions path extra)) = Some (WithAuthority ''localhost'')"
  by (simp add: all_dial_options_def clientOptions_def last_option_append) (simp add: last_option_def)

end
