(* ===== verification/BasilSign.thy ===== *)
theory BasilSign
  imports Signing
begin

text \<open>
  \<open>src/cmd/basil-sign/main.go\<close>: the command line client. The parsed flags are an input, what is printed is
  recorded unformatted, and the deferred \<open>Close\<close> happens on every path after a successful dial.
\<close>

record sign_flags =
  fl_socket :: string
  fl_key :: string
  fl_message :: string
  fl_timeout :: int

datatype sign_output = UsageText | KeyLine PublicKey | SignatureLine bytes | VerifyLine bool

text \<open>The calls on a dialled client under the overall deadline: the error, if any, and the lines printed.\<close>

definition sign_session ::
  "runtime \<Rightarrow> 'conn client \<Rightarrow> 'b signing_service \<Rightarrow> sign_flags \<Rightarrow> 'b \<Rightarrow> (go_error option \<times> sign_output list) \<times> 'b" where
  "sign_session rt client sv fl b =
     (let ctx = \<lparr>Deadline = Some (now rt + fl_timeout fl)\<rparr> in
      case GetPublicKey rt client sv ctx (fl_key fl) None b of
        (Inl e, b1) \<Rightarrow> ((Some (WrapError ''get public key: %w'' [] e), []), b1)
      | (Inr pub, b1) \<Rightarrow>
          (case Sign rt client sv ctx (fl_key fl) (bytes_of (fl_message fl)) b1 of
             (Inl e, b2) \<Rightarrow> ((Some (WrapError ''sign: %w'' [] e), [KeyLine pub]), b2)
           | (Inr sig, b2) \<Rightarrow>
               (case Verify rt client sv ctx (fl_key fl) (bytes_of (fl_message fl)) sig b2 of
                  (Inl e, b3) \<Rightarrow> ((Some (WrapError ''verify: %w'' [] e), [KeyLine pub, SignatureLine sig]), b3)
                | (Inr ok, b3) \<Rightarrow>
                    ((if ok then None else Some (PlainError ''broker rejected a signature it just produced'' []),
                      [KeyLine pub, SignatureLine sig, VerifyLine ok]), b3))))"

text \<open>
  The result of \<open>run\<close>: the error, the lines, the broker, and the connection after its closing, if one was made.
\<close>

definition sign_run ::
  "runtime \<Rightarrow> 'conn grpc_lib \<Rightarrow> ('conn \<Rightarrow> 'b signing_service) \<Rightarrow> sign_flags \<Rightarrow> 'b \<Rightarrow>
   (go_error option \<times> sign_output list) \<times> 'b \<times> 'conn option" where
  "sign_run rt lib service fl b =
     (if fl_socket fl = [] \<or> fl_key fl = []
      then ((Some (PlainError ''both -socket and -key are required'' []), [UsageText]), b, None)
      else
        (case Dial lib (fl_socket fl) [] of
           Inl e \<Rightarrow> ((Some e, []), b, None)
         | Inr client \<Rightarrow>
             (case sign_session rt client (service (conn client)) fl b of
                (out, b1) \<Rightarrow> (out, b1, Some (conn (snd (Client_Close lib client)))))))"

text \<open>\<open>main\<close>: the exit status, and what goes to standard error.\<close>

definition sign_main ::
  "runtime \<Rightarrow> 'conn grpc_lib \<Rightarrow> ('conn \<Rightarrow> 'b signing_service) \<Rightarrow> sign_flags \<Rightarrow> 'b \<Rightarrow> int \<times> go_error option" where
  "sign_main rt lib service fl b =
     (case fst (fst (sign_run rt lib service fl b)) of None \<Rightarrow> (0, None) | Some e \<Rightarrow> (1, Some e))"

end
