(* ===== verification/EdgeProps.thy ===== *)
theory EdgeProps
  imports Spiffe BasilSign
begin

text \<open>The properties of the SPIFFE client and of the \<open>basil-sign\<close> command.\<close>

section \<open>SPIFFE\<close>


definition toy_api :: "(client_option list, unit, unit) workloadapi" where
  "toy_api = \<lparr>workloadapi_New = (\<lambda>ctx opts. Inr opts), wl_Close = (\<lambda>w. (None, [])),
     workloadapi_NewX509Source = (\<lambda>ctx opts. Inr ()), workloadapi_NewJWTSource = (\<lambda>ctx opts. Inr ())\<rparr>"




section \<open>The command\<close>

text \<open>
  \<open>basil-sign\<close> exits with status 0 exactly when both required flags are given, dialling
  succeeds, and the broker returns the public key, a signature over the message and a positive verification of that
  very signature; it has then printed the key, the signature and the verification in this order.
\<close>

lemma sign_command_ok:
  "fst (sign_main rt lib service fl b) = 0 \<longleftrightarrow>
     fl_socket fl \<noteq> [] \<and> fl_key fl \<noteq> [] \<and>
     (\<exists>client pub sig b1 b2 b3. Dial lib (fl_socket fl) [] = Inr client \<and>
        GetPublicKey rt client (service (conn client)) \<lparr>Deadline = Some (now rt + fl_timeout fl)\<rparr> (fl_key fl) None b = (Inr pub, b1) \<and>
        Sign rt client (service (conn client)) \<lparr>Deadline = Some (now rt + fl_timeout fl)\<rparr> (fl_key fl) (bytes_of (fl_message fl)) b1 = (Inr sig, b2) \<and>
        Verify rt client (service (conn client)) \<lparr>Deadline = Some (now rt + fl_timeout fl)\<rparr> (fl_key fl) (bytes_of (fl_message fl)) sig b2 = (Inr True, b3) \<and>
        sign_run rt lib service fl b =
          ((None, [KeyLine pub, SignatureLine sig, VerifyLine True]), b3, Some (conn (snd (Client_Close lib client)))))"
  by (auto simp: sign_main_def sign_run_def sign_session_def Let_def split: sum.split prod.split option.split)

end
