(* ===== verification/Wire.thy ===== *)
theory Wire
  imports Prelude
begin

unbundle bit_operations_syntax

text \<open>
  The big-endian integer encodings of Go's \<open>encoding/binary\<close> that the stream container
  uses (\<open>binary.BigEndian.PutUint32\<close>, \<open>Uint32\<close>, \<open>PutUint64\<close>), and the interface of a
  fixed-width encoding that the container's headers are built from.
\<close>

section \<open>binary.BigEndian\<close>

definition put_be32 :: "u32 \<Rightarrow> bytes" where
  "put_be32 v = [ucast (drop_bit 24 v), ucast (drop_bit 16 v), ucast (drop_bit 8 v), ucast v]"

fun get_be32 :: "bytes \<Rightarrow> u32" where
  "get_be32 (b0 # b1 # b2 # b3 # _) =
     ucast b3 OR push_bit 8 (ucast b2) OR push_bit 16 (ucast b1) OR push_bit 24 (ucast b0)"
| "get_be32 _ = 0"

definition put_be64 :: "u64 \<Rightarrow> bytes" where
  "put_be64 v =
     [ucast (drop_bit 56 v), ucast (drop_bit 48 v), ucast (drop_bit 40 v), ucast (drop_bit 32 v),
      ucast (drop_bit 24 v), ucast (drop_bit 16 v), ucast (drop_bit 8 v), ucast v]"

fun get_be64 :: "bytes \<Rightarrow> u64" where
  "get_be64 (b0 # b1 # b2 # b3 # b4 # b5 # b6 # b7 # _) =
     ucast b7 OR push_bit 8 (ucast b6) OR push_bit 16 (ucast b5) OR push_bit 24 (ucast b4) OR
     push_bit 32 (ucast b3) OR push_bit 40 (ucast b2) OR push_bit 48 (ucast b1) OR
     push_bit 56 (ucast b0)"
| "get_be64 _ = 0"

section \<open>The interface of a fixed-width encoding\<close>

locale fixed_codec =
  fixes put :: "'a \<Rightarrow> bytes"
    and get :: "bytes \<Rightarrow> 'a"
    and width :: nat
  assumes put_length: "length (put v) = width"
    and get_put: "get (put v) = v"
    and put_get: "length bs = width \<Longrightarrow> put (get bs) = bs"
begin

lemma put_inject: "put v = put v' \<longleftrightarrow> v = v'"
  by (metis get_put)

lemma put_append_inject: "put v @ r = put v' @ r' \<longleftrightarrow> v = v' \<and> r = r'"
  by (simp add: put_length put_inject)

lemma take_put: "take width (put v @ r) = put v"
  by (simp add: put_length)

lemma drop_put: "drop width (put v @ r) = r"
  by (simp add: put_length)

lemma get_take_put: "get (take width (put v @ r)) = v"
  by (simp only: take_put get_put)

lemma put_get_take: "width \<le> length bs \<Longrightarrow> put (get (take width bs)) @ drop width bs = bs"
  by (simp add: put_get)

lemma get_inject:
  assumes "length bs = width" "length bs' = width" "get bs = get bs'"
  shows "bs = bs'"
  using assms by (metis put_get)

end

section \<open>Big-endian encodings implement the interface\<close>

lemma length_put_be32 [simp, wire_simps]: "length (put_be32 v) = 4"
  by (simp add: put_be32_def)

lemma length_put_be64 [simp, wire_simps]: "length (put_be64 v) = 8"
  by (simp add: put_be64_def)

lemma get_put_be32: "get_be32 (put_be32 v) = v"
proof (rule bit_word_eqI)
  fix n assume "n < LENGTH(32)"
  then consider "n < 8" | "8 \<le> n" "n < 16" | "16 \<le> n" "n < 24" | "24 \<le> n" "n < 32"
    by fastforce
  then show "bit (get_be32 (put_be32 v)) n = bit v n"
    by cases (auto simp: put_be32_def bit_simps)
qed

lemma get_put_be64: "get_be64 (put_be64 v) = v"
proof (rule bit_word_eqI)
  fix n assume "n < LENGTH(64)"
  then consider "n < 8" | "8 \<le> n" "n < 16" | "16 \<le> n" "n < 24" | "24 \<le> n" "n < 32"
    | "32 \<le> n" "n < 40" | "40 \<le> n" "n < 48" | "48 \<le> n" "n < 56" | "56 \<le> n" "n < 64"
    by fastforce
  then show "bit (get_be64 (put_be64 v)) n = bit v n"
    by cases (auto simp: put_be64_def bit_simps)
qed

lemma put_get_be32: "length bs = 4 \<Longrightarrow> put_be32 (get_be32 bs) = bs"
  by (elim list_of_length_4)
    (auto simp: put_be32_def bit_simps byte_no_high_bit intro!: bit_word_eqI)

lemma put_get_be64: "length bs = 8 \<Longrightarrow> put_be64 (get_be64 bs) = bs"
  by (elim list_of_length_8)
    (auto simp: put_be64_def bit_simps byte_no_high_bit intro!: bit_word_eqI)

interpretation be32: fixed_codec put_be32 get_be32 4
  by unfold_locales (simp_all add: get_put_be32 put_get_be32)

interpretation be64: fixed_codec put_be64 get_be64 8
  by unfold_locales (simp_all add: get_put_be64 put_get_be64)

lemmas be_codec_simps [simp, wire_simps] =
  be32.get_put be32.put_inject be32.put_append_inject
  be64.get_put be64.put_inject be64.put_append_inject

end
