(* ===== verification/Crypto.thy ===== *)
theory Crypto
  imports Prelude
begin

text \<open>
  The cryptographic primitives the streams rest on, as parameters: an AEAD cipher object
  (\<open>cipher.AEAD\<close>), HKDF-SHA256 and the two cipher constructors. \<open>aead_law\<close> and
  \<open>crypto_law\<close> state their documented behaviour: opening what was sealed under the same
  nonce and additional data gives the plaintext back, a sealed message is 16 bytes longer,
  a 32-byte key is accepted by both constructors, and HKDF returns as many bytes as asked.
  \<open>aead_exact\<close> says that opening accepts only what sealing produces, which holds for
  deterministic encrypt-then-tag ciphers with a full tag. A small checksum cipher shows that
  the laws can hold together; it has no security and only serves as a concrete instance.
\<close>

section \<open>Parameters\<close>

text \<open>\<open>Seal(nil, nonce, plaintext, aad)\<close> and \<open>Open(nil, nonce, ciphertext, aad)\<close>.\<close>

record aead =
  Seal :: "bytes \<Rightarrow> bytes \<Rightarrow> bytes \<Rightarrow> bytes"
  Open :: "bytes \<Rightarrow> bytes \<Rightarrow> bytes \<Rightarrow> bytes option"

text \<open>
  \<open>hkdf.Key(sha256.New, secret, salt, info, keyLength)\<close>; the GCM mode over an AES block
  cipher with an accepted key; \<open>chacha20poly1305.New(key)\<close>.
\<close>

record crypto =
  hkdf_Key :: "bytes \<Rightarrow> bytes \<Rightarrow> bytes \<Rightarrow> nat \<Rightarrow> bytes option"
  aes_gcm :: "bytes \<Rightarrow> aead"
  chacha20poly1305_New :: "bytes \<Rightarrow> aead option"

section \<open>Documented behaviour\<close>

definition aead_law :: "aead \<Rightarrow> bool" where
  "aead_law a \<longleftrightarrow>
     (\<forall>n p ad. length n = 12 \<longrightarrow>
        Open a n (Seal a n p ad) ad = Some p \<and> length (Seal a n p ad) = length p + 16)"

definition aead_exact :: "aead \<Rightarrow> bool" where
  "aead_exact a \<longleftrightarrow>
     (\<forall>n c p ad. length n = 12 \<longrightarrow> Open a n c ad = Some p \<longrightarrow> c = Seal a n p ad)"

definition crypto_law :: "crypto \<Rightarrow> bool" where
  "crypto_law cr \<longleftrightarrow>
     (\<forall>k. length k = 32 \<longrightarrow> aead_law (aes_gcm cr k)) \<and>
     (\<forall>k. length k = 32 \<longrightarrow> (\<exists>a. chacha20poly1305_New cr k = Some a \<and> aead_law a)) \<and>
     (\<forall>sec salt info len. len \<le> 255 * 32 \<longrightarrow>
        (\<exists>okm. hkdf_Key cr sec salt info len = Some okm \<and> length okm = len))"

lemma aead_law_open:
  "aead_law a \<Longrightarrow> length n = 12 \<Longrightarrow> Open a n (Seal a n p ad) ad = Some p"
  by (simp add: aead_law_def)

lemma aead_law_length:
  "aead_law a \<Longrightarrow> length n = 12 \<Longrightarrow> length (Seal a n p ad) = length p + 16"
  by (simp add: aead_law_def)

lemma aead_exactD:
  "aead_exact a \<Longrightarrow> length n = 12 \<Longrightarrow> Open a n c ad = Some p \<Longrightarrow> c = Seal a n p ad"
  unfolding aead_exact_def by blast

lemma crypto_law_hkdf:
  assumes "crypto_law cr" "len \<le> 255 * 32"
  obtains okm where "hkdf_Key cr sec salt info len = Some okm" "length okm = len"
  using assms unfolding crypto_law_def by blast

section \<open>A concrete instance\<close>

definition sum_tag :: "bytes \<Rightarrow> bytes \<Rightarrow> bytes \<Rightarrow> bytes \<Rightarrow> bytes" where
  "sum_tag k n p ad = replicate 16 (sum_list k + sum_list n + sum_list p + 3 * sum_list ad)"

definition sum_aead :: "bytes \<Rightarrow> aead" where
  "sum_aead k =
     \<lparr>Seal = (\<lambda>n p ad. p @ sum_tag k n p ad),
      Open = (\<lambda>n c ad.
        let p = take (length c - 16) c
        in if 16 \<le> length c \<and> drop (length c - 16) c = sum_tag k n p ad then Some p else None)\<rparr>"

definition sum_crypto :: crypto where
  "sum_crypto =
     \<lparr>hkdf_Key = (\<lambda>sec salt info len.
        if len \<le> 255 * 32 then Some (replicate len (sum_list sec + sum_list salt + sum_list info))
        else None),
      aes_gcm = sum_aead,
      chacha20poly1305_New = (\<lambda>k. if length k = 32 then Some (sum_aead k) else None)\<rparr>"

lemma length_sum_tag [simp]: "length (sum_tag k n p ad) = 16"
  by (simp add: sum_tag_def)

lemma sum_aead_law: "aead_law (sum_aead k)"
  by (simp add: aead_law_def sum_aead_def Let_def)

lemma sum_aead_exact: "aead_exact (sum_aead k)"
  unfolding aead_exact_def sum_aead_def
  by (auto simp: Let_def split: if_splits) (metis append_take_drop_id)

lemma sum_crypto_law: "crypto_law sum_crypto"
  by (simp add: crypto_law_def sum_crypto_def sum_aead_law)

end
