(* ===== verification/GoIO.thy ===== *)
theory GoIO
  imports Prelude
begin

text \<open>
  The byte-stream interfaces of Go's \<open>io\<close> package as the stream component uses them: a
  reader is a state and a function for one \<open>Read\<close> call, a writer a state and a function
  for one \<open>Write\<close> call. Two locales state what a well-behaved reader and writer promise;
  the scripted reader and the memory writer below implement them. A scripted reader replays
  an arbitrary sequence of \<open>Read\<close> outcomes, so it also describes sources that stall or fail.
\<close>

section \<open>Read and Write calls\<close>

datatype io_error = EOF | IOErr string

text \<open>
  \<open>n, err := r.Read(p)\<close> with \<open>len(p) = k\<close>: the bytes stored in \<open>p[:n]\<close>, \<open>err\<close>, and the
  reader's next state.
\<close>

type_synonym 'r read_fn = "'r \<Rightarrow> nat \<Rightarrow> bytes \<times> io_error option \<times> 'r"

text \<open>\<open>_, err := w.Write(p)\<close>: \<open>err\<close> and the writer's next state.\<close>

type_synonym 'w write_fn = "'w \<Rightarrow> bytes \<Rightarrow> io_error option \<times> 'w"

section \<open>The contract of a reader and of a writer\<close>

locale io_reader =
  fixes rd :: "'r read_fn"
    and content :: "'r \<Rightarrow> bytes"
    and ready :: "'r \<Rightarrow> bool"
  assumes read_length: "ready s \<Longrightarrow> 0 < k \<Longrightarrow> rd s k = (bs, e, s') \<Longrightarrow> length bs \<le> k"
    and read_content: "ready s \<Longrightarrow> 0 < k \<Longrightarrow> rd s k = (bs, e, s') \<Longrightarrow> content s = bs @ content s'"
    and read_ready: "ready s \<Longrightarrow> 0 < k \<Longrightarrow> rd s k = (bs, e, s') \<Longrightarrow> ready s'"
    and read_progress: "ready s \<Longrightarrow> 0 < k \<Longrightarrow> rd s k = (bs, e, s') \<Longrightarrow>
          e = None \<and> bs \<noteq> [] \<or> e = Some EOF \<and> content s' = []"

locale io_writer =
  fixes wr :: "'w write_fn"
    and written :: "'w \<Rightarrow> bytes"
    and writable :: "'w \<Rightarrow> bool"
  assumes write_ok: "writable w \<Longrightarrow> fst (wr w bs) = None"
    and write_writable: "writable w \<Longrightarrow> writable (snd (wr w bs))"
    and write_appends: "writable w \<Longrightarrow> written (snd (wr w bs)) = written w @ bs"
begin

lemma write_cases:
  assumes "writable w"
  obtains w' where "wr w bs = (None, w')" "writable w'" "written w' = written w @ bs"
  using assms write_ok [of w bs] write_writable [of w bs] write_appends [of w bs]
  by (cases "wr w bs") auto

end

section \<open>A scripted reader\<close>

text \<open>
  The outcomes of successive \<open>Read\<close> calls: some bytes with a nil error (as many as fit; the
  rest stay for the next call), the last bytes together with \<open>io.EOF\<close>, or a failure. \<open>Data []\<close>
  is the discouraged but allowed outcome \<open>(0, nil)\<close>. An exhausted script is at end of file.
\<close>

datatype read_event = Data bytes | DataEOF bytes | Fail string

type_synonym script = "read_event list"

fun script_read :: "script read_fn" where
  "script_read [] k = ([], Some EOF, [])"
| "script_read (Data d # s) k =
     (if length d \<le> k then (d, None, s) else (take k d, None, Data (drop k d) # s))"
| "script_read (DataEOF d # s) k =
     (if length d \<le> k then (d, Some EOF, []) else (take k d, None, DataEOF (drop k d) # s))"
| "script_read (Fail e # s) k = ([], Some (IOErr e), s)"

fun script_content :: "script \<Rightarrow> bytes" where
  "script_content [] = []"
| "script_content (Data d # s) = d @ script_content s"
| "script_content (DataEOF d # s) = d"
| "script_content (Fail e # s) = []"

text \<open>A script without stalls (\<open>(0, nil)\<close> reads) and without failures before its end.\<close>

fun script_ready :: "script \<Rightarrow> bool" where
  "script_ready [] = True"
| "script_ready (Data d # s) = (d \<noteq> [] \<and> script_ready s)"
| "script_ready (DataEOF d # s) = True"
| "script_ready (Fail e # s) = False"

lemma script_read_spec:
  assumes "script_ready s" "0 < k" "script_read s k = (bs, e, s')"
  shows "length bs \<le> k \<and> script_content s = bs @ script_content s' \<and> script_ready s' \<and>
         (e = None \<and> bs \<noteq> [] \<or> e = Some EOF \<and> script_content s' = [])"
  using assms by (cases "(s, k)" rule: script_read.cases) (auto split: if_splits)

interpretation script: io_reader script_read script_content script_ready
  by unfold_locales (use script_read_spec in blast)+

section \<open>A memory writer\<close>

text \<open>A growing buffer; with \<open>w_room = Some n\<close> it fails once \<open>n\<close> more bytes were stored.\<close>

record mem_writer =
  w_out :: bytes
  w_room :: "nat option"

definition mem_write :: "mem_writer write_fn" where
  "mem_write w bs =
     (case w_room w of
        None \<Rightarrow> (None, w\<lparr>w_out := w_out w @ bs\<rparr>)
      | Some n \<Rightarrow>
          if length bs \<le> n then (None, w\<lparr>w_out := w_out w @ bs, w_room := Some (n - length bs)\<rparr>)
          else (Some (IOErr ''short write''), w\<lparr>w_out := w_out w @ take n bs, w_room := Some 0\<rparr>))"

definition mem_writable :: "mem_writer \<Rightarrow> bool" where
  "mem_writable w \<longleftrightarrow> w_room w = None"

interpretation mem: io_writer mem_write w_out mem_writable
  by unfold_locales (simp_all add: mem_write_def mem_writable_def)

end
