(* ===== verification/StreamFormat.thy ===== *)
theory StreamFormat
  imports Wire Crypto GoIO Errors
begin

text \<open>
  \<open>src/stream/format.go\<close>: the constants of the Basil streaming container v1, the suite
  tables, the fixed header, the additional authenticated data that binds a chunk (and a
  wrapped key) to its place, the counter nonce, the key derivation and the AEAD calls.
  Fixed-size Go arrays are byte lists whose length is a premise where it matters.
\<close>

section \<open>Constants\<close>

abbreviation (input) FormatVersion :: byte where "FormatVersion \<equiv> 1"
abbreviation (input) FixedHeaderLen :: nat where "FixedHeaderLen \<equiv> 61"
abbreviation (input) TagLen :: nat where "TagLen \<equiv> 16"
abbreviation (input) NonceLen :: nat where "NonceLen \<equiv> 12"
abbreviation (input) CEKLen :: nat where "CEKLen \<equiv> 32"
abbreviation (input) StreamIDLen :: nat where "StreamIDLen \<equiv> 16"
abbreviation (input) StreamSaltLen :: nat where "StreamSaltLen \<equiv> 32"
abbreviation (input) DefaultChunkSize :: nat where "DefaultChunkSize \<equiv> 64 * 1024"
abbreviation (input) MaxChunkSize :: nat where "MaxChunkSize \<equiv> 1048576"

definition magic :: bytes where
  "magic = bytes_of ''BSLSTR''"

definition chunkAADMagic :: bytes where
  "chunkAADMagic = bytes_of ''BSLA''"

definition cekWrapAADMagic :: bytes where
  "cekWrapAADMagic = bytes_of ''BSLK''"

definition streamCEKLabel :: bytes where
  "streamCEKLabel = bytes_of ''basil-stream-cek-v1''"

section \<open>Suites and errors\<close>

type_synonym suite = byte

abbreviation (input) SuiteAES256GCM :: suite where "SuiteAES256GCM \<equiv> 1"
abbreviation (input) SuiteChaCha20Poly1305 :: suite where "SuiteChaCha20Poly1305 \<equiv> 2"
abbreviation (input) SuiteMLKEM512 :: suite where "SuiteMLKEM512 \<equiv> 3"
abbreviation (input) SuiteMLKEM768 :: suite where "SuiteMLKEM768 \<equiv> 4"
abbreviation (input) SuiteMLKEM1024 :: suite where "SuiteMLKEM1024 \<equiv> 5"

text \<open>
  The sentinel errors, with the value an error wraps; \<open>ErrIO\<close> is an error of the underlying
  reader or writer passed through, \<open>ErrRng\<close> the wrapped failure of \<open>crypto/rand\<close>, and
  \<open>ErrRecovery\<close> an error that a key-recovery implementation returned.
\<close>

datatype stream_error =
    ErrBadMagic
  | ErrUnsupportedVersion byte
  | ErrUnsupportedSuite byte
  | ErrReservedFlags
  | ErrShortHeader
  | ErrBadChunkSize int
  | ErrChunkTooLarge
  | ErrSuiteMismatch "byte option"
  | ErrBadPublicKey
  | ErrBadCEKLength
  | ErrBadKEMCiphertext
  | ErrTruncated
  | ErrAuthFailed
  | ErrKDFFailed
  | ErrSealFailed
  | ErrIO io_error
  | ErrRng
  | ErrRecovery go_error

datatype chunkAEAD = aeadAES256GCM | aeadChaCha20Poly1305

record streamHeader =
  suiteID :: byte
  chunkSize :: u32
  streamID :: bytes
  streamSalt :: bytes

definition chunkAEADForSuite :: "byte \<Rightarrow> chunkAEAD option" where
  "chunkAEADForSuite sid =
     (if sid = SuiteAES256GCM \<or> sid = SuiteMLKEM512 \<or> sid = SuiteMLKEM768 \<or> sid = SuiteMLKEM1024
      then Some aeadAES256GCM
      else if sid = SuiteChaCha20Poly1305 then Some aeadChaCha20Poly1305
      else None)"

definition mlKemCiphertextLen :: "byte \<Rightarrow> nat option" where
  "mlKemCiphertextLen sid =
     (if sid = SuiteMLKEM512 then Some 768
      else if sid = SuiteMLKEM768 then Some 1088
      else if sid = SuiteMLKEM1024 then Some 1568
      else None)"

definition kemToken :: "byte \<Rightarrow> string option" where
  "kemToken sid =
     (if sid = SuiteMLKEM512 then Some ''ml-kem-512''
      else if sid = SuiteMLKEM768 then Some ''ml-kem-768''
      else if sid = SuiteMLKEM1024 then Some ''ml-kem-1024''
      else None)"

section \<open>The fixed header\<close>

definition writeFixedHeader :: "bytes \<Rightarrow> byte \<Rightarrow> u32 \<Rightarrow> bytes \<Rightarrow> bytes \<Rightarrow> bytes" where
  "writeFixedHeader out sid csize sID salt =
     out @ magic @ [FormatVersion] @ [sid] @ [0] @ put_be32 csize @ sID @ salt"

definition parseFixedHeader :: "bytes \<Rightarrow> (stream_error, streamHeader) result" where
  "parseFixedHeader buf =
     (if length buf < FixedHeaderLen then Inl ErrShortHeader
      else if take 6 buf \<noteq> magic then Inl ErrBadMagic
      else if buf ! 6 \<noteq> FormatVersion then Inl (ErrUnsupportedVersion (buf ! 6))
      else let sid = buf ! 7 in
      if buf ! 8 \<noteq> 0 then Inl ErrReservedFlags
      else if chunkAEADForSuite sid = None then Inl (ErrUnsupportedSuite sid)
      else let csize = get_be32 (take 4 (drop 9 buf)) in
      if csize < 1 \<or> csize > word_of_nat MaxChunkSize then Inl (ErrBadChunkSize (uint csize))
      else Inr \<lparr>suiteID = sid, chunkSize = csize,
                streamID = take 16 (drop 13 buf), streamSalt = take 32 (drop 29 buf)\<rparr>)"

section \<open>Additional authenticated data, nonces\<close>

definition buildChunkAAD :: "byte \<Rightarrow> bytes \<Rightarrow> u64 \<Rightarrow> bool \<Rightarrow> u32 \<Rightarrow> u32 \<Rightarrow> bytes" where
  "buildChunkAAD sid sID index isFinal ptLen csize =
     chunkAADMagic @ [FormatVersion] @ [sid] @ sID @ put_be64 index @
     (if isFinal then [1] else [0]) @ put_be32 ptLen @ put_be32 csize"

definition buildCEKWrapAAD :: "byte \<Rightarrow> bytes \<Rightarrow> bytes" where
  "buildCEKWrapAAD sid sID = cekWrapAADMagic @ [FormatVersion] @ [sid] @ sID"

definition chunkNonce :: "u64 \<Rightarrow> bytes" where
  "chunkNonce index = replicate 4 0 @ put_be64 index"

section \<open>Keys and the AEAD calls\<close>

definition deriveMessageKey :: "crypto \<Rightarrow> bytes \<Rightarrow> bytes \<Rightarrow> byte \<Rightarrow> bytes \<Rightarrow> (stream_error, bytes) result" where
  "deriveMessageKey cr salt cek sid sID =
     (case hkdf_Key cr cek salt (streamCEKLabel @ [sid] @ sID) CEKLen of
        None \<Rightarrow> Inl ErrKDFFailed
      | Some okm \<Rightarrow> Inr okm)"

text \<open>\<open>aes.NewCipher\<close> accepts 16, 24 and 32 byte keys; \<open>cipher.NewGCM\<close> accepts every AES block.\<close>

definition newAEAD :: "crypto \<Rightarrow> chunkAEAD \<Rightarrow> bytes \<Rightarrow> (stream_error, aead) result" where
  "newAEAD cr alg key =
     (case alg of
        aeadAES256GCM \<Rightarrow>
          (if length key \<in> {16, 24, 32} then Inr (aes_gcm cr key) else Inl ErrSealFailed)
      | aeadChaCha20Poly1305 \<Rightarrow>
          (case chacha20poly1305_New cr key of None \<Rightarrow> Inl ErrSealFailed | Some a \<Rightarrow> Inr a))"

definition aeadSeal :: "crypto \<Rightarrow> chunkAEAD \<Rightarrow> bytes \<Rightarrow> bytes \<Rightarrow> bytes \<Rightarrow> bytes \<Rightarrow> (stream_error, bytes) result" where
  "aeadSeal cr alg key nonce pt aad =
     (case newAEAD cr alg key of Inl e \<Rightarrow> Inl e | Inr a \<Rightarrow> Inr (Seal a nonce pt aad))"

definition aeadOpen :: "crypto \<Rightarrow> chunkAEAD \<Rightarrow> bytes \<Rightarrow> bytes \<Rightarrow> bytes \<Rightarrow> bytes \<Rightarrow> (stream_error, bytes) result" where
  "aeadOpen cr alg key nonce ct aad =
     (case newAEAD cr alg key of
        Inl e \<Rightarrow> Inl ErrAuthFailed
      | Inr a \<Rightarrow> (case Open a nonce ct aad of None \<Rightarrow> Inl ErrAuthFailed | Some pt \<Rightarrow> Inr pt))"

definition wipe :: "bytes \<Rightarrow> bytes" where
  "wipe b = map (\<lambda>_. 0) b"

section \<open>Lengths\<close>

lemma length_magics [simp, wire_simps]:
  "length magic = 6" "length chunkAADMagic = 4" "length cekWrapAADMagic = 4"
  by (simp_all add: magic_def chunkAADMagic_def cekWrapAADMagic_def)

lemma length_chunkNonce [simp, wire_simps]: "length (chunkNonce i) = 12"
  by (simp add: chunkNonce_def)

lemma length_writeFixedHeader [simp, wire_simps]:
  "length (writeFixedHeader out sid cs sID salt) = length out + 13 + length sID + length salt"
  by (simp add: writeFixedHeader_def)

lemma length_buildChunkAAD [simp, wire_simps]:
  "length (buildChunkAAD sid sID i f l cs) = 23 + length sID"
  by (simp add: buildChunkAAD_def)

lemma length_buildCEKWrapAAD [simp, wire_simps]:
  "length (buildCEKWrapAAD sid sID) = 6 + length sID"
  by (simp add: buildCEKWrapAAD_def)

section \<open>Header round trip\<close>

lemma parse_writeFixedHeader_layout:
  assumes "length sID = 16" "length salt = 32"
  shows "parseFixedHeader (writeFixedHeader [] sid cs sID salt @ rest) =
    (if chunkAEADForSuite sid = None then Inl (ErrUnsupportedSuite sid)
     else if cs < 1 \<or> cs > word_of_nat MaxChunkSize then Inl (ErrBadChunkSize (uint cs))
     else Inr \<lparr>suiteID = sid, chunkSize = cs, streamID = sID, streamSalt = salt\<rparr>)"
  using assms
  by (simp add: parseFixedHeader_def writeFixedHeader_def magic_def bytes_of_def Let_def)

lemma parseFixedHeader_InrD:
  assumes "parseFixedHeader buf = Inr h"
  shows "FixedHeaderLen \<le> length buf" "take 6 buf = magic" "buf ! 6 = FormatVersion" "buf ! 8 = 0"
    "chunkAEADForSuite (suiteID h) \<noteq> None" "chunkSize h \<noteq> 0" "chunkSize h \<le> word_of_nat MaxChunkSize"
    "h = \<lparr>suiteID = buf ! 7, chunkSize = get_be32 (take 4 (drop 9 buf)),
          streamID = take 16 (drop 13 buf), streamSalt = take 32 (drop 29 buf)\<rparr>"
  using assms by (auto simp: parseFixedHeader_def Let_def not_less split: if_splits)

lemma split_header_bytes:
  assumes "61 \<le> length buf"
  shows "take 61 buf = take 6 buf @ [buf ! 6] @ [buf ! 7] @ [buf ! 8] @ take 4 (drop 9 buf) @
           take 16 (drop 13 buf) @ take 32 (drop 29 buf)"
proof -
  have "drop 6 buf = [buf ! 6, buf ! 7, buf ! 8] @ drop 9 buf"
    using assms Cons_nth_drop_Suc [of 6 buf] Cons_nth_drop_Suc [of 7 buf] Cons_nth_drop_Suc [of 8 buf]
    by simp
  then have "buf = take 6 buf @ [buf ! 6, buf ! 7, buf ! 8] @ take 4 (drop 9 buf) @
           take 16 (drop 13 buf) @ take 32 (drop 29 buf) @ drop 61 buf"
    using take_drop_step [of 4 9 buf] take_drop_step [of 16 13 buf] take_drop_step [of 32 29 buf]
      append_take_drop_id [of 6 buf]
    by simp
  then have "take 61 buf @ drop 61 buf = (take 6 buf @ [buf ! 6] @ [buf ! 7] @ [buf ! 8] @
           take 4 (drop 9 buf) @ take 16 (drop 13 buf) @ take 32 (drop 29 buf)) @ drop 61 buf"
    by simp
  then show ?thesis by (simp only: append_same_eq)
qed

text \<open>An accepted header is the serialization of what was parsed from it.\<close>

lemma write_parseFixedHeader:
  assumes "parseFixedHeader buf = Inr h"
  shows "take FixedHeaderLen buf =
    writeFixedHeader [] (suiteID h) (chunkSize h) (streamID h) (streamSalt h)"
  unfolding writeFixedHeader_def
  using parseFixedHeader_InrD [OF assms]
  by (simp add: split_header_bytes put_get_be32)

lemma parseFixedHeader_lengths:
  assumes "parseFixedHeader buf = Inr h"
  shows "length (streamID h) = 16" "length (streamSalt h) = 32"
  using parseFixedHeader_InrD [OF assms] by simp_all

lemma max_chunk_word: "unat (word_of_nat MaxChunkSize :: u32) = MaxChunkSize"
  by simp

lemma parseFixedHeader_chunk_bounds:
  assumes "parseFixedHeader buf = Inr h"
  shows "0 < unat (chunkSize h)" "unat (chunkSize h) \<le> MaxChunkSize"
  using parseFixedHeader_InrD (6,7) [OF assms]
  by (simp_all add: unat_gt_0 word_le_nat_alt)

section \<open>Injectivity of the bindings\<close>

lemma buildChunkAAD_inject:
  assumes "length sID = length sID'"
  shows "buildChunkAAD sid sID i f l cs = buildChunkAAD sid' sID' i' f' l' cs' \<longleftrightarrow>
    sid = sid' \<and> sID = sID' \<and> i = i' \<and> f = f' \<and> l = l' \<and> cs = cs'"
  using assms by (auto simp: buildChunkAAD_def split: if_splits)

lemma buildCEKWrapAAD_inject:
  assumes "length sID = length sID'"
  shows "buildCEKWrapAAD sid sID = buildCEKWrapAAD sid' sID' \<longleftrightarrow> sid = sid' \<and> sID = sID'"
  using assms by (auto simp: buildCEKWrapAAD_def)

lemma chunkNonce_inject [simp]: "chunkNonce i = chunkNonce j \<longleftrightarrow> i = j"
  by (simp add: chunkNonce_def)

lemma aad_domains_disjoint: "buildChunkAAD sid sID i f l cs \<noteq> buildCEKWrapAAD sid' sID'"
  by (simp add: buildChunkAAD_def buildCEKWrapAAD_def chunkAADMagic_def cekWrapAADMagic_def bytes_of_def)

section \<open>Constructed ciphers\<close>

lemma newAEAD_ok:
  assumes "crypto_law cr" "length key = 32"
  obtains a where "newAEAD cr alg key = Inr a" "aead_law a"
  using assms unfolding crypto_law_def newAEAD_def by (cases alg) fastforce+

lemma deriveMessageKey_ok:
  assumes "crypto_law cr"
  obtains k where "deriveMessageKey cr salt cek sid sID = Inr k" "length k = 32"
proof -
  obtain okm where "hkdf_Key cr cek salt (streamCEKLabel @ [sid] @ sID) CEKLen = Some okm" "length okm = CEKLen"
    by (rule crypto_law_hkdf [OF assms, of CEKLen]) simp_all
  then show ?thesis by (intro that [of okm]) (simp_all add: deriveMessageKey_def)
qed

end
