(* ===== verification/StreamIO.thy ===== *)
theory StreamIO
  imports StreamFormat
begin

text \<open>
  The reading primitives at the end of \<open>src/stream/stream.go\<close>: \<open>readFull\<close> (a loop over
  \<open>Read\<close>), the length prefix, the bounded record and the fixed header. Each takes the
  reader's \<open>Read\<close> function and state and returns its result with the next reader state. In the
  context of a well-behaved reader each one is a function of the remaining content alone.
\<close>

section \<open>Operations\<close>

text \<open>
  \<open>readFull\<close> accumulates bytes until the buffer of length \<open>len\<close> is full. The loop ends on
  \<open>io.EOF\<close>, on an error, on a read of no bytes, or when the buffer is full; every other
  iteration adds a byte, so it needs at most \<open>len\<close> iterations.
\<close>

function readFull_loop :: "'r read_fn \<Rightarrow> 'r \<Rightarrow> nat \<Rightarrow> bytes \<Rightarrow> bytes \<times> io_error option \<times> 'r" where
  "readFull_loop rd s len filled =
     (if length filled < len then
        (case rd s (len - length filled) of
           (bs, Some EOF, s') \<Rightarrow> (filled @ bs, None, s')
         | (bs, Some (IOErr m), s') \<Rightarrow> (filled @ bs, Some (IOErr m), s')
         | (bs, None, s') \<Rightarrow>
             if bs = [] then (filled @ bs, None, s')
             else readFull_loop rd s' len (filled @ bs))
      else (filled, None, s))"
  by pat_completeness auto
termination
  by (relation "measure (\<lambda>(rd, s, len, filled). len - length filled)") (auto simp: fill_decreases)

declare readFull_loop.simps [simp del]

definition readFull :: "'r read_fn \<Rightarrow> 'r \<Rightarrow> nat \<Rightarrow> (stream_error, bytes) result \<times> 'r" where
  "readFull rd s len =
     (case readFull_loop rd s len [] of
        (bs, None, s') \<Rightarrow> (Inr bs, s')
      | (bs, Some EOF, s') \<Rightarrow> (Inr bs, s')
      | (bs, Some (IOErr m), s') \<Rightarrow> (Inl (ErrIO (IOErr m)), s'))"

definition readRecordExact :: "'r read_fn \<Rightarrow> 'r \<Rightarrow> nat \<Rightarrow> (stream_error, bytes) result \<times> 'r" where
  "readRecordExact rd s n =
     (case readFull rd s n of
        (Inl e, s') \<Rightarrow> (Inl e, s')
      | (Inr got, s') \<Rightarrow> if length got \<noteq> n then (Inl ErrTruncated, s') else (Inr got, s'))"

definition readRecord :: "'r read_fn \<Rightarrow> 'r \<Rightarrow> u32 \<Rightarrow> nat \<Rightarrow> (stream_error, bytes) result \<times> 'r" where
  "readRecord rd s len maxRecord =
     (if unat len > maxRecord then (Inl ErrChunkTooLarge, s)
      else readRecordExact rd s (unat len))"

text \<open>\<open>(0, false, nil)\<close>, a clean end, is \<open>Inr None\<close>.\<close>

definition readLenPrefix :: "'r read_fn \<Rightarrow> 'r \<Rightarrow> (stream_error, u32 option) result \<times> 'r" where
  "readLenPrefix rd s =
     (case readFull rd s 4 of
        (Inl e, s') \<Rightarrow> (Inl e, s')
      | (Inr got, s') \<Rightarrow>
          if length got = 0 then (Inr None, s')
          else if length got = 4 then (Inr (Some (get_be32 got)), s')
          else (Inl ErrTruncated, s'))"

definition readFixedHeader :: "'r read_fn \<Rightarrow> 'r \<Rightarrow> (stream_error, streamHeader) result \<times> 'r" where
  "readFixedHeader rd s =
     (case readFull rd s FixedHeaderLen of
        (Inl e, s') \<Rightarrow> (Inl e, s')
      | (Inr got, s') \<Rightarrow>
          if length got \<noteq> FixedHeaderLen then (Inl ErrShortHeader, s')
          else (parseFixedHeader got, s'))"

section \<open>Bounds that hold for every reader\<close>

text \<open>
  A reader that never stores more bytes than the slice it was given (the one rule of
  \<open>io.Reader\<close> that memory safety rests on) never overfills the buffer, whatever else it does.
\<close>

lemma readFull_loop_length:
  assumes "\<And>s k bs e s'. rd s k = (bs, e, s') \<Longrightarrow> length bs \<le> k"
    and "length filled \<le> len"
  shows "length (fst (readFull_loop rd s len filled)) \<le> len"
  using assms
proof (induction rd s len filled rule: readFull_loop.induct)
  case (1 rd s len filled)
  obtain bs e s' where r: "rd s (len - length filled) = (bs, e, s')"
    by (cases "rd s (len - length filled)") auto
  from "1.prems"(1) [OF r] "1.prems"(2) have le: "length (filled @ bs) \<le> len" by simp
  show ?case
  proof (cases "length filled < len \<and> e = None \<and> bs \<noteq> []")
    case True
    with "1.IH" [of bs "(e, s')" e s'] r le "1.prems"(1)
    have "length (fst (readFull_loop rd s' len (filled @ bs))) \<le> len" by simp
    with True r show ?thesis by (simp add: readFull_loop.simps [of rd s])
  next
    case False
    with r le "1.prems"(2) show ?thesis
      by (auto simp: readFull_loop.simps [of rd s] split: option.splits io_error.splits)
  qed
qed

section \<open>Well-behaved readers\<close>

context io_reader
begin

lemma readFull_loop_spec:
  assumes "ready s" "length filled \<le> len"
  shows "\<exists>s'. readFull_loop rd s len filled = (filled @ take (len - length filled) (content s), None, s') \<and>
     ready s' \<and> content s' = drop (len - length filled) (content s)"
  using assms
proof (induction "len - length filled" arbitrary: s filled rule: less_induct)
  case less
  show ?case
  proof (cases "length filled < len")
    case False
    with less.prems show ?thesis by (auto simp: readFull_loop.simps [of rd s])
  next
    case True
    let ?k = "len - length filled"
    obtain bs e s' where r: "rd s ?k = (bs, e, s')" by (cases "rd s ?k") auto
    have k: "0 < ?k" using True by simp
    note facts = read_length [OF less.prems(1) k r] read_content [OF less.prems(1) k r]
      read_ready [OF less.prems(1) k r] read_progress [OF less.prems(1) k r]
    show ?thesis
    proof (cases e)
      case None
      with facts have ne: "bs \<noteq> []" by simp
      then have "len - length (filled @ bs) < ?k" "length (filled @ bs) \<le> len"
        using facts(1) True by (simp_all add: fill_decreases)
      from less.hyps [OF this(1) facts(3) this(2)] show ?thesis
        using True r None ne facts(1,2) by (simp add: readFull_loop.simps [of rd s])
    next
      case (Some x)
      with facts have "x = EOF" "content s' = []" by auto
      with Some r True facts show ?thesis by (simp add: readFull_loop.simps [of rd s])
    qed
  qed
qed

lemma readFull_spec:
  assumes "ready s"
  obtains s' where "readFull rd s n = (Inr (take n (content s)), s')" "ready s'"
    "content s' = drop n (content s)"
  using readFull_loop_spec [OF assms, of "[]" n] by (auto simp: readFull_def)

lemma readRecordExact_spec:
  assumes "ready s"
  obtains s' where "readRecordExact rd s n =
      ((if n \<le> length (content s) then Inr (take n (content s)) else Inl ErrTruncated), s')"
    "ready s'" "content s' = drop n (content s)"
  by (rule readFull_spec [OF assms, of n]) (auto simp: readRecordExact_def intro!: that)

lemma readRecord_spec:
  assumes "ready s"
  obtains s' where "readRecord rd s len mx =
      ((if mx < unat len then Inl ErrChunkTooLarge
        else if unat len \<le> length (content s) then Inr (take (unat len) (content s))
        else Inl ErrTruncated), s')"
    "ready s'" "\<not> mx < unat len \<longrightarrow> content s' = drop (unat len) (content s)"
proof (cases "mx < unat len")
  case True
  then show ?thesis using assms by (intro that [of s]) (simp_all add: readRecord_def)
next
  case False
  show ?thesis
    by (rule readRecordExact_spec [OF assms, of "unat len"])
      (use False in \<open>auto simp: readRecord_def intro!: that\<close>)
qed

lemma readLenPrefix_spec:
  assumes "ready s"
  obtains s' where "readLenPrefix rd s =
      ((if content s = [] then Inr None
        else if 4 \<le> length (content s) then Inr (Some (get_be32 (take 4 (content s))))
        else Inl ErrTruncated), s')"
    "ready s'" "content s' = drop 4 (content s)"
  by (rule readFull_spec [OF assms, of 4]) (auto simp: readLenPrefix_def min_def intro!: that)

lemma readFixedHeader_spec:
  assumes "ready s"
  obtains s' where "readFixedHeader rd s =
      ((if length (content s) < FixedHeaderLen then Inl ErrShortHeader
        else parseFixedHeader (take FixedHeaderLen (content s))), s')"
    "ready s'" "content s' = drop FixedHeaderLen (content s)"
  by (rule readFull_spec [OF assms, of FixedHeaderLen])
    (auto simp: readFixedHeader_def min_def intro!: that)

end

end
