(* ===== verification/StreamChunks.thy ===== *)
theory StreamChunks
  imports StreamIO
begin

text \<open>
  The two chunk loops of \<open>src/stream/stream.go\<close>. \<open>writeChunks\<close> reads one chunk ahead so that it
  can mark the last chunk final; \<open>readChunks\<close> reads the next length prefix before it opens the
  current record. Neither loop is bounded by its arguments (a reader may never end), so both are
  partial functions whose value \<open>None\<close> means that the loop does not return. The second half
  of the theory gives the reference: what bytes a plaintext becomes (\<open>split_chunks\<close>,
  \<open>seal_chunks\<close>) and how a byte string is opened (\<open>open_records\<close>), and shows that on
  well-behaved streams the loops return and compute exactly that.
\<close>

section \<open>The loops\<close>

record chunkCrypto =
  c_suiteID :: byte
  c_chunkAEAD :: chunkAEAD
  c_chunkSize :: nat
  c_streamID :: bytes
  c_messageKey :: bytes

text \<open>The arguments both loops give to \<open>buildChunkAAD\<close>.\<close>

definition chunk_aad :: "chunkCrypto \<Rightarrow> u64 \<Rightarrow> bool \<Rightarrow> nat \<Rightarrow> bytes" where
  "chunk_aad c index isFinal ptLen =
     buildChunkAAD (c_suiteID c) (c_streamID c) index isFinal (word_of_nat ptLen)
       (word_of_nat (c_chunkSize c))"

partial_function (option) writeChunks_loop ::
  "crypto \<Rightarrow> 'r read_fn \<Rightarrow> 'w write_fn \<Rightarrow> chunkCrypto \<Rightarrow> u64 \<Rightarrow> bytes \<Rightarrow> 'w \<Rightarrow> 'r \<Rightarrow>
   (stream_error option \<times> 'w \<times> 'r) option" where
  "writeChunks_loop cr rd wr c index current w s =
     (case readFull rd s (c_chunkSize c) of
        (Inl e, s1) \<Rightarrow> Some (Some e, w, s1)
      | (Inr nxt, s1) \<Rightarrow>
          (case aeadSeal cr (c_chunkAEAD c) (c_messageKey c) (chunkNonce index) current
                  (chunk_aad c index (length nxt = 0) (length current)) of
             Inl e \<Rightarrow> Some (Some e, w, s1)
           | Inr record \<Rightarrow>
               (case wr w (put_be32 (word_of_nat (length record))) of
                  (Some e, w1) \<Rightarrow> Some (Some (ErrIO e), w1, s1)
                | (None, w1) \<Rightarrow>
                    (case wr w1 record of
                       (Some e, w2) \<Rightarrow> Some (Some (ErrIO e), w2, s1)
                     | (None, w2) \<Rightarrow>
                         if length nxt = 0 then Some (None, w2, s1)
                         else writeChunks_loop cr rd wr c (index + 1) nxt w2 s1))))"

definition writeChunks ::
  "crypto \<Rightarrow> 'r read_fn \<Rightarrow> 'w write_fn \<Rightarrow> 'w \<Rightarrow> 'r \<Rightarrow> bytes \<Rightarrow> chunkCrypto \<Rightarrow>
   (stream_error option \<times> 'w \<times> 'r) option" where
  "writeChunks cr rd wr dst src header c =
     (case wr dst header of
        (Some e, w1) \<Rightarrow> Some (Some (ErrIO e), w1, src)
      | (None, w1) \<Rightarrow>
          (case readFull rd src (c_chunkSize c) of
             (Inl e, s1) \<Rightarrow> Some (Some e, w1, s1)
           | (Inr current, s1) \<Rightarrow> writeChunks_loop cr rd wr c 0 current w1 s1))"

partial_function (option) readChunks_loop ::
  "crypto \<Rightarrow> 'r read_fn \<Rightarrow> 'w write_fn \<Rightarrow> chunkCrypto \<Rightarrow> u64 \<Rightarrow> bytes \<Rightarrow> 'w \<Rightarrow> 'r \<Rightarrow>
   (stream_error option \<times> 'w \<times> 'r) option" where
  "readChunks_loop cr rd wr c index current w s =
     (case readLenPrefix rd s of
        (Inl e, s1) \<Rightarrow> Some (Some e, w, s1)
      | (Inr nextLen, s1) \<Rightarrow>
          if length current < TagLen then Some (Some ErrAuthFailed, w, s1)
          else
            (case aeadOpen cr (c_chunkAEAD c) (c_messageKey c) (chunkNonce index) current
                    (chunk_aad c index (nextLen = None) (length current - TagLen)) of
               Inl e \<Rightarrow> Some (Some e, w, s1)
             | Inr plaintext \<Rightarrow>
                 if nextLen \<noteq> None \<and> length current - TagLen \<noteq> c_chunkSize c
                 then Some (Some ErrAuthFailed, w, s1)
                 else
                   (case wr w plaintext of
                      (Some e, w1) \<Rightarrow> Some (Some (ErrIO e), w1, s1)
                    | (None, w1) \<Rightarrow>
                        (case nextLen of
                           None \<Rightarrow> Some (None, w1, s1)
                         | Some len \<Rightarrow>
                             (case readRecord rd s1 len (c_chunkSize c + TagLen) of
                                (Inl e, s2) \<Rightarrow> Some (Some e, w1, s2)
                              | (Inr record, s2) \<Rightarrow>
                                  readChunks_loop cr rd wr c (index + 1) record w1 s2)))))"

definition readChunks ::
  "crypto \<Rightarrow> 'r read_fn \<Rightarrow> 'w write_fn \<Rightarrow> 'w \<Rightarrow> 'r \<Rightarrow> chunkCrypto \<Rightarrow>
   (stream_error option \<times> 'w \<times> 'r) option" where
  "readChunks cr rd wr dst src c =
     (case readLenPrefix rd src of
        (Inl e, s1) \<Rightarrow> Some (Some e, dst, s1)
      | (Inr None, s1) \<Rightarrow> Some (Some ErrTruncated, dst, s1)
      | (Inr (Some firstLen), s1) \<Rightarrow>
          (case readRecord rd s1 firstLen (c_chunkSize c + TagLen) of
             (Inl e, s2) \<Rightarrow> Some (Some e, dst, s2)
           | (Inr current, s2) \<Rightarrow> readChunks_loop cr rd wr c 0 current dst s2))"

section \<open>Reference: the bytes of a plaintext\<close>

function split_chunks :: "nat \<Rightarrow> bytes \<Rightarrow> bytes list" where
  "split_chunks n xs =
     (if n = 0 \<or> length xs \<le> n then [xs] else take n xs # split_chunks n (drop n xs))"
  by pat_completeness auto
termination
  by (relation "measure (\<lambda>(n, xs). length xs)") auto

declare split_chunks.simps [simp del]

definition seal_record :: "aead \<Rightarrow> chunkCrypto \<Rightarrow> u64 \<Rightarrow> bool \<Rightarrow> bytes \<Rightarrow> bytes" where
  "seal_record a c index isFinal p = Seal a (chunkNonce index) p (chunk_aad c index isFinal (length p))"

definition frame :: "bytes \<Rightarrow> bytes" where
  "frame r = put_be32 (word_of_nat (length r)) @ r"

fun seal_chunks :: "aead \<Rightarrow> chunkCrypto \<Rightarrow> u64 \<Rightarrow> bytes list \<Rightarrow> bytes" where
  "seal_chunks a c index [] = []"
| "seal_chunks a c index [p] = frame (seal_record a c index True p)"
| "seal_chunks a c index (p # q # ps) =
     frame (seal_record a c index False p) @ seal_chunks a c (index + 1) (q # ps)"

section \<open>Reference: opening a byte string\<close>

text \<open>The plaintext released, and the error that ended the stream, if any.\<close>

function open_records :: "crypto \<Rightarrow> chunkCrypto \<Rightarrow> u64 \<Rightarrow> bytes \<Rightarrow> bytes \<Rightarrow> bytes \<times> stream_error option" where
  "open_records cr c index current bs =
     (if bs \<noteq> [] \<and> length bs < 4 then ([], Some ErrTruncated)
      else if length current < TagLen then ([], Some ErrAuthFailed)
      else
        (case aeadOpen cr (c_chunkAEAD c) (c_messageKey c) (chunkNonce index) current
                (chunk_aad c index (bs = []) (length current - TagLen)) of
           Inl e \<Rightarrow> ([], Some e)
         | Inr p \<Rightarrow>
             if bs = [] then (p, None)
             else if length current - TagLen \<noteq> c_chunkSize c then ([], Some ErrAuthFailed)
             else
               (let len = unat (get_be32 (take 4 bs)); body = drop 4 bs in
                if c_chunkSize c + TagLen < len then (p, Some ErrChunkTooLarge)
                else if length body < len then (p, Some ErrTruncated)
                else
                  (case open_records cr c (index + 1) (take len body) (drop len body) of
                     (q, e) \<Rightarrow> (p @ q, e)))))"
  by pat_completeness auto
termination
  by (relation "measure (\<lambda>(cr, c, index, current, bs). length bs)") auto

declare open_records.simps [simp del]

definition open_stream :: "crypto \<Rightarrow> chunkCrypto \<Rightarrow> bytes \<Rightarrow> bytes \<times> stream_error option" where
  "open_stream cr c bs =
     (if length bs < 4 then ([], Some ErrTruncated)
      else
        (let len = unat (get_be32 (take 4 bs)); body = drop 4 bs in
         if c_chunkSize c + TagLen < len then ([], Some ErrChunkTooLarge)
         else if length body < len then ([], Some ErrTruncated)
         else open_records cr c 0 (take len body) (drop len body)))"

section \<open>The loops refine the reference\<close>

lemma split_chunks_unfold:
  assumes "0 < n"
  shows "split_chunks n xs =
    take n xs # (if drop n xs = [] then [] else split_chunks n (drop n xs))"
  using assms by (simp add: split_chunks.simps [of n xs])

lemma concat_split_chunks: "concat (split_chunks n xs) = xs"
  by (induction n xs rule: split_chunks.induct) (simp add: split_chunks.simps)

lemma split_chunks_not_Nil [simp]: "split_chunks n xs \<noteq> []"
  by (simp add: split_chunks.simps)

lemma aeadSeal_eq: "newAEAD cr alg key = Inr a \<Longrightarrow> aeadSeal cr alg key n p ad = Inr (Seal a n p ad)"
  by (simp add: aeadSeal_def)

lemma aeadOpen_eq:
  "newAEAD cr alg key = Inr a \<Longrightarrow>
   aeadOpen cr alg key n ct ad = (case Open a n ct ad of None \<Rightarrow> Inl ErrAuthFailed | Some p \<Rightarrow> Inr p)"
  by (simp add: aeadOpen_def)

locale stream_io = io_reader rd content ready + io_writer wr written writable
  for rd :: "'r read_fn" and content :: "'r \<Rightarrow> bytes" and ready :: "'r \<Rightarrow> bool"
    and wr :: "'w write_fn" and written :: "'w \<Rightarrow> bytes" and writable :: "'w \<Rightarrow> bool"
begin

lemma writeChunks_loop_spec:
  assumes "newAEAD cr (c_chunkAEAD c) (c_messageKey c) = Inr a" "0 < c_chunkSize c"
    and "ready s" "writable w"
  shows "\<exists>w' s'. writeChunks_loop cr rd wr c i cur w s = Some (None, w', s') \<and>
    writable w' \<and> ready s' \<and> content s' = [] \<and>
    written w' = written w @ seal_chunks a c i
      (cur # (if content s = [] then [] else split_chunks (c_chunkSize c) (content s)))"
  using assms(3,4)
proof (induction "length (content s)" arbitrary: s w i cur rule: less_induct)
  case less
  let ?n = "c_chunkSize c"
  obtain s1 where rf: "readFull rd s ?n = (Inr (take ?n (content s)), s1)" "ready s1"
    "content s1 = drop ?n (content s)"
    by (rule readFull_spec [OF less.prems(1)])
  let ?nxt = "take ?n (content s)"
  let ?r = "seal_record a c i (content s = []) cur"
  obtain w1 where w1: "wr w (put_be32 (word_of_nat (length ?r))) = (None, w1)" "writable w1"
    "written w1 = written w @ put_be32 (word_of_nat (length ?r))"
    by (rule write_cases [OF less.prems(2)])
  obtain w2 where w2: "wr w1 ?r = (None, w2)" "writable w2" "written w2 = written w1 @ ?r"
    by (rule write_cases [OF w1(2)])
  have step: "writeChunks_loop cr rd wr c i cur w s =
    (if content s = [] then Some (None, w2, s1)
     else writeChunks_loop cr rd wr c (i + 1) ?nxt w2 s1)"
    using rf w1 w2 assms(1,2)
    by (cases "content s = []")
      (simp_all add: writeChunks_loop.simps [of cr rd wr c i cur] aeadSeal_eq seal_record_def del: length_take)
  have out: "written w2 = written w @ frame ?r"
    using w1 w2 by (simp add: frame_def)
  show ?case
  proof (cases "content s = []")
    case True
    with step rf out w2 show ?thesis by simp
  next
    case False
    then have "length (content s1) < length (content s)"
      using assms(2) rf(3) by simp
    from less.hyps [OF this(1) rf(2) w2(2), of "i + 1" ?nxt] show ?thesis
      using False step out rf(3) assms(2) split_chunks_unfold [OF assms(2), of "content s"]
      by (auto simp: frame_def)
  qed
qed

lemma writeChunks_spec:
  assumes "newAEAD cr (c_chunkAEAD c) (c_messageKey c) = Inr a" "0 < c_chunkSize c"
    and "ready s" "writable w"
  obtains w' s' where "writeChunks cr rd wr w s header c = Some (None, w', s')"
    "writable w'" "ready s'" "content s' = []"
    "written w' = written w @ header @ seal_chunks a c 0 (split_chunks (c_chunkSize c) (content s))"
proof -
  let ?n = "c_chunkSize c"
  obtain w1 where w1: "wr w header = (None, w1)" "writable w1" "written w1 = written w @ header"
    by (rule write_cases [OF assms(4)])
  obtain s1 where rf: "readFull rd s ?n = (Inr (take ?n (content s)), s1)" "ready s1"
    "content s1 = drop ?n (content s)"
    by (rule readFull_spec [OF assms(3)])
  from writeChunks_loop_spec [OF assms(1,2) rf(2) w1(2), of 0 "take ?n (content s)"]
  show ?thesis
    using w1 rf split_chunks_unfold [OF assms(2), of "content s"]
    by (auto simp: writeChunks_def intro: that)
qed

lemma readChunks_loop_spec:
  assumes "ready s" "writable w"
  shows "\<exists>w' s'. readChunks_loop cr rd wr c i cur w s =
      Some (snd (open_records cr c i cur (content s)), w', s') \<and>
    writable w' \<and> written w' = written w @ fst (open_records cr c i cur (content s))"
  using assms
proof (induction "length (content s)" arbitrary: s w i cur rule: less_induct)
  case less
  let ?C = "content s"
  obtain s1 where lp: "readLenPrefix rd s = ((if ?C = [] then Inr None
        else if 4 \<le> length ?C then Inr (Some (get_be32 (take 4 ?C))) else Inl ErrTruncated), s1)"
    "ready s1" "content s1 = drop 4 ?C"
    by (rule readLenPrefix_spec [OF less.prems(1)])
  note unf = readChunks_loop.simps [of cr rd wr c i cur w s] open_records.simps [of cr c i cur ?C]
  let ?open = "aeadOpen cr (c_chunkAEAD c) (c_messageKey c) (chunkNonce i) cur
    (chunk_aad c i (?C = []) (length cur - 16))"
  show ?case
  proof (cases "(?C \<noteq> [] \<and> length ?C < 4) \<or> length cur < 16 \<or> (\<exists>e. ?open = Inl e) \<or>
      (?C \<noteq> [] \<and> length cur - 16 \<noteq> c_chunkSize c)")
    case True
    with lp less.prems show ?thesis by (auto simp: unf split: sum.splits)
  next
    case False
    then obtain p where p: "?open = Inr p" by (cases ?open) auto
    obtain w1 where w1: "wr w p = (None, w1)" "writable w1" "written w1 = written w @ p"
      by (rule write_cases [OF less.prems(2)])
    show ?thesis
    proof (cases "?C = []")
      case True
      with False p w1 lp show ?thesis by (simp add: unf open_records.simps [of cr c i cur "[]"])
    next
      case ne: False
      let ?len = "get_be32 (take 4 ?C)"
      obtain s2 where rr: "readRecord rd s1 ?len (c_chunkSize c + 16) =
          ((if c_chunkSize c + 16 < unat ?len then Inl ErrChunkTooLarge
            else if unat ?len \<le> length (content s1) then Inr (take (unat ?len) (content s1))
            else Inl ErrTruncated), s2)" "ready s2"
          "\<not> c_chunkSize c + 16 < unat ?len \<longrightarrow> content s2 = drop (unat ?len) (content s1)"
        by (rule readRecord_spec [OF lp(2), where len = ?len and mx = "c_chunkSize c + 16"])
      show ?thesis
      proof (cases "c_chunkSize c + 16 < unat ?len \<or> length (content s1) < unat ?len")
        case True
        with ne False p w1 lp rr(1) show ?thesis by (auto simp: unf)
      next
        case fits: False
        with rr lp(3) have c2: "content s2 = drop (unat ?len) (drop 4 ?C)" by simp
        with ne have "length (content s2) < length ?C" by simp
        from less.hyps [OF this rr(2) w1(2), of "i + 1" "take (unat ?len) (content s1)"] c2 lp(3)
        obtain w' s' q e where
          rest: "open_records cr c (i + 1) (take (unat ?len) (drop 4 ?C)) (drop (unat ?len) (drop 4 ?C)) = (q, e)"
          and run: "readChunks_loop cr rd wr c (i + 1) (take (unat ?len) (drop 4 ?C)) w1 s2 = Some (e, w', s')"
          and "writable w'" "written w' = written w1 @ q"
          by (cases "open_records cr c (i + 1) (take (unat ?len) (drop 4 ?C)) (drop (unat ?len) (drop 4 ?C))")
            auto
        moreover have "open_records cr c i cur ?C = (p @ q, e)"
          using ne False p lp(3) fits rest by (simp add: unf(2) Let_def)
        moreover have "readChunks_loop cr rd wr c i cur w s = Some (e, w', s')"
          using ne False p w1 lp rr(1) fits run by (simp add: unf(1))
        ultimately show ?thesis using w1(3) by simp
      qed
    qed
  qed
qed

lemma readChunks_spec:
  assumes "ready s" "writable w"
  obtains w' s' where "readChunks cr rd wr w s c = Some (snd (open_stream cr c (content s)), w', s')"
    "writable w'" "written w' = written w @ fst (open_stream cr c (content s))"
proof -
  let ?C = "content s" and ?len = "get_be32 (take 4 (content s))"
  obtain s1 where lp: "readLenPrefix rd s = ((if ?C = [] then Inr None
        else if 4 \<le> length ?C then Inr (Some ?len) else Inl ErrTruncated), s1)"
    "ready s1" "content s1 = drop 4 ?C"
    by (rule readLenPrefix_spec [OF assms(1)])
  obtain s2 where rr: "readRecord rd s1 ?len (c_chunkSize c + 16) =
      ((if c_chunkSize c + 16 < unat ?len then Inl ErrChunkTooLarge
        else if unat ?len \<le> length (content s1) then Inr (take (unat ?len) (content s1))
        else Inl ErrTruncated), s2)" "ready s2"
      "\<not> c_chunkSize c + 16 < unat ?len \<longrightarrow> content s2 = drop (unat ?len) (content s1)"
    by (rule readRecord_spec [OF lp(2), where len = ?len and mx = "c_chunkSize c + 16"])
  show ?thesis
  proof (cases "length ?C < 4 \<or> c_chunkSize c + 16 < unat ?len \<or> length (content s1) < unat ?len")
    case True
    with lp rr(1) assms(2) show ?thesis
      by (intro that [of w "if length ?C < 4 then s1 else s2"])
        (auto simp: readChunks_def open_stream_def Let_def)
  next
    case False
    then have "content s2 = drop (unat ?len) (drop 4 ?C)" using rr(3) lp(3) by simp
    with readChunks_loop_spec [OF rr(2) assms(2), of cr c 0 "take (unat ?len) (content s1)"] lp(3)
    obtain w' s' where run: "readChunks_loop cr rd wr c 0 (take (unat ?len) (drop 4 ?C)) w s2 =
        Some (snd (open_stream cr c ?C), w', s')"
      "writable w'" "written w' = written w @ fst (open_stream cr c ?C)"
      using False by (auto simp: open_stream_def Let_def)
    moreover from False have "?C \<noteq> []" by auto
    ultimately show ?thesis
      using False lp rr(1) by (intro that [of w' s']) (simp_all add: readChunks_def)
  qed
qed

end

interpretation sio: stream_io script_read script_content script_ready mem_write w_out mem_writable
  by unfold_locales

end
