(* ===== verification/StreamSecurity.thy ===== *)
theory StreamSecurity
  imports StreamChunks "HOL-Library.Sublist"
begin

text \<open>
  What the chunk format guarantees, on the reference functions of \<open>StreamChunks\<close>: sealing and
  opening are inverse, an accepted byte string is the sealing of what was released, and a run
  that opens no record other than the genuine ones releases a prefix of the genuine plaintext
  and accepts nothing but the genuine stream. \<open>sealed_log\<close> lists the AEAD calls of an
  encryption and \<open>opened_log\<close> the successful AEAD openings of a decryption.
\<close>

section \<open>Well-formed chunk lists\<close>

fun wf_chunks :: "nat \<Rightarrow> bytes list \<Rightarrow> bool" where
  "wf_chunks n [] = False"
| "wf_chunks n [p] = (length p \<le> n)"
| "wf_chunks n (p # q # ps) = (length p = n \<and> wf_chunks n (q # ps))"

lemma wf_split_chunks: "0 < n \<Longrightarrow> wf_chunks n (split_chunks n xs)"
proof (induction n xs rule: split_chunks.induct)
  case (1 n xs)
  show ?case
  proof (cases "length xs \<le> n")
    case True
    then show ?thesis by (simp add: split_chunks.simps [of n xs])
  next
    case False
    with 1 have "wf_chunks n (split_chunks n (drop n xs))" by simp
    with False "1.prems" show ?thesis
      by (cases "split_chunks n (drop n xs)") (simp_all add: split_chunks.simps [of n xs])
  qed
qed

lemma wf_chunks_tl: "wf_chunks n (p # ps) \<Longrightarrow> ps \<noteq> [] \<Longrightarrow> wf_chunks n ps"
  by (cases ps) simp_all

lemma wf_chunks_hd: "wf_chunks n (p # ps) \<Longrightarrow> length p \<le> n \<and> (ps \<noteq> [] \<longrightarrow> length p = n)"
  by (cases ps) simp_all

lemma seal_chunks_Cons:
  "seal_chunks a c i (p # ps) = frame (seal_record a c i (ps = []) p) @ seal_chunks a c (i + 1) ps"
  by (cases ps) simp_all

lemma seal_chunks_Nil_iff [simp]: "seal_chunks a c i ps = [] \<longleftrightarrow> ps = []"
  by (cases ps) (simp_all add: seal_chunks_Cons frame_def put_be32_def)

lemma length_seal_chunks_ge: "ps \<noteq> [] \<Longrightarrow> 4 \<le> length (seal_chunks a c i ps)"
  by (cases ps) (simp_all add: seal_chunks_Cons frame_def)

lemma length_seal_record:
  "aead_law a \<Longrightarrow> length (seal_record a c i f p) = length p + 16"
  by (simp add: seal_record_def aead_law_length)

text \<open>A frame whose body fits in 32 bits is decoded by its own length prefix.\<close>

lemma frame_decode:
  assumes "length r < 2 ^ 32"
  shows "unat (get_be32 (take 4 (frame r @ rest))) = length r" "drop 4 (frame r @ rest) = r @ rest"
    "4 \<le> length (frame r @ rest)" "frame r @ rest \<noteq> []"
proof -
  show "unat (get_be32 (take 4 (frame r @ rest))) = length r"
    using assms by (simp add: frame_def unat_word_of_nat32)
  show "drop 4 (frame r @ rest) = r @ rest" "4 \<le> length (frame r @ rest)"
    by (simp_all add: frame_def)
  then show "frame r @ rest \<noteq> []" by auto
qed

lemma open_stream_frame:
  assumes "length r \<le> c_chunkSize c + 16" "c_chunkSize c + 16 < 2 ^ 32"
  shows "open_stream cr c (frame r @ rest) = open_records cr c 0 r rest"
proof -
  note d = frame_decode [of r rest]
  show ?thesis
    unfolding open_stream_def using assms d by (simp only: Let_def) simp
qed

lemma open_records_frame:
  assumes "length r \<le> c_chunkSize c + 16" "c_chunkSize c + 16 < 2 ^ 32"
    and "length cur = c_chunkSize c + 16"
    and "aeadOpen cr (c_chunkAEAD c) (c_messageKey c) (chunkNonce i) cur
           (chunk_aad c i False (c_chunkSize c)) = Inr p"
    and "open_records cr c (i + 1) r rest = (q, e)"
  shows "open_records cr c i cur (frame r @ rest) = (p @ q, e)"
proof -
  note d = frame_decode [of r rest]
  show ?thesis
    using assms d by (subst open_records.simps) (simp only: Let_def, simp)
qed

lemma chunk_aad_inject:
  "chunk_aad c i f l = chunk_aad c i' f' l' \<longleftrightarrow>
   i = i' \<and> f = f' \<and> (word_of_nat l :: u32) = word_of_nat l'"
  by (auto simp: chunk_aad_def buildChunkAAD_inject)

section \<open>Opening what was sealed\<close>

lemma open_records_seal:
  assumes "newAEAD cr (c_chunkAEAD c) (c_messageKey c) = Inr a" "aead_law a"
    and "c_chunkSize c + 16 < 2 ^ 32"
  shows "wf_chunks (c_chunkSize c) (p # ps) \<Longrightarrow>
    open_records cr c i (seal_record a c i (ps = []) p) (seal_chunks a c (i + 1) ps) =
      (concat (p # ps), None)"
proof (induction ps arbitrary: p i)
  case Nil
  then show ?case
    by (simp add: open_records.simps [of cr c i] aeadOpen_eq [OF assms(1)] length_seal_record [OF assms(2)])
      (simp add: seal_record_def aead_law_open [OF assms(2)])
next
  case (Cons q ps)
  let ?n = "c_chunkSize c" and ?r = "seal_record a c (i + 1) (ps = []) q"
  from Cons.prems have len: "length p = ?n" and wf: "wf_chunks ?n (q # ps)" by simp_all
  from wf_chunks_hd [OF wf] have rlen: "length ?r \<le> ?n + 16"
    by (simp add: length_seal_record [OF assms(2)])
  have op: "aeadOpen cr (c_chunkAEAD c) (c_messageKey c) (chunkNonce i) (seal_record a c i False p)
      (chunk_aad c i False (c_chunkSize c)) = Inr p"
    using len
    by (simp add: aeadOpen_eq [OF assms(1)] seal_record_def aead_law_open [OF assms(2)])
  have "length (seal_record a c i False p) = ?n + 16"
    using len by (simp add: length_seal_record [OF assms(2)])
  from open_records_frame [OF rlen assms(3) this op Cons.IH [OF wf, of "i + 1"]]
  show ?case by (simp add: seal_chunks_Cons)
qed

lemma open_stream_seal:
  assumes "newAEAD cr (c_chunkAEAD c) (c_messageKey c) = Inr a" "aead_law a"
    and "c_chunkSize c + 16 < 2 ^ 32" "wf_chunks (c_chunkSize c) cks"
  shows "open_stream cr c (seal_chunks a c 0 cks) = (concat cks, None)"
proof -
  obtain p ps where cks: "cks = p # ps" using assms(4) by (cases cks) auto
  let ?r = "seal_record a c 0 (ps = []) p"
  from wf_chunks_hd assms(4) cks have rlen: "length ?r \<le> c_chunkSize c + 16"
    by (auto simp: length_seal_record [OF assms(2)])
  have "open_stream cr c (frame ?r @ seal_chunks a c 1 ps) =
      open_records cr c 0 ?r (seal_chunks a c 1 ps)"
    using rlen assms(3) by (rule open_stream_frame)
  with open_records_seal [OF assms(1-3), of p ps 0] assms(4) cks show ?thesis
    by (simp add: seal_chunks_Cons)
qed

section \<open>Accepted streams are sealed streams\<close>

lemma frame_encode:
  assumes "4 \<le> length bs" "unat (get_be32 (take 4 bs)) \<le> length (drop 4 bs)"
  shows "frame (take (unat (get_be32 (take 4 bs))) (drop 4 bs)) @ drop (unat (get_be32 (take 4 bs))) (drop 4 bs) = bs"
proof -
  have "put_be32 (get_be32 (take 4 bs)) = take 4 bs"
    using assms(1) by (simp add: put_get_be32)
  moreover have "min (length bs - 4) (unat (get_be32 (take 4 bs))) = unat (get_be32 (take 4 bs))"
    using assms(2) by simp
  ultimately show ?thesis
    by (simp add: frame_def) (metis append_take_drop_id drop_drop add.commute)
qed

lemma open_records_sound:
  assumes "newAEAD cr (c_chunkAEAD c) (c_messageKey c) = Inr a" "aead_law a" "aead_exact a"
  shows "open_records cr c i cur bs = (p, None) \<Longrightarrow> length cur \<le> c_chunkSize c + 16 \<Longrightarrow>
    \<exists>q qs. cur = seal_record a c i (qs = []) q \<and> bs = seal_chunks a c (i + 1) qs \<and>
      p = concat (q # qs) \<and> wf_chunks (c_chunkSize c) (q # qs)"
proof (induction "length bs" arbitrary: i cur bs p rule: less_induct)
  case less
  let ?open = "aeadOpen cr (c_chunkAEAD c) (c_messageKey c) (chunkNonce i) cur
    (chunk_aad c i (bs = []) (length cur - 16))"
  note unf = open_records.simps [of cr c i cur bs]
  have ge: "bs = [] \<or> 4 \<le> length bs" "16 \<le> length cur"
    using less.prems(1) by (auto simp: unf not_less split: if_splits)
  obtain q where q: "?open = Inr q"
    using less.prems(1) ge by (auto simp: unf split: if_splits sum.splits)
  have cur: "cur = seal_record a c i (bs = []) q"
  proof -
    have c: "cur = Seal a (chunkNonce i) q (chunk_aad c i (bs = []) (length cur - 16))"
      using q aead_exactD [OF assms(3), of "chunkNonce i"]
      by (auto simp: aeadOpen_eq [OF assms(1)] split: option.splits)
    then have "length cur = length q + 16"
      by (metis aead_law_length [OF assms(2)] length_chunkNonce)
    with c show ?thesis by (simp add: seal_record_def)
  qed
  then have lq: "length cur = length q + 16" by (simp add: length_seal_record [OF assms(2)])
  show ?case
  proof (cases "bs = []")
    case True
    with less.prems(1) q ge have "p = q" by (simp add: open_records.simps [of cr c i cur "[]"])
    with less.prems(2) True cur lq show ?thesis
      by (intro exI [of _ q] exI [of _ "[]"]) simp
  next
    case False
    let ?len = "unat (get_be32 (take 4 bs))" and ?body = "drop 4 bs"
    have ok: "length q = c_chunkSize c" "?len \<le> c_chunkSize c + 16" "?len \<le> length ?body"
      using less.prems(1) False ge q lq by (auto simp: unf Let_def not_less split: if_splits)
    obtain p' e where rec: "open_records cr c (i + 1) (take ?len ?body) (drop ?len ?body) = (p', e)"
      by fastforce
    with less.prems(1) False ge q lq ok have pe: "e = None" "p = q @ p'"
      by (auto simp: unf Let_def split: if_splits)
    have "length (drop ?len ?body) < length bs" "length (take ?len ?body) \<le> c_chunkSize c + 16"
      using False ok by auto
    from less.hyps [OF this(1) _ this(2)] rec pe obtain q' qs where
      tl: "take ?len ?body = seal_record a c (i + 1) (qs = []) q'"
        "drop ?len ?body = seal_chunks a c (i + 1 + 1) qs" "p' = concat (q' # qs)"
        "wf_chunks (c_chunkSize c) (q' # qs)" by blast
    have "bs = frame (take ?len ?body) @ drop ?len ?body"
      using frame_encode [of bs] False ge ok by simp
    then have "bs = seal_chunks a c (i + 1) (q' # qs)"
      using tl by (simp add: seal_chunks_Cons)
    with cur False pe tl ok(1) show ?thesis
      by (intro exI [of _ q] exI [of _ "q' # qs"]) simp
  qed
qed

lemma open_stream_sound:
  assumes "newAEAD cr (c_chunkAEAD c) (c_messageKey c) = Inr a" "aead_law a" "aead_exact a"
    and "open_stream cr c bs = (p, None)"
  obtains cks where "bs = seal_chunks a c 0 cks" "p = concat cks" "wf_chunks (c_chunkSize c) cks"
proof -
  let ?len = "unat (get_be32 (take 4 bs))" and ?body = "drop 4 bs"
  have ok: "4 \<le> length bs" "?len \<le> c_chunkSize c + 16" "?len \<le> length ?body"
    and rec: "open_records cr c 0 (take ?len ?body) (drop ?len ?body) = (p, None)"
    using assms(4) by (auto simp: open_stream_def Let_def split: if_splits)
  have "length (take ?len ?body) \<le> c_chunkSize c + 16" using ok by simp
  from open_records_sound [OF assms(1-3) rec this] obtain q qs where
    t: "take ?len ?body = seal_record a c 0 (qs = []) q" "drop ?len ?body = seal_chunks a c (0 + 1) qs"
      "p = concat (q # qs)" "wf_chunks (c_chunkSize c) (q # qs)" by blast
  have "bs = frame (take ?len ?body) @ drop ?len ?body"
    using frame_encode [OF ok(1,3)] by simp
  with t show ?thesis by (intro that [of "q # qs"]) (simp_all add: seal_chunks_Cons)
qed

section \<open>AEAD calls of an encryption and of a decryption\<close>

text \<open>Nonce, additional data and ciphertext of every record of an encryption, in order.\<close>

definition sealed_log :: "aead \<Rightarrow> chunkCrypto \<Rightarrow> bytes list \<Rightarrow> (bytes \<times> bytes \<times> bytes) list" where
  "sealed_log a c cks =
     map (\<lambda>j. (chunkNonce (word_of_nat j),
               chunk_aad c (word_of_nat j) (Suc j = length cks) (length (cks ! j)),
               seal_record a c (word_of_nat j) (Suc j = length cks) (cks ! j)))
         [0..<length cks]"

text \<open>Nonce, additional data and ciphertext of every record that a decryption opened.\<close>

function opened_records :: "crypto \<Rightarrow> chunkCrypto \<Rightarrow> u64 \<Rightarrow> bytes \<Rightarrow> bytes \<Rightarrow> (bytes \<times> bytes \<times> bytes) list" where
  "opened_records cr c index current bs =
     (if bs \<noteq> [] \<and> length bs < 4 \<or> length current < TagLen then []
      else
        (let ad = chunk_aad c index (bs = []) (length current - TagLen) in
         case aeadOpen cr (c_chunkAEAD c) (c_messageKey c) (chunkNonce index) current ad of
           Inl e \<Rightarrow> []
         | Inr p \<Rightarrow>
             (chunkNonce index, ad, current) #
             (let len = unat (get_be32 (take 4 bs)); body = drop 4 bs in
              if bs = [] \<or> length current - TagLen \<noteq> c_chunkSize c \<or>
                 c_chunkSize c + TagLen < len \<or> length body < len then []
              else opened_records cr c (index + 1) (take len body) (drop len body))))"
  by pat_completeness auto
termination
  by (relation "measure (\<lambda>(cr, c, index, current, bs). length bs)") auto

declare opened_records.simps [simp del]

definition opened_log :: "crypto \<Rightarrow> chunkCrypto \<Rightarrow> bytes \<Rightarrow> (bytes \<times> bytes \<times> bytes) list" where
  "opened_log cr c bs =
     (let len = unat (get_be32 (take 4 bs)); body = drop 4 bs in
      if length bs < 4 \<or> c_chunkSize c + TagLen < len \<or> length body < len then []
      else opened_records cr c 0 (take len body) (drop len body))"

lemma unat_word_of_nat64: "n < 2 ^ 64 \<Longrightarrow> unat (word_of_nat n :: u64) = n"
  by (simp add: unat_of_nat take_bit_nat_eq_self)

lemma word64_of_nat_inject:
  assumes "m < 2 ^ 64" "n < 2 ^ 64"
  shows "(word_of_nat m :: u64) = word_of_nat n \<longleftrightarrow> m = n"
  using assms by (metis unat_word_of_nat64)

lemma sealed_log_nth:
  assumes "(chunkNonce (word_of_nat j), ad, ct) \<in> set (sealed_log a c cks)"
    and "j \<le> length cks" "length cks < 2 ^ 64"
  shows "j < length cks" "ad = chunk_aad c (word_of_nat j) (Suc j = length cks) (length (cks ! j))"
    "ct = seal_record a c (word_of_nat j) (Suc j = length cks) (cks ! j)"
proof -
  from assms(1) obtain k where k: "k < length cks"
    "(word_of_nat j :: u64) = word_of_nat k"
    "ad = chunk_aad c (word_of_nat k) (Suc k = length cks) (length (cks ! k))"
    "ct = seal_record a c (word_of_nat k) (Suc k = length cks) (cks ! k)"
    by (auto simp: sealed_log_def)
  moreover from this have "j = k"
    using assms(2,3) by (simp add: word64_of_nat_inject)
  ultimately show "j < length cks" "ad = chunk_aad c (word_of_nat j) (Suc j = length cks) (length (cks ! j))"
    "ct = seal_record a c (word_of_nat j) (Suc j = length cks) (cks ! j)" by simp_all
qed

lemma seal_chunks_drop:
  assumes "j < length cks"
  shows "seal_chunks a c i (drop j cks) =
    frame (seal_record a c i (Suc j = length cks) (cks ! j)) @ seal_chunks a c (i + 1) (drop (Suc j) cks)"
proof -
  have "drop j cks = cks ! j # drop (Suc j) cks" using assms by (simp add: Cons_nth_drop_Suc)
  moreover have "drop (Suc j) cks = [] \<longleftrightarrow> Suc j = length cks" using assms by auto
  ultimately show ?thesis by (simp add: seal_chunks_Cons)
qed

text \<open>
  The decisive step: a record that opens at index \<open>j\<close> and is in the log of the encryption is the
  encryption's record \<open>j\<close>, is last exactly if that one was, and releases that chunk.
\<close>

lemma genuine_record:
  assumes "newAEAD cr (c_chunkAEAD c) (c_messageKey c) = Inr a" "aead_law a"
    and "aeadOpen cr (c_chunkAEAD c) (c_messageKey c) (chunkNonce (word_of_nat j)) cur
           (chunk_aad c (word_of_nat j) final l) = Inr p"
    and "(chunkNonce (word_of_nat j), chunk_aad c (word_of_nat j) final l, cur) \<in> set (sealed_log a c cks)"
    and "j \<le> length cks" "length cks < 2 ^ 64"
  shows "j < length cks" "final \<longleftrightarrow> Suc j = length cks" "p = cks ! j"
    "cur = seal_record a c (word_of_nat j) final (cks ! j)"
proof -
  note n = sealed_log_nth [OF assms(4-6)]
  show j: "j < length cks" by (rule n(1))
  from n(2) show f: "final \<longleftrightarrow> Suc j = length cks" by (simp add: chunk_aad_inject)
  show cur: "cur = seal_record a c (word_of_nat j) final (cks ! j)" using n(3) f by simp
  from n(2) have "aeadOpen cr (c_chunkAEAD c) (c_messageKey c) (chunkNonce (word_of_nat j)) cur
           (chunk_aad c (word_of_nat j) final l) = Inr (cks ! j)"
    unfolding aeadOpen_eq [OF assms(1)] cur seal_record_def
    using aead_law_open [OF assms(2), of "chunkNonce (word_of_nat j)"] f by simp
  with assms(3) show "p = cks ! j" by simp
qed

lemma open_records_genuine:
  assumes "newAEAD cr (c_chunkAEAD c) (c_messageKey c) = Inr a" "aead_law a" "length cks < 2 ^ 64"
  shows "set (opened_records cr c (word_of_nat j) cur bs) \<subseteq> set (sealed_log a c cks) \<Longrightarrow>
    j \<le> length cks \<Longrightarrow> open_records cr c (word_of_nat j) cur bs = (out, e) \<Longrightarrow>
    prefix out (concat (drop j cks)) \<and>
    (e = None \<longrightarrow> out = concat (drop j cks) \<and>
      frame cur @ bs = seal_chunks a c (word_of_nat j) (drop j cks))"
proof (induction "length bs" arbitrary: j cur bs out e rule: less_induct)
  case less
  let ?i = "word_of_nat j :: u64"
  let ?ad = "chunk_aad c ?i (bs = []) (length cur - 16)"
  let ?open = "aeadOpen cr (c_chunkAEAD c) (c_messageKey c) (chunkNonce ?i) cur ?ad"
  note unf = open_records.simps [of cr c ?i cur bs] and tr = opened_records.simps [of cr c ?i cur bs]
  show ?case
  proof (cases "(bs \<noteq> [] \<and> length bs < 4) \<or> length cur < 16 \<or> (\<exists>e. ?open = Inl e)")
    case True
    with less.prems(3) have "out = []" "e \<noteq> None" by (auto simp: unf split: if_splits)
    then show ?thesis by auto
  next
    case False
    then obtain p where p: "?open = Inr p" by (cases ?open) auto
    with False less.prems(1) have "(chunkNonce ?i, ?ad, cur) \<in> set (sealed_log a c cks)"
      by (auto simp: tr Let_def)
    note g = genuine_record [OF assms(1,2) p this less.prems(2) assms(3)]
    have dj: "drop j cks = cks ! j # drop (Suc j) cks" using g(1) by (simp add: Cons_nth_drop_Suc)
    have sj: "seal_chunks a c ?i (drop j cks) = frame cur @ seal_chunks a c (word_of_nat (Suc j)) (drop (Suc j) cks)"
      using seal_chunks_drop [OF g(1), of a c ?i] g(2,4) by (simp add: add.commute)
    show ?thesis
    proof (cases "bs = []")
      case True
      with False p less.prems(3) have "out = p" "e = None"
        by (simp_all add: open_records.simps [of cr c ?i cur "[]"])
      with True g dj sj show ?thesis by simp
    next
      case ne: False
      let ?len = "unat (get_be32 (take 4 bs))" and ?body = "drop 4 bs"
      show ?thesis
      proof (cases "length cur - 16 \<noteq> c_chunkSize c \<or> c_chunkSize c + 16 < ?len \<or> length ?body < ?len")
        case True
        with ne False p less.prems(3) have "e \<noteq> None" "out = [] \<or> out = p"
          by (auto simp: unf Let_def split: if_splits)
        with g(3) dj show ?thesis by auto
      next
        case fits: False
        obtain q e' where rec: "open_records cr c (?i + 1) (take ?len ?body) (drop ?len ?body) = (q, e')"
          by fastforce
        with ne False p less.prems(3) fits have oe: "out = p @ q" "e = e'"
          by (auto simp: unf Let_def split: if_splits)
        have sub: "set (opened_records cr c (word_of_nat (Suc j)) (take ?len ?body) (drop ?len ?body))
            \<subseteq> set (sealed_log a c cks)"
          using less.prems(1) ne False p fits by (auto simp: tr Let_def add.commute)
        have "length (drop ?len ?body) < length bs" using ne by simp
        from less.hyps [OF this sub, of q e'] rec g(1)
        have IH: "prefix q (concat (drop (Suc j) cks))"
          "e' = None \<longrightarrow> q = concat (drop (Suc j) cks) \<and> frame (take ?len ?body) @ drop ?len ?body =
             seal_chunks a c (word_of_nat (Suc j)) (drop (Suc j) cks)"
          by (simp_all add: add.commute)
        have "frame (take ?len ?body) @ drop ?len ?body = bs"
          using ne False fits by (intro frame_encode) auto
        with IH oe g(3) dj sj show ?thesis by simp
      qed
    qed
  qed
qed

lemma open_stream_genuine:
  assumes "newAEAD cr (c_chunkAEAD c) (c_messageKey c) = Inr a" "aead_law a" "length cks < 2 ^ 64"
    and "set (opened_log cr c bs) \<subseteq> set (sealed_log a c cks)"
    and "open_stream cr c bs = (out, e)"
  shows "prefix out (concat cks)" "e = None \<Longrightarrow> out = concat cks \<and> bs = seal_chunks a c 0 cks"
proof -
  let ?len = "unat (get_be32 (take 4 bs))" and ?body = "drop 4 bs"
  have "prefix out (concat cks) \<and> (e = None \<longrightarrow> out = concat cks \<and> bs = seal_chunks a c 0 cks)"
  proof (cases "length bs < 4 \<or> c_chunkSize c + 16 < ?len \<or> length ?body < ?len")
    case True
    with assms(5) show ?thesis by (auto simp: open_stream_def Let_def split: if_splits)
  next
    case False
    with assms(4,5) have
      o: "open_records cr c (word_of_nat 0) (take ?len ?body) (drop ?len ?body) = (out, e)"
      and l: "set (opened_records cr c (word_of_nat 0) (take ?len ?body) (drop ?len ?body)) \<subseteq> set (sealed_log a c cks)"
      by (simp_all add: open_stream_def opened_log_def Let_def)
    have "frame (take ?len ?body) @ drop ?len ?body = bs"
      using False by (intro frame_encode) auto
    with open_records_genuine [OF assms(1-3) l _ o] show ?thesis by simp
  qed
  then show "prefix out (concat cks)" "e = None \<Longrightarrow> out = concat cks \<and> bs = seal_chunks a c 0 cks"
    by simp_all
qed

lemma distinct_sealed_nonces:
  assumes "length cks \<le> 2 ^ 64"
  shows "distinct (map fst (sealed_log a c cks))"
  using assms by (auto simp: sealed_log_def distinct_map inj_on_def word64_of_nat_inject)

section \<open>Opening under another header\<close>

text \<open>
  A decryption may run under a header that an attacker changed. A record that opens with
  additional data of the genuine encryption forces suite, stream id and chunk size to be the
  genuine ones.
\<close>

definition same_binding :: "chunkCrypto \<Rightarrow> chunkCrypto \<Rightarrow> bool" where
  "same_binding c c' \<longleftrightarrow>
     c_suiteID c' = c_suiteID c \<and> c_streamID c' = c_streamID c \<and> c_chunkSize c' = c_chunkSize c"

lemma opened_records_aad:
  assumes "(n, ad, ct) \<in> set (opened_records cr c i cur bs)"
  shows "\<exists>j f l. ad = chunk_aad c j f l"
  using assms
proof (induction cr c i cur bs rule: opened_records.induct)
  case (1 cr c i cur bs)
  then show ?case
    by (subst (asm) (2) opened_records.simps)
      (auto simp: Let_def dest!: sym [of "Inr _"] split: if_splits sum.splits)
qed

lemma opened_log_aad:
  "(n, ad, ct) \<in> set (opened_log cr c bs) \<Longrightarrow> \<exists>j f l. ad = chunk_aad c j f l"
  by (auto simp: opened_log_def Let_def dest: opened_records_aad split: if_splits)

lemma sealed_log_aad:
  "(n, ad, ct) \<in> set (sealed_log a c cks) \<Longrightarrow> \<exists>j f l. ad = chunk_aad c j f l"
  by (auto simp: sealed_log_def)

lemma chunk_aad_binding:
  assumes "chunk_aad c' i' f' l' = chunk_aad c i f l"
    and "length (c_streamID c') = length (c_streamID c)"
    and "c_chunkSize c < 2 ^ 32" "c_chunkSize c' < 2 ^ 32"
  shows "same_binding c c'"
  using assms
  by (simp add: chunk_aad_def buildChunkAAD_inject same_binding_def word_of_nat32_inject)

lemma opened_records_Nil:
  "opened_records cr c i cur bs = [] \<Longrightarrow> fst (open_records cr c i cur bs) = [] \<and> snd (open_records cr c i cur bs) \<noteq> None"
  by (subst (asm) opened_records.simps, subst (1 2) open_records.simps)
    (auto simp: Let_def split: if_splits sum.splits)

lemma opened_log_Nil:
  "opened_log cr c bs = [] \<Longrightarrow> fst (open_stream cr c bs) = [] \<and> snd (open_stream cr c bs) \<noteq> None"
  by (auto simp: opened_log_def open_stream_def Let_def dest: opened_records_Nil split: if_splits)

lemma open_stream_genuine_any:
  assumes "newAEAD cr (c_chunkAEAD c) (c_messageKey c) = Inr a" "aead_law a" "length cks < 2 ^ 64"
    and "c_chunkAEAD c' = c_chunkAEAD c" "c_messageKey c' = c_messageKey c"
    and "length (c_streamID c') = length (c_streamID c)"
    and "c_chunkSize c < 2 ^ 32" "c_chunkSize c' < 2 ^ 32"
    and "set (opened_log cr c' bs) \<subseteq> set (sealed_log a c cks)"
    and "open_stream cr c' bs = (out, e)"
  shows "prefix out (concat cks)"
    "e = None \<Longrightarrow> same_binding c c' \<and> out = concat cks \<and> bs = seal_chunks a c 0 cks"
proof -
  have "prefix out (concat cks) \<and>
    (e = None \<longrightarrow> same_binding c c' \<and> out = concat cks \<and> bs = seal_chunks a c 0 cks)"
  proof (cases "opened_log cr c' bs")
    case Nil
    with opened_log_Nil [OF Nil] assms(10) show ?thesis by auto
  next
    case (Cons x xs)
    obtain n ad ct where x: "x = (n, ad, ct)" by (cases x)
    with Cons assms(9) have "(n, ad, ct) \<in> set (opened_log cr c' bs)" "(n, ad, ct) \<in> set (sealed_log a c cks)"
      by auto
    then obtain j f l j' f' l' where "ad = chunk_aad c' j' f' l'" "ad = chunk_aad c j f l"
      using opened_log_aad sealed_log_aad by metis
    then have b: "same_binding c c'"
      using chunk_aad_binding [OF _ assms(6-8)] by metis
    have "c' = c"
      using b assms(4,5) by (simp add: same_binding_def)
    with open_stream_genuine [OF assms(1-3), of bs out e] assms(9,10) b show ?thesis by simp
  qed
  then show "prefix out (concat cks)"
    "e = None \<Longrightarrow> same_binding c c' \<and> out = concat cks \<and> bs = seal_chunks a c 0 cks" by auto
qed

end
