(* ===== verification/StreamKem.thy ===== *)
theory StreamKem
  imports StreamSecurity
begin

text \<open>
  \<open>src/stream/kem.go\<close>: wrapping the content-encryption key against an ML-KEM public key,
  opening it with a raw seed, the KEM header, and \<open>readKEMEnvelope\<close> of \<open>stream.go\<close>. The ML-KEM
  schemes of circl are parameters (\<open>kem_scheme\<close>); randomness is a tape of bytes that
  \<open>fillRandom\<close> consumes and that fails when it is exhausted. \<open>CEKRecovery\<close>, the Go interface
  through which decryption gets the key, is the locale \<open>cek_recovery\<close>.
\<close>

section \<open>Randomness\<close>

definition fillRandom :: "nat \<Rightarrow> bytes \<Rightarrow> (stream_error, bytes) result \<times> bytes" where
  "fillRandom n tape =
     (if n \<le> length tape then (Inr (take n tape), drop n tape) else (Inl ErrRng, tape))"

section \<open>Parameters: the ML-KEM schemes\<close>

record ('pk, 'sk) kem_scheme =
  SeedSize :: nat
  DeriveKeyPair :: "bytes \<Rightarrow> 'pk \<times> 'sk"
  UnmarshalBinaryPublicKey :: "bytes \<Rightarrow> 'pk option"
  MarshalBinary :: "'pk \<Rightarrow> bytes option"
  Encapsulate :: "'pk \<Rightarrow> bytes \<Rightarrow> (bytes \<times> bytes) option \<times> bytes"
  Decapsulate :: "'sk \<Rightarrow> bytes \<Rightarrow> bytes option"

record ('pk, 'sk) kem_lib =
  mlkem512 :: "('pk, 'sk) kem_scheme"
  mlkem768 :: "('pk, 'sk) kem_scheme"
  mlkem1024 :: "('pk, 'sk) kem_scheme"

section \<open>Operations\<close>

definition kemEnvelopeLabel :: bytes where
  "kemEnvelopeLabel = bytes_of ''basil-ml-kem-envelope-v1''"

definition envTokenAES256GCM :: bytes where
  "envTokenAES256GCM = bytes_of ''aes-256-gcm''"

record KEMEnvelope =
  EncapsulatedKey :: bytes
  Nonce :: bytes
  Ciphertext :: bytes

definition schemeForSuite :: "('pk, 'sk) kem_lib \<Rightarrow> byte \<Rightarrow> ('pk, 'sk) kem_scheme option" where
  "schemeForSuite lib sid =
     (if sid = SuiteMLKEM512 then Some (mlkem512 lib)
      else if sid = SuiteMLKEM768 then Some (mlkem768 lib)
      else if sid = SuiteMLKEM1024 then Some (mlkem1024 lib)
      else None)"

definition PublicKeyFromSeed :: "('pk, 'sk) kem_lib \<Rightarrow> bytes \<Rightarrow> suite \<Rightarrow> (stream_error, bytes) result" where
  "PublicKeyFromSeed lib seed suite =
     (case schemeForSuite lib suite of
        None \<Rightarrow> Inl (ErrSuiteMismatch None)
      | Some scheme \<Rightarrow>
          if length seed \<noteq> SeedSize scheme then Inl ErrBadKEMCiphertext
          else
            (case MarshalBinary scheme (fst (DeriveKeyPair scheme seed)) of
               None \<Rightarrow> Inl ErrBadPublicKey
             | Some pub \<Rightarrow> Inr pub))"

definition deriveKEMAEADKey :: "crypto \<Rightarrow> byte \<Rightarrow> bytes \<Rightarrow> bytes \<Rightarrow> bytes \<Rightarrow> (stream_error, bytes) result" where
  "deriveKEMAEADKey cr sid sharedSecret encapsulatedKey publicKey =
     (case kemToken sid of
        None \<Rightarrow> Inl (ErrSuiteMismatch None)
      | Some token \<Rightarrow>
          (case hkdf_Key cr sharedSecret (replicate 32 0)
                  (kemEnvelopeLabel @ bytes_of token @ envTokenAES256GCM @ encapsulatedKey @ publicKey)
                  CEKLen of
             None \<Rightarrow> Inl ErrKDFFailed
           | Some okm \<Rightarrow> Inr okm))"

definition wrapCEK ::
  "crypto \<Rightarrow> ('pk, 'sk) kem_lib \<Rightarrow> bytes \<Rightarrow> byte \<Rightarrow> bytes \<Rightarrow> bytes \<Rightarrow> bytes \<Rightarrow>
   (stream_error, KEMEnvelope) result \<times> bytes" where
  "wrapCEK cr lib publicKey sid cek aad tape =
     (case schemeForSuite lib sid of
        None \<Rightarrow> (Inl (ErrSuiteMismatch None), tape)
      | Some scheme \<Rightarrow>
          (case UnmarshalBinaryPublicKey scheme publicKey of
             None \<Rightarrow> (Inl ErrBadPublicKey, tape)
           | Some pk \<Rightarrow>
               (case MarshalBinary scheme pk of
                  None \<Rightarrow> (Inl ErrBadPublicKey, tape)
                | Some derivedPublic \<Rightarrow>
                    (case Encapsulate scheme pk tape of
                       (None, tape1) \<Rightarrow> (Inl ErrBadPublicKey, tape1)
                     | (Some (ek, ss), tape1) \<Rightarrow>
                         (case deriveKEMAEADKey cr sid ss ek derivedPublic of
                            Inl e \<Rightarrow> (Inl e, tape1)
                          | Inr aeadKey \<Rightarrow>
                              (case fillRandom NonceLen tape1 of
                                 (Inl e, tape2) \<Rightarrow> (Inl e, tape2)
                               | (Inr nonce, tape2) \<Rightarrow>
                                   (case aeadSeal cr aeadAES256GCM aeadKey nonce cek aad of
                                      Inl e \<Rightarrow> (Inl e, tape2)
                                    | Inr ct \<Rightarrow>
                                        (Inr \<lparr>EncapsulatedKey = ek, Nonce = nonce, Ciphertext = ct\<rparr>,
                                         tape2))))))))"

definition openCEKLocal ::
  "crypto \<Rightarrow> ('pk, 'sk) kem_lib \<Rightarrow> bytes \<Rightarrow> byte \<Rightarrow> KEMEnvelope \<Rightarrow> bytes \<Rightarrow> (stream_error, bytes) result" where
  "openCEKLocal cr lib seed sid env aad =
     (case schemeForSuite lib sid of
        None \<Rightarrow> Inl (ErrSuiteMismatch None)
      | Some scheme \<Rightarrow>
          if length seed \<noteq> SeedSize scheme then Inl ErrBadKEMCiphertext
          else
            (case DeriveKeyPair scheme seed of
               (pk, sk) \<Rightarrow>
                 (case MarshalBinary scheme pk of
                    None \<Rightarrow> Inl ErrBadPublicKey
                  | Some derivedPublic \<Rightarrow>
                      (case Decapsulate scheme sk (EncapsulatedKey env) of
                         None \<Rightarrow> Inl ErrBadKEMCiphertext
                       | Some ss \<Rightarrow>
                           (case deriveKEMAEADKey cr sid ss (EncapsulatedKey env) derivedPublic of
                              Inl e \<Rightarrow> Inl e
                            | Inr aeadKey \<Rightarrow>
                                aeadOpen cr aeadAES256GCM aeadKey (Nonce env) (Ciphertext env) aad)))))"

definition serializeKEMHeader :: "KEMEnvelope \<Rightarrow> bytes" where
  "serializeKEMHeader env =
     put_be32 (word_of_nat (length (EncapsulatedKey env))) @ EncapsulatedKey env @ Nonce env @
     put_be32 (word_of_nat (length (Ciphertext env))) @ Ciphertext env"

definition readKEMEnvelope :: "'r read_fn \<Rightarrow> 'r \<Rightarrow> byte \<Rightarrow> (stream_error, KEMEnvelope) result \<times> 'r" where
  "readKEMEnvelope rd s sid =
     (case mlKemCiphertextLen sid of
        None \<Rightarrow> (Inl (ErrSuiteMismatch None), s)
      | Some expected \<Rightarrow>
          (case readLenPrefix rd s of
             (Inl e, s1) \<Rightarrow> (Inl e, s1)
           | (Inr None, s1) \<Rightarrow> (Inl ErrShortHeader, s1)
           | (Inr (Some kemCtLen), s1) \<Rightarrow>
               if unat kemCtLen \<noteq> expected then (Inl ErrBadKEMCiphertext, s1)
               else
                 (case readRecordExact rd s1 expected of
                    (Inl e, s2) \<Rightarrow> (Inl e, s2)
                  | (Inr ek, s2) \<Rightarrow>
                      (case readRecordExact rd s2 NonceLen of
                         (Inl e, s3) \<Rightarrow> (Inl e, s3)
                       | (Inr nonce, s3) \<Rightarrow>
                           (case readLenPrefix rd s3 of
                              (Inl e, s4) \<Rightarrow> (Inl e, s4)
                            | (Inr None, s4) \<Rightarrow> (Inl ErrShortHeader, s4)
                            | (Inr (Some wrappedLen), s4) \<Rightarrow>
                                if unat wrappedLen \<noteq> CEKLen + TagLen then (Inl ErrBadKEMCiphertext, s4)
                                else
                                  (case readRecordExact rd s4 (CEKLen + TagLen) of
                                     (Inl e, s5) \<Rightarrow> (Inl e, s5)
                                   | (Inr ct, s5) \<Rightarrow>
                                       (Inr \<lparr>EncapsulatedKey = ek, Nonce = nonce, Ciphertext = ct\<rparr>,
                                        s5)))))))"

text \<open>\<open>LocalSeedCEKRecovery\<close> and its method. A recovery may carry state (a broker connection).\<close>

type_synonym 'b recovery_fn = "'b \<Rightarrow> KEMEnvelope \<Rightarrow> bytes \<Rightarrow> (stream_error, bytes) result \<times> 'b"

record LocalSeedCEKRecovery =
  l_seed :: bytes
  l_suite :: suite

definition RecoverCEK_local :: "crypto \<Rightarrow> ('pk, 'sk) kem_lib \<Rightarrow> LocalSeedCEKRecovery recovery_fn" where
  "RecoverCEK_local cr lib l env aad = (openCEKLocal cr lib (l_seed l) (l_suite l) env aad, l)"

section \<open>Documented behaviour of an ML-KEM scheme\<close>

text \<open>
  Encapsulating against the marshalled public half of a seed's key pair gives a ciphertext of
  the FIPS-203 length that the secret half decapsulates to the same shared secret.
\<close>

definition kem_law :: "('pk, 'sk) kem_lib \<Rightarrow> byte \<Rightarrow> bool" where
  "kem_law lib sid \<longleftrightarrow>
     (\<exists>scheme n. schemeForSuite lib sid = Some scheme \<and> mlKemCiphertextLen sid = Some n \<and>
       (\<forall>seed pk sk. length seed = SeedSize scheme \<longrightarrow> DeriveKeyPair scheme seed = (pk, sk) \<longrightarrow>
          (\<exists>pub. MarshalBinary scheme pk = Some pub \<and> UnmarshalBinaryPublicKey scheme pub = Some pk) \<and>
          (\<forall>tape ek ss tape'. Encapsulate scheme pk tape = (Some (ek, ss), tape') \<longrightarrow>
             length ek = n \<and> Decapsulate scheme sk ek = Some ss)))"

definition copy_scheme :: "nat \<Rightarrow> (bytes, bytes) kem_scheme" where
  "copy_scheme n =
     \<lparr>SeedSize = 64, DeriveKeyPair = (\<lambda>seed. (seed, seed)),
      UnmarshalBinaryPublicKey = Some, MarshalBinary = Some,
      Encapsulate = (\<lambda>pk tape.
        if 32 \<le> length tape then (Some (take 32 tape @ replicate (n - 32) 0, take 32 tape), drop 32 tape)
        else (None, tape)),
      Decapsulate = (\<lambda>sk ek. Some (take 32 ek))\<rparr>"

definition copy_lib :: "(bytes, bytes) kem_lib" where
  "copy_lib = \<lparr>mlkem512 = copy_scheme 768, mlkem768 = copy_scheme 1088, mlkem1024 = copy_scheme 1568\<rparr>"

lemma copy_lib_law: "sid \<in> {3, 4, 5} \<Longrightarrow> kem_law copy_lib sid"
  by (auto simp: kem_law_def copy_lib_def copy_scheme_def schemeForSuite_def mlKemCiphertextLen_def
    split: if_splits)

section \<open>Wrapping and opening the key\<close>

lemma fillRandom_length: "fillRandom n tape = (Inr bs, tape') \<Longrightarrow> length bs = n"
  by (auto simp: fillRandom_def split: if_splits)

lemma kem_lawE:
  assumes "kem_law lib sid" "PublicKeyFromSeed lib seed sid = Inr pub"
  obtains scheme n pk sk where "schemeForSuite lib sid = Some scheme" "mlKemCiphertextLen sid = Some n"
    "length seed = SeedSize scheme" "DeriveKeyPair scheme seed = (pk, sk)"
    "MarshalBinary scheme pk = Some pub" "UnmarshalBinaryPublicKey scheme pub = Some pk"
    "\<forall>tape ek ss tape'. Encapsulate scheme pk tape = (Some (ek, ss), tape') \<longrightarrow>
       length ek = n \<and> Decapsulate scheme sk ek = Some ss"
proof -
  from assms(1) obtain scheme n where sc: "schemeForSuite lib sid = Some scheme" "mlKemCiphertextLen sid = Some n"
    and law: "\<And>seed pk sk. length seed = SeedSize scheme \<Longrightarrow> DeriveKeyPair scheme seed = (pk, sk) \<Longrightarrow>
      (\<exists>pub. MarshalBinary scheme pk = Some pub \<and> UnmarshalBinaryPublicKey scheme pub = Some pk) \<and>
      (\<forall>tape ek ss tape'. Encapsulate scheme pk tape = (Some (ek, ss), tape') \<longrightarrow>
         length ek = n \<and> Decapsulate scheme sk ek = Some ss)"
    unfolding kem_law_def by blast
  obtain pk sk where kp: "DeriveKeyPair scheme seed = (pk, sk)" by fastforce
  from assms(2) sc kp have len: "length seed = SeedSize scheme" and pub: "MarshalBinary scheme pk = Some pub"
    by (auto simp: PublicKeyFromSeed_def split: if_splits option.splits)
  from law [OF len kp] pub have "UnmarshalBinaryPublicKey scheme pub = Some pk" by simp
  with law [OF len kp] sc len kp pub show ?thesis by (intro that [of scheme n pk sk]) blast+
qed

text \<open>What a successful \<open>wrapCEK\<close> has computed, against a public key derived from a seed.\<close>

lemma wrapCEK_cases:
  assumes "crypto_law cr" "kem_law lib sid" "PublicKeyFromSeed lib seed sid = Inr pub"
    and "wrapCEK cr lib pub sid cek aad tape = (Inr env, tape')"
  obtains scheme pk sk ss k a where
    "schemeForSuite lib sid = Some scheme" "length seed = SeedSize scheme"
    "DeriveKeyPair scheme seed = (pk, sk)" "MarshalBinary scheme pk = Some pub"
    "mlKemCiphertextLen sid = Some (length (EncapsulatedKey env))"
    "Decapsulate scheme sk (EncapsulatedKey env) = Some ss"
    "deriveKEMAEADKey cr sid ss (EncapsulatedKey env) pub = Inr k"
    "newAEAD cr aeadAES256GCM k = Inr a" "aead_law a" "length (Nonce env) = 12"
    "Ciphertext env = Seal a (Nonce env) cek aad"
proof -
  obtain scheme n pk sk where sc: "schemeForSuite lib sid = Some scheme" "mlKemCiphertextLen sid = Some n"
    "length seed = SeedSize scheme" "DeriveKeyPair scheme seed = (pk, sk)"
    "MarshalBinary scheme pk = Some pub" "UnmarshalBinaryPublicKey scheme pub = Some pk"
    and enc: "\<forall>tape ek ss tape'. Encapsulate scheme pk tape = (Some (ek, ss), tape') \<longrightarrow>
       length ek = n \<and> Decapsulate scheme sk ek = Some ss"
    by (rule kem_lawE [OF assms(2,3)])
  obtain ss k t1 t2 where
    e: "Encapsulate scheme pk tape = (Some (EncapsulatedKey env, ss), t1)"
      "deriveKEMAEADKey cr sid ss (EncapsulatedKey env) pub = Inr k"
      "fillRandom 12 t1 = (Inr (Nonce env), t2)"
      "aeadSeal cr aeadAES256GCM k (Nonce env) cek aad = Inr (Ciphertext env)"
    using assms(4) sc by (auto simp: wrapCEK_def split: option.splits sum.splits prod.splits)
  have "length k = 32"
    using e(2) crypto_law_hkdf [OF assms(1), of 32]
    by (auto simp: deriveKEMAEADKey_def split: option.splits) (metis option.inject)
  then obtain a where a: "newAEAD cr aeadAES256GCM k = Inr a" "aead_law a"
    by (rule newAEAD_ok [OF assms(1)])
  show ?thesis
    using sc e a enc [rule_format, OF e(1)] fillRandom_length [OF e(3)]
    by (intro that [of scheme pk sk ss k a]) (simp_all add: aeadSeal_eq)
qed

lemma wrap_open_local:
  assumes "crypto_law cr" "kem_law lib sid" "PublicKeyFromSeed lib seed sid = Inr pub"
    and "wrapCEK cr lib pub sid cek aad tape = (Inr env, tape')"
  shows "openCEKLocal cr lib seed sid env aad = Inr cek"
  by (rule wrapCEK_cases [OF assms]) (simp add: openCEKLocal_def aeadOpen_eq aead_law_open)

definition wf_env :: "byte \<Rightarrow> KEMEnvelope \<Rightarrow> bool" where
  "wf_env sid env \<longleftrightarrow>
     mlKemCiphertextLen sid = Some (length (EncapsulatedKey env)) \<and> length (Nonce env) = 12 \<and>
     length (Ciphertext env) = 48"

lemma wrapCEK_wf:
  assumes "crypto_law cr" "kem_law lib sid" "PublicKeyFromSeed lib seed sid = Inr pub"
    and "wrapCEK cr lib pub sid cek aad tape = (Inr env, tape')" "length cek = 32"
  shows "wf_env sid env"
  by (rule wrapCEK_cases [OF assms(1-4)]) (simp add: wf_env_def aead_law_length assms(5))

section \<open>The recovery interface\<close>

locale cek_recovery =
  fixes recover :: "'b recovery_fn"
    and seals :: "'b \<Rightarrow> KEMEnvelope \<Rightarrow> bytes \<Rightarrow> bytes \<Rightarrow> bool"
  assumes recover_sealed: "seals b env aad cek \<Longrightarrow> fst (recover b env aad) = Inr cek"
begin

lemma recover_cases:
  assumes "seals b env aad cek"
  obtains b' where "recover b env aad = (Inr cek, b')"
  using recover_sealed [OF assms] by (cases "recover b env aad") auto

end

text \<open>The envelopes a local seed opens: those wrapped against the seed's public key.\<close>

definition local_seals :: "crypto \<Rightarrow> ('pk, 'sk) kem_lib \<Rightarrow> LocalSeedCEKRecovery \<Rightarrow> KEMEnvelope \<Rightarrow> bytes \<Rightarrow> bytes \<Rightarrow> bool" where
  "local_seals cr lib l env aad cek \<longleftrightarrow>
     crypto_law cr \<and> kem_law lib (l_suite l) \<and>
     (\<exists>pub tape tape'. PublicKeyFromSeed lib (l_seed l) (l_suite l) = Inr pub \<and>
        wrapCEK cr lib pub (l_suite l) cek aad tape = (Inr env, tape'))"

interpretation local_seed: cek_recovery "RecoverCEK_local cr lib" "local_seals cr lib" for cr lib
  by unfold_locales (auto simp: local_seals_def RecoverCEK_local_def wrap_open_local)

section \<open>The KEM header on the wire\<close>

lemma mlKemCiphertextLen_bound: "mlKemCiphertextLen sid = Some n \<Longrightarrow> 0 < n \<and> n < 2 ^ 32"
  by (auto simp: mlKemCiphertextLen_def split: if_splits)

context io_reader
begin

lemma readLenPrefix_put:
  assumes "ready s" "content s = put_be32 v @ rest"
  obtains s' where "readLenPrefix rd s = (Inr (Some v), s')" "ready s'" "content s' = rest"
proof (rule readLenPrefix_spec [OF assms(1)])
  fix s'
  assume r: "readLenPrefix rd s =
      (if content s = [] then Inr None
       else if 4 \<le> length (content s) then Inr (Some (get_be32 (take 4 (content s))))
       else Inl ErrTruncated, s')" "ready s'" "content s' = drop 4 (content s)"
  have "content s \<noteq> []" using assms(2) by (simp add: put_be32_def)
  with r assms(2) show thesis by (intro that [of s']) simp_all
qed

lemma readRecordExact_append:
  assumes "ready s" "content s = bs @ rest"
  obtains s' where "readRecordExact rd s (length bs) = (Inr bs, s')" "ready s'" "content s' = rest"
  by (rule readRecordExact_spec [OF assms(1), of "length bs"]) (use assms(2) in \<open>auto intro!: that\<close>)

lemma readKEMEnvelope_serialize:
  assumes "ready s" "content s = serializeKEMHeader env @ rest" "wf_env sid env"
  obtains s' where "readKEMEnvelope rd s sid = (Inr env, s')" "ready s'" "content s' = rest"
proof -
  let ?ek = "EncapsulatedKey env" and ?ct = "Ciphertext env"
  have n: "mlKemCiphertextLen sid = Some (length ?ek)" "length (Nonce env) = 12" "length ?ct = 48"
    using assms(3) by (simp_all add: wf_env_def)
  have "content s = put_be32 (word_of_nat (length ?ek)) @
      ?ek @ Nonce env @ put_be32 (word_of_nat (length ?ct)) @ ?ct @ rest"
    using assms(2) by (simp add: serializeKEMHeader_def)
  with assms(1) obtain s1 where
    s1: "readLenPrefix rd s = (Inr (Some (word_of_nat (length ?ek))), s1)" "ready s1"
      "content s1 = ?ek @ Nonce env @ put_be32 (word_of_nat (length ?ct)) @ ?ct @ rest"
    by (rule readLenPrefix_put)
  obtain s2 where s2: "readRecordExact rd s1 (length ?ek) = (Inr ?ek, s2)" "ready s2"
      "content s2 = Nonce env @ put_be32 (word_of_nat (length ?ct)) @ ?ct @ rest"
    using s1(2,3) by (rule readRecordExact_append)
  obtain s3 where s3: "readRecordExact rd s2 (length (Nonce env)) = (Inr (Nonce env), s3)" "ready s3"
      "content s3 = put_be32 (word_of_nat (length ?ct)) @ ?ct @ rest"
    using s2(2,3) by (rule readRecordExact_append)
  obtain s4 where s4: "readLenPrefix rd s3 = (Inr (Some (word_of_nat (length ?ct))), s4)" "ready s4"
      "content s4 = ?ct @ rest"
    using s3(2,3) by (rule readLenPrefix_put)
  obtain s5 where s5: "readRecordExact rd s4 (length ?ct) = (Inr ?ct, s5)" "ready s5" "content s5 = rest"
    using s4(2,3) by (rule readRecordExact_append)
  show ?thesis
    using s1 s2 s3 s4 s5 n mlKemCiphertextLen_bound [OF n(1)]
    by (intro that [of s5]) (simp_all add: readKEMEnvelope_def unat_word_of_nat32)
qed

end

end
