(* ===== verification/StreamEntry.thy ===== *)
theory StreamEntry
  imports StreamKem
begin

text \<open>
  The public operations of \<open>src/stream/stream.go\<close>: \<open>EncryptAEAD\<close>, \<open>DecryptAEAD\<close>,
  \<open>EncryptMLKEM\<close> and \<open>DecryptMLKEM\<close>, over any reader, writer, crypto library and random tape.
  A value \<open>None\<close> means that a chunk loop does not return. The \<open>defer wipe(...)\<close> calls have no
  effect on any result: the wiped buffers are not used afterwards.
\<close>

section \<open>Operations\<close>

text \<open>The slice is nil or not; nil generates a fresh key.\<close>

record CEKSource =
  provided :: "bytes option"

definition GenerateCEK :: CEKSource where
  "GenerateCEK = \<lparr>provided = None\<rparr>"

definition ProvidedCEK :: "bytes option \<Rightarrow> CEKSource" where
  "ProvidedCEK key = \<lparr>provided = key\<rparr>"

definition validateChunkSize :: "int \<Rightarrow> stream_error option" where
  "validateChunkSize n = (if n \<le> 0 \<or> n > int MaxChunkSize then Some (ErrBadChunkSize n) else None)"

definition chooseCEK :: "CEKSource \<Rightarrow> bytes \<Rightarrow> (stream_error, bytes) result \<times> bytes" where
  "chooseCEK cek tape =
     (case provided cek of
        None \<Rightarrow> fillRandom CEKLen tape
      | Some k \<Rightarrow> if length k \<noteq> CEKLen then (Inl ErrBadCEKLength, tape) else (Inr k, tape))"

text \<open>The stream id and the salt, drawn in this order.\<close>

definition drawIDs :: "bytes \<Rightarrow> (stream_error, bytes \<times> bytes) result \<times> bytes" where
  "drawIDs tape =
     (case fillRandom StreamIDLen tape of
        (Inl e, t1) \<Rightarrow> (Inl e, t1)
      | (Inr sID, t1) \<Rightarrow>
          (case fillRandom StreamSaltLen t1 of
             (Inl e, t2) \<Rightarrow> (Inl e, t2)
           | (Inr salt, t2) \<Rightarrow> (Inr (sID, salt), t2)))"

definition EncryptAEAD ::
  "crypto \<Rightarrow> 'r read_fn \<Rightarrow> 'w write_fn \<Rightarrow> 'w \<Rightarrow> 'r \<Rightarrow> suite \<Rightarrow> CEKSource \<Rightarrow> int \<Rightarrow> bytes \<Rightarrow>
   ((stream_error, bytes) result \<times> 'w \<times> 'r \<times> bytes) option" where
  "EncryptAEAD cr rd wr dst src suite cek csize tape =
     (if suite \<noteq> SuiteAES256GCM \<and> suite \<noteq> SuiteChaCha20Poly1305
      then Some (Inl (ErrSuiteMismatch (Some suite)), dst, src, tape)
      else
        (case validateChunkSize csize of
           Some e \<Rightarrow> Some (Inl e, dst, src, tape)
         | None \<Rightarrow>
             (let alg = (case chunkAEADForSuite suite of Some a \<Rightarrow> a | None \<Rightarrow> aeadAES256GCM) in
              case chooseCEK cek tape of
                (Inl e, t1) \<Rightarrow> Some (Inl e, dst, src, t1)
              | (Inr key, t1) \<Rightarrow>
                  (case drawIDs t1 of
                     (Inl e, t2) \<Rightarrow> Some (Inl e, dst, src, t2)
                   | (Inr (sID, salt), t2) \<Rightarrow>
                       (case deriveMessageKey cr salt key suite sID of
                          Inl e \<Rightarrow> Some (Inl e, dst, src, t2)
                        | Inr messageKey \<Rightarrow>
                            (case writeChunks cr rd wr dst src
                                    (writeFixedHeader [] suite (word_of_int csize) sID salt)
                                    \<lparr>c_suiteID = suite, c_chunkAEAD = alg, c_chunkSize = nat csize,
                                     c_streamID = sID, c_messageKey = messageKey\<rparr> of
                               None \<Rightarrow> None
                             | Some (Some e, w, s) \<Rightarrow> Some (Inl e, w, s, t2)
                             | Some (None, w, s) \<Rightarrow> Some (Inr key, w, s, t2)))))))"

definition DecryptAEAD ::
  "crypto \<Rightarrow> 'r read_fn \<Rightarrow> 'w write_fn \<Rightarrow> 'w \<Rightarrow> 'r \<Rightarrow> bytes \<Rightarrow> (stream_error option \<times> 'w \<times> 'r) option" where
  "DecryptAEAD cr rd wr dst src cek =
     (if length cek \<noteq> CEKLen then Some (Some ErrBadCEKLength, dst, src)
      else
        (case readFixedHeader rd src of
           (Inl e, s1) \<Rightarrow> Some (Some e, dst, s1)
         | (Inr header, s1) \<Rightarrow>
             if suiteID header \<noteq> SuiteAES256GCM \<and> suiteID header \<noteq> SuiteChaCha20Poly1305
             then Some (Some (ErrSuiteMismatch (Some (suiteID header))), dst, s1)
             else
               (let alg = (case chunkAEADForSuite (suiteID header) of Some a \<Rightarrow> a | None \<Rightarrow> aeadAES256GCM) in
                case deriveMessageKey cr (streamSalt header) cek (suiteID header) (streamID header) of
                  Inl e \<Rightarrow> Some (Some e, dst, s1)
                | Inr messageKey \<Rightarrow>
                    readChunks cr rd wr dst s1
                      \<lparr>c_suiteID = suiteID header, c_chunkAEAD = alg,
                       c_chunkSize = unat (chunkSize header), c_streamID = streamID header,
                       c_messageKey = messageKey\<rparr>)))"

definition EncryptMLKEM ::
  "crypto \<Rightarrow> ('pk, 'sk) kem_lib \<Rightarrow> 'r read_fn \<Rightarrow> 'w write_fn \<Rightarrow> 'w \<Rightarrow> 'r \<Rightarrow> suite \<Rightarrow> bytes \<Rightarrow> int \<Rightarrow>
   bytes \<Rightarrow> (stream_error option \<times> 'w \<times> 'r \<times> bytes) option" where
  "EncryptMLKEM cr lib rd wr dst src suite publicKey csize tape =
     (if mlKemCiphertextLen suite = None then Some (Some (ErrSuiteMismatch (Some suite)), dst, src, tape)
      else
        (case validateChunkSize csize of
           Some e \<Rightarrow> Some (Some e, dst, src, tape)
         | None \<Rightarrow>
             (case fillRandom CEKLen tape of
                (Inl e, t1) \<Rightarrow> Some (Some e, dst, src, t1)
              | (Inr cek, t1) \<Rightarrow>
                  (case drawIDs t1 of
                     (Inl e, t2) \<Rightarrow> Some (Some e, dst, src, t2)
                   | (Inr (sID, salt), t2) \<Rightarrow>
                       (case wrapCEK cr lib publicKey suite cek (buildCEKWrapAAD suite sID) t2 of
                          (Inl e, t3) \<Rightarrow> Some (Some e, dst, src, t3)
                        | (Inr envelope, t3) \<Rightarrow>
                            (case deriveMessageKey cr salt cek suite sID of
                               Inl e \<Rightarrow> Some (Some e, dst, src, t3)
                             | Inr messageKey \<Rightarrow>
                                 (case writeChunks cr rd wr dst src
                                         (writeFixedHeader [] suite (word_of_int csize) sID salt @
                                          serializeKEMHeader envelope)
                                         \<lparr>c_suiteID = suite, c_chunkAEAD = aeadAES256GCM,
                                          c_chunkSize = nat csize, c_streamID = sID,
                                          c_messageKey = messageKey\<rparr> of
                                    None \<Rightarrow> None
                                  | Some (e, w, s) \<Rightarrow> Some (e, w, s, t3))))))))"

definition DecryptMLKEM ::
  "crypto \<Rightarrow> 'r read_fn \<Rightarrow> 'w write_fn \<Rightarrow> 'w \<Rightarrow> 'r \<Rightarrow> 'b recovery_fn \<Rightarrow> 'b \<Rightarrow>
   (stream_error option \<times> 'w \<times> 'r \<times> 'b) option" where
  "DecryptMLKEM cr rd wr dst src recover b =
     (case readFixedHeader rd src of
        (Inl e, s1) \<Rightarrow> Some (Some e, dst, s1, b)
      | (Inr header, s1) \<Rightarrow>
          if mlKemCiphertextLen (suiteID header) = None
          then Some (Some (ErrSuiteMismatch (Some (suiteID header))), dst, s1, b)
          else
            (case readKEMEnvelope rd s1 (suiteID header) of
               (Inl e, s2) \<Rightarrow> Some (Some e, dst, s2, b)
             | (Inr envelope, s2) \<Rightarrow>
                 (case recover b envelope (buildCEKWrapAAD (suiteID header) (streamID header)) of
                    (Inl e, b1) \<Rightarrow> Some (Some e, dst, s2, b1)
                  | (Inr cek, b1) \<Rightarrow>
                      if length cek \<noteq> CEKLen then Some (Some ErrBadCEKLength, dst, s2, b1)
                      else
                        (case deriveMessageKey cr (streamSalt header) cek (suiteID header) (streamID header) of
                           Inl e \<Rightarrow> Some (Some e, dst, s2, b1)
                         | Inr messageKey \<Rightarrow>
                             (case readChunks cr rd wr dst s2
                                     \<lparr>c_suiteID = suiteID header, c_chunkAEAD = aeadAES256GCM,
                                      c_chunkSize = unat (chunkSize header),
                                      c_streamID = streamID header, c_messageKey = messageKey\<rparr> of
                                None \<Rightarrow> None
                              | Some (e, w, s) \<Rightarrow> Some (e, w, s, b1))))))"

section \<open>Parameter checks\<close>

lemma validateChunkSize_ok:
  assumes "validateChunkSize n = None"
  shows "0 < n" "n \<le> int MaxChunkSize" "0 < nat n" "nat n \<le> MaxChunkSize" "nat n + 16 < 2 ^ 32"
    "unat (word_of_int n :: u32) = nat n" "(word_of_int n :: u32) = word_of_nat (nat n)"
    "(word_of_int n :: u32) \<noteq> 0" "(word_of_int n :: u32) \<le> word_of_nat MaxChunkSize"
proof -
  show b: "0 < n" "n \<le> int MaxChunkSize"
    using assms by (auto simp: validateChunkSize_def split: if_splits)
  then show "0 < nat n" "nat n \<le> MaxChunkSize" and l: "nat n + 16 < 2 ^ 32" by simp_all
  show w: "(word_of_int n :: u32) = word_of_nat (nat n)" using b by (simp add: of_nat_nat)
  then show u: "unat (word_of_int n :: u32) = nat n"
    using l by (simp add: unat_word_of_nat32 del: of_nat_nat)
  from u b show "(word_of_int n :: u32) \<noteq> 0" by (metis nat_0_iff not_le unat_0)
  from u b show "(word_of_int n :: u32) \<le> word_of_nat MaxChunkSize"
    by (simp add: word_le_nat_alt)
qed

lemma drawIDs_lengths:
  "drawIDs tape = (Inr (sID, salt), t') \<Longrightarrow> length sID = 16 \<and> length salt = 32"
  by (auto simp: drawIDs_def dest: fillRandom_length split: go_splits)

lemma chooseCEK_length: "chooseCEK cek tape = (Inr key, t') \<Longrightarrow> length key = 32"
  by (auto simp: chooseCEK_def dest: fillRandom_length split: option.splits if_splits)

section \<open>Reference: the container of a plaintext and its decryption\<close>

text \<open>The chunk context that both directions set up for a header and a message key.\<close>

definition crypto_of :: "byte \<Rightarrow> nat \<Rightarrow> bytes \<Rightarrow> bytes \<Rightarrow> chunkCrypto" where
  "crypto_of sid csize sID k =
     \<lparr>c_suiteID = sid,
      c_chunkAEAD = (case chunkAEADForSuite sid of Some a \<Rightarrow> a | None \<Rightarrow> aeadAES256GCM),
      c_chunkSize = csize, c_streamID = sID, c_messageKey = k\<rparr>"

definition container :: "aead \<Rightarrow> chunkCrypto \<Rightarrow> bytes \<Rightarrow> bytes \<Rightarrow> bytes \<Rightarrow> bytes" where
  "container a c salt extra pt =
     writeFixedHeader [] (c_suiteID c) (word_of_nat (c_chunkSize c)) (c_streamID c) salt @ extra @
     seal_chunks a c 0 (split_chunks (c_chunkSize c) pt)"

text \<open>\<open>DecryptAEAD\<close> as a function of the bytes: what is released and how it ends.\<close>

definition decrypt_bytes :: "crypto \<Rightarrow> bytes \<Rightarrow> bytes \<Rightarrow> bytes \<times> stream_error option" where
  "decrypt_bytes cr cek bs =
     (if length cek \<noteq> CEKLen then ([], Some ErrBadCEKLength)
      else if length bs < FixedHeaderLen then ([], Some ErrShortHeader)
      else
        (case parseFixedHeader (take FixedHeaderLen bs) of
           Inl e \<Rightarrow> ([], Some e)
         | Inr h \<Rightarrow>
             if suiteID h \<noteq> SuiteAES256GCM \<and> suiteID h \<noteq> SuiteChaCha20Poly1305
             then ([], Some (ErrSuiteMismatch (Some (suiteID h))))
             else
               (case deriveMessageKey cr (streamSalt h) cek (suiteID h) (streamID h) of
                  Inl e \<Rightarrow> ([], Some e)
                | Inr k \<Rightarrow>
                    open_stream cr (crypto_of (suiteID h) (unat (chunkSize h)) (streamID h) k)
                      (drop FixedHeaderLen bs))))"

context stream_io
begin

lemma EncryptAEAD_spec:
  assumes "crypto_law cr" "suite = SuiteAES256GCM \<or> suite = SuiteChaCha20Poly1305"
    and "validateChunkSize csize = None" "ready src" "writable dst"
    and "chooseCEK cek tape = (Inr key, t1)" "drawIDs t1 = (Inr (sID, salt), t2)"
  obtains k a w s where "deriveMessageKey cr salt key suite sID = Inr k"
    "newAEAD cr (c_chunkAEAD (crypto_of suite (nat csize) sID k)) k = Inr a" "aead_law a"
    "EncryptAEAD cr rd wr dst src suite cek csize tape = Some (Inr key, w, s, t2)"
    "writable w" "ready s" "content s = []"
    "written w = written dst @ container a (crypto_of suite (nat csize) sID k) salt [] (content src)"
proof -
  note v = validateChunkSize_ok [OF assms(3)]
  obtain k where k: "deriveMessageKey cr salt key suite sID = Inr k" "length k = 32"
    by (rule deriveMessageKey_ok [OF assms(1)])
  let ?c = "crypto_of suite (nat csize) sID k"
  obtain a where a: "newAEAD cr (c_chunkAEAD ?c) k = Inr a" "aead_law a"
    by (rule newAEAD_ok [OF assms(1) k(2)])
  have c: "c_messageKey ?c = k" "c_chunkSize ?c = nat csize" by (simp_all add: crypto_of_def)
  obtain w s where run: "writeChunks cr rd wr dst src (writeFixedHeader [] suite (word_of_int csize) sID salt) ?c =
      Some (None, w, s)" "writable w" "ready s" "content s = []"
    "written w = written dst @ writeFixedHeader [] suite (word_of_int csize) sID salt @
       seal_chunks a ?c 0 (split_chunks (nat csize) (content src))"
    using writeChunks_spec [of cr ?c a src dst "writeFixedHeader [] suite (word_of_int csize) sID salt"]
      a(1) v(3) assms(4,5) by (auto simp: c)
  have "EncryptAEAD cr rd wr dst src suite cek csize tape = Some (Inr key, w, s, t2)"
    using assms(2,3,6,7) k(1) run(1) by (auto simp: EncryptAEAD_def Let_def crypto_of_def)
  moreover have "written w = written dst @ container a ?c salt [] (content src)"
    using run(5) v(7) by (simp add: container_def crypto_of_def)
  ultimately show ?thesis using k a run by (intro that [of k a w s])
qed

lemma DecryptAEAD_spec:
  assumes "ready src" "writable dst"
  obtains w s where "DecryptAEAD cr rd wr dst src cek = Some (snd (decrypt_bytes cr cek (content src)), w, s)"
    "writable w" "written w = written dst @ fst (decrypt_bytes cr cek (content src))"
proof (cases "length cek = 32")
  case False
  with assms show ?thesis by (intro that [of dst src]) (simp_all add: DecryptAEAD_def decrypt_bytes_def)
next
  case True
  let ?C = "content src"
  obtain s1 where h: "readFixedHeader rd src =
      (if length ?C < 61 then Inl ErrShortHeader else parseFixedHeader (take 61 ?C), s1)"
    "ready s1" "content s1 = drop 61 ?C"
    by (rule readFixedHeader_spec [OF assms(1)])
  define bad where "bad \<longleftrightarrow> length ?C < 61 \<or> (\<forall>h k. parseFixedHeader (take 61 ?C) = Inr h \<longrightarrow>
      deriveMessageKey cr (streamSalt h) cek (suiteID h) (streamID h) = Inr k \<longrightarrow>
      suiteID h \<noteq> 1 \<and> suiteID h \<noteq> 2)"
  show ?thesis
  proof (cases bad)
    case True
    with h assms(2) \<open>length cek = 32\<close> show ?thesis
      by (intro that [of dst s1])
        (auto simp: bad_def DecryptAEAD_def decrypt_bytes_def Let_def split: sum.splits)
  next
    case False
    then obtain hd k where hd: "\<not> length ?C < 61" "parseFixedHeader (take 61 ?C) = Inr hd"
      "deriveMessageKey cr (streamSalt hd) cek (suiteID hd) (streamID hd) = Inr k"
      "suiteID hd = 1 \<or> suiteID hd = 2" by (auto simp: bad_def)
    let ?c = "crypto_of (suiteID hd) (unat (chunkSize hd)) (streamID hd) k"
    obtain w s where run: "readChunks cr rd wr dst s1 ?c = Some (snd (open_stream cr ?c (content s1)), w, s)"
      "writable w" "written w = written dst @ fst (open_stream cr ?c (content s1))"
      by (rule readChunks_spec [OF h(2) assms(2)])
    have "decrypt_bytes cr cek ?C = open_stream cr ?c (content s1)"
      using True hd h(3) by (auto simp: decrypt_bytes_def)
    with run hd h True show ?thesis
      by (intro that [of w s]) (auto simp: DecryptAEAD_def Let_def crypto_of_def)
  qed
qed

end

section \<open>Decrypting a container\<close>

lemma crypto_of_sel [simp]:
  "c_suiteID (crypto_of sid n sID k) = sid" "c_chunkSize (crypto_of sid n sID k) = n"
  "c_streamID (crypto_of sid n sID k) = sID" "c_messageKey (crypto_of sid n sID k) = k"
  by (simp_all add: crypto_of_def)

lemma parse_container_header:
  assumes "length sID = 16" "length salt = 32" "chunkAEADForSuite sid \<noteq> None"
    and "0 < n" "n \<le> MaxChunkSize"
  shows "parseFixedHeader (take 61 (container a (crypto_of sid n sID k) salt extra pt)) =
      Inr \<lparr>suiteID = sid, chunkSize = word_of_nat n, streamID = sID, streamSalt = salt\<rparr>"
    "drop 61 (container a (crypto_of sid n sID k) salt extra pt) =
      extra @ seal_chunks a (crypto_of sid n sID k) 0 (split_chunks n pt)"
    "\<not> length (container a (crypto_of sid n sID k) salt extra pt) < 61"
proof -
  let ?h = "writeFixedHeader [] sid (word_of_nat n) sID salt"
  have len: "length ?h = 61" using assms(1,2) by simp
  then show "drop 61 (container a (crypto_of sid n sID k) salt extra pt) =
      extra @ seal_chunks a (crypto_of sid n sID k) 0 (split_chunks n pt)"
    "\<not> length (container a (crypto_of sid n sID k) salt extra pt) < 61"
    by (simp_all add: container_def)
  have u: "unat (word_of_nat n :: u32) = n" using assms(5) by (intro unat_word_of_nat32) simp
  then have "(word_of_nat n :: u32) \<noteq> 0" "(word_of_nat n :: u32) \<le> word_of_nat MaxChunkSize"
    using assms(4,5) by (auto simp: word_le_nat_alt)
  then have "parseFixedHeader (?h @ []) =
      Inr \<lparr>suiteID = sid, chunkSize = word_of_nat n, streamID = sID, streamSalt = salt\<rparr>"
    using assms(1-3) by (subst parse_writeFixedHeader_layout) (simp_all add: not_less)
  with len show "parseFixedHeader (take 61 (container a (crypto_of sid n sID k) salt extra pt)) =
      Inr \<lparr>suiteID = sid, chunkSize = word_of_nat n, streamID = sID, streamSalt = salt\<rparr>"
    by (simp add: container_def)
qed

lemma decrypt_container:
  assumes "suite = SuiteAES256GCM \<or> suite = SuiteChaCha20Poly1305"
    and "0 < n" "n \<le> MaxChunkSize" "length key = 32" "length sID = 16" "length salt = 32"
    and "deriveMessageKey cr salt key suite sID = Inr k"
    and "newAEAD cr (c_chunkAEAD (crypto_of suite n sID k)) k = Inr a" "aead_law a"
  shows "decrypt_bytes cr key (container a (crypto_of suite n sID k) salt [] pt) = (pt, None)"
proof -
  let ?c = "crypto_of suite n sID k"
  have u: "unat (word_of_nat n :: u32) = n" using assms(3) by (intro unat_word_of_nat32) simp
  have "chunkAEADForSuite suite \<noteq> None" using assms(1) by (auto simp: chunkAEADForSuite_def)
  note p = parse_container_header [OF assms(5,6) this assms(2,3), of a k "[]" pt]
  have "open_stream cr ?c (seal_chunks a ?c 0 (split_chunks n pt)) = (concat (split_chunks n pt), None)"
    using assms(2,3,8,9) wf_split_chunks [OF assms(2)] by (intro open_stream_seal) simp_all
  with p u assms show ?thesis
    by (auto simp: decrypt_bytes_def concat_split_chunks)
qed

section \<open>ML-KEM streams\<close>

lemma mlkem_suite:
  "mlKemCiphertextLen sid \<noteq> None \<Longrightarrow> chunkAEADForSuite sid = Some aeadAES256GCM"
  by (auto simp: mlKemCiphertextLen_def chunkAEADForSuite_def split: if_splits)

locale kem_stream = stream_io rd content ready wr written writable + cek_recovery recover seals
  for rd :: "'r read_fn" and content :: "'r \<Rightarrow> bytes" and ready :: "'r \<Rightarrow> bool"
    and wr :: "'w write_fn" and written :: "'w \<Rightarrow> bytes" and writable :: "'w \<Rightarrow> bool"
    and recover :: "'b recovery_fn" and seals :: "'b \<Rightarrow> KEMEnvelope \<Rightarrow> bytes \<Rightarrow> bytes \<Rightarrow> bool"
begin

lemma DecryptMLKEM_container:
  assumes "wf_env sid env" "0 < n" "n \<le> MaxChunkSize" "length cek = 32" "length sID = 16" "length salt = 32"
    and "deriveMessageKey cr salt cek sid sID = Inr k"
    and "newAEAD cr (c_chunkAEAD (crypto_of sid n sID k)) k = Inr a" "aead_law a"
    and "seals b env (buildCEKWrapAAD sid sID) cek"
    and "ready src" "writable dst"
    and "content src = container a (crypto_of sid n sID k) salt (serializeKEMHeader env) pt"
  obtains w s b' where "DecryptMLKEM cr rd wr dst src recover b = Some (None, w, s, b')"
    "written w = written dst @ pt" "snd (recover b env (buildCEKWrapAAD sid sID)) = b'"
proof -
  let ?c = "crypto_of sid n sID k"
  have u: "unat (word_of_nat n :: u32) = n" using assms(3) by (intro unat_word_of_nat32) simp
  have ml: "mlKemCiphertextLen sid \<noteq> None" using assms(1) by (auto simp: wf_env_def)
  then have ae: "chunkAEADForSuite sid \<noteq> None" by (simp add: mlkem_suite)
  note p = parse_container_header [OF assms(5,6) ae assms(2,3), of a k "serializeKEMHeader env" pt]
  obtain s1 where h: "readFixedHeader rd src = (Inr \<lparr>suiteID = sid, chunkSize = word_of_nat n,
      streamID = sID, streamSalt = salt\<rparr>, s1)" "ready s1"
    "content s1 = serializeKEMHeader env @ seal_chunks a ?c 0 (split_chunks n pt)"
    by (rule readFixedHeader_spec [OF assms(11)]) (use p assms(13) in simp)
  obtain s2 where e: "readKEMEnvelope rd s1 sid = (Inr env, s2)" "ready s2"
    "content s2 = seal_chunks a ?c 0 (split_chunks n pt)"
    by (rule readKEMEnvelope_serialize [OF h(2,3) assms(1)])
  obtain b' where b: "recover b env (buildCEKWrapAAD sid sID) = (Inr cek, b')"
    by (rule recover_cases [OF assms(10)])
  have o: "open_stream cr ?c (content s2) = (pt, None)"
    using e(3) assms(2,3,8,9) wf_split_chunks [OF assms(2)]
    by (simp add: open_stream_seal concat_split_chunks)
  obtain w s where r: "readChunks cr rd wr dst s2 ?c = Some (None, w, s)" "written w = written dst @ pt"
    by (rule readChunks_spec [OF e(2) assms(12), of cr ?c]) (use o in simp)
  have "?c = \<lparr>c_suiteID = sid, c_chunkAEAD = aeadAES256GCM, c_chunkSize = n, c_streamID = sID, c_messageKey = k\<rparr>"
    by (simp add: crypto_of_def mlkem_suite [OF ml])
  then have "DecryptMLKEM cr rd wr dst src recover b = Some (None, w, s, b')"
    using h(1) ml e(1) b assms(4,7) r(1) u by (simp add: DecryptMLKEM_def)
  with r(2) b show ?thesis by (intro that) simp_all
qed

end

interpretation ks: kem_stream script_read script_content script_ready mem_write w_out mem_writable
    "RecoverCEK_local cr lib" "local_seals cr lib" for cr lib
  by unfold_locales

context stream_io
begin

lemma EncryptMLKEM_spec:
  assumes "crypto_law cr" "validateChunkSize csize = None" "ready src" "writable dst"
    and "mlKemCiphertextLen suite \<noteq> None"
    and "fillRandom 32 tape = (Inr cek, t1)" "drawIDs t1 = (Inr (sID, salt), t2)"
    and "wrapCEK cr lib pub suite cek (buildCEKWrapAAD suite sID) t2 = (Inr env, t3)"
  obtains k a w s where "deriveMessageKey cr salt cek suite sID = Inr k"
    "newAEAD cr (c_chunkAEAD (crypto_of suite (nat csize) sID k)) k = Inr a" "aead_law a"
    "EncryptMLKEM cr lib rd wr dst src suite pub csize tape = Some (None, w, s, t3)"
    "writable w" "ready s" "content s = []"
    "written w = written dst @ container a (crypto_of suite (nat csize) sID k) salt (serializeKEMHeader env) (content src)"
proof -
  note v = validateChunkSize_ok [OF assms(2)]
  obtain k where k: "deriveMessageKey cr salt cek suite sID = Inr k" "length k = 32"
    by (rule deriveMessageKey_ok [OF assms(1)])
  let ?c = "crypto_of suite (nat csize) sID k"
  let ?h = "writeFixedHeader [] suite (word_of_int csize) sID salt @ serializeKEMHeader env"
  obtain a where a: "newAEAD cr (c_chunkAEAD ?c) k = Inr a" "aead_law a"
    by (rule newAEAD_ok [OF assms(1) k(2)])
  obtain w s where run: "writeChunks cr rd wr dst src ?h ?c = Some (None, w, s)"
    "writable w" "ready s" "content s = []"
    "written w = written dst @ ?h @ seal_chunks a ?c 0 (split_chunks (nat csize) (content src))"
    using writeChunks_spec [of cr ?c a src dst ?h] a(1) v(3) assms(3,4) by auto
  have "?c = \<lparr>c_suiteID = suite, c_chunkAEAD = aeadAES256GCM, c_chunkSize = nat csize, c_streamID = sID, c_messageKey = k\<rparr>"
    by (simp add: crypto_of_def mlkem_suite [OF assms(5)])
  then have "EncryptMLKEM cr lib rd wr dst src suite pub csize tape = Some (None, w, s, t3)"
    using assms(2,5-8) k(1) run(1) by (simp add: EncryptMLKEM_def)
  moreover have "written w = written dst @ container a ?c salt (serializeKEMHeader env) (content src)"
    using run(5) v(7) by (simp add: container_def)
  ultimately show ?thesis using k a run by (intro that [of k a w s])
qed

end

section \<open>What a successful encryption has done\<close>

lemma EncryptAEAD_success:
  assumes "EncryptAEAD cr rd wr dst src suite cek csize tape = Some (Inr key, w, s, t)"
  obtains t1 sID salt where "suite = SuiteAES256GCM \<or> suite = SuiteChaCha20Poly1305"
    "validateChunkSize csize = None" "chooseCEK cek tape = (Inr key, t1)" "drawIDs t1 = (Inr (sID, salt), t)"
  using assms unfolding EncryptAEAD_def Let_def by (auto split: go_splits)

lemma EncryptMLKEM_success:
  assumes "EncryptMLKEM cr lib rd wr dst src suite pub csize tape = Some (None, w, s, t)"
  obtains cek t1 sID salt t2 env where "mlKemCiphertextLen suite \<noteq> None" "validateChunkSize csize = None"
    "fillRandom 32 tape = (Inr cek, t1)" "drawIDs t1 = (Inr (sID, salt), t2)"
    "wrapCEK cr lib pub suite cek (buildCEKWrapAAD suite sID) t2 = (Inr env, t)"
  using assms unfolding EncryptMLKEM_def by (auto split: go_splits)

lemma fillRandom_enough: "n \<le> length tape \<Longrightarrow> fillRandom n tape = (Inr (take n tape), drop n tape)"
  by (simp add: fillRandom_def)

lemma drawIDs_enough:
  "48 \<le> length tape \<Longrightarrow> drawIDs tape = (Inr (take 16 tape, take 32 (drop 16 tape)), drop 48 tape)"
  by (simp add: drawIDs_def fillRandom_def)

end
