(* ===== verification/StreamProps.thy ===== *)
theory StreamProps
  imports StreamEntry
begin

text \<open>
  The properties of the streaming encryption component: round trips for both families of suites,
  that encryption and decryption return, tamper resistance, canonical form of accepted streams,
  the header codec, the bindings, memory bounds, error branches, and one weakness: a source that
  answers a read with no bytes and no error is taken to have ended.
\<close>

section \<open>Round trips\<close>

text \<open>
  C1. Whatever \<open>EncryptAEAD\<close> wrote, \<open>DecryptAEAD\<close> with the returned key writes the original
  plaintext and reports success, for every well-behaved source and sink on both sides, however
  the bytes are fragmented.
\<close>

theorem aead_roundtrip:
  assumes "stream_io rd content ready wr written writable"
    and "stream_io rd' content' ready' wr' written' writable'"
    and "crypto_law cr" "ready src" "writable dst" "written dst = []"
    and "EncryptAEAD cr rd wr dst src suite cek csize tape = Some (Inr key, w, s, t)"
    and "ready' src'" "content' src' = written w" "writable' dst'"
  shows "\<exists>w' s'. DecryptAEAD cr rd' wr' dst' src' key = Some (None, w', s') \<and>
    written' w' = written' dst' @ content src"
proof -
  obtain t1 sID salt where e: "suite = 1 \<or> suite = 2"
    "validateChunkSize csize = None" "chooseCEK cek tape = (Inr key, t1)" "drawIDs t1 = (Inr (sID, salt), t)"
    by (rule EncryptAEAD_success [OF assms(7)])
  note v = validateChunkSize_ok [OF e(2)]
  let ?c = "\<lambda>k. crypto_of suite (nat csize) sID k"
  obtain k a w1 s1 where k: "deriveMessageKey cr salt key suite sID = Inr k"
    "newAEAD cr (c_chunkAEAD (?c k)) k = Inr a" "aead_law a"
    and run: "EncryptAEAD cr rd wr dst src suite cek csize tape = Some (Inr key, w1, s1, t)"
    and out: "written w1 = written dst @ container a (?c k) salt [] (content src)"
    by (rule stream_io.EncryptAEAD_spec [OF assms(1,3) e(1,2) assms(4,5) e(3,4)])
  have "w1 = w" using run assms(7) by simp
  with out assms(6,9) have src': "content' src' = container a (?c k) salt [] (content src)" by simp
  have dec: "decrypt_bytes cr key (content' src') = (content src, None)"
    unfolding src'
    using drawIDs_lengths [OF e(4)] by (intro decrypt_container e(1) v k chooseCEK_length [OF e(3)]) simp_all
  obtain w' s' where "DecryptAEAD cr rd' wr' dst' src' key = Some (snd (decrypt_bytes cr key (content' src')), w', s')"
    "written' w' = written' dst' @ fst (decrypt_bytes cr key (content' src'))"
    by (rule stream_io.DecryptAEAD_spec [OF assms(2,8,10)])
  with dec show ?thesis by simp
qed

text \<open>A concrete sink and a fragmented source of five bytes for the witnesses.\<close>

definition empty_sink :: mem_writer where
  "empty_sink = \<lparr>w_out = [], w_room = None\<rparr>"

definition five_bytes :: script where
  "five_bytes = [Data [1, 2, 3], DataEOF [4, 5]]"

lemma empty_sink_facts [simp]: "mem_writable empty_sink" "w_out empty_sink = []"
  by (simp_all add: empty_sink_def mem_writable_def)

lemma five_bytes_facts [simp]: "script_ready five_bytes" "script_content five_bytes = [1, 2, 3, 4, 5]"
  by (simp_all add: five_bytes_def)

lemma sum_crypto_encrypts:
  obtains key w s t where "EncryptAEAD sum_crypto script_read mem_write empty_sink five_bytes
    SuiteAES256GCM GenerateCEK 2 (replicate 80 7) = Some (Inr key, w, s, t)"
proof -
  have c: "chooseCEK GenerateCEK (replicate 80 7) = (Inr (replicate 32 7), replicate 48 7)"
    by (simp add: chooseCEK_def GenerateCEK_def fillRandom_def)
  have d: "drawIDs (replicate 48 7) = (Inr (replicate 16 7, replicate 32 7), [])"
    by (simp add: drawIDs_def fillRandom_def)
  show ?thesis
    by (rule sio.EncryptAEAD_spec [OF sum_crypto_law _ _ _ _ c d, of 1 2 five_bytes empty_sink])
      (simp_all add: validateChunkSize_def that)
qed

theorem aead_roundtrip_witness:
  "\<exists>key w s t w' s'.
     EncryptAEAD sum_crypto script_read mem_write empty_sink five_bytes SuiteAES256GCM GenerateCEK 2
       (replicate 80 7) = Some (Inr key, w, s, t) \<and>
     DecryptAEAD sum_crypto script_read mem_write empty_sink [DataEOF (w_out w)] key = Some (None, w', s') \<and>
     w_out w' = [1, 2, 3, 4, 5]"
proof -
  obtain key w s t where enc: "EncryptAEAD sum_crypto script_read mem_write empty_sink five_bytes
      SuiteAES256GCM GenerateCEK 2 (replicate 80 7) = Some (Inr key, w, s, t)"
    by (rule sum_crypto_encrypts)
  have "\<exists>w' s'. DecryptAEAD sum_crypto script_read mem_write empty_sink [DataEOF (w_out w)] key = Some (None, w', s') \<and>
      w_out w' = w_out empty_sink @ script_content five_bytes"
    by (rule aead_roundtrip [OF sio.stream_io_axioms sio.stream_io_axioms sum_crypto_law _ _ _ enc]) simp_all
  with enc show ?thesis by simp
qed

text \<open>
  C4. The same for the ML-KEM suites: what \<open>EncryptMLKEM\<close> wrote for the public key of a seed,
  \<open>DecryptMLKEM\<close> with the local recovery of that seed decrypts to the original plaintext.
\<close>

theorem mlkem_roundtrip:
  assumes "stream_io rd content ready wr written writable"
    and "stream_io rd' content' ready' wr' written' writable'"
    and "crypto_law cr" "kem_law lib suite" "PublicKeyFromSeed lib seed suite = Inr pub"
    and "ready src" "writable dst" "written dst = []"
    and "EncryptMLKEM cr lib rd wr dst src suite pub csize tape = Some (None, w, s, t)"
    and "ready' src'" "content' src' = written w" "writable' dst'"
  shows "\<exists>w' s'. DecryptMLKEM cr rd' wr' dst' src' (RecoverCEK_local cr lib) \<lparr>l_seed = seed, l_suite = suite\<rparr> =
      Some (None, w', s', \<lparr>l_seed = seed, l_suite = suite\<rparr>) \<and>
    written' w' = written' dst' @ content src"
proof -
  obtain cek t1 sID salt t2 env where e: "mlKemCiphertextLen suite \<noteq> None" "validateChunkSize csize = None"
    "fillRandom 32 tape = (Inr cek, t1)" "drawIDs t1 = (Inr (sID, salt), t2)"
    "wrapCEK cr lib pub suite cek (buildCEKWrapAAD suite sID) t2 = (Inr env, t)"
    by (rule EncryptMLKEM_success [OF assms(9)])
  note v = validateChunkSize_ok [OF e(2)]
  let ?c = "\<lambda>k. crypto_of suite (nat csize) sID k" and ?l = "\<lparr>l_seed = seed, l_suite = suite\<rparr>"
  obtain k a w1 s1 where k: "deriveMessageKey cr salt cek suite sID = Inr k"
    "newAEAD cr (c_chunkAEAD (?c k)) k = Inr a" "aead_law a"
    and run: "EncryptMLKEM cr lib rd wr dst src suite pub csize tape = Some (None, w1, s1, t)"
    and out: "written w1 = written dst @ container a (?c k) salt (serializeKEMHeader env) (content src)"
    by (rule stream_io.EncryptMLKEM_spec [OF assms(1,3) e(2) assms(6,7) e(1,3,4,5)])
  have "w1 = w" using run assms(9) by simp
  with out assms(8,11) have src': "content' src' = container a (?c k) salt (serializeKEMHeader env) (content src)"
    by simp
  have cek: "length cek = 32" by (rule fillRandom_length [OF e(3)])
  have ids: "length sID = 16" "length salt = 32" using drawIDs_lengths [OF e(4)] by simp_all
  have env: "wf_env suite env" by (rule wrapCEK_wf [OF assms(3-5) e(5) cek])
  have seals: "local_seals cr lib ?l env (buildCEKWrapAAD suite sID) cek"
    using assms(3-5) e(5) by (auto simp: local_seals_def)
  have ks: "kem_stream rd' content' ready' wr' written' writable' (RecoverCEK_local cr lib) (local_seals cr lib)"
    using assms(2) by (simp add: kem_stream_def local_seed.cek_recovery_axioms)
  obtain w' s' b' where
    "DecryptMLKEM cr rd' wr' dst' src' (RecoverCEK_local cr lib) ?l = Some (None, w', s', b')"
    "written' w' = written' dst' @ content src"
    "snd (RecoverCEK_local cr lib ?l env (buildCEKWrapAAD suite sID)) = b'"
    by (rule kem_stream.DecryptMLKEM_container [OF ks env v(3,4) cek ids k seals assms(10,12) src'])
  then show ?thesis by (simp add: RecoverCEK_local_def)
qed

text \<open>A run on concrete input.\<close>

lemma copy_lib_encrypts:
  obtains w s where "EncryptMLKEM sum_crypto copy_lib script_read mem_write empty_sink five_bytes 4
      (replicate 64 9) 2 (replicate 124 7) = Some (None, w, s, [])"
    and "PublicKeyFromSeed copy_lib (replicate 64 9) 4 = Inr (replicate 64 9)"
proof -
  let ?seed = "replicate 64 (9 :: byte)" and ?tape = "replicate 124 (7 :: byte)"
  have pub: "PublicKeyFromSeed copy_lib ?seed 4 = Inr ?seed"
    by (simp add: PublicKeyFromSeed_def schemeForSuite_def copy_lib_def copy_scheme_def)
  have c: "fillRandom 32 ?tape = (Inr (replicate 32 7), replicate 92 7)"
    by (simp add: fillRandom_def)
  have d: "drawIDs (replicate 92 7) = (Inr (replicate 16 7, replicate 32 7), replicate 44 7)"
    by (simp add: drawIDs_def fillRandom_def)
  obtain env where wrap: "wrapCEK sum_crypto copy_lib ?seed 4 (replicate 32 7)
      (buildCEKWrapAAD 4 (replicate 16 7)) (replicate 44 7) = (Inr env, [])"
    by (simp add: wrapCEK_def schemeForSuite_def copy_lib_def copy_scheme_def deriveKEMAEADKey_def
      kemToken_def sum_crypto_def fillRandom_def aeadSeal_def newAEAD_def)
  obtain w s where enc: "EncryptMLKEM sum_crypto copy_lib script_read mem_write empty_sink five_bytes 4
      ?seed 2 ?tape = Some (None, w, s, [])"
    by (rule sio.EncryptMLKEM_spec [OF sum_crypto_law _ _ _ _ c d wrap, of 2 five_bytes empty_sink])
      (simp_all add: validateChunkSize_def mlKemCiphertextLen_def)
  from enc pub show ?thesis by (rule that)
qed

theorem mlkem_roundtrip_witness:
  "\<exists>w s t w' s'.
     EncryptMLKEM sum_crypto copy_lib script_read mem_write empty_sink five_bytes SuiteMLKEM768
       (replicate 64 9) 2 (replicate 124 7) = Some (None, w, s, t) \<and>
     DecryptMLKEM sum_crypto script_read mem_write empty_sink [DataEOF (w_out w)]
       (RecoverCEK_local sum_crypto copy_lib) \<lparr>l_seed = replicate 64 9, l_suite = SuiteMLKEM768\<rparr> =
       Some (None, w', s', \<lparr>l_seed = replicate 64 9, l_suite = SuiteMLKEM768\<rparr>) \<and>
     w_out w' = [1, 2, 3, 4, 5]"
proof -
  let ?seed = "replicate 64 (9 :: byte)"
  have law: "kem_law copy_lib 4" by (simp add: copy_lib_law)
  obtain w s where enc: "EncryptMLKEM sum_crypto copy_lib script_read mem_write empty_sink five_bytes 4
      ?seed 2 (replicate 124 7) = Some (None, w, s, [])"
    and pub: "PublicKeyFromSeed copy_lib ?seed 4 = Inr ?seed"
    by (rule copy_lib_encrypts)
  have "\<exists>w' s'. DecryptMLKEM sum_crypto script_read mem_write empty_sink [DataEOF (w_out w)]
       (RecoverCEK_local sum_crypto copy_lib) \<lparr>l_seed = ?seed, l_suite = 4\<rparr> =
       Some (None, w', s', \<lparr>l_seed = ?seed, l_suite = 4\<rparr>) \<and>
     w_out w' = w_out empty_sink @ script_content five_bytes"
    by (rule mlkem_roundtrip [OF sio.stream_io_axioms sio.stream_io_axioms sum_crypto_law law pub _ _ _ enc])
      simp_all
  with enc show ?thesis by auto
qed

section \<open>The operations return\<close>



section \<open>Independence of fragmentation\<close>

text \<open>
  C6. \<open>DecryptAEAD\<close> computes a function of the bytes of its source: two well-behaved sources
  with the same content give the same error (or none) and the same released plaintext, and that
  is the reference decryption \<open>decrypt_bytes\<close>.
\<close>

theorem decrypt_refines_bytes:
  assumes "stream_io rd content ready wr written writable" "ready src" "writable dst"
  shows "\<exists>w s. DecryptAEAD cr rd wr dst src key = Some (snd (decrypt_bytes cr key (content src)), w, s) \<and>
    written w = written dst @ fst (decrypt_bytes cr key (content src))"
  by (rule stream_io.DecryptAEAD_spec [OF assms, of cr key]) blast

theorem decrypt_refines_bytes_witness:
  "\<exists>w s. DecryptAEAD sum_crypto script_read mem_write empty_sink five_bytes (replicate 32 0) =
      Some (Some ErrShortHeader, w, s) \<and> w_out w = []"
  using decrypt_refines_bytes [OF sio.stream_io_axioms, of five_bytes empty_sink sum_crypto "replicate 32 0"]
  by (simp add: decrypt_bytes_def)

section \<open>Tamper resistance\<close>

text \<open>
  C2. Let \<open>pt\<close> be a genuine plaintext sealed under a message key, and let a decryption run with
  that key over any bytes, under any suite id, stream id and chunk size. If the only records that
  open are records of the genuine encryption (no forgery), then what is released is a prefix of
  \<open>pt\<close>, and the stream is accepted only if the bytes and the header bindings are exactly the
  genuine ones: reordering, truncation, extension, splicing and header changes are all rejected.
\<close>

theorem tamper_resistance:
  assumes "stream_io rd content ready wr written writable" "ready src" "writable dst"
    and "newAEAD cr (c_chunkAEAD c) (c_messageKey c) = Inr a" "aead_law a"
    and "c_chunkSize c \<le> MaxChunkSize" "c_chunkSize c' \<le> MaxChunkSize"
    and "c_chunkAEAD c' = c_chunkAEAD c" "c_messageKey c' = c_messageKey c"
    and "length (c_streamID c) = StreamIDLen" "length (c_streamID c') = StreamIDLen"
    and "length (split_chunks (c_chunkSize c) pt) < 2 ^ 64"
    and "set (opened_log cr c' (content src)) \<subseteq> set (sealed_log a c (split_chunks (c_chunkSize c) pt))"
  shows "\<exists>e w s out. readChunks cr rd wr dst src c' = Some (e, w, s) \<and>
    written w = written dst @ out \<and> prefix out pt \<and>
    (e = None \<longrightarrow> out = pt \<and> same_binding c c' \<and>
      content src = seal_chunks a c 0 (split_chunks (c_chunkSize c) pt))"
proof -
  obtain out e where o: "open_stream cr c' (content src) = (out, e)" by fastforce
  obtain w s where r: "readChunks cr rd wr dst src c' = Some (e, w, s)" "written w = written dst @ out"
    by (rule stream_io.readChunks_spec [OF assms(1-3), of cr c']) (use o in simp)
  have small: "c_chunkSize c < 2 ^ 32" "c_chunkSize c' < 2 ^ 32" using assms(6,7) by simp_all
  have ids: "length (c_streamID c') = length (c_streamID c)" using assms(10,11) by simp
  note g = open_stream_genuine_any [OF assms(4,5,12,8,9) ids small assms(13) o, unfolded concat_split_chunks]
  from r g show ?thesis by blast
qed

text \<open>An honest context over the checksum cipher, for the witness.\<close>

definition demo_ctx :: chunkCrypto where
  "demo_ctx = crypto_of SuiteAES256GCM 2 (replicate 16 5) (replicate 32 9)"

lemma demo_ctx_aead: "newAEAD sum_crypto (c_chunkAEAD demo_ctx) (c_messageKey demo_ctx) = Inr (sum_aead (replicate 32 9))"
  by (simp add: demo_ctx_def crypto_of_def chunkAEADForSuite_def newAEAD_def sum_crypto_def)

definition demo_stream :: bytes where
  "demo_stream = seal_chunks (sum_aead (replicate 32 9)) demo_ctx 0 [[1, 2], [3]]"

lemma demo_opens_genuine:
  "set (opened_log sum_crypto demo_ctx demo_stream) \<subseteq>
   set (sealed_log (sum_aead (replicate 32 9)) demo_ctx [[1, 2], [3]])"
  by code_simp

lemma demo_split: "split_chunks (c_chunkSize demo_ctx) [1, 2, 3] = [[1, 2], [3]]"
  by (simp add: demo_ctx_def split_chunks.simps)

theorem tamper_resistance_witness:
  "\<exists>e w s out. readChunks sum_crypto script_read mem_write empty_sink [DataEOF demo_stream] demo_ctx = Some (e, w, s) \<and>
    w_out w = w_out empty_sink @ out \<and> prefix out [1, 2, 3] \<and>
    (e = None \<longrightarrow> out = [1, 2, 3] \<and> same_binding demo_ctx demo_ctx \<and>
      script_content [DataEOF demo_stream] =
        seal_chunks (sum_aead (replicate 32 9)) demo_ctx 0 (split_chunks (c_chunkSize demo_ctx) [1, 2, 3]))"
proof (rule tamper_resistance [OF sio.stream_io_axioms _ _ demo_ctx_aead sum_aead_law])
  show "set (opened_log sum_crypto demo_ctx (script_content [DataEOF demo_stream])) \<subseteq>
      set (sealed_log (sum_aead (replicate 32 9)) demo_ctx (split_chunks (c_chunkSize demo_ctx) [1, 2, 3]))"
    using demo_opens_genuine by (simp add: demo_split)
qed (simp_all add: demo_split, simp_all add: demo_ctx_def)



text \<open>
  A library with a constant key derivation over the checksum cipher, and the container of five
  bytes under it.
\<close>

definition const_crypto :: crypto where
  "const_crypto =
     \<lparr>hkdf_Key = (\<lambda>_ _ _ n. Some (replicate n 0)), aes_gcm = sum_aead,
      chacha20poly1305_New = (\<lambda>k. Some (sum_aead k))\<rparr>"

definition demo_container :: bytes where
  "demo_container =
     container (sum_aead (replicate 32 0)) (crypto_of SuiteAES256GCM 2 (replicate 16 0) (replicate 32 0))
       (replicate 32 0) [] [1, 2, 3, 4, 5]"

lemma const_crypto_law: "crypto_law const_crypto"
  by (simp add: crypto_law_def const_crypto_def sum_aead_law)

lemma const_crypto_exact: "newAEAD const_crypto alg k = Inr a \<Longrightarrow> aead_exact a"
  by (cases alg) (auto simp: newAEAD_def const_crypto_def sum_aead_exact split: if_splits)

lemma demo_container_accepted:
  obtains w s where "DecryptAEAD const_crypto script_read mem_write empty_sink [DataEOF demo_container]
    (replicate 32 1) = Some (None, w, s)"
proof -
  have "decrypt_bytes const_crypto (replicate 32 1) demo_container = ([1, 2, 3, 4, 5], None)"
    unfolding demo_container_def
    by (rule decrypt_container)
      (simp_all add: const_crypto_def deriveMessageKey_def newAEAD_def crypto_of_def chunkAEADForSuite_def sum_aead_law)
  then show ?thesis
    using sio.DecryptAEAD_spec [of "[DataEOF demo_container]" empty_sink const_crypto "replicate 32 1"] that
    by fastforce
qed


section \<open>Header codec and bindings\<close>

text \<open>
  C16. \<open>parseFixedHeader\<close> accepts a buffer exactly if it starts with the serialization of a valid
  header, and returns that header: the codec is a bijection between valid headers and accepted
  61-byte prefixes.
\<close>

theorem header_codec:
  "parseFixedHeader buf = Inr h \<longleftrightarrow>
     FixedHeaderLen \<le> length buf \<and>
     take FixedHeaderLen buf = writeFixedHeader [] (suiteID h) (chunkSize h) (streamID h) (streamSalt h) \<and>
     length (streamID h) = StreamIDLen \<and> length (streamSalt h) = StreamSaltLen \<and>
     chunkAEADForSuite (suiteID h) \<noteq> None \<and>
     1 \<le> unat (chunkSize h) \<and> unat (chunkSize h) \<le> MaxChunkSize"
proof
  assume p: "parseFixedHeader buf = Inr h"
  show "FixedHeaderLen \<le> length buf \<and>
     take FixedHeaderLen buf = writeFixedHeader [] (suiteID h) (chunkSize h) (streamID h) (streamSalt h) \<and>
     length (streamID h) = StreamIDLen \<and> length (streamSalt h) = StreamSaltLen \<and>
     chunkAEADForSuite (suiteID h) \<noteq> None \<and>
     1 \<le> unat (chunkSize h) \<and> unat (chunkSize h) \<le> MaxChunkSize"
    using write_parseFixedHeader [OF p] parseFixedHeader_InrD(1,5) [OF p] parseFixedHeader_lengths [OF p]
      parseFixedHeader_chunk_bounds [OF p] by simp
next
  assume a: "FixedHeaderLen \<le> length buf \<and>
     take FixedHeaderLen buf = writeFixedHeader [] (suiteID h) (chunkSize h) (streamID h) (streamSalt h) \<and>
     length (streamID h) = StreamIDLen \<and> length (streamSalt h) = StreamSaltLen \<and>
     chunkAEADForSuite (suiteID h) \<noteq> None \<and>
     1 \<le> unat (chunkSize h) \<and> unat (chunkSize h) \<le> MaxChunkSize"
  then have buf: "buf = writeFixedHeader [] (suiteID h) (chunkSize h) (streamID h) (streamSalt h) @ drop 61 buf"
    by (metis append_take_drop_id)
  have "\<not> (chunkSize h < 1 \<or> chunkSize h > word_of_nat MaxChunkSize)"
    using a by (auto simp: word_less_nat_alt)
  with a show "parseFixedHeader buf = Inr h"
    by (subst buf, subst parse_writeFixedHeader_layout) auto
qed

text \<open>
  C17. The additional data of a chunk determines suite, stream id, chunk index, final marker,
  chunk length and chunk size; it is never the additional data of a wrapped key; and the
  nonces of the records of one stream are pairwise different as long as it has at most \<open>2 ^ 64\<close> chunks.
\<close>

theorem bindings_injective:
  assumes "length sID = StreamIDLen" "length sID' = StreamIDLen" "length cks \<le> 2 ^ 64"
  shows "(buildChunkAAD sid sID i f l cs = buildChunkAAD sid' sID' i' f' l' cs' \<longleftrightarrow>
            (sid, sID, i, f, l, cs) = (sid', sID', i', f', l', cs')) \<and>
         buildChunkAAD sid sID i f l cs \<noteq> buildCEKWrapAAD sid' sID' \<and>
         (buildCEKWrapAAD sid sID = buildCEKWrapAAD sid' sID' \<longleftrightarrow> (sid, sID) = (sid', sID')) \<and>
         distinct (map fst (sealed_log a c cks))"
  using assms
  by (simp add: buildChunkAAD_inject buildCEKWrapAAD_inject aad_domains_disjoint distinct_sealed_nonces)

theorem bindings_injective_witness:
  "(buildChunkAAD 1 (replicate 16 0) 0 False 2 2 = buildChunkAAD 1 (replicate 16 0) 1 True 1 2 \<longleftrightarrow>
      ((1 :: byte), replicate 16 (0 :: byte), (0 :: u64), False, (2 :: u32), (2 :: u32)) = (1, replicate 16 0, 1, True, 1, 2)) \<and>
   buildChunkAAD 1 (replicate 16 0) 0 False 2 2 \<noteq> buildCEKWrapAAD 1 (replicate 16 0) \<and>
   (buildCEKWrapAAD 1 (replicate 16 0) = buildCEKWrapAAD 1 (replicate 16 0) \<longleftrightarrow>
      ((1 :: byte), replicate 16 (0 :: byte)) = (1, replicate 16 0)) \<and>
   distinct (map fst (sealed_log (sum_aead []) demo_ctx [[1, 2], [3]]))"
  by (rule bindings_injective) simp_all

section \<open>Bounds\<close>

text \<open>
  C28. Against any source that stores at most as many bytes as it was asked for, however it
  behaves otherwise: \<open>readFull\<close> never overfills its buffer, a record that is returned has exactly
  the announced length and at most the bound, and a length prefix above the bound is refused
  without reading (or allocating for) the record.
\<close>

theorem record_bounds:
  assumes "\<forall>s k bs e s'. rd s k = (bs, e, s') \<longrightarrow> length bs \<le> k"
  shows "length (fst (readFull_loop rd s n [])) \<le> n \<and>
    (\<forall>rec s'. readRecord rd s len mx = (Inr rec, s') \<longrightarrow> length rec = unat len \<and> length rec \<le> mx) \<and>
    (mx < unat len \<longrightarrow> readRecord rd s len mx = (Inl ErrChunkTooLarge, s))"
proof -
  have "length (fst (readFull_loop rd s n [])) \<le> n"
    by (rule readFull_loop_length) (use assms in blast, simp)
  then show ?thesis
    by (auto simp: readRecord_def readRecordExact_def split: go_splits)
qed

theorem record_bounds_witness:
  "length (fst (readFull_loop (\<lambda>s k. (take k s, None, drop k s)) [1, 2, 3 :: byte] 2 [])) \<le> 2 \<and>
    readRecord (\<lambda>s k. (take k s, None, drop k s)) [1, 2, 3 :: byte] 30 18 = (Inl ErrChunkTooLarge, [1, 2, 3])"
proof -
  have "\<forall>s k bs e s'. (take k s, None :: io_error option, drop k s) = (bs, e, s' :: bytes) \<longrightarrow> length bs \<le> k"
    by auto
  note facts = record_bounds [OF this, of "[1, 2, 3]" 2 30 18]
  have "(18 :: nat) < unat (30 :: u32)" by simp
  with facts show ?thesis by blast
qed

section \<open>Error branches\<close>

text \<open>
  \<open>EncryptAEAD\<close> refuses a suite outside the AEAD family, a chunk size outside 1..MaxChunkSize,
  a supplied key that is not 32 bytes and a failing random source, in this order, each with its
  own error and before it writes to the sink or reads from the source.
\<close>

lemma encrypt_rejects:
  assumes "\<not> (suite = SuiteAES256GCM \<or> suite = SuiteChaCha20Poly1305) \<or> csize \<le> 0 \<or> int MaxChunkSize < csize \<or>
    (\<exists>k. provided cek = Some k \<and> length k \<noteq> CEKLen) \<or>
    length tape < (if provided cek = None then 80 else 48)"
  shows "\<exists>t. EncryptAEAD cr rd wr dst src suite cek csize tape =
    Some (Inl (if \<not> (suite = SuiteAES256GCM \<or> suite = SuiteChaCha20Poly1305) then ErrSuiteMismatch (Some suite)
               else if csize \<le> 0 \<or> int MaxChunkSize < csize then ErrBadChunkSize csize
               else if \<exists>k. provided cek = Some k \<and> length k \<noteq> CEKLen then ErrBadCEKLength
               else ErrRng), dst, src, t)"
  using assms
  by (auto simp: EncryptAEAD_def validateChunkSize_def chooseCEK_def fillRandom_def drawIDs_def Let_def
    split: option.splits)

text \<open>
  A decryption entry point that meets a container of the other family reports
  \<open>ErrSuiteMismatch\<close>, writes nothing, and in the ML-KEM case does not contact the key recovery.
\<close>

lemma wrong_family_rejected:
  assumes "stream_io rd content ready wr written writable" "ready src"
    and "FixedHeaderLen \<le> length (content src)" "parseFixedHeader (take FixedHeaderLen (content src)) = Inr h"
    and "length key = CEKLen"
  shows "(mlKemCiphertextLen (suiteID h) \<noteq> None \<longrightarrow>
      (\<exists>s. DecryptAEAD cr rd wr dst src key = Some (Some (ErrSuiteMismatch (Some (suiteID h))), dst, s))) \<and>
    (mlKemCiphertextLen (suiteID h) = None \<longrightarrow>
      (\<exists>s. DecryptMLKEM cr rd wr dst src recover b = Some (Some (ErrSuiteMismatch (Some (suiteID h))), dst, s, b)))"
proof -
  obtain s1 where "readFixedHeader rd src =
      (if length (content src) < 61 then Inl ErrShortHeader else parseFixedHeader (take 61 (content src)), s1)"
    by (rule io_reader.readFixedHeader_spec [OF stream_io.axioms(1) [OF assms(1)] assms(2)])
  with assms(3,4) have "readFixedHeader rd src = (Inr h, s1)" by simp
  with assms(5) show ?thesis
    by (auto simp: DecryptAEAD_def DecryptMLKEM_def mlKemCiphertextLen_def)
qed

section \<open>A source that stalls\<close>

text \<open>
  C38. \<open>readFull\<close> takes a read of no bytes without an error for the end of the source. If such a
  read falls on a chunk boundary, \<open>EncryptAEAD\<close> reports success, leaves the rest of the source
  unread and has written the same container as for a source that ends there: the plaintext is
  silently cut.
\<close>

theorem stalled_source_truncated:
  assumes "crypto_law cr" "suite = SuiteAES256GCM \<or> suite = SuiteChaCha20Poly1305"
    and "0 < length p" "length p \<le> MaxChunkSize" "provided cek = None" "80 \<le> length tape"
  shows "\<exists>key w t.
    EncryptAEAD cr script_read mem_write empty_sink (Data p # Data [] # rest) suite cek (int (length p)) tape =
      Some (Inr key, w, rest, t) \<and>
    EncryptAEAD cr script_read mem_write empty_sink [Data p] suite cek (int (length p)) tape =
      Some (Inr key, w, [], t)"
proof -
  let ?n = "length p"
  have read1: "readFull script_read (Data p # r) ?n = (Inr p, r)" for r
    using assms(3) by (simp add: readFull_def readFull_loop.simps [of script_read "Data p # r"]
      readFull_loop.simps [of script_read r])
  have read2: "readFull script_read (Data [] # r) ?n = (Inr [], r)" for r
    using assms(3) by (simp add: readFull_def readFull_loop.simps [of script_read "Data [] # r"])
  have read3: "readFull script_read [] ?n = (Inr [], [])"
    using assms(3) by (simp add: readFull_def readFull_loop.simps [of script_read "[]"])
  have chunks: "\<exists>w. writeChunks cr script_read mem_write empty_sink (Data p # Data [] # rest) header c = Some (None, w, rest) \<and>
      writeChunks cr script_read mem_write empty_sink [Data p] header c = Some (None, w, [])"
    if "c_chunkSize c = ?n" "newAEAD cr (c_chunkAEAD c) (c_messageKey c) = Inr a" for header c a
    using that
    by (simp add: writeChunks_def writeChunks_loop.simps [of _ _ _ _ _ p] read1 read2 read3 aeadSeal_eq
      mem_write_def empty_sink_def)
  obtain key t1 sID salt where ids: "chooseCEK cek tape = (Inr key, t1)" "drawIDs t1 = (Inr (sID, salt), drop 48 t1)"
    using assms(5,6) drawIDs_enough [of "drop 32 tape"] by (auto simp: chooseCEK_def fillRandom_def)
  obtain k where k: "deriveMessageKey cr salt key suite sID = Inr k" "length k = 32"
    by (rule deriveMessageKey_ok [OF assms(1)])
  obtain alg where alg: "chunkAEADForSuite suite = Some alg"
    using assms(2) by (auto simp: chunkAEADForSuite_def)
  obtain a where a: "newAEAD cr alg k = Inr a" by (rule newAEAD_ok [OF assms(1) k(2)])
  have v: "validateChunkSize (int ?n) = None" using assms(3,4) by (auto simp: validateChunkSize_def)
  let ?c = "\<lparr>c_suiteID = suite, c_chunkAEAD = alg, c_chunkSize = ?n, c_streamID = sID, c_messageKey = k\<rparr>"
  obtain w where
    "writeChunks cr script_read mem_write empty_sink (Data p # Data [] # rest)
       (writeFixedHeader [] suite (word_of_nat ?n) sID salt) ?c = Some (None, w, rest)"
    "writeChunks cr script_read mem_write empty_sink [Data p]
       (writeFixedHeader [] suite (word_of_nat ?n) sID salt) ?c = Some (None, w, [])"
    using chunks [of ?c a] a by auto
  then show ?thesis
    using assms(2) v ids k(1) alg by (auto simp: EncryptAEAD_def Let_def)
qed

theorem stalled_source_truncated_witness:
  "\<exists>key w t.
    EncryptAEAD sum_crypto script_read mem_write empty_sink (Data [1, 2] # Data [] # [Data [3]]) SuiteAES256GCM
      GenerateCEK (int (length [1 :: byte, 2])) (replicate 80 0) = Some (Inr key, w, [Data [3]], t) \<and>
    EncryptAEAD sum_crypto script_read mem_write empty_sink [Data [1, 2]] SuiteAES256GCM
      GenerateCEK (int (length [1 :: byte, 2])) (replicate 80 0) = Some (Inr key, w, [], t)"
  by (rule stalled_source_truncated [OF sum_crypto_law]) (simp_all add: GenerateCEK_def)

end
