(* ===== verification/StreamBroker.thy ===== *)
theory StreamBroker
  imports StreamEntry AeadClient
begin

text \<open>
  \<open>BrokerCEKRecovery\<close> of \<open>src/stream/kem.go\<close>: the key of an ML-KEM stream recovered through the
  broker's \<open>UnwrapEnvelope\<close>. It is the second implementation of the recovery interface, next to the
  local seed.
\<close>

section \<open>Operations\<close>

record BrokerCEKRecovery =
  br_keyID :: string
  br_suite :: suite

definition kemAlgorithm :: "BrokerCEKRecovery \<Rightarrow> KemAlgorithm" where
  "kemAlgorithm r =
     (if br_suite r = SuiteMLKEM512 then KemAlgorithmMLKEM512
      else if br_suite r = SuiteMLKEM768 then KemAlgorithmMLKEM768
      else if br_suite r = SuiteMLKEM1024 then KemAlgorithmMLKEM1024
      else KemAlgorithmUnspecified)"

definition brokerEnvelope :: "BrokerCEKRecovery \<Rightarrow> KEMEnvelope \<Rightarrow> KemEnvelope" where
  "brokerEnvelope r env =
     \<lparr>ke_KemAlgorithm = kemAlgorithm r, ke_EnvelopeAlgorithm = EnvelopeAlgorithmAES256GCM, ke_KeyVersion = 0,
      ke_EncapsulatedKey = EncapsulatedKey env, ke_Nonce = Nonce env, ke_Bytes = Ciphertext env\<rparr>"

definition RecoverCEK_broker ::
  "runtime \<Rightarrow> 'conn client \<Rightarrow> 'b aead_service \<Rightarrow> go_ctx \<Rightarrow> BrokerCEKRecovery \<Rightarrow> 'b recovery_fn" where
  "RecoverCEK_broker rt c sv ctx r b env aad =
     (case UnwrapEnvelope rt c sv ctx (br_keyID r) (Some (brokerEnvelope r env)) (Some aad) b of
        (Inl e, b1) \<Rightarrow> (Inl (ErrRecovery e), b1)
      | (Inr cek, b1) \<Rightarrow> if length cek \<noteq> CEKLen then (Inl ErrBadCEKLength, b1) else (Inr cek, b1))"

section \<open>The recovery interface\<close>

text \<open>The unwrap request that reaches the broker.\<close>

definition unwrapRequest :: "BrokerCEKRecovery \<Rightarrow> KEMEnvelope \<Rightarrow> bytes \<Rightarrow> UnwrapEnvelopeRequest" where
  "unwrapRequest r env aad =
     \<lparr>unw_KeyId = br_keyID r, unw_Envelope = kemEnvelopeToProto (Some (brokerEnvelope r env)), unw_Aad = Some aad\<rparr>"

text \<open>The envelopes the broker opens for this key.\<close>

definition broker_seals ::
  "runtime \<Rightarrow> 'conn client \<Rightarrow> 'b aead_service \<Rightarrow> go_ctx \<Rightarrow> BrokerCEKRecovery \<Rightarrow> 'b \<Rightarrow> KEMEnvelope \<Rightarrow> bytes \<Rightarrow> bytes \<Rightarrow> bool" where
  "broker_seals rt c sv ctx r b env aad cek \<longleftrightarrow>
     length cek = CEKLen \<and>
     (\<exists>b'. ae_UnwrapEnvelope sv (withTimeout rt c ctx) (unwrapRequest r env aad) b =
        (Inr \<lparr>unwr_Plaintext = cek\<rparr>, b'))"

lemma RecoverCEK_broker_eq:
  "RecoverCEK_broker rt c sv ctx r b env aad =
     (case ae_UnwrapEnvelope sv (withTimeout rt c ctx) (unwrapRequest r env aad) b of
        (Inl e, b1) \<Rightarrow> (Inl (ErrRecovery (statusError (from_error rt) e)), b1)
      | (Inr resp, b1) \<Rightarrow>
          (if length (unwr_Plaintext resp) \<noteq> 32 then Inl ErrBadCEKLength else Inr (unwr_Plaintext resp), b1))"
  by (auto simp: RecoverCEK_broker_def UnwrapEnvelope_def unwrapRequest_def split: go_splits)

interpretation broker: cek_recovery "RecoverCEK_broker rt c sv ctx r" "broker_seals rt c sv ctx r" for rt c sv ctx r
  by unfold_locales (auto simp: broker_seals_def RecoverCEK_broker_eq)

interpretation bks: kem_stream script_read script_content script_ready mem_write w_out mem_writable
    "RecoverCEK_broker rt c sv ctx r" "broker_seals rt c sv ctx r" for rt c sv ctx r
  by unfold_locales

section \<open>A broker that holds the decapsulation key\<close>

text \<open>
  Documented behaviour of the broker's \<open>UnwrapEnvelope\<close> for a sealing key: it opens what the holder
  of the key's seed opens, for the KEM that the suite names.
\<close>

definition holds_seed ::
  "crypto \<Rightarrow> ('pk, 'sk) kem_lib \<Rightarrow> 'b aead_service \<Rightarrow> BrokerCEKRecovery \<Rightarrow> bytes \<Rightarrow> bool" where
  "holds_seed cr lib sv r seed \<longleftrightarrow>
     (\<forall>ctx env aad b cek. openCEKLocal cr lib seed (br_suite r) env aad = Inr cek \<longrightarrow>
        (\<exists>b'. ae_UnwrapEnvelope sv ctx (unwrapRequest r env aad) b = (Inr \<lparr>unwr_Plaintext = cek\<rparr>, b')))"

lemma holds_seed_seals:
  assumes "holds_seed cr lib sv r seed" "length cek = 32"
    and "openCEKLocal cr lib seed (br_suite r) env aad = Inr cek"
  shows "broker_seals rt c sv ctx r b env aad cek"
  using assms unfolding holds_seed_def broker_seals_def by blast

text \<open>A concrete broker with one sealing key, which counts its unwraps.\<close>

fun kem_suite :: "32 word \<Rightarrow> suite" where
  "kem_suite a = (if a = 1 then 3 else if a = 2 then 4 else if a = 3 then 5 else 0)"

definition seed_service :: "crypto \<Rightarrow> ('pk, 'sk) kem_lib \<Rightarrow> string \<Rightarrow> bytes \<Rightarrow> nat aead_service" where
  "seed_service cr lib keyID seed =
     \<lparr>ae_Encrypt = (\<lambda>ctx q b. (Inl (PlainError ''unimplemented'' []), b)),
      ae_Decrypt = (\<lambda>ctx q b. (Inl (PlainError ''unimplemented'' []), b)),
      ae_WrapEnvelope = (\<lambda>ctx q b. (Inl (PlainError ''unimplemented'' []), b)),
      ae_UnwrapEnvelope = (\<lambda>ctx q b.
        (case unw_Envelope q of
           None \<Rightarrow> (Inl (PlainError ''no envelope'' []), b + 1)
         | Some e \<Rightarrow>
             if unw_KeyId q \<noteq> keyID then (Inl (PlainError ''unknown key'' []), b + 1)
             else
               (case openCEKLocal cr lib seed (kem_suite (pke_KemAlgorithm e))
                       \<lparr>EncapsulatedKey = pke_EncapsulatedKey e, Nonce = pke_Nonce e, Ciphertext = pke_Ciphertext e\<rparr>
                       (case unw_Aad q of None \<Rightarrow> [] | Some a \<Rightarrow> a) of
                  Inl _ \<Rightarrow> (Inl (PlainError ''unwrap failed'' []), b + 1)
                | Inr cek \<Rightarrow> (Inr \<lparr>unwr_Plaintext = cek\<rparr>, b + 1)))),
      ae_UnsealCose = (\<lambda>ctx q b. (Inl (PlainError ''unimplemented'' []), b))\<rparr>"

lemma kem_suite_kemAlgorithm: "mlKemCiphertextLen (br_suite r) \<noteq> None \<Longrightarrow> kem_suite (kemAlgorithm r) = br_suite r"
  by (auto simp: mlKemCiphertextLen_def kemAlgorithm_def split: if_splits)

lemma KEMEnvelope_eta [simp]:
  "\<lparr>EncapsulatedKey = EncapsulatedKey env, Nonce = Nonce env, Ciphertext = Ciphertext env\<rparr> = (env :: KEMEnvelope)"
  by (cases env) simp

lemma seed_service_holds:
  assumes "mlKemCiphertextLen (br_suite r) \<noteq> None"
  shows "holds_seed cr lib (seed_service cr lib (br_keyID r) seed) r seed"
  using assms
  by (auto simp del: kem_suite.simps simp: holds_seed_def seed_service_def unwrapRequest_def
      kemEnvelopeToProto_def brokerEnvelope_def kem_suite_kemAlgorithm)

end
