(* ===== verification/BrokerProps.thy ===== *)
theory BrokerProps
  imports StreamProps StreamBroker ClientProps
begin

text \<open>
  The properties that span the stream package and the broker client: ML-KEM streams whose key
  only the broker can recover.
\<close>


definition seed_recovery :: BrokerCEKRecovery where
  "seed_recovery = \<lparr>br_keyID = ''seal'', br_suite = SuiteMLKEM768\<rparr>"

abbreviation seed_broker :: "nat aead_service" where
  "seed_broker \<equiv> seed_service sum_crypto copy_lib ''seal'' (replicate 64 9)"


text \<open>
  C29. The broker-backed decryption fails closed: if the broker answers the unwrap with a status, or
  with a key that is not 32 bytes, \<open>DecryptMLKEM\<close> reports that (the status decoded) and writes
  nothing, whatever the rest of the container holds.
\<close>

theorem broker_refusal_fails_closed:
  assumes "from_error_law (from_error rt)"
    and "readFixedHeader rd src = (Inr h, s1)" "mlKemCiphertextLen (suiteID h) \<noteq> None"
    and "readKEMEnvelope rd s1 (suiteID h) = (Inr env, s2)"
    and "ae_UnwrapEnvelope sv (withTimeout rt c ctx) (unwrapRequest r env (buildCEKWrapAAD (suiteID h) (streamID h))) b = (answer, b1)"
    and "answer = Inl (GrpcError st) \<or> (\<exists>k. answer = Inr \<lparr>unwr_Plaintext = k\<rparr> \<and> length k \<noteq> CEKLen)"
  shows "DecryptMLKEM cr rd wr dst src (RecoverCEK_broker rt c sv ctx r) b =
    Some (Some (if answer = Inl (GrpcError st) then ErrRecovery (BasilStatus (decoded st)) else ErrBadCEKLength), dst, s2, b1)"
proof -
  have "RecoverCEK_broker rt c sv ctx r b env (buildCEKWrapAAD (suiteID h) (streamID h)) =
      (Inl (if answer = Inl (GrpcError st) then ErrRecovery (BasilStatus (decoded st)) else ErrBadCEKLength), b1)"
    using assms(5,6) by (auto simp: RecoverCEK_broker_eq statusError_grpc [OF assms(1)])
  then show ?thesis
    using assms(2-4) by (auto simp: DecryptMLKEM_def)
qed

definition zero_env :: KEMEnvelope where
  "zero_env = \<lparr>EncapsulatedKey = replicate 768 0, Nonce = replicate 12 0, Ciphertext = replicate 48 0\<rparr>"

definition zero_container :: bytes where
  "zero_container = writeFixedHeader [] SuiteMLKEM512 2 (replicate 16 0) (replicate 32 0) @ serializeKEMHeader zero_env"

theorem broker_refusal_fails_closed_witness:
  "\<exists>s. DecryptMLKEM sum_crypto script_read mem_write empty_sink [DataEOF zero_container]
     (RecoverCEK_broker test_rt test_client deny_aead no_deadline \<lparr>br_keyID = ''seal'', br_suite = SuiteMLKEM512\<rparr>) 0 =
     Some (Some (ErrRecovery (BasilStatus denied_error)), empty_sink, s, 1)"
proof -
  let ?h = "\<lparr>suiteID = 3, chunkSize = 2, streamID = replicate 16 0, streamSalt = replicate 32 0\<rparr>"
  have p: "parseFixedHeader (take 61 zero_container) = Inr ?h" "drop 61 zero_container = serializeKEMHeader zero_env"
    "61 \<le> length zero_container"
    using parse_writeFixedHeader_layout [of "replicate 16 0" "replicate 32 0" 3 2 "[]"]
    by (simp_all add: zero_container_def chunkAEADForSuite_def)
  obtain s1 where h: "readFixedHeader script_read [DataEOF zero_container] = (Inr ?h, s1)" "script_ready s1"
    "script_content s1 = serializeKEMHeader zero_env @ []"
    by (rule script.readFixedHeader_spec [of "[DataEOF zero_container]"]) (use p in simp_all)
  obtain s2 where e: "readKEMEnvelope script_read s1 3 = (Inr zero_env, s2)"
    by (rule script.readKEMEnvelope_serialize [OF h(2,3), of 3]) (simp add: wf_env_def zero_env_def mlKemCiphertextLen_def)
  have "DecryptMLKEM sum_crypto script_read mem_write empty_sink [DataEOF zero_container]
     (RecoverCEK_broker test_rt test_client deny_aead no_deadline \<lparr>br_keyID = ''seal'', br_suite = SuiteMLKEM512\<rparr>) 0 =
     Some (Some (if (Inl (GrpcError denied) :: go_error + UnwrapEnvelopeResponse) = Inl (GrpcError denied)
       then ErrRecovery (BasilStatus (decoded denied)) else ErrBadCEKLength), empty_sink, s2, 1)"
    by (rule broker_refusal_fails_closed [OF test_rt_law h(1)])
      (use e in \<open>simp_all add: mlKemCiphertextLen_def deny_aead_def deny_def\<close>)
  then show ?thesis by simp
qed

end
