(* ===== verification/GoEnv.thy ===== *)
theory GoEnv
  imports Client
begin

text \<open>
  What the programs under \<open>src/examples\<close> share: environment variables with fallbacks, the overall deadline of
  a run, and the exit status of a \<open>main\<close> that reports the error of its \<open>run\<close>.
\<close>

text \<open>\<open>os.Getenv\<close>: an unset variable reads as the empty string.\<close>

type_synonym environ = "string \<Rightarrow> string"

definition envOr :: "environ \<Rightarrow> string \<Rightarrow> string \<Rightarrow> string" where
  "envOr env key fallback = (if env key \<noteq> [] then env key else fallback)"

text \<open>\<open>context.WithTimeout(context.Background(), n*time.Second)\<close>.\<close>

definition within_seconds :: "runtime \<Rightarrow> int \<Rightarrow> go_ctx" where
  "within_seconds rt n = \<lparr>Deadline = Some (now rt + n * 1000000000)\<rparr>"

definition exit_status :: "go_error option \<Rightarrow> int" where
  "exit_status e = (case e of None \<Rightarrow> 0 | Some _ \<Rightarrow> 1)"

lemma exit_status_0 [simp]: "exit_status e = 0 \<longleftrightarrow> e = None"
  by (simp add: exit_status_def split: option.split)

lemma withTimeout_within [simp]: "withTimeout rt c (within_seconds rt' n) = within_seconds rt' n"
  by (simp add: withTimeout_def within_seconds_def)

text \<open>A timeout below a parent context: the earlier deadline counts.\<close>

definition timeout_below :: "runtime \<Rightarrow> go_ctx \<Rightarrow> int \<Rightarrow> go_ctx" where
  "timeout_below rt parent n =
     \<lparr>Deadline = Some (case Deadline parent of None \<Rightarrow> now rt + n * 1000000000 | Some d \<Rightarrow> min d (now rt + n * 1000000000))\<rparr>"

lemma withTimeout_below [simp]: "withTimeout rt c (timeout_below rt' parent n) = timeout_below rt' parent n"
  by (simp add: withTimeout_def timeout_below_def)

end
