(* ===== verification/GoFile.thy ===== *)
theory GoFile
  imports GoEnv GoIO
begin

text \<open>
  Files as \<open>src/examples/stream-file-encryption/main.go\<close> uses them: lexical paths (\<open>path/filepath\<close>), opening,
  creating, closing and reading to the end. The contents of the disk are a map from paths; how a file's bytes
  arrive in reads, which calls fail and how much a file can hold are parameters of the run.
\<close>

section \<open>Paths\<close>

text \<open>\<open>filepath.Clean\<close> and \<open>filepath.Join\<close> on Unix.\<close>

fun split_slash :: "string \<Rightarrow> string list" where
  "split_slash [] = [[]]"
| "split_slash (c # cs) =
     (if c = CHR ''/'' then [] # split_slash cs
      else (case split_slash cs of [] \<Rightarrow> [[c]] | w # ws \<Rightarrow> (c # w) # ws))"

fun join_slash :: "string list \<Rightarrow> string" where
  "join_slash [] = []"
| "join_slash [w] = w"
| "join_slash (w # v # ws) = w @ ''/'' @ join_slash (v # ws)"

definition clean_step :: "bool \<Rightarrow> string list \<Rightarrow> string \<Rightarrow> string list" where
  "clean_step rooted st w =
     (if w = [] \<or> w = ''.'' then st
      else if w = ''..''
      then (if st \<noteq> [] \<and> last st \<noteq> ''..'' then butlast st else if rooted then st else st @ [''..''])
      else st @ [w])"

definition is_rooted :: "string \<Rightarrow> bool" where
  "is_rooted p \<longleftrightarrow> (case p of [] \<Rightarrow> False | c # _ \<Rightarrow> c = CHR ''/'')"

definition filepath_Clean :: "string \<Rightarrow> string" where
  "filepath_Clean p =
     (let out = (if is_rooted p then ''/'' else []) @ join_slash (foldl (clean_step (is_rooted p)) [] (split_slash p))
      in if out = [] then ''.'' else out)"

definition filepath_Join :: "string \<Rightarrow> string \<Rightarrow> string" where
  "filepath_Join dir name =
     (if dir = [] \<and> name = [] then []
      else if dir = [] then filepath_Clean name
      else if name = [] then filepath_Clean dir
      else filepath_Clean (dir @ ''/'' @ name))"

definition plain_name :: "string \<Rightarrow> bool" where
  "plain_name n \<longleftrightarrow> n \<noteq> [] \<and> n \<noteq> ''.'' \<and> n \<noteq> ''..'' \<and> CHR ''/'' \<notin> set n"

lemma split_slash_not_Nil [simp]: "split_slash p \<noteq> []"
  by (cases p) (auto split: list.split)

lemma split_slash_append: "split_slash (d @ CHR ''/'' # n) = split_slash d @ split_slash n"
  by (induction d) (auto split: list.split)

lemma split_slash_plain: "CHR ''/'' \<notin> set n \<Longrightarrow> split_slash n = [n]"
  by (induction n) auto

lemma join_slash_snoc: "join_slash (ws @ [w]) = concat (map (\<lambda>v. v @ ''/'') ws) @ w"
  by (induction ws rule: join_slash.induct) simp_all

text \<open>Names in one directory stay apart.\<close>

lemma Join_plain:
  assumes "plain_name n"
  shows "filepath_Join d n =
    (if d = [] then []
     else (if is_rooted d then ''/'' else []) @
       concat (map (\<lambda>v. v @ ''/'') (foldl (clean_step (is_rooted d)) [] (split_slash d)))) @ n"
proof -
  have n: "n \<noteq> []" "n \<noteq> ''.''" "n \<noteq> ''..''" "split_slash n = [n]" "\<not> is_rooted n"
    using assms by (auto simp: plain_name_def split_slash_plain is_rooted_def split: list.split)
  have r: "is_rooted (d @ ''/'' @ n) = is_rooted d" if "d \<noteq> []"
    using that by (cases d) (simp_all add: is_rooted_def)
  show ?thesis
  proof (cases "d = []")
    case True
    with n show ?thesis by (simp add: filepath_Join_def filepath_Clean_def clean_step_def)
  next
    case False
    let ?st = "foldl (clean_step (is_rooted d)) [] (split_slash d)"
    have "foldl (clean_step (is_rooted d)) [] (split_slash (d @ CHR ''/'' # n)) = ?st @ [n]"
      using n by (simp add: split_slash_append clean_step_def)
    with False n r show ?thesis by (simp add: filepath_Join_def filepath_Clean_def join_slash_snoc Let_def)
  qed
qed

lemma Join_inject: "plain_name n \<Longrightarrow> plain_name m \<Longrightarrow> filepath_Join d n = filepath_Join d m \<longleftrightarrow> n = m"
  by (simp add: Join_plain)

section \<open>The disk\<close>

type_synonym disk = "string \<rightharpoonup> bytes"

text \<open>
  \<open>os_reads\<close> is the sequence of outcomes that reading a file's bytes has; \<open>os_CreateErr\<close> and \<open>os_CloseErr\<close> say which paths
  cannot be created or closed; \<open>os_Room\<close> is how many bytes a file can take.
\<close>

record os_lib =
  os_reads :: "string \<Rightarrow> bytes \<Rightarrow> script"
  os_CreateErr :: "string \<Rightarrow> string option"
  os_CloseErr :: "string \<Rightarrow> string option"
  os_Room :: "string \<Rightarrow> nat option"

definition os_Open :: "os_lib \<Rightarrow> disk \<Rightarrow> string \<Rightarrow> (string, script) result" where
  "os_Open os d path =
     (case d path of None \<Rightarrow> Inl ''no such file or directory'' | Some bs \<Rightarrow> Inr (os_reads os path bs))"

definition os_Create :: "os_lib \<Rightarrow> disk \<Rightarrow> string \<Rightarrow> (string, mem_writer) result \<times> disk" where
  "os_Create os d path =
     (case os_CreateErr os path of
        Some e \<Rightarrow> (Inl e, d)
      | None \<Rightarrow> (Inr \<lparr>w_out = [], w_room = os_Room os path\<rparr>, d(path \<mapsto> [])))"

text \<open>Closing a created file; what was written to it is on the disk.\<close>

definition os_Close :: "os_lib \<Rightarrow> disk \<Rightarrow> string \<Rightarrow> mem_writer \<Rightarrow> string option \<times> disk" where
  "os_Close os d path w = (os_CloseErr os path, d(path \<mapsto> w_out w))"

text \<open>\<open>io.Copy\<close> from a file: all bytes up to its end, or the error that a read reports.\<close>

fun io_ReadAll :: "script \<Rightarrow> (io_error, bytes) result" where
  "io_ReadAll [] = Inr []"
| "io_ReadAll (Data d # s) = (case io_ReadAll s of Inl e \<Rightarrow> Inl e | Inr bs \<Rightarrow> Inr (d @ bs))"
| "io_ReadAll (DataEOF d # s) = Inr d"
| "io_ReadAll (Fail e # s) = Inl (IOErr e)"

text \<open>A disk on which every operation succeeds and reads deliver what is stored.\<close>

definition sound_disk :: "os_lib \<Rightarrow> bool" where
  "sound_disk os \<longleftrightarrow>
     (\<forall>path bs. script_ready (os_reads os path bs) \<and> script_content (os_reads os path bs) = bs) \<and>
     (\<forall>path. os_CreateErr os path = None \<and> os_CloseErr os path = None \<and> os_Room os path = None)"

lemma io_ReadAll_ready: "script_ready s \<Longrightarrow> io_ReadAll s = Inr (script_content s)"
  by (induction s rule: io_ReadAll.induct) auto

lemma sound_diskD:
  assumes "sound_disk os"
  shows "script_ready (os_reads os path bs)" "script_content (os_reads os path bs) = bs"
    "os_Create os d path = (Inr \<lparr>w_out = [], w_room = None\<rparr>, d(path \<mapsto> []))"
    "os_Close os d path w = (None, d(path \<mapsto> w_out w))"
  using assms by (simp_all add: sound_disk_def os_Create_def os_Close_def)

text \<open>The plain disk, for the witnesses.\<close>

definition plain_disk :: os_lib where
  "plain_disk = \<lparr>os_reads = (\<lambda>path bs. [DataEOF bs]), os_CreateErr = (\<lambda>_. None), os_CloseErr = (\<lambda>_. None), os_Room = (\<lambda>_. None)\<rparr>"

lemma plain_disk_sound: "sound_disk plain_disk"
  by (simp add: sound_disk_def plain_disk_def)

end
