(* ===== verification/StreamDemo.thy ===== *)
theory StreamDemo
  imports GoFile StreamBroker Signing
begin

text \<open>
  \<open>src/examples/stream-file-encryption/main.go\<close>: a program that encrypts a file under a fresh key and under an
  ML-KEM key that the broker holds, decrypts both containers and compares, and checks that an
  altered container is refused. \<open>None\<close> is a run that does not return; printed lines are recorded unformatted.
\<close>

section \<open>State and results\<close>

definition fileSize :: nat where
  "fileSize = 4 * 1024 * 1024"

definition demo_chunkSize :: int where
  "demo_chunkSize = 64 * 1024"

record demo_config =
  dc_socket :: string
  dc_kemKeyID :: string
  dc_workDir :: string

text \<open>\<open>os.TempDir\<close> on Unix.\<close>

definition os_TempDir :: "environ \<Rightarrow> string" where
  "os_TempDir env = (if env ''TMPDIR'' \<noteq> [] then env ''TMPDIR'' else ''/tmp'')"

definition demo_loadConfig :: "environ \<Rightarrow> demo_config" where
  "demo_loadConfig env =
     \<lparr>dc_socket = envOr env ''BASIL_SOCKET'' ''/tmp/basil-stream-file/agent.sock'',
      dc_kemKeyID = envOr env ''BASIL_KEM_KEY_ID'' ''app.stream_seal'',
      dc_workDir = envOr env ''STREAM_FILE_DIR'' (os_TempDir env)\<rparr>"

datatype demo_error =
    OsError string string
  | CopyError io_error
  | RandError string string
  | StreamError string stream_error
  | BrokerError string "fmt_arg list" go_error
  | DemoError string
  | DemoWrap string demo_error
  | NotAuthFailed "stream_error option"

datatype demo_line =
    PassInput nat int
  | PassAesEncrypt
  | PassAesRoundtrip
  | PassProvisioned string nat
  | PassKemEncrypt
  | PassKemRoundtrip
  | PassTamper

text \<open>The disk, the random source and the broker.\<close>

record 'b world =
  wd_disk :: disk
  wd_tape :: bytes
  wd_broker :: 'b

text \<open>What the program calls outside the repository, apart from the service stubs.\<close>

record ('pk, 'sk) demo_lib =
  dl_os :: os_lib
  dl_crypto :: crypto
  dl_kem :: "('pk, 'sk) kem_lib"
  dl_sha256 :: "bytes \<Rightarrow> bytes"

section \<open>Helpers\<close>

text \<open>
  \<open>io.CopyN(f, rand.Reader, n)\<close> stores random bytes until the file is full; the deferred second \<open>Close\<close> is
  without effect.
\<close>

definition generateFile :: "os_lib \<Rightarrow> string \<Rightarrow> nat \<Rightarrow> 'b world \<Rightarrow> demo_error option \<times> 'b world" where
  "generateFile os path n w =
     (case os_Create os (wd_disk w) path of
        (Inl e, d) \<Rightarrow> (Some (OsError path e), w\<lparr>wd_disk := d\<rparr>)
      | (Inr f, d) \<Rightarrow>
          (case mem_write f (take n (wd_tape w)) of
             (Some (IOErr e), f1) \<Rightarrow> (Some (RandError path e),
                w\<lparr>wd_disk := snd (os_Close os d path f1), wd_tape := drop n (wd_tape w)\<rparr>)
           | (Some EOF, f1) \<Rightarrow> (Some (RandError path ''EOF''),
                w\<lparr>wd_disk := snd (os_Close os d path f1), wd_tape := drop n (wd_tape w)\<rparr>)
           | (None, f1) \<Rightarrow>
               if length (wd_tape w) < n
               then (Some (RandError path ''random source failed''), w\<lparr>wd_disk := snd (os_Close os d path f1), wd_tape := []\<rparr>)
               else (map_option (OsError path) (fst (os_Close os d path f1)),
                     w\<lparr>wd_disk := snd (os_Close os d path f1), wd_tape := drop n (wd_tape w)\<rparr>)))"

definition digest :: "('pk, 'sk) demo_lib \<Rightarrow> disk \<Rightarrow> string \<Rightarrow> (demo_error, bytes) result" where
  "digest L d path =
     (case os_Open (dl_os L) d path of
        Inl e \<Rightarrow> Inl (OsError path e)
      | Inr f \<Rightarrow> (case io_ReadAll f of Inl e \<Rightarrow> Inl (CopyError e) | Inr bs \<Rightarrow> Inr (dl_sha256 L bs)))"

definition assertSameDigest :: "('pk, 'sk) demo_lib \<Rightarrow> disk \<Rightarrow> string \<Rightarrow> bytes \<Rightarrow> demo_error option" where
  "assertSameDigest L d path want =
     (case digest L d path of
        Inl e \<Rightarrow> Some e
      | Inr got \<Rightarrow> if got \<noteq> want then Some (DemoError ''decrypted output differs from the plaintext'') else None)"

text \<open>The end of both round trips: close the output and compare it.\<close>

definition finishOutput ::
  "('pk, 'sk) demo_lib \<Rightarrow> disk \<Rightarrow> string \<Rightarrow> mem_writer \<Rightarrow> string \<Rightarrow> bytes \<Rightarrow> demo_error option \<times> disk" where
  "finishOutput L d outPath out what plainDigest =
     (case os_Close (dl_os L) d outPath out of
        (Some e, d1) \<Rightarrow> (Some (OsError outPath e), d1)
      | (None, d1) \<Rightarrow> (map_option (DemoWrap what) (assertSameDigest L d1 outPath plainDigest), d1))"

section \<open>The three cases\<close>

type_synonym 'b demo_result = "((demo_error option \<times> demo_line list) \<times> 'b world) option"

text \<open>The second half of \<open>aesRoundTrip\<close>, after the container was closed.\<close>

definition aesDecrypt ::
  "('pk, 'sk) demo_lib \<Rightarrow> string \<Rightarrow> string \<Rightarrow> bytes \<Rightarrow> bytes \<Rightarrow> 'b world \<Rightarrow> 'b demo_result" where
  "aesDecrypt L ctPath outPath cek plainDigest w =
     (case os_Open (dl_os L) (wd_disk w) ctPath of
        Inl e \<Rightarrow> Some ((Some (OsError ctPath e), [PassAesEncrypt]), w)
      | Inr ctIn \<Rightarrow>
          (case os_Create (dl_os L) (wd_disk w) outPath of
             (Inl e, d) \<Rightarrow> Some ((Some (OsError outPath e), [PassAesEncrypt]), w\<lparr>wd_disk := d\<rparr>)
           | (Inr f, d) \<Rightarrow>
               (case DecryptAEAD (dl_crypto L) script_read mem_write f ctIn cek of
                  None \<Rightarrow> None
                | Some (Some e, out, _) \<Rightarrow>
                    Some ((Some (StreamError ''AES decrypt: %w'' e), [PassAesEncrypt]),
                      w\<lparr>wd_disk := snd (os_Close (dl_os L) d outPath out)\<rparr>)
                | Some (None, out, _) \<Rightarrow>
                    (case finishOutput L d outPath out ''AES round-trip: %w'' plainDigest of
                       (Some e, d1) \<Rightarrow> Some ((Some e, [PassAesEncrypt]), w\<lparr>wd_disk := d1\<rparr>)
                     | (None, d1) \<Rightarrow> Some ((None, [PassAesEncrypt, PassAesRoundtrip]), w\<lparr>wd_disk := d1\<rparr>)))))"

definition aesRoundTrip ::
  "('pk, 'sk) demo_lib \<Rightarrow> string \<Rightarrow> string \<Rightarrow> bytes \<Rightarrow> 'b world \<Rightarrow> 'b demo_result" where
  "aesRoundTrip L workDir plainPath plainDigest w =
     (let ctPath = filepath_Join workDir ''aes.ct''; outPath = filepath_Join workDir ''aes.out'' in
      case os_Open (dl_os L) (wd_disk w) plainPath of
        Inl e \<Rightarrow> Some ((Some (OsError plainPath e), []), w)
      | Inr fin \<Rightarrow>
          (case os_Create (dl_os L) (wd_disk w) ctPath of
             (Inl e, d) \<Rightarrow> Some ((Some (OsError ctPath e), []), w\<lparr>wd_disk := d\<rparr>)
           | (Inr f, d) \<Rightarrow>
               (case EncryptAEAD (dl_crypto L) script_read mem_write f fin SuiteAES256GCM GenerateCEK demo_chunkSize (wd_tape w) of
                  None \<Rightarrow> None
                | Some (Inl e, ctOut, _, t) \<Rightarrow>
                    Some ((Some (StreamError ''AES encrypt: %w'' e), []),
                      w\<lparr>wd_disk := snd (os_Close (dl_os L) d ctPath ctOut), wd_tape := t\<rparr>)
                | Some (Inr cek, ctOut, _, t) \<Rightarrow>
                    (case os_Close (dl_os L) d ctPath ctOut of
                       (Some e, d1) \<Rightarrow> Some ((Some (OsError ctPath e), []), w\<lparr>wd_disk := d1, wd_tape := t\<rparr>)
                     | (None, d1) \<Rightarrow> aesDecrypt L ctPath outPath cek plainDigest (w\<lparr>wd_disk := d1, wd_tape := t\<rparr>)))))"

text \<open>The second half of \<open>mlkemRoundTrip\<close>: \<open>lines\<close> is what it has printed so far.\<close>

definition mlkemDecrypt ::
  "('pk, 'sk) demo_lib \<Rightarrow> 'b recovery_fn \<Rightarrow> string \<Rightarrow> string \<Rightarrow> bytes \<Rightarrow> demo_line list \<Rightarrow> 'b world \<Rightarrow> 'b demo_result" where
  "mlkemDecrypt L recovery ctPath outPath plainDigest lines w =
     (case os_Open (dl_os L) (wd_disk w) ctPath of
        Inl e \<Rightarrow> Some ((Some (OsError ctPath e), lines), w)
      | Inr ctIn \<Rightarrow>
          (case os_Create (dl_os L) (wd_disk w) outPath of
             (Inl e, d) \<Rightarrow> Some ((Some (OsError outPath e), lines), w\<lparr>wd_disk := d\<rparr>)
           | (Inr f, d) \<Rightarrow>
               (case DecryptMLKEM (dl_crypto L) script_read mem_write f ctIn recovery (wd_broker w) of
                  None \<Rightarrow> None
                | Some (Some e, out, _, b) \<Rightarrow>
                    Some ((Some (StreamError ''ML-KEM decrypt (broker CEK recovery): %w'' e), lines),
                      w\<lparr>wd_disk := snd (os_Close (dl_os L) d outPath out), wd_broker := b\<rparr>)
                | Some (None, out, _, b) \<Rightarrow>
                    (case finishOutput L d outPath out ''ML-KEM round-trip: %w'' plainDigest of
                       (Some e, d1) \<Rightarrow> Some ((Some e, lines), w\<lparr>wd_disk := d1, wd_broker := b\<rparr>)
                     | (None, d1) \<Rightarrow> Some ((None, lines @ [PassKemRoundtrip]), w\<lparr>wd_disk := d1, wd_broker := b\<rparr>)))))"

text \<open>The middle of \<open>mlkemRoundTrip\<close>, once the public key is known.\<close>

definition mlkemEncrypt ::
  "('pk, 'sk) demo_lib \<Rightarrow> 'b recovery_fn \<Rightarrow> string \<Rightarrow> string \<Rightarrow> bytes \<Rightarrow> bytes \<Rightarrow> demo_line list \<Rightarrow> 'b world \<Rightarrow> 'b demo_result" where
  "mlkemEncrypt L recovery workDir plainPath plainDigest pub lines w =
     (let ctPath = filepath_Join workDir ''mlkem.ct''; outPath = filepath_Join workDir ''mlkem.out'' in
      case os_Open (dl_os L) (wd_disk w) plainPath of
        Inl e \<Rightarrow> Some ((Some (OsError plainPath e), lines), w)
      | Inr fin \<Rightarrow>
          (case os_Create (dl_os L) (wd_disk w) ctPath of
             (Inl e, d) \<Rightarrow> Some ((Some (OsError ctPath e), lines), w\<lparr>wd_disk := d\<rparr>)
           | (Inr f, d) \<Rightarrow>
               (case EncryptMLKEM (dl_crypto L) (dl_kem L) script_read mem_write f fin SuiteMLKEM768 pub demo_chunkSize (wd_tape w) of
                  None \<Rightarrow> None
                | Some (Some e, ctOut, _, t) \<Rightarrow>
                    Some ((Some (StreamError ''ML-KEM encrypt: %w'' e), lines),
                      w\<lparr>wd_disk := snd (os_Close (dl_os L) d ctPath ctOut), wd_tape := t\<rparr>)
                | Some (None, ctOut, _, t) \<Rightarrow>
                    (case os_Close (dl_os L) d ctPath ctOut of
                       (Some e, d1) \<Rightarrow> Some ((Some (OsError ctPath e), lines), w\<lparr>wd_disk := d1, wd_tape := t\<rparr>)
                     | (None, d1) \<Rightarrow>
                         mlkemDecrypt L recovery ctPath outPath plainDigest (lines @ [PassKemEncrypt])
                           (w\<lparr>wd_disk := d1, wd_tape := t\<rparr>)))))"

definition mlkemRoundTrip ::
  "runtime \<Rightarrow> ('pk, 'sk) demo_lib \<Rightarrow> 'conn client \<Rightarrow> 'b signing_service \<Rightarrow> 'b aead_service \<Rightarrow> go_ctx \<Rightarrow> demo_config \<Rightarrow>
   string \<Rightarrow> bytes \<Rightarrow> 'b world \<Rightarrow> 'b demo_result" where
  "mlkemRoundTrip rt L client sg ae ctx cfg plainPath plainDigest w =
     (case NewKey rt client sg ctx (dc_kemKeyID cfg) KeyTypeMLKEM768 (wd_broker w) of
        (Inl e, b1) \<Rightarrow>
          Some ((Some (BrokerError ''provision custodied ML-KEM-768 key %s: %w'' [ArgStr (dc_kemKeyID cfg)] e), []), w\<lparr>wd_broker := b1\<rparr>)
      | (Inr _, b1) \<Rightarrow>
          (case GetPublicKey rt client sg ctx (dc_kemKeyID cfg) None b1 of
             (Inl e, b2) \<Rightarrow> Some ((Some (BrokerError ''fetch ML-KEM public key: %w'' [] e), []), w\<lparr>wd_broker := b2\<rparr>)
           | (Inr pub, b2) \<Rightarrow>
               mlkemEncrypt L (RecoverCEK_broker rt client ae ctx \<lparr>br_keyID = dc_kemKeyID cfg, br_suite = SuiteMLKEM768\<rparr>)
                 (dc_workDir cfg) plainPath plainDigest (pk_Bytes pub)
                 [PassProvisioned (dc_kemKeyID cfg) (length (pk_Bytes pub))] (w\<lparr>wd_broker := b2\<rparr>)))"

text \<open>The container goes to a \<open>bytes.Buffer\<close>; the changed copy is read from a \<open>bytes.Reader\<close> into \<open>io.Discard\<close>.\<close>

definition tamperFailsClosed :: "('pk, 'sk) demo_lib \<Rightarrow> string \<Rightarrow> 'b world \<Rightarrow> 'b demo_result" where
  "tamperFailsClosed L plainPath w =
     (case os_Open (dl_os L) (wd_disk w) plainPath of
        Inl e \<Rightarrow> Some ((Some (OsError plainPath e), []), w)
      | Inr fin \<Rightarrow>
          (case EncryptAEAD (dl_crypto L) script_read mem_write \<lparr>w_out = [], w_room = None\<rparr> fin SuiteAES256GCM GenerateCEK
                  demo_chunkSize (wd_tape w) of
             None \<Rightarrow> None
           | Some (Inl e, _, _, t) \<Rightarrow> Some ((Some (StreamError ''tamper setup encrypt: %w'' e), []), w\<lparr>wd_tape := t\<rparr>)
           | Some (Inr cek, buf, _, t) \<Rightarrow>
               (let ct = w_out buf; flip = FixedHeaderLen + 4 in
                if length ct \<le> flip
                then Some ((Some (DemoError ''tamper: ciphertext shorter than a single record''), []), w\<lparr>wd_tape := t\<rparr>)
                else
                  (case DecryptAEAD (dl_crypto L) script_read mem_write \<lparr>w_out = [], w_room = None\<rparr>
                          [Data (ct[flip := xor (ct ! flip) 0xFF])] cek of
                     None \<Rightarrow> None
                   | Some (e, _, _) \<Rightarrow>
                       if e = Some ErrAuthFailed then Some ((None, [PassTamper]), w\<lparr>wd_tape := t\<rparr>)
                       else Some ((Some (NotAuthFailed e), []), w\<lparr>wd_tape := t\<rparr>)))))"

section \<open>The run\<close>

text \<open>One case after another: the lines of both, or the first error.\<close>

definition and_then :: "'b demo_result \<Rightarrow> ('b world \<Rightarrow> 'b demo_result) \<Rightarrow> 'b demo_result" where
  "and_then r f =
     (case r of
        None \<Rightarrow> None
      | Some ((Some e, lines), w) \<Rightarrow> Some ((Some e, lines), w)
      | Some ((None, lines), w) \<Rightarrow>
          (case f w of None \<Rightarrow> None | Some ((e, ys), w1) \<Rightarrow> Some ((e, lines @ ys), w1)))"

definition demo_session ::
  "runtime \<Rightarrow> ('pk, 'sk) demo_lib \<Rightarrow> 'conn client \<Rightarrow> 'b signing_service \<Rightarrow> 'b aead_service \<Rightarrow> demo_config \<Rightarrow> 'b world \<Rightarrow> 'b demo_result" where
  "demo_session rt L client sg ae cfg w =
     (let ctx = within_seconds rt 60; plainPath = filepath_Join (dc_workDir cfg) ''plain.bin'' in
      case generateFile (dl_os L) plainPath fileSize w of
        (Some e, w1) \<Rightarrow> Some ((Some e, []), w1)
      | (None, w1) \<Rightarrow>
          (case digest L (wd_disk w1) plainPath of
             Inl e \<Rightarrow> Some ((Some e, []), w1)
           | Inr plainDigest \<Rightarrow>
               and_then
                 (and_then
                   (and_then (Some ((None, [PassInput fileSize demo_chunkSize]), w1))
                     (aesRoundTrip L (dc_workDir cfg) plainPath plainDigest))
                   (mlkemRoundTrip rt L client sg ae ctx cfg plainPath plainDigest))
                 (tamperFailsClosed L plainPath)))"

definition demo_run ::
  "runtime \<Rightarrow> 'conn grpc_lib \<Rightarrow> ('pk, 'sk) demo_lib \<Rightarrow> ('conn \<Rightarrow> 'b signing_service) \<Rightarrow> ('conn \<Rightarrow> 'b aead_service) \<Rightarrow>
   demo_config \<Rightarrow> 'b world \<Rightarrow> 'b demo_result" where
  "demo_run rt lib L signing aeads cfg w =
     (case Dial lib (dc_socket cfg) [] of
        Inl e \<Rightarrow> Some ((Some (BrokerError ''dial broker at %s: %w'' [ArgStr (dc_socket cfg)] e), []), w)
      | Inr client \<Rightarrow> demo_session rt L client (signing (conn client)) (aeads (conn client)) cfg w)"

definition demo_main ::
  "runtime \<Rightarrow> 'conn grpc_lib \<Rightarrow> ('pk, 'sk) demo_lib \<Rightarrow> ('conn \<Rightarrow> 'b signing_service) \<Rightarrow> ('conn \<Rightarrow> 'b aead_service) \<Rightarrow>
   environ \<Rightarrow> 'b world \<Rightarrow> int option" where
  "demo_main rt lib L signing aeads env w =
     (case demo_run rt lib L signing aeads (demo_loadConfig env) w of
        None \<Rightarrow> None
      | Some ((e, _), _) \<Rightarrow> Some (case e of None \<Rightarrow> 0 | Some _ \<Rightarrow> 1))"

end
