(* ===== verification/StreamDemoSpec.thy ===== *)
theory StreamDemoSpec
  imports StreamDemo
begin

text \<open>
  What the program of \<open>StreamDemo\<close> does in an environment that works: each of its cases passes, the decrypted
  files are the input, and the container it changes is refused.
\<close>

section \<open>A changed container is refused\<close>

text \<open>
  A byte changed in a sealed text is detected. For GCM and Poly1305 this holds of every change within one block
  of the text or of the tag.
\<close>

definition detects_changes :: "aead \<Rightarrow> bool" where
  "detects_changes a \<longleftrightarrow>
     (\<forall>n p ad i x. length n = 12 \<longrightarrow> i < length (Seal a n p ad) \<longrightarrow> x \<noteq> Seal a n p ad ! i \<longrightarrow>
        Open a n ((Seal a n p ad)[i := x]) ad = None)"

lemma detects_changesD:
  "detects_changes a \<Longrightarrow> length n = 12 \<Longrightarrow> i < length (Seal a n p ad) \<Longrightarrow> x \<noteq> Seal a n p ad ! i \<Longrightarrow>
   Open a n ((Seal a n p ad)[i := x]) ad = None"
  unfolding detects_changes_def by blast

lemma changed_record_refused:
  assumes "newAEAD cr (c_chunkAEAD c) (c_messageKey c) = Inr a" "aead_law a" "detects_changes a"
    and "c_chunkSize c + 16 < 2 ^ 32" "wf_chunks (c_chunkSize c) (p # ps)"
    and "r = seal_record a c 0 (ps = []) p" "x \<noteq> r ! 0"
  shows "open_stream cr c (frame (r[0 := x]) @ seal_chunks a c 1 ps) = ([], Some ErrAuthFailed)"
proof -
  have len: "length r = length p + 16" by (simp add: assms(6) length_seal_record [OF assms(2)])
  then have "0 < length (Seal a (chunkNonce 0) p (chunk_aad c 0 (ps = []) (length p)))"
    by (simp add: assms(6) seal_record_def)
  then have "Open a (chunkNonce 0) (r[0 := x]) (chunk_aad c 0 (ps = []) (length p)) = None"
    using assms(6,7) by (simp add: seal_record_def detects_changesD [OF assms(3)])
  moreover have "ps = [] \<or> 4 \<le> length (seal_chunks a c 1 ps)" using length_seal_chunks_ge by blast
  ultimately have "open_records cr c 0 (r[0 := x]) (seal_chunks a c 1 ps) = ([], Some ErrAuthFailed)"
    using len by (simp add: open_records.simps [of cr c 0 "r[0 := x]"] aeadOpen_eq [OF assms(1)] not_less)
  moreover have "open_stream cr c (frame (r[0 := x]) @ seal_chunks a c 1 ps) =
      open_records cr c 0 (r[0 := x]) (seal_chunks a c 1 ps)"
    using len wf_chunks_hd [OF assms(5)] assms(4) by (intro open_stream_frame) simp_all
  ultimately show ?thesis by simp
qed

lemma changed_container_refused:
  assumes "suite = SuiteAES256GCM \<or> suite = SuiteChaCha20Poly1305"
    and "0 < n" "n \<le> MaxChunkSize" "length key = 32" "length sID = 16" "length salt = 32"
    and "deriveMessageKey cr salt key suite sID = Inr k"
    and "newAEAD cr (c_chunkAEAD (crypto_of suite n sID k)) k = Inr a" "aead_law a" "detects_changes a"
    and ct_def: "ct = container a (crypto_of suite n sID k) salt [] pt" and "x \<noteq> ct ! 65"
  shows "65 < length ct" "decrypt_bytes cr key (ct[65 := x]) = ([], Some ErrAuthFailed)"
proof -
  let ?c = "crypto_of suite n sID k" and ?h = "writeFixedHeader [] suite (word_of_nat n) sID salt"
  have small: "n + 16 < 2 ^ 32" using assms(3) by simp
  obtain p ps where ck: "split_chunks n pt = p # ps" by (cases "split_chunks n pt") auto
  let ?r = "seal_record a ?c 0 (ps = []) p" and ?rest = "seal_chunks a ?c 1 ps"
  have len: "length ?r = length p + 16" by (simp add: length_seal_record [OF assms(9)])
  have h: "length ?h = 61" using assms(5,6) by simp
  have ct: "ct = ?h @ put_be32 (word_of_nat (length ?r)) @ ?r @ ?rest"
    by (simp add: ct_def container_def ck seal_chunks_Cons frame_def)
  then show "65 < length ct" using h len by simp
  have r0: "ct ! 65 = ?r ! 0" using h len by (simp add: ct nth_append)
  have upd: "ct[65 := x] = ?h @ frame (?r[0 := x]) @ ?rest"
    using h len by (simp add: ct frame_def list_update_append)
  have u: "unat (word_of_nat n :: u32) = n" using small by (intro unat_word_of_nat32) simp
  then have "(word_of_nat n :: u32) \<noteq> 0" "(word_of_nat n :: u32) \<le> word_of_nat MaxChunkSize"
    using assms(2,3) by (auto simp: word_le_nat_alt)
  moreover have "chunkAEADForSuite suite \<noteq> None" using assms(1) by (auto simp: chunkAEADForSuite_def)
  ultimately have ph: "parseFixedHeader ?h = Inr \<lparr>suiteID = suite, chunkSize = word_of_nat n, streamID = sID, streamSalt = salt\<rparr>"
    using parse_writeFixedHeader_layout [OF assms(5,6), of suite "word_of_nat n" "[]"] by (simp add: not_less)
  have "open_stream cr ?c (frame (?r[0 := x]) @ ?rest) = ([], Some ErrAuthFailed)"
    using assms(2,8,9,10,12) small r0 wf_split_chunks [OF assms(2), of pt] ck
    by (intro changed_record_refused) simp_all
  then show "decrypt_bytes cr key (ct[65 := x]) = ([], Some ErrAuthFailed)"
    using h ph u assms(1,4,7) by (auto simp: upd decrypt_bytes_def)
qed

section \<open>The cases on a sound disk\<close>

text \<open>A run of the program: a library with the documented behaviour, on a disk where every operation succeeds.\<close>

definition good_lib :: "('pk, 'sk) demo_lib \<Rightarrow> bool" where
  "good_lib L \<longleftrightarrow> sound_disk (dl_os L) \<and> crypto_law (dl_crypto L)"

lemma good_libD:
  assumes "good_lib L"
  shows "sound_disk (dl_os L)" "crypto_law (dl_crypto L)"
  using assms by (simp_all add: good_lib_def)

lemma open_sound:
  assumes "sound_disk os" "d path = Some bs"
  obtains f where "os_Open os d path = Inr f" "script_ready f" "script_content f = bs"
  using assms by (simp add: os_Open_def sound_diskD)

lemma digest_sound: "sound_disk (dl_os L) \<Longrightarrow> d path = Some bs \<Longrightarrow> digest L d path = Inr (dl_sha256 L bs)"
  by (simp add: digest_def os_Open_def io_ReadAll_ready sound_diskD)

lemma finish_sound:
  assumes "sound_disk (dl_os L)" "plainDigest = dl_sha256 L (w_out out)"
  shows "finishOutput L d outPath out what plainDigest = (None, d(outPath \<mapsto> w_out out))"
  by (simp add: finishOutput_def sound_diskD [OF assms(1)] assertSameDigest_def digest_sound [OF assms(1)] assms(2))

lemma generate_sound:
  assumes "sound_disk os" "n \<le> length (wd_tape w)"
  shows "generateFile os path n w =
    (None, w\<lparr>wd_disk := (wd_disk w)(path \<mapsto> take n (wd_tape w)), wd_tape := drop n (wd_tape w)\<rparr>)"
  using assms(2) by (simp add: generateFile_def sound_diskD [OF assms(1)] mem_write_def)

lemma demo_chunkSize_ok: "0 < demo_chunkSize" "demo_chunkSize \<le> int MaxChunkSize" "validateChunkSize demo_chunkSize = None"
  by (simp_all add: demo_chunkSize_def validateChunkSize_def)

abbreviation fresh_file :: mem_writer where
  "fresh_file \<equiv> \<lparr>w_out = [], w_room = None\<rparr>"

text \<open>Encryption of a whole file under a fresh key, and the decryption of what it wrote.\<close>

lemma encrypt_file:
  assumes "crypto_law cr" "script_ready fin" "80 \<le> length tape"
  obtains cek out s salt sID k a where
    "EncryptAEAD cr script_read mem_write fresh_file fin SuiteAES256GCM GenerateCEK demo_chunkSize tape = Some (Inr cek, out, s, drop 80 tape)"
    "length cek = 32" "length sID = 16" "length salt = 32" "deriveMessageKey cr salt cek SuiteAES256GCM sID = Inr k"
    "newAEAD cr (c_chunkAEAD (crypto_of SuiteAES256GCM (nat demo_chunkSize) sID k)) k = Inr a" "aead_law a"
    "w_out out = container a (crypto_of SuiteAES256GCM (nat demo_chunkSize) sID k) salt [] (script_content fin)"
proof -
  have c: "chooseCEK GenerateCEK tape = (Inr (take 32 tape), drop 32 tape)"
    using assms(3) by (simp add: chooseCEK_def GenerateCEK_def fillRandom_enough)
  have d: "drawIDs (drop 32 tape) = (Inr (take 16 (drop 32 tape), take 32 (drop 16 (drop 32 tape))), drop 48 (drop 32 tape))"
    using assms(3) by (intro drawIDs_enough) simp
  show thesis
    by (rule sio.EncryptAEAD_spec [OF assms(1) _ demo_chunkSize_ok(3) assms(2) _ c d, of SuiteAES256GCM fresh_file])
      (use assms(3) in \<open>auto simp: mem_writable_def intro!: that\<close>)
qed

lemma decrypt_file:
  assumes "script_ready ctIn" "decrypt_bytes cr cek (script_content ctIn) = (pt, e)"
  obtains out s where "DecryptAEAD cr script_read mem_write fresh_file ctIn cek = Some (e, out, s)" "w_out out = pt"
  by (rule sio.DecryptAEAD_spec [OF assms(1), of fresh_file cr cek]) (use assms(2) in \<open>auto simp: mem_writable_def intro: that\<close>)

lemma flipped_byte: "xor y 0xFF \<noteq> (y :: byte)"
proof
  assume "xor y 0xFF = y"
  then have "xor y (xor y 0xFF) = xor y y" by (rule arg_cong)
  then show False by (simp add: xor.assoc [symmetric])
qed

lemma plain_names [simp]:
  "plain_name ''plain.bin''" "plain_name ''aes.ct''" "plain_name ''aes.out''" "plain_name ''mlkem.ct''" "plain_name ''mlkem.out''"
  by (simp_all add: plain_name_def)

lemma aes_sound:
  assumes "good_lib L" "wd_disk w (filepath_Join dir ''plain.bin'') = Some bs" "80 \<le> length (wd_tape w)"
  obtains d where
    "aesRoundTrip L dir (filepath_Join dir ''plain.bin'') (dl_sha256 L bs) w =
       Some ((None, [PassAesEncrypt, PassAesRoundtrip]), w\<lparr>wd_disk := d, wd_tape := drop 80 (wd_tape w)\<rparr>)"
    "d (filepath_Join dir ''aes.out'') = Some bs"
    "\<And>p. p \<noteq> filepath_Join dir ''aes.ct'' \<Longrightarrow> p \<noteq> filepath_Join dir ''aes.out'' \<Longrightarrow> d p = wd_disk w p"
proof -
  note g = good_libD [OF assms(1)]
  let ?os = "dl_os L" and ?cr = "dl_crypto L"
  let ?ct = "filepath_Join dir ''aes.ct''" and ?out = "filepath_Join dir ''aes.out''"
  obtain fin where fin: "os_Open ?os (wd_disk w) (filepath_Join dir ''plain.bin'') = Inr fin" "script_ready fin" "script_content fin = bs"
    by (rule open_sound [OF g(1), where d = "wd_disk w", OF assms(2)])
  obtain cek ctOut s salt sID k a where enc:
    "EncryptAEAD ?cr script_read mem_write fresh_file fin SuiteAES256GCM GenerateCEK demo_chunkSize (wd_tape w) =
       Some (Inr cek, ctOut, s, drop 80 (wd_tape w))"
    "length cek = 32" "length sID = 16" "length salt = 32" "deriveMessageKey ?cr salt cek SuiteAES256GCM sID = Inr k"
    "newAEAD ?cr (c_chunkAEAD (crypto_of SuiteAES256GCM (nat demo_chunkSize) sID k)) k = Inr a" "aead_law a"
    "w_out ctOut = container a (crypto_of SuiteAES256GCM (nat demo_chunkSize) sID k) salt [] bs"
    by (rule encrypt_file [OF g(2) fin(2) assms(3)]) (simp add: fin(3))
  let ?d1 = "(wd_disk w)(?ct \<mapsto> w_out ctOut)"
  have ct: "?d1 ?ct = Some (w_out ctOut)" by simp
  obtain ctIn where ctIn: "os_Open ?os ?d1 ?ct = Inr ctIn" "script_ready ctIn" "script_content ctIn = w_out ctOut"
    by (rule open_sound [OF g(1), where d = ?d1, OF ct])
  have dec: "decrypt_bytes ?cr cek (script_content ctIn) = (bs, None)"
    unfolding ctIn(3) enc(8) using demo_chunkSize_ok enc by (intro decrypt_container) simp_all
  obtain out s' where out: "DecryptAEAD ?cr script_read mem_write fresh_file ctIn cek = Some (None, out, s')" "w_out out = bs"
    by (rule decrypt_file [OF ctIn(2) dec])
  have "aesDecrypt L ?ct ?out cek (dl_sha256 L bs) (w\<lparr>wd_disk := ?d1, wd_tape := drop 80 (wd_tape w)\<rparr>) =
      Some ((None, [PassAesEncrypt, PassAesRoundtrip]), w\<lparr>wd_disk := ?d1(?out \<mapsto> bs), wd_tape := drop 80 (wd_tape w)\<rparr>)"
    by (simp add: aesDecrypt_def ctIn(1) sound_diskD(3) [OF g(1)] out finish_sound [OF g(1)])
  then have "aesRoundTrip L dir (filepath_Join dir ''plain.bin'') (dl_sha256 L bs) w =
      Some ((None, [PassAesEncrypt, PassAesRoundtrip]), w\<lparr>wd_disk := ?d1(?out \<mapsto> bs), wd_tape := drop 80 (wd_tape w)\<rparr>)"
    by (simp add: aesRoundTrip_def Let_def fin(1) sound_diskD(3,4) [OF g(1)] enc(1))
  then show thesis by (rule that) simp_all
qed

lemma tamper_sound:
  assumes "good_lib L" "\<forall>k. length k = 32 \<longrightarrow> detects_changes (aes_gcm (dl_crypto L) k)"
    and "wd_disk w path = Some bs" "80 \<le> length (wd_tape w)"
  shows "tamperFailsClosed L path w = Some ((None, [PassTamper]), w\<lparr>wd_tape := drop 80 (wd_tape w)\<rparr>)"
proof -
  note g = good_libD [OF assms(1)]
  let ?cr = "dl_crypto L"
  obtain fin where fin: "os_Open (dl_os L) (wd_disk w) path = Inr fin" "script_ready fin" "script_content fin = bs"
    by (rule open_sound [OF g(1), where d = "wd_disk w", OF assms(3)])
  obtain cek ctOut s salt sID k a where enc:
    "EncryptAEAD ?cr script_read mem_write fresh_file fin SuiteAES256GCM GenerateCEK demo_chunkSize (wd_tape w) =
       Some (Inr cek, ctOut, s, drop 80 (wd_tape w))"
    "length cek = 32" "length sID = 16" "length salt = 32" "deriveMessageKey ?cr salt cek SuiteAES256GCM sID = Inr k"
    "newAEAD ?cr (c_chunkAEAD (crypto_of SuiteAES256GCM (nat demo_chunkSize) sID k)) k = Inr a" "aead_law a"
    "w_out ctOut = container a (crypto_of SuiteAES256GCM (nat demo_chunkSize) sID k) salt [] bs"
    by (rule encrypt_file [OF g(2) fin(2) assms(4)]) (simp add: fin(3))
  have k: "length k = 32"
    using deriveMessageKey_ok [OF g(2), of salt cek SuiteAES256GCM sID] enc(5) by auto
  have "a = aes_gcm ?cr k" using enc(6) k by (simp add: crypto_of_def chunkAEADForSuite_def newAEAD_def)
  then have a: "detects_changes a" using assms(2) k by simp
  define x where "x = xor (w_out ctOut ! 65) 0xFF"
  have "x \<noteq> w_out ctOut ! 65"
    by (simp add: x_def flipped_byte)
  note ch = changed_container_refused [where suite = SuiteAES256GCM and n = "nat demo_chunkSize", OF _ _ _ enc(2-7) a enc(8) this]
  have c: "65 < length (w_out ctOut)" "decrypt_bytes ?cr cek ((w_out ctOut)[65 := x]) = ([], Some ErrAuthFailed)"
    using ch demo_chunkSize_ok by simp_all
  have "script_ready [Data ((w_out ctOut)[65 := x])]" using c(1) by auto
  then obtain out s' where "DecryptAEAD ?cr script_read mem_write fresh_file [Data ((w_out ctOut)[65 := x])] cek =
      Some (Some ErrAuthFailed, out, s')"
    by (rule decrypt_file) (use c(2) in simp)
  then show ?thesis
    using c(1) by (simp add: tamperFailsClosed_def fin(1) enc(1) Let_def x_def)
qed

section \<open>The ML-KEM case\<close>

text \<open>Encapsulation succeeds once its \<open>m\<close> random bytes are there.\<close>

definition encapsulates_with :: "('pk, 'sk) kem_scheme \<Rightarrow> nat \<Rightarrow> bool" where
  "encapsulates_with scheme m \<longleftrightarrow>
     (\<forall>pk tape. m \<le> length tape \<longrightarrow> (\<exists>ek ss. Encapsulate scheme pk tape = (Some (ek, ss), drop m tape)))"

text \<open>
  A broker that creates the sealing key when asked, publishes the public half of a seed for it, and opens what is wrapped
  against that.
\<close>

definition custodies ::
  "('pk, 'sk) demo_lib \<Rightarrow> 'b signing_service \<Rightarrow> 'b aead_service \<Rightarrow> string \<Rightarrow> bytes \<Rightarrow> bytes \<Rightarrow> bool" where
  "custodies L sg ae keyID seed pub \<longleftrightarrow>
     (\<forall>ctx b. \<exists>r b'. sv_NewKey sg ctx \<lparr>newkey_KeyId = keyID, newkey_KeyType = keyTypeToProto KeyTypeMLKEM768\<rparr> b = (Inr r, b')) \<and>
     (\<forall>ctx b. \<exists>r b'. sv_GetPublicKey sg ctx \<lparr>gpk_KeyId = keyID, gpk_Version = None\<rparr> b = (Inr r, b') \<and> gpkr_PublicKey r = pub) \<and>
     PublicKeyFromSeed (dl_kem L) seed SuiteMLKEM768 = Inr pub \<and>
     holds_seed (dl_crypto L) (dl_kem L) ae \<lparr>br_keyID = keyID, br_suite = SuiteMLKEM768\<rparr> seed"

lemma deriveKEMAEADKey_ok:
  assumes "crypto_law cr" "mlKemCiphertextLen sid \<noteq> None"
  obtains k where "deriveKEMAEADKey cr sid ss ek pub = Inr k" "length k = 32"
proof -
  obtain tok where t: "kemToken sid = Some tok"
    using assms(2) by (auto simp: mlKemCiphertextLen_def kemToken_def split: if_splits)
  obtain okm where "hkdf_Key cr ss (replicate 32 0) (kemEnvelopeLabel @ bytes_of tok @ envTokenAES256GCM @ ek @ pub) 32 = Some okm"
    "length okm = 32" by (rule crypto_law_hkdf [OF assms(1), of 32]) simp_all
  with t show thesis by (intro that [of okm]) (simp_all add: deriveKEMAEADKey_def)
qed

lemma wrapCEK_enough:
  assumes "crypto_law cr" "kem_law lib sid" "PublicKeyFromSeed lib seed sid = Inr pub"
    and "schemeForSuite lib sid = Some scheme" "encapsulates_with scheme m" "m + 12 \<le> length tape"
  obtains env where "wrapCEK cr lib pub sid cek aad tape = (Inr env, drop (m + 12) tape)"
proof -
  obtain n pk sk where kl: "mlKemCiphertextLen sid = Some n"
    "MarshalBinary scheme pk = Some pub" "UnmarshalBinaryPublicKey scheme pub = Some pk"
    by (rule kem_lawE [OF assms(2,3)]) (use assms(4) in auto)
  obtain ek ss where e: "Encapsulate scheme pk tape = (Some (ek, ss), drop m tape)"
    using assms(5,6) unfolding encapsulates_with_def by (meson add_leD1)
  obtain k where k: "deriveKEMAEADKey cr sid ss ek pub = Inr k" "length k = 32"
    by (rule deriveKEMAEADKey_ok [OF assms(1), of sid]) (simp add: kl(1))
  obtain a where a: "newAEAD cr aeadAES256GCM k = Inr a" by (rule newAEAD_ok [OF assms(1) k(2)])
  show thesis
    using assms(6)
    by (intro that) (simp add: wrapCEK_def assms(4) kl e k(1) fillRandom_enough aeadSeal_eq [OF a] add.commute)
qed

lemma kem_encrypt_file:
  assumes "crypto_law cr" "kem_law lib SuiteMLKEM768" "PublicKeyFromSeed lib seed SuiteMLKEM768 = Inr pub"
    and "encapsulates_with (mlkem768 lib) m" "script_ready fin" "m + 92 \<le> length tape"
  obtains cek out s salt sID k a env where
    "EncryptMLKEM cr lib script_read mem_write fresh_file fin SuiteMLKEM768 pub demo_chunkSize tape = Some (None, out, s, drop (m + 92) tape)"
    "length cek = 32" "length sID = 16" "length salt = 32" "deriveMessageKey cr salt cek SuiteMLKEM768 sID = Inr k"
    "newAEAD cr (c_chunkAEAD (crypto_of SuiteMLKEM768 (nat demo_chunkSize) sID k)) k = Inr a" "aead_law a"
    "wf_env SuiteMLKEM768 env" "openCEKLocal cr lib seed SuiteMLKEM768 env (buildCEKWrapAAD SuiteMLKEM768 sID) = Inr cek"
    "w_out out = container a (crypto_of SuiteMLKEM768 (nat demo_chunkSize) sID k) salt (serializeKEMHeader env) (script_content fin)"
proof -
  let ?cek = "take 32 tape" and ?t = "drop 32 tape"
  let ?sID = "take 16 ?t" and ?salt = "take 32 (drop 16 ?t)"
  have c: "fillRandom 32 tape = (Inr ?cek, ?t)" using assms(6) by (intro fillRandom_enough) simp
  have d: "drawIDs ?t = (Inr (?sID, ?salt), drop 48 ?t)" using assms(6) by (intro drawIDs_enough) simp
  have sc: "schemeForSuite lib SuiteMLKEM768 = Some (mlkem768 lib)" by (simp add: schemeForSuite_def)
  have enough: "m + 12 \<le> length (drop 48 ?t)" using assms(6) by simp
  obtain env where w: "wrapCEK cr lib pub SuiteMLKEM768 ?cek (buildCEKWrapAAD SuiteMLKEM768 ?sID) (drop 48 ?t) =
      (Inr env, drop (m + 12) (drop 48 ?t))"
    by (rule wrapCEK_enough [OF assms(1-3) sc assms(4) enough])
  have len: "length ?cek = 32" "length ?sID = 16" "length ?salt = 32" using assms(6) by simp_all
  have wf: "wf_env SuiteMLKEM768 env" by (rule wrapCEK_wf [OF assms(1-3) w len(1)])
  have op: "openCEKLocal cr lib seed SuiteMLKEM768 env (buildCEKWrapAAD SuiteMLKEM768 ?sID) = Inr ?cek"
    by (rule wrap_open_local [OF assms(1-3) w])
  have rest: "drop (m + 12) (drop 48 ?t) = drop (m + 92) tape" by (simp add: add.commute)
  show thesis
    by (rule sio.EncryptMLKEM_spec [OF assms(1) demo_chunkSize_ok(3) assms(5) _ _ c d w, of fresh_file])
      (use rest len wf op in \<open>auto simp: mem_writable_def mlKemCiphertextLen_def intro!: that\<close>)
qed

lemma mlkem_sound:
  fixes L :: "('pk, 'sk) demo_lib" and w :: "'b world"
  assumes "good_lib L" "kem_law (dl_kem L) SuiteMLKEM768" "encapsulates_with (mlkem768 (dl_kem L)) m"
    and "custodies L sg ae (dc_kemKeyID cfg) seed pub"
    and "wd_disk w (filepath_Join (dc_workDir cfg) ''plain.bin'') = Some bs" "m + 92 \<le> length (wd_tape w)"
  obtains d b where
    "mlkemRoundTrip rt L client sg ae ctx cfg (filepath_Join (dc_workDir cfg) ''plain.bin'') (dl_sha256 L bs) w =
       Some ((None, [PassProvisioned (dc_kemKeyID cfg) (length pub), PassKemEncrypt, PassKemRoundtrip]),
         \<lparr>wd_disk = d, wd_tape = drop (m + 92) (wd_tape w), wd_broker = b\<rparr>)"
    "d (filepath_Join (dc_workDir cfg) ''mlkem.out'') = Some bs"
    "\<And>p. p \<noteq> filepath_Join (dc_workDir cfg) ''mlkem.ct'' \<Longrightarrow> p \<noteq> filepath_Join (dc_workDir cfg) ''mlkem.out'' \<Longrightarrow> d p = wd_disk w p"
proof -
  note g = good_libD [OF assms(1)]
  let ?os = "dl_os L" and ?cr = "dl_crypto L" and ?dir = "dc_workDir cfg" and ?k = "dc_kemKeyID cfg"
  let ?ct = "filepath_Join ?dir ''mlkem.ct''" and ?out = "filepath_Join ?dir ''mlkem.out''"
  let ?r = "\<lparr>br_keyID = ?k, br_suite = SuiteMLKEM768\<rparr>"
  obtain kh b1 where nk: "NewKey rt client sg ctx ?k KeyTypeMLKEM768 (wd_broker w) = (Inr kh, b1)"
  proof -
    obtain r b' where "sv_NewKey sg (withTimeout rt client ctx) \<lparr>newkey_KeyId = ?k, newkey_KeyType = keyTypeToProto KeyTypeMLKEM768\<rparr>
        (wd_broker w) = (Inr r, b')" using assms(4) unfolding custodies_def by blast
    then show thesis by (intro that [of "\<lparr>kh_KeyID = newkeyr_KeyId r, kh_PublicKey = newkeyr_PublicKey r\<rparr>" b']) (simp add: NewKey_def)
  qed
  obtain pk b2 where gk: "GetPublicKey rt client sg ctx ?k None b1 = (Inr pk, b2)" "pk_Bytes pk = pub"
  proof -
    obtain r b' where "sv_GetPublicKey sg (withTimeout rt client ctx) \<lparr>gpk_KeyId = ?k, gpk_Version = None\<rparr> b1 = (Inr r, b')"
      "gpkr_PublicKey r = pub" using assms(4) unfolding custodies_def by blast
    then show thesis
      by (intro that [of "\<lparr>pk_KeyID = gpkr_KeyId r, pk_KeyType = keyTypeFromProto (gpkr_KeyType r), pk_Bytes = gpkr_PublicKey r,
          pk_Version = gpkr_Version r\<rparr>" b']) (simp_all add: GetPublicKey_def)
  qed
  have pubkey: "PublicKeyFromSeed (dl_kem L) seed SuiteMLKEM768 = Inr pub" and holds: "holds_seed ?cr (dl_kem L) ae ?r seed"
    using assms(4) by (simp_all add: custodies_def)
  obtain fin where fin: "os_Open ?os (wd_disk w) (filepath_Join ?dir ''plain.bin'') = Inr fin" "script_ready fin" "script_content fin = bs"
    by (rule open_sound [OF g(1), where d = "wd_disk w", OF assms(5)])
  obtain cek ctOut s salt sID k a env where enc:
    "EncryptMLKEM ?cr (dl_kem L) script_read mem_write fresh_file fin SuiteMLKEM768 pub demo_chunkSize (wd_tape w) =
       Some (None, ctOut, s, drop (m + 92) (wd_tape w))"
    "length cek = 32" "length sID = 16" "length salt = 32" "deriveMessageKey ?cr salt cek SuiteMLKEM768 sID = Inr k"
    "newAEAD ?cr (c_chunkAEAD (crypto_of SuiteMLKEM768 (nat demo_chunkSize) sID k)) k = Inr a" "aead_law a"
    "wf_env SuiteMLKEM768 env" "openCEKLocal ?cr (dl_kem L) seed SuiteMLKEM768 env (buildCEKWrapAAD SuiteMLKEM768 sID) = Inr cek"
    "w_out ctOut = container a (crypto_of SuiteMLKEM768 (nat demo_chunkSize) sID k) salt (serializeKEMHeader env) bs"
    by (rule kem_encrypt_file [OF g(2) assms(2) pubkey assms(3) fin(2) assms(6)]) (simp add: fin(3))
  let ?d1 = "(wd_disk w)(?ct \<mapsto> w_out ctOut)"
  have ct: "?d1 ?ct = Some (w_out ctOut)" by simp
  obtain ctIn where ctIn: "os_Open ?os ?d1 ?ct = Inr ctIn" "script_ready ctIn" "script_content ctIn = w_out ctOut"
    by (rule open_sound [OF g(1), where d = ?d1, OF ct])
  have seals: "broker_seals rt client ae ctx ?r b2 env (buildCEKWrapAAD SuiteMLKEM768 sID) cek"
    by (rule holds_seed_seals [OF holds enc(2)]) (simp add: enc(9))
  note v = validateChunkSize_ok [OF demo_chunkSize_ok(3)]
  have w1: "mem_writable fresh_file" by (simp add: mem_writable_def)
  obtain out s' b3 where out: "DecryptMLKEM ?cr script_read mem_write fresh_file ctIn (RecoverCEK_broker rt client ae ctx ?r) b2 =
      Some (None, out, s', b3)" "w_out out = bs"
    by (rule bks.DecryptMLKEM_container [OF enc(8) v(3,4) enc(2-7) seals ctIn(2) w1]) (simp_all add: ctIn(3) enc(10))
  let ?w = "\<lparr>wd_disk = ?d1(?out \<mapsto> bs), wd_tape = drop (m + 92) (wd_tape w), wd_broker = b3\<rparr>"
  have "mlkemDecrypt L (RecoverCEK_broker rt client ae ctx ?r) ?ct ?out (dl_sha256 L bs)
      [PassProvisioned ?k (length pub), PassKemEncrypt] \<lparr>wd_disk = ?d1, wd_tape = drop (m + 92) (wd_tape w), wd_broker = b2\<rparr> =
      Some ((None, [PassProvisioned ?k (length pub), PassKemEncrypt, PassKemRoundtrip]), ?w)"
    by (simp add: mlkemDecrypt_def ctIn(1) sound_diskD(3) [OF g(1)] out finish_sound [OF g(1)])
  then have "mlkemRoundTrip rt L client sg ae ctx cfg (filepath_Join ?dir ''plain.bin'') (dl_sha256 L bs) w =
      Some ((None, [PassProvisioned ?k (length pub), PassKemEncrypt, PassKemRoundtrip]), ?w)"
    by (cases w) (use fin(1) enc(1) nk in \<open>simp add: mlkemRoundTrip_def gk mlkemEncrypt_def Let_def sound_diskD(3,4) [OF g(1)]\<close>)
  then show thesis by (rule that) simp_all
qed

section \<open>The whole run\<close>

lemma session_sound:
  fixes L :: "('pk, 'sk) demo_lib" and w :: "'b world"
  assumes "good_lib L" "\<forall>k. length k = 32 \<longrightarrow> detects_changes (aes_gcm (dl_crypto L) k)"
    and "kem_law (dl_kem L) SuiteMLKEM768" "encapsulates_with (mlkem768 (dl_kem L)) m"
    and "custodies L sg ae (dc_kemKeyID cfg) seed pub" "fileSize + m + 252 \<le> length (wd_tape w)"
  obtains d t b where
    "demo_session rt L client sg ae cfg w =
       Some ((None, [PassInput fileSize demo_chunkSize, PassAesEncrypt, PassAesRoundtrip,
          PassProvisioned (dc_kemKeyID cfg) (length pub), PassKemEncrypt, PassKemRoundtrip, PassTamper]),
         \<lparr>wd_disk = d, wd_tape = t, wd_broker = b\<rparr>)"
    "d (filepath_Join (dc_workDir cfg) ''plain.bin'') = Some (take fileSize (wd_tape w))"
    "d (filepath_Join (dc_workDir cfg) ''aes.out'') = Some (take fileSize (wd_tape w))"
    "d (filepath_Join (dc_workDir cfg) ''mlkem.out'') = Some (take fileSize (wd_tape w))"
proof -
  note g = good_libD [OF assms(1)]
  let ?P = "filepath_Join (dc_workDir cfg)" and ?bs = "take fileSize (wd_tape w)"
  have tape: "fileSize \<le> length (wd_tape w)" "80 \<le> length (drop fileSize (wd_tape w))"
    "m + 92 \<le> length (drop 80 (drop fileSize (wd_tape w)))" "80 \<le> length (drop (m + 92) (drop 80 (drop fileSize (wd_tape w))))"
    using assms(6) by simp_all
  let ?w1 = "w\<lparr>wd_disk := (wd_disk w)(?P ''plain.bin'' \<mapsto> ?bs), wd_tape := drop fileSize (wd_tape w)\<rparr>"
  have gen: "generateFile (dl_os L) (?P ''plain.bin'') fileSize w = (None, ?w1)"
    by (rule generate_sound [OF g(1) tape(1)])
  have dig: "digest L (wd_disk ?w1) (?P ''plain.bin'') = Inr (dl_sha256 L ?bs)"
    by (rule digest_sound [OF g(1)]) simp
  obtain d2 where aes: "aesRoundTrip L (dc_workDir cfg) (?P ''plain.bin'') (dl_sha256 L ?bs) ?w1 =
       Some ((None, [PassAesEncrypt, PassAesRoundtrip]), ?w1\<lparr>wd_disk := d2, wd_tape := drop 80 (wd_tape ?w1)\<rparr>)"
    and d2: "d2 (?P ''aes.out'') = Some ?bs" "\<And>p. p \<noteq> ?P ''aes.ct'' \<Longrightarrow> p \<noteq> ?P ''aes.out'' \<Longrightarrow> d2 p = wd_disk ?w1 p"
    by (rule aes_sound [OF assms(1), of ?w1 "dc_workDir cfg" ?bs]) (use tape in simp_all)
  let ?w2 = "?w1\<lparr>wd_disk := d2, wd_tape := drop 80 (wd_tape ?w1)\<rparr>"
  have p2: "d2 (?P ''plain.bin'') = Some ?bs" by (simp add: d2(2) Join_inject)
  obtain d3 b where kem: "mlkemRoundTrip rt L client sg ae (within_seconds rt 60) cfg (?P ''plain.bin'') (dl_sha256 L ?bs) ?w2 =
       Some ((None, [PassProvisioned (dc_kemKeyID cfg) (length pub), PassKemEncrypt, PassKemRoundtrip]),
         \<lparr>wd_disk = d3, wd_tape = drop (m + 92) (wd_tape ?w2), wd_broker = b\<rparr>)"
    and d3: "d3 (?P ''mlkem.out'') = Some ?bs" "\<And>p. p \<noteq> ?P ''mlkem.ct'' \<Longrightarrow> p \<noteq> ?P ''mlkem.out'' \<Longrightarrow> d3 p = wd_disk ?w2 p"
    by (rule mlkem_sound [OF assms(1,3-5), of ?w2 ?bs rt client "within_seconds rt 60"]) (use tape p2 in simp_all)
  let ?w3 = "\<lparr>wd_disk = d3, wd_tape = drop (m + 92) (wd_tape ?w2), wd_broker = b\<rparr>"
  have p3: "d3 (?P ''plain.bin'') = Some ?bs" "d3 (?P ''aes.out'') = Some ?bs"
    by (simp_all add: d3(2) Join_inject p2 d2(1))
  have tam: "tamperFailsClosed L (?P ''plain.bin'') ?w3 = Some ((None, [PassTamper]), ?w3\<lparr>wd_tape := drop 80 (wd_tape ?w3)\<rparr>)"
    by (rule tamper_sound [OF assms(1,2)]) (use tape p3 in simp_all)
  show thesis
    by (rule that [of d3 "drop 80 (wd_tape ?w3)" b])
      (use p3 d3(1) in \<open>simp_all add: demo_session_def Let_def gen and_then_def
        dig [simplified] aes [simplified] kem [simplified] tam [simplified]\<close>)
qed

end
