(* ===== verification/SecretsTour.thy ===== *)
theory SecretsTour
  imports GoEnv Secret AeadClient
begin

text \<open>
  \<open>src/examples/secrets-and-aead/main.go\<close>: a program that drives the secret and the AEAD client through a versioned
  secret and an encryption with additional data, and checks every answer. The printed lines are
  recorded unformatted.
\<close>

section \<open>Operations\<close>

record tour_config =
  tc_socket :: string
  tc_secretID :: string
  tc_aeadKeyID :: string

definition tour_loadConfig :: "environ \<Rightarrow> tour_config" where
  "tour_loadConfig env =
     \<lparr>tc_socket = envOr env ''BASIL_SOCKET'' ''/tmp/basil-secrets-aead/agent.sock'',
      tc_secretID = envOr env ''BASIL_SECRET_ID'' ''app.session_token'',
      tc_aeadKeyID = envOr env ''BASIL_AEAD_KEY_ID'' ''app.aead''\<rparr>"

datatype tour_line =
    PassSet string u32
  | PassGet string u32
  | PassRotate string u32
  | PassCycle u32 u32 u32
  | PassEncrypt string AeadAlgorithm nat
  | PassDecrypt
  | PassRejected

type_synonym 'b tour = "(go_error option \<times> tour_line list) \<times> 'b"

text \<open>A failure after the lines printed so far.\<close>

abbreviation stop_with :: "tour_line list \<Rightarrow> string \<Rightarrow> fmt_arg list \<Rightarrow> 'b \<Rightarrow> 'b tour" where
  "stop_with out fmt args b \<equiv> ((Some (PlainError fmt args), out), b)"

abbreviation stop_wrap :: "tour_line list \<Rightarrow> string \<Rightarrow> fmt_arg list \<Rightarrow> go_error \<Rightarrow> 'b \<Rightarrow> 'b tour" where
  "stop_wrap out fmt args e b \<equiv> ((Some (WrapError fmt args e), out), b)"

definition session_alpha :: bytes where
  "session_alpha = bytes_of ''session-token-alpha''"

definition session_bravo :: bytes where
  "session_bravo = bytes_of ''session-token-bravo''"

text \<open>The rotation and the last read, after the two writes at versions \<open>v1\<close> and \<open>v2\<close>.\<close>

definition rotateCycle ::
  "runtime \<Rightarrow> 'conn client \<Rightarrow> ('b, 's) secret_service \<Rightarrow> go_ctx \<Rightarrow> string \<Rightarrow> u32 \<Rightarrow> u32 \<Rightarrow> tour_line list \<Rightarrow> 'b \<Rightarrow> 'b tour" where
  "rotateCycle rt client sv ctx secretID v1 v2 out b =
     (case RotateSecret rt client sv ctx secretID b of
        (Inl e, b1) \<Rightarrow> stop_wrap out ''rotate %s: %w'' [ArgStr secretID] e b1
      | (Inr v3, b1) \<Rightarrow>
          if v3 \<le> v2
          then stop_with out ''rotate version=%d did not advance past %d'' [ArgInt (uint v3), ArgInt (uint v2)] b1
          else
            (let out1 = out @ [PassRotate secretID v3] in
             case GetSecret rt client sv ctx secretID None b1 of
               (Inl e, b2) \<Rightarrow> stop_wrap out1 ''get %s (after rotate): %w'' [ArgStr secretID] e b2
             | (Inr got3, b2) \<Rightarrow>
                 if sec_Version got3 \<noteq> v3
                 then stop_with out1 ''latest version=%d after rotate, want %d''
                        [ArgInt (uint (sec_Version got3)), ArgInt (uint v3)] b2
                 else if sec_Value got3 = session_bravo
                 then stop_with out1 ''rotate returned the previous value; expected a freshly generated secret'' [] b2
                 else ((None, out1 @ [PassCycle v1 v2 v3]), b2)))"

definition secretVersionCycle ::
  "runtime \<Rightarrow> 'conn client \<Rightarrow> ('b, 's) secret_service \<Rightarrow> go_ctx \<Rightarrow> string \<Rightarrow> 'b \<Rightarrow> 'b tour" where
  "secretVersionCycle rt client sv ctx secretID b =
     (case SetSecret rt client sv ctx secretID session_alpha b of
        (Inl e, b1) \<Rightarrow> stop_wrap [] ''set %s (first): %w'' [ArgStr secretID] e b1
      | (Inr v1, b1) \<Rightarrow>
          (let out1 = [PassSet secretID v1] in
           case GetSecret rt client sv ctx secretID None b1 of
             (Inl e, b2) \<Rightarrow> stop_wrap out1 ''get %s (after first set): %w'' [ArgStr secretID] e b2
           | (Inr got1, b2) \<Rightarrow>
               if sec_Value got1 \<noteq> session_alpha
               then stop_with out1 ''get %s returned %q, want %q''
                      [ArgStr secretID, ArgStr (string_of (sec_Value got1)), ArgStr (string_of session_alpha)] b2
               else if sec_Version got1 \<noteq> v1
               then stop_with out1 ''get %s version=%d, want %d''
                      [ArgStr secretID, ArgInt (uint (sec_Version got1)), ArgInt (uint v1)] b2
               else
                 (let out2 = out1 @ [PassGet secretID (sec_Version got1)] in
                  case SetSecret rt client sv ctx secretID session_bravo b2 of
                    (Inl e, b3) \<Rightarrow> stop_wrap out2 ''set %s (second): %w'' [ArgStr secretID] e b3
                  | (Inr v2, b3) \<Rightarrow>
                      if v2 \<le> v1
                      then stop_with out2 ''second set version=%d did not advance past %d'' [ArgInt (uint v2), ArgInt (uint v1)] b3
                      else rotateCycle rt client sv ctx secretID v1 v2 (out2 @ [PassSet secretID v2]) b3)))"

definition telemetry_plaintext :: bytes where
  "telemetry_plaintext = bytes_of ''telemetry: cpu=0.42 mem=0.71 region=eu-west-1''"

definition telemetry_aad :: bytes where
  "telemetry_aad = bytes_of ''tenant=acme,stream=telemetry''"

definition telemetry_wrongAAD :: bytes where
  "telemetry_wrongAAD = bytes_of ''tenant=evil,stream=telemetry''"

definition aeadRoundTripWithAAD ::
  "runtime \<Rightarrow> 'conn client \<Rightarrow> 'b aead_service \<Rightarrow> go_ctx \<Rightarrow> string \<Rightarrow> 'b \<Rightarrow> 'b tour" where
  "aeadRoundTripWithAAD rt client sv ctx keyID b =
     (case Encrypt rt client sv ctx keyID AeadAlgorithmAES256GCM telemetry_plaintext (Some telemetry_aad) b of
        (Inl e, b1) \<Rightarrow> stop_wrap [] ''encrypt with %s: %w'' [ArgStr keyID] e b1
      | (Inr ct, b1) \<Rightarrow>
          if length (ct_Bytes ct) = 0 then stop_with [] ''broker returned an empty ciphertext'' [] b1
          else
            (let out1 = [PassEncrypt keyID (ct_Algorithm ct) (length (ct_Bytes ct))] in
             case Decrypt rt client sv ctx keyID (Some ct) (Some telemetry_aad) b1 of
               (Inl e, b2) \<Rightarrow> stop_wrap out1 ''decrypt with matching AAD: %w'' [] e b2
             | (Inr recovered, b2) \<Rightarrow>
                 if recovered \<noteq> telemetry_plaintext
                 then stop_with out1 ''decrypt returned %q, want %q''
                        [ArgStr (string_of recovered), ArgStr (string_of telemetry_plaintext)] b2
                 else
                   (case Decrypt rt client sv ctx keyID (Some ct) (Some telemetry_wrongAAD) b2 of
                      (Inr _, b3) \<Rightarrow>
                        stop_with (out1 @ [PassDecrypt]) ''decrypt with mismatched AAD succeeded; expected authentication failure'' [] b3
                    | (Inl e, b3) \<Rightarrow> ((None, out1 @ [PassDecrypt, PassRejected]), b3))))"

text \<open>The deferred \<open>Close\<close> of the client has no part in the outcome; its error is dropped.\<close>

definition tour_run ::
  "runtime \<Rightarrow> 'conn grpc_lib \<Rightarrow> ('conn \<Rightarrow> ('b, 's) secret_service) \<Rightarrow> ('conn \<Rightarrow> 'b aead_service) \<Rightarrow> tour_config \<Rightarrow> 'b \<Rightarrow> 'b tour" where
  "tour_run rt lib secrets aeads cfg b =
     (case Dial lib (tc_socket cfg) [] of
        Inl e \<Rightarrow> stop_wrap [] ''dial broker at %s: %w'' [ArgStr (tc_socket cfg)] e b
      | Inr client \<Rightarrow>
          (let ctx = within_seconds rt 30 in
           case secretVersionCycle rt client (secrets (conn client)) ctx (tc_secretID cfg) b of
             ((Some e, out), b1) \<Rightarrow> ((Some e, out), b1)
           | ((None, out), b1) \<Rightarrow>
               (case aeadRoundTripWithAAD rt client (aeads (conn client)) ctx (tc_aeadKeyID cfg) b1 of
                  ((e, out'), b2) \<Rightarrow> ((e, out @ out'), b2))))"

definition tour_main ::
  "runtime \<Rightarrow> 'conn grpc_lib \<Rightarrow> ('conn \<Rightarrow> ('b, 's) secret_service) \<Rightarrow> ('conn \<Rightarrow> 'b aead_service) \<Rightarrow> environ \<Rightarrow> 'b \<Rightarrow> int" where
  "tour_main rt lib secrets aeads env b =
     exit_status (fst (fst (tour_run rt lib secrets aeads (tour_loadConfig env) b)))"

section \<open>What a conforming broker does\<close>

text \<open>
  A versioned secret: \<open>view\<close> is its latest version and value. A write stores the value under the next version, a
  read of the latest version returns both, a rotation stores another value under the next version.
\<close>

definition versioned_secret :: "('b, 's) secret_service \<Rightarrow> string \<Rightarrow> ('b \<Rightarrow> u32 \<times> bytes) \<Rightarrow> bool" where
  "versioned_secret sv sid view \<longleftrightarrow>
     (\<forall>ctx v b. \<exists>b'. sc_SetSecret sv ctx \<lparr>ss_SecretId = sid, ss_Value = v\<rparr> b = (Inr \<lparr>ssr_Version = fst (view b) + 1\<rparr>, b') \<and>
        view b' = (fst (view b) + 1, v)) \<and>
     (\<forall>ctx b. \<exists>b'. sc_GetSecret sv ctx \<lparr>gs_SecretId = sid, gs_Version = None\<rparr> b =
        (Inr \<lparr>gsr_Value = snd (view b), gsr_Version = fst (view b)\<rparr>, b') \<and> view b' = view b) \<and>
     (\<forall>ctx b. \<exists>b'. sc_RotateSecret sv ctx \<lparr>rs_SecretId = sid\<rparr> b = (Inr \<lparr>rsr_Version = fst (view b) + 1\<rparr>, b') \<and>
        fst (view b') = fst (view b) + 1 \<and> snd (view b') \<noteq> snd (view b))"

text \<open>An encryption key whose envelopes open under the additional data they were sealed with and no other.\<close>

definition binding_key :: "'b aead_service \<Rightarrow> string \<Rightarrow> bool" where
  "binding_key sv k \<longleftrightarrow>
     (\<forall>ctx alg p aad b. \<exists>env b'. ae_Encrypt sv ctx \<lparr>enc_KeyId = k, enc_Algorithm = alg, enc_Plaintext = p, enc_Aad = aad\<rparr> b =
          (Inr \<lparr>encr_Envelope = Some env\<rparr>, b') \<and> pce_Ciphertext env \<noteq> [] \<and>
        (\<forall>ctx b. \<exists>b'. ae_Decrypt sv ctx \<lparr>dec_KeyId = k, dec_Envelope = Some env, dec_Aad = aad\<rparr> b = (Inr \<lparr>decr_Plaintext = p\<rparr>, b')) \<and>
        (\<forall>ctx aad' b. aad' \<noteq> aad \<longrightarrow>
          (\<exists>e b'. ae_Decrypt sv ctx \<lparr>dec_KeyId = k, dec_Envelope = Some env, dec_Aad = aad'\<rparr> b = (Inl e, b'))))"

lemma versioned_set:
  assumes "versioned_secret sv sid view"
  obtains b' where "SetSecret rt c sv ctx sid v b = (Inr (fst (view b) + 1), b')" "view b' = (fst (view b) + 1, v)"
proof -
  obtain b' where "sc_SetSecret sv (withTimeout rt c ctx) \<lparr>ss_SecretId = sid, ss_Value = v\<rparr> b =
      (Inr \<lparr>ssr_Version = fst (view b) + 1\<rparr>, b')" "view b' = (fst (view b) + 1, v)"
    using assms unfolding versioned_secret_def by blast
  then show thesis by (intro that [of b']) (simp_all add: SetSecret_def)
qed

lemma versioned_get:
  assumes "versioned_secret sv sid view"
  obtains b' where "GetSecret rt c sv ctx sid None b = (Inr \<lparr>sec_Value = snd (view b), sec_Version = fst (view b)\<rparr>, b')"
    "view b' = view b"
proof -
  obtain b' where "sc_GetSecret sv (withTimeout rt c ctx) \<lparr>gs_SecretId = sid, gs_Version = None\<rparr> b =
      (Inr \<lparr>gsr_Value = snd (view b), gsr_Version = fst (view b)\<rparr>, b')" "view b' = view b"
    using assms unfolding versioned_secret_def by blast
  then show thesis by (intro that [of b']) (simp_all add: GetSecret_def)
qed

lemma versioned_rotate:
  assumes "versioned_secret sv sid view"
  obtains b' where "RotateSecret rt c sv ctx sid b = (Inr (fst (view b) + 1), b')"
    "fst (view b') = fst (view b) + 1" "snd (view b') \<noteq> snd (view b)"
proof -
  obtain b' where "sc_RotateSecret sv (withTimeout rt c ctx) \<lparr>rs_SecretId = sid\<rparr> b =
      (Inr \<lparr>rsr_Version = fst (view b) + 1\<rparr>, b')" "fst (view b') = fst (view b) + 1" "snd (view b') \<noteq> snd (view b)"
    using assms unfolding versioned_secret_def by blast
  then show thesis by (intro that [of b']) (simp_all add: RotateSecret_def)
qed

lemma binding_seal:
  assumes "binding_key sv k"
  obtains ct b' where "Encrypt rt c sv ctx k alg p aad b = (Inr ct, b')" "ct_Bytes ct \<noteq> []"
    "\<And>ctx b. \<exists>b'. Decrypt rt c sv ctx k (Some ct) aad b = (Inr p, b')"
    "\<And>ctx aad' b. aad' \<noteq> aad \<Longrightarrow> \<exists>e b'. Decrypt rt c sv ctx k (Some ct) aad' b = (Inl e, b')"
proof -
  obtain env b' where e: "ae_Encrypt sv (withTimeout rt c ctx) \<lparr>enc_KeyId = k, enc_Algorithm = alg, enc_Plaintext = p, enc_Aad = aad\<rparr> b =
      (Inr \<lparr>encr_Envelope = Some env\<rparr>, b')" "pce_Ciphertext env \<noteq> []"
    and o: "\<And>ctx b. \<exists>b'. ae_Decrypt sv ctx \<lparr>dec_KeyId = k, dec_Envelope = Some env, dec_Aad = aad\<rparr> b = (Inr \<lparr>decr_Plaintext = p\<rparr>, b')"
    and r: "\<And>ctx aad' b. aad' \<noteq> aad \<Longrightarrow>
      \<exists>e b'. ae_Decrypt sv ctx \<lparr>dec_KeyId = k, dec_Envelope = Some env, dec_Aad = aad'\<rparr> b = (Inl e, b')"
    using assms unfolding binding_key_def by blast
  let ?ct = "\<lparr>ct_Algorithm = pce_Alg env, ct_KeyVersion = pce_KeyVersion env, ct_Nonce = pce_Nonce env, ct_Bytes = pce_Ciphertext env\<rparr>"
  have env: "ciphertextToProto (Some ?ct) = Some env" by (simp add: ciphertextToProto_def)
  show thesis
  proof (rule that [of ?ct b'])
    show "\<exists>b'. Decrypt rt c sv ctx k (Some ?ct) aad b = (Inr p, b')" for ctx b
      using o [of "withTimeout rt c ctx" b] by (auto simp: Decrypt_def env)
    show "\<exists>e b'. Decrypt rt c sv ctx k (Some ?ct) aad' b = (Inl e, b')" if "aad' \<noteq> aad"
      for ctx aad' b
      using r [OF that, of "withTimeout rt c ctx" b] by (auto simp: Decrypt_def env)
  qed (use e in \<open>simp_all add: Encrypt_def\<close>)
qed

section \<open>The cycle and the round trip\<close>

text \<open>The two versions after which the next write does not advance: the counter is unsigned and wraps.\<close>

lemma u32_le_Suc: "(v + 1 \<le> v) \<longleftrightarrow> v = - 1" for v :: u32
proof (cases "v + 1 = 0")
  case True
  then show ?thesis using eq_neg_iff_add_eq_0 [of v 1] by simp
next
  case False
  then have "v < v + 1" "v \<noteq> - 1" by (auto simp: word_less_nat_alt unatSuc add.commute [of v])
  then show ?thesis by auto
qed

lemma cycle_exact:
  fixes b :: 'b and view :: "'b \<Rightarrow> u32 \<times> bytes"
  assumes "versioned_secret sv sid view"
  defines "n \<equiv> fst (view b)"
  shows "if n + 1 = - 1 \<or> n + 2 = - 1
    then \<exists>e out b'. secretVersionCycle rt c sv ctx sid b = ((Some e, out), b')
    else \<exists>b'. secretVersionCycle rt c sv ctx sid b =
      ((None, [PassSet sid (n + 1), PassGet sid (n + 1), PassSet sid (n + 2), PassRotate sid (n + 3),
               PassCycle (n + 1) (n + 2) (n + 3)]), b')"
proof -
  obtain b1 where s1: "SetSecret rt c sv ctx sid session_alpha b = (Inr (n + 1), b1)" "view b1 = (n + 1, session_alpha)"
    unfolding n_def by (rule versioned_set [OF assms(1)])
  obtain b2 where g1: "GetSecret rt c sv ctx sid None b1 = (Inr \<lparr>sec_Value = session_alpha, sec_Version = n + 1\<rparr>, b2)"
    "view b2 = (n + 1, session_alpha)"
    using versioned_get [OF assms(1), of rt c ctx b1] s1(2) by auto
  obtain b3 where s2: "SetSecret rt c sv ctx sid session_bravo b2 = (Inr (n + 2), b3)" "view b3 = (n + 2, session_bravo)"
    using versioned_set [OF assms(1), of rt c ctx session_bravo b2] g1(2) by (auto simp: add.assoc)
  obtain b4 where r: "RotateSecret rt c sv ctx sid b3 = (Inr (n + 3), b4)" "fst (view b4) = n + 3" "snd (view b4) \<noteq> session_bravo"
    using versioned_rotate [OF assms(1), of rt c ctx b3] s2(2) by (auto simp: add.assoc)
  obtain b5 where g2: "GetSecret rt c sv ctx sid None b4 = (Inr \<lparr>sec_Value = snd (view b4), sec_Version = n + 3\<rparr>, b5)"
    using versioned_get [OF assms(1), of rt c ctx b4] r(2) by auto
  have "n + 2 \<le> n + 1 \<longleftrightarrow> n + 1 = - 1" "n + 3 \<le> n + 2 \<longleftrightarrow> n + 2 = - 1"
    using u32_le_Suc [of "n + 1"] u32_le_Suc [of "n + 2"] by (simp_all add: add.assoc)
  then show ?thesis
    by (simp add: secretVersionCycle_def rotateCycle_def s1 g1 s2 r g2 Let_def)
qed

lemma aead_tour_ok:
  assumes "binding_key sv k"
  shows "\<exists>alg m b'. 0 < m \<and> aeadRoundTripWithAAD rt c sv ctx k b = ((None, [PassEncrypt k alg m, PassDecrypt, PassRejected]), b')"
proof -
  have wrong: "Some telemetry_wrongAAD \<noteq> Some telemetry_aad" by (simp add: telemetry_wrongAAD_def telemetry_aad_def)
  obtain ct b1 where e: "Encrypt rt c sv ctx k AeadAlgorithmAES256GCM telemetry_plaintext (Some telemetry_aad) b = (Inr ct, b1)"
      "ct_Bytes ct \<noteq> []"
    and d: "\<And>ctx b. \<exists>b'. Decrypt rt c sv ctx k (Some ct) (Some telemetry_aad) b = (Inr telemetry_plaintext, b')"
    and r: "\<And>ctx aad' b. aad' \<noteq> Some telemetry_aad \<Longrightarrow> \<exists>e b'. Decrypt rt c sv ctx k (Some ct) aad' b = (Inl e, b')"
    by (rule binding_seal [OF assms, of rt c ctx AeadAlgorithmAES256GCM telemetry_plaintext "Some telemetry_aad" b]) (rule that)
  obtain b2 where d': "Decrypt rt c sv ctx k (Some ct) (Some telemetry_aad) b1 = (Inr telemetry_plaintext, b2)"
    using d by blast
  obtain x b3 where r': "Decrypt rt c sv ctx k (Some ct) (Some telemetry_wrongAAD) b2 = (Inl x, b3)"
    using r [OF wrong] by blast
  show ?thesis using e by (simp add: aeadRoundTripWithAAD_def d' r' Let_def)
qed

text \<open>What a successful cycle has seen, whatever the broker does.\<close>

lemma cycle_sound:
  assumes "secretVersionCycle rt c sv ctx sid b = ((None, out), b')"
  obtains v1 v2 v3 where "v1 < v2" "v2 < v3"
    "out = [PassSet sid v1, PassGet sid v1, PassSet sid v2, PassRotate sid v3, PassCycle v1 v2 v3]"
  using assms
  by (auto simp: secretVersionCycle_def rotateCycle_def Let_def not_le split: prod.splits sum.splits if_splits)

lemma aead_tour_sound:
  assumes "aeadRoundTripWithAAD rt c sv ctx k b = ((None, out), b')"
  obtains alg n where "0 < n" "out = [PassEncrypt k alg n, PassDecrypt, PassRejected]"
  using assms
  by (auto simp: aeadRoundTripWithAAD_def Let_def split: prod.splits sum.splits if_splits)

end
