(* ===== verification/DemoProps.thy ===== *)
theory DemoProps
  imports BrokerProps StreamDemoSpec SecretsTour
begin

text \<open>
  The properties of the programs that compose the library: what they report in an environment that works, and what
  a success of theirs shows about any broker.
\<close>

section \<open>The file encryption program\<close>

text \<open>
  C8. On a disk that works, with enough random bytes, a library that behaves as documented and detects a changed byte, and a
  broker that custodies the sealing key, the file encryption program returns with success: it prints
  every line, both decrypted files are the generated file, and the changed container was refused.
\<close>

theorem demo_passes:
  fixes L :: "('pk, 'sk) demo_lib" and w :: "'b world"
  assumes "good_lib L" "\<forall>k. length k = 32 \<longrightarrow> detects_changes (aes_gcm (dl_crypto L) k)"
    and "kem_law (dl_kem L) SuiteMLKEM768" "encapsulates_with (mlkem768 (dl_kem L)) m"
    and "Dial lib (dc_socket cfg) [] = Inr client"
    and "custodies L (signing (conn client)) (aeads (conn client)) (dc_kemKeyID cfg) seed pub"
    and "fileSize + m + 252 \<le> length (wd_tape w)"
  shows "\<exists>d t b. demo_run rt lib L signing aeads cfg w =
       Some ((None, [PassInput fileSize demo_chunkSize, PassAesEncrypt, PassAesRoundtrip,
          PassProvisioned (dc_kemKeyID cfg) (length pub), PassKemEncrypt, PassKemRoundtrip, PassTamper]),
         \<lparr>wd_disk = d, wd_tape = t, wd_broker = b\<rparr>) \<and>
     d (filepath_Join (dc_workDir cfg) ''aes.out'') = d (filepath_Join (dc_workDir cfg) ''plain.bin'') \<and>
     d (filepath_Join (dc_workDir cfg) ''mlkem.out'') = d (filepath_Join (dc_workDir cfg) ''plain.bin'') \<and>
     d (filepath_Join (dc_workDir cfg) ''plain.bin'') = Some (take fileSize (wd_tape w))"
  by (rule session_sound [OF assms(1-4,6,7), of rt client]) (auto simp: demo_run_def assms(5))

definition toy_demo_lib :: "(bytes, bytes) demo_lib" where
  "toy_demo_lib = \<lparr>dl_os = plain_disk, dl_crypto = sum_crypto, dl_kem = copy_lib, dl_sha256 = (\<lambda>bs. replicate 32 (sum_list bs))\<rparr>"

definition toy_signing :: "nat signing_service" where
  "toy_signing = deny_signing\<lparr>
     sv_NewKey := (\<lambda>ctx q b. (Inr \<lparr>newkeyr_KeyId = newkey_KeyId q, newkeyr_PublicKey = replicate 64 9\<rparr>, b + 1)),
     sv_GetPublicKey := (\<lambda>ctx q b. (Inr \<lparr>gpkr_KeyId = gpk_KeyId q, gpkr_KeyType = KeyTypeMLKEM768,
       gpkr_PublicKey = replicate 64 9, gpkr_Version = 1\<rparr>, b + 1))\<rparr>"

lemma sum_aead_detects: "detects_changes (sum_aead k)"
  unfolding detects_changes_def
proof (intro allI impI)
  fix n p ad :: bytes and i :: nat and x :: byte
  let ?t = "sum_tag k n p ad"
  assume i: "i < length (Seal (sum_aead k) n p ad)" and x: "x \<noteq> Seal (sum_aead k) n p ad ! i"
  have s: "Seal (sum_aead k) n p ad = p @ ?t" by (simp add: sum_aead_def)
  show "Open (sum_aead k) n ((Seal (sum_aead k) n p ad)[i := x]) ad = None"
  proof (cases "i < length p")
    case True
    have "sum_list (p[i := x]) = sum_list (take i p) + x + sum_list (drop (Suc i) p)"
      using True by (simp add: upd_conv_take_nth_drop add.assoc)
    moreover have "sum_list p = sum_list (take i p) + p ! i + sum_list (drop (Suc i) p)"
      using arg_cong [OF id_take_nth_drop [OF True], of sum_list] by (simp add: add.assoc)
    moreover have "x \<noteq> p ! i" using x True by (simp add: s nth_append)
    ultimately have "?t \<noteq> sum_tag k n (p[i := x]) ad" by (auto simp: sum_tag_def)
    with True show ?thesis by (simp add: s list_update_append) (simp add: sum_aead_def Let_def)
  next
    case False
    have len: "i - length p < length ?t" using False i by (simp add: s)
    have "x \<noteq> ?t ! (i - length p)" using x False by (simp add: s nth_append)
    then have "?t[i - length p := x] \<noteq> ?t" using False i by (metis len nth_list_update_eq)
    with False show ?thesis by (simp add: s list_update_append) (simp add: sum_aead_def Let_def)
  qed
qed


lemma toy_custodies:
  "custodies toy_demo_lib toy_signing (seed_service sum_crypto copy_lib k (replicate 64 9)) k (replicate 64 9) (replicate 64 9)"
  using seed_service_holds [of "\<lparr>br_keyID = k, br_suite = SuiteMLKEM768\<rparr>" sum_crypto copy_lib "replicate 64 9"]
  by (simp add: custodies_def toy_signing_def deny_signing_def toy_demo_lib_def mlKemCiphertextLen_def
      PublicKeyFromSeed_def schemeForSuite_def copy_lib_def copy_scheme_def)

definition toy_demo_config :: demo_config where
  "toy_demo_config = \<lparr>dc_socket = ''/s'', dc_kemKeyID = ''seal'', dc_workDir = ''/w''\<rparr>"

theorem demo_passes_witness:
  "\<exists>d t b. demo_run test_rt opts_lib toy_demo_lib (\<lambda>_. toy_signing) (\<lambda>_. seed_service sum_crypto copy_lib ''seal'' (replicate 64 9))
       toy_demo_config \<lparr>wd_disk = (\<lambda>_. None), wd_tape = replicate (fileSize + 284) 7, wd_broker = 0\<rparr> =
       Some ((None, [PassInput fileSize demo_chunkSize, PassAesEncrypt, PassAesRoundtrip,
          PassProvisioned ''seal'' 64, PassKemEncrypt, PassKemRoundtrip, PassTamper]),
         \<lparr>wd_disk = d, wd_tape = t, wd_broker = b\<rparr>) \<and>
     d ''/w/aes.out'' = Some (replicate fileSize 7)"
proof -
  let ?w = "\<lparr>wd_disk = (\<lambda>_. None), wd_tape = replicate (fileSize + 284) 7, wd_broker = 0\<rparr> :: nat world"
  have good: "good_lib toy_demo_lib" by (simp add: good_lib_def toy_demo_lib_def plain_disk_sound sum_crypto_law)
  have det: "\<forall>k. length k = 32 \<longrightarrow> detects_changes (aes_gcm (dl_crypto toy_demo_lib) k)"
    by (simp add: toy_demo_lib_def sum_crypto_def sum_aead_detects)
  have kem: "kem_law (dl_kem toy_demo_lib) SuiteMLKEM768" by (simp add: toy_demo_lib_def copy_lib_law)
  have enc: "encapsulates_with (mlkem768 (dl_kem toy_demo_lib)) 32"
    by (simp add: encapsulates_with_def toy_demo_lib_def copy_lib_def copy_scheme_def)
  obtain client where dial: "Dial opts_lib (dc_socket toy_demo_config) [] = Inr client"
    by (simp add: Dial_def opts_lib_def toy_demo_config_def Let_def)
  have cust: "custodies toy_demo_lib ((\<lambda>_. toy_signing) (conn client))
      ((\<lambda>_. seed_service sum_crypto copy_lib ''seal'' (replicate 64 9)) (conn client)) (dc_kemKeyID toy_demo_config)
      (replicate 64 9) (replicate 64 9)"
    by (simp add: toy_demo_config_def toy_custodies)
  have join: "filepath_Join ''/w'' ''aes.out'' = ''/w/aes.out''" "filepath_Join ''/w'' ''plain.bin'' = ''/w/plain.bin''"
    by (simp_all add: Join_plain is_rooted_def clean_step_def)
  from demo_passes [OF good det kem enc dial cust, of ?w test_rt]
  show ?thesis by (auto simp: toy_demo_config_def join)
qed

section \<open>The secrets and AEAD program\<close>

text \<open>
  C31. Against a broker that versions the secret and binds the additional data, the secrets program returns with status 0 and
  prints every line, with the versions \<open>n+1\<close>, \<open>n+2\<close>, \<open>n+3\<close> after the current version \<open>n\<close>, unless the second or the third of
  these wraps past the 32 bits of a version; then, and only then, it fails.
\<close>

theorem tour_exact:
  fixes b :: 'b and view :: "'b \<Rightarrow> u32 \<times> bytes"
  assumes "Dial lib (tc_socket (tour_loadConfig env)) [] = Inr client"
    and "versioned_secret (secrets (conn client)) (tc_secretID (tour_loadConfig env)) view"
    and "binding_key (aeads (conn client)) (tc_aeadKeyID (tour_loadConfig env))"
    and "n = fst (view b)" "sid = tc_secretID (tour_loadConfig env)"
  shows "(tour_main rt lib secrets aeads env b = 0 \<longleftrightarrow> n \<noteq> - 2 \<and> n \<noteq> - 3) \<and>
    (n \<noteq> - 2 \<and> n \<noteq> - 3 \<longrightarrow> (\<exists>alg m b'. 0 < m \<and> tour_run rt lib secrets aeads (tour_loadConfig env) b =
      ((None, [PassSet sid (n + 1), PassGet sid (n + 1), PassSet sid (n + 2), PassRotate sid (n + 3),
         PassCycle (n + 1) (n + 2) (n + 3), PassEncrypt (tc_aeadKeyID (tour_loadConfig env)) alg m, PassDecrypt, PassRejected]), b')))"
proof -
  have n: "n + 1 = - 1 \<longleftrightarrow> n = - 2" "n + 2 = - 1 \<longleftrightarrow> n = - 3" by (auto simp: algebra_simps eq_neg_iff_add_eq_0)
  note c = cycle_exact [OF assms(2), of b rt client "within_seconds rt 30", folded assms(4,5), unfolded n]
  show ?thesis
  proof (cases "n = - 2 \<or> n = - 3")
    case True
    with c obtain e out b' where "secretVersionCycle rt client (secrets (conn client)) (within_seconds rt 30) sid b = ((Some e, out), b')"
      by auto
    with True assms(1,5) show ?thesis by (auto simp: tour_main_def tour_run_def Let_def)
  next
    case False
    with c obtain b' where s: "secretVersionCycle rt client (secrets (conn client)) (within_seconds rt 30) sid b =
        ((None, [PassSet sid (n + 1), PassGet sid (n + 1), PassSet sid (n + 2), PassRotate sid (n + 3),
           PassCycle (n + 1) (n + 2) (n + 3)]), b')" by auto
    obtain alg m b'' where a: "0 < m" "aeadRoundTripWithAAD rt client (aeads (conn client)) (within_seconds rt 30)
        (tc_aeadKeyID (tour_loadConfig env)) b' = ((None, [PassEncrypt (tc_aeadKeyID (tour_loadConfig env)) alg m, PassDecrypt, PassRejected]), b'')"
      using aead_tour_ok [OF assms(3), of rt client "within_seconds rt 30" b'] by blast
    with False s assms(1,5) show ?thesis by (auto simp: tour_main_def tour_run_def Let_def)
  qed
qed

text \<open>A broker with one versioned secret, and one whose envelopes name the additional data.\<close>

definition toy_secrets :: "(u32 \<times> bytes, unit) secret_service" where
  "toy_secrets =
     \<lparr>sc_GetSecret = (\<lambda>ctx q b. (Inr \<lparr>gsr_Value = snd b, gsr_Version = fst b\<rparr>, b)),
      sc_SetSecret = (\<lambda>ctx q b. (Inr \<lparr>ssr_Version = fst b + 1\<rparr>, (fst b + 1, ss_Value q))),
      sc_RotateSecret = (\<lambda>ctx q b. (Inr \<lparr>rsr_Version = fst b + 1\<rparr>, (fst b + 1, 0 # snd b))),
      sc_ListCatalog = (\<lambda>ctx q b. (Inr (), b)), sc_Recv = (\<lambda>s. (Inl IoEOF, s))\<rparr>"

definition aad_mark :: "bytes option \<Rightarrow> bytes" where
  "aad_mark aad = (case aad of None \<Rightarrow> [0] | Some a \<Rightarrow> 1 # a)"

lemma aad_mark_inject [simp]: "aad_mark x = aad_mark y \<longleftrightarrow> x = y"
  by (auto simp: aad_mark_def split: option.splits)

definition toy_aead :: "'b aead_service" where
  "toy_aead =
     \<lparr>ae_Encrypt = (\<lambda>ctx q b. (Inr \<lparr>encr_Envelope = Some \<lparr>pce_Alg = enc_Algorithm q, pce_KeyVersion = 1,
        pce_Nonce = aad_mark (enc_Aad q), pce_Ciphertext = 0 # enc_Plaintext q\<rparr>\<rparr>, b)),
      ae_Decrypt = (\<lambda>ctx q b. (case dec_Envelope q of None \<Rightarrow> (Inl (PlainError ''no envelope'' []), b)
        | Some e \<Rightarrow> if pce_Nonce e = aad_mark (dec_Aad q) then (Inr \<lparr>decr_Plaintext = tl (pce_Ciphertext e)\<rparr>, b)
            else (Inl (PlainError ''bad aad'' []), b))),
      ae_WrapEnvelope = (\<lambda>ctx q b. (Inr \<lparr>wrapr_Envelope = None\<rparr>, b)), ae_UnwrapEnvelope = (\<lambda>ctx q b. (Inr \<lparr>unwr_Plaintext = []\<rparr>, b)),
      ae_UnsealCose = (\<lambda>ctx q b. (Inr \<lparr>unsr_Plaintext = []\<rparr>, b))\<rparr>"

lemma toy_secrets_versioned: "versioned_secret toy_secrets sid id"
  by (simp add: versioned_secret_def toy_secrets_def)

lemma toy_aead_binding: "binding_key toy_aead k"
  by (simp add: binding_key_def toy_aead_def)

theorem tour_exact_witness:
  "tour_main test_rt opts_lib (\<lambda>_. toy_secrets) (\<lambda>_. toy_aead) (\<lambda>_. []) (4, []) = 0 \<and>
   tour_main test_rt opts_lib (\<lambda>_. toy_secrets) (\<lambda>_. toy_aead) (\<lambda>_. []) (- 2, []) \<noteq> 0"
proof -
  obtain client where dial: "Dial opts_lib (tc_socket (tour_loadConfig (\<lambda>_. []))) [] = Inr client"
    by (simp add: Dial_def opts_lib_def tour_loadConfig_def envOr_def Let_def)
  note t = tour_exact [OF dial, where secrets = "\<lambda>_. toy_secrets" and aeads = "\<lambda>_. toy_aead" and view = id,
      OF toy_secrets_versioned toy_aead_binding refl refl]
  show ?thesis
    using t [THEN conjunct1, of test_rt "(4, [])"] t [THEN conjunct1, of test_rt "(- 2, [])"] by simp
qed

end
