(* ===== verification/Cbor.thy ===== *)
theory Cbor
  imports Errors
begin

text \<open>
  The CBOR library of \<open>src/sealedinvocation\<close> as a parameter. Values are the Go values that the
  package encodes or that the decoder produces for \<open>any\<close>; \<open>cbor_law\<close> is the documented behaviour
  that the package relies on, and \<open>tree_cbor\<close> a concrete codec that has it.
\<close>

section \<open>Values\<close>

text \<open>
  \<open>VMap\<close> is a \<open>map[int64]any\<close> given by its entries, \<open>VAnyMap\<close> the \<open>map[any]any\<close> that the decoder makes of
  any map.
\<close>

datatype cval =
    VInt i64
  | VUint u64
  | VBytes bytes
  | VText string
  | VArr "cval list"
  | VMap "(i64 \<times> cval) list"
  | VAnyMap "(cval \<times> cval) list"
  | VTag u64 cval
  | VNil

record coseRecipient =
  rec_Protected :: bytes
  rec_Unprotected :: "i64 \<rightharpoonup> cval"

record coseEncrypt =
  ce_Protected :: bytes
  ce_Unprotected :: "i64 \<rightharpoonup> cval"
  ce_Ciphertext :: bytes
  ce_Recipients :: "coseRecipient list"

record coseSign1 =
  cs_Protected :: bytes
  cs_Unprotected :: "i64 \<rightharpoonup> cval"
  cs_Payload :: bytes
  cs_Signature :: bytes

text \<open>
  The encoder (canonical) and the decoder, with one decoding per Go target type; \<open>modes_error\<close> is the
  error of initializing them, if any.
\<close>

record cbor_lib =
  modes_error :: "go_error option"
  Enc_Marshal :: "cval \<Rightarrow> (go_error, bytes) result"
  Dec_Tag :: "bytes \<Rightarrow> (go_error, u64 \<times> cval) result"
  Dec_Map :: "bytes \<Rightarrow> (go_error, i64 \<rightharpoonup> cval) result"
  Dec_Sign1 :: "bytes \<Rightarrow> (go_error, coseSign1) result"
  Dec_Encrypt :: "bytes \<Rightarrow> (go_error, coseEncrypt) result"

section \<open>Documented behaviour\<close>

text \<open>How a value comes back from decoding into \<open>any\<close>: non-negative integers as \<open>uint64\<close>, maps
  with keys of any type.\<close>

fun decoded_value :: "cval \<Rightarrow> cval" where
  "decoded_value (VInt i) = (if 0 \<le>s i then VUint i else VInt i)"
| "decoded_value (VArr vs) = VArr (map decoded_value vs)"
| "decoded_value (VMap kvs) = VAnyMap (map (\<lambda>(k, v). (if 0 \<le>s k then VUint k else VInt k, decoded_value v)) kvs)"
| "decoded_value (VAnyMap kvs) = VAnyMap (map (\<lambda>(k, v). (decoded_value k, decoded_value v)) kvs)"
| "decoded_value (VTag n v) = VTag n (decoded_value v)"
| "decoded_value v = v"

text \<open>
  Values within the limits of the decoder: text in ASCII, maps without repeated keys, and short
  arrays and maps (the depth of the values used is fixed and small).
\<close>

fun fits :: "cval \<Rightarrow> bool" where
  "fits (VText s) \<longleftrightarrow> (\<forall>c \<in> set s. of_char c < (128 :: nat))"
| "fits (VArr vs) \<longleftrightarrow> length vs \<le> 16 \<and> list_all fits vs"
| "fits (VMap kvs) \<longleftrightarrow> length kvs \<le> 16 \<and> distinct (map fst kvs) \<and> list_all (\<lambda>(k, v). fits v) kvs"
| "fits (VAnyMap kvs) \<longleftrightarrow> length kvs \<le> 16 \<and> list_all (\<lambda>(k, v). fits k \<and> fits v) kvs"
| "fits (VTag n v) \<longleftrightarrow> fits v"
| "fits v \<longleftrightarrow> True"

definition decoded_map :: "(i64 \<times> cval) list \<Rightarrow> i64 \<rightharpoonup> cval" where
  "decoded_map kvs k = map_option decoded_value (map_of kvs k)"

text \<open>
  Values within the limits encode; decoding an encoding gives the decoded form, and that form encodes
  to the same bytes; the structures of COSE decode field by field.
\<close>

definition cbor_law :: "cbor_lib \<Rightarrow> bool" where
  "cbor_law lib \<longleftrightarrow>
     modes_error lib = None \<and>
     (\<forall>v. fits v \<longrightarrow> (\<exists>bs. Enc_Marshal lib v = Inr bs \<and> Enc_Marshal lib (decoded_value v) = Inr bs)) \<and>
     (\<forall>n v bs. fits v \<longrightarrow> Enc_Marshal lib (VTag n v) = Inr bs \<longrightarrow> Dec_Tag lib bs = Inr (n, decoded_value v)) \<and>
     (\<forall>kvs bs. fits (VMap kvs) \<longrightarrow> Enc_Marshal lib (VMap kvs) = Inr bs \<longrightarrow> Dec_Map lib bs = Inr (decoded_map kvs)) \<and>
     (\<forall>p u pl s bs. fits (VMap u) \<longrightarrow> Enc_Marshal lib (VArr [VBytes p, VMap u, VBytes pl, VBytes s]) = Inr bs \<longrightarrow>
        Dec_Sign1 lib bs = Inr \<lparr>cs_Protected = p, cs_Unprotected = decoded_map u, cs_Payload = pl, cs_Signature = s\<rparr>) \<and>
     (\<forall>p u ct rp ru bs. fits (VMap u) \<longrightarrow> fits (VMap ru) \<longrightarrow>
        Enc_Marshal lib (VArr [VBytes p, VMap u, VBytes ct, VArr [VArr [VBytes rp, VMap ru, VNil]]]) = Inr bs \<longrightarrow>
        Dec_Encrypt lib bs = Inr \<lparr>ce_Protected = p, ce_Unprotected = decoded_map u, ce_Ciphertext = ct,
          ce_Recipients = [\<lparr>rec_Protected = rp, rec_Unprotected = decoded_map ru\<rparr>]\<rparr>)"

text \<open>Different arrays of byte strings have different encodings.\<close>

definition cbor_injective :: "cbor_lib \<Rightarrow> bool" where
  "cbor_injective lib \<longleftrightarrow>
     (\<forall>t a b c t' a' b' c' bs.
        Enc_Marshal lib (VArr [VText t, VBytes a, VBytes b, VBytes c]) = Inr bs \<longrightarrow>
        Enc_Marshal lib (VArr [VText t', VBytes a', VBytes b', VBytes c']) = Inr bs \<longrightarrow>
        t = t' \<and> a = a' \<and> b = b' \<and> c = c')"

end
