(* ===== verification/SealedInvocation.thy ===== *)
theory SealedInvocation
  imports Cbor Crypto GoTime
begin

text \<open>
  \<open>src/sealedinvocation/sealedinvocation.go\<close>: building sealed invocation requests and opening
  responses (COSE_Sign1 over COSE_Encrypt). CBOR is the library of theory \<open>Cbor\<close>; Ed25519, X25519,
  SHA-3, HKDF and AES-GCM are parameters; randomness is drawn from a tape. A nil byte slice of a
  claim is \<open>None\<close>. An outcome is a value, an error, or a panic of the standard library.
\<close>

section \<open>Constants\<close>

abbreviation (input) labelInReplyTo :: i64 where "labelInReplyTo \<equiv> -70001"
abbreviation (input) labelRequestHash :: i64 where "labelRequestHash \<equiv> -70002"
abbreviation (input) labelSenderKeyID :: i64 where "labelSenderKeyID \<equiv> -70003"
abbreviation (input) labelResponseKeyID :: i64 where "labelResponseKeyID \<equiv> -70004"
abbreviation (input) labelResponseSubject :: i64 where "labelResponseSubject \<equiv> -70005"
abbreviation (input) labelFreshnessChallenge :: i64 where "labelFreshnessChallenge \<equiv> -70008"
abbreviation (input) labelAlg :: i64 where "labelAlg \<equiv> 1"
abbreviation (input) labelCrit :: i64 where "labelCrit \<equiv> 2"
abbreviation (input) labelContent :: i64 where "labelContent \<equiv> 3"
abbreviation (input) labelKid :: i64 where "labelKid \<equiv> 4"
abbreviation (input) labelIV :: i64 where "labelIV \<equiv> 5"
abbreviation (input) labelCWTClaims :: i64 where "labelCWTClaims \<equiv> 15"
abbreviation (input) labelEphemeral :: i64 where "labelEphemeral \<equiv> -1"
abbreviation (input) cwtIssuer :: i64 where "cwtIssuer \<equiv> 1"
abbreviation (input) cwtAudience :: i64 where "cwtAudience \<equiv> 3"
abbreviation (input) cwtExpiresAt :: i64 where "cwtExpiresAt \<equiv> 4"
abbreviation (input) cwtIssuedAt :: i64 where "cwtIssuedAt \<equiv> 6"
abbreviation (input) cwtID :: i64 where "cwtID \<equiv> 7"
abbreviation (input) tagSign1 :: u64 where "tagSign1 \<equiv> 18"
abbreviation (input) tagEncrypt :: u64 where "tagEncrypt \<equiv> 96"
abbreviation (input) algEdDSA :: i64 where "algEdDSA \<equiv> -8"
abbreviation (input) algA256GCM :: i64 where "algA256GCM \<equiv> 3"
abbreviation (input) algECDHESHKDF :: i64 where "algECDHESHKDF \<equiv> -25"
abbreviation (input) nonceLen :: nat where "nonceLen \<equiv> 12"
abbreviation (input) x25519Len :: nat where "x25519Len \<equiv> 32"
abbreviation (input) ed25519SeedLen :: nat where "ed25519SeedLen \<equiv> 32"
abbreviation (input) freshnessChallengeLen :: nat where "freshnessChallengeLen \<equiv> 32"

section \<open>Parameters\<close>

datatype failure = Failed go_error | Panicked string

record ('sk, 'pk, 'blk) si_lib =
  cbor :: cbor_lib
  x_NewPrivateKey :: "bytes \<Rightarrow> (go_error, 'sk) result"
  x_NewPublicKey :: "bytes \<Rightarrow> (go_error, 'pk) result"
  x_PublicBytes :: "'sk \<Rightarrow> bytes"
  x_ECDH :: "'sk \<Rightarrow> 'pk \<Rightarrow> (go_error, bytes) result"
  ed_Sign :: "bytes \<Rightarrow> bytes \<Rightarrow> bytes"
  ed_Verify :: "bytes \<Rightarrow> bytes \<Rightarrow> bytes \<Rightarrow> bool"
  sha3_Sum256 :: "bytes \<Rightarrow> bytes"
  hkdf_Read :: "bytes \<Rightarrow> bytes \<Rightarrow> nat \<Rightarrow> (go_error, bytes) result"
  aes_NewCipher :: "bytes \<Rightarrow> (go_error, 'blk) result"
  cipher_NewGCM :: "'blk \<Rightarrow> (go_error, aead) result"
  dur_Seconds :: "int \<Rightarrow> i64"
  time_Now :: go_time

text \<open>\<open>dur_Seconds d\<close> is \<open>int64(d.Seconds())\<close>, a conversion through floating point.\<close>

definition Errorf :: "string \<Rightarrow> fmt_arg list \<Rightarrow> (failure, 'a) result" where
  "Errorf f args = Inl (Failed (PlainError f args))"

definition Wrapf :: "string \<Rightarrow> go_error \<Rightarrow> (failure, 'a) result" where
  "Wrapf f e = Inl (Failed (WrapError f [] e))"

section \<open>Data\<close>

record RequestParams =
  rp_ContentType :: string
  rp_Plaintext :: bytes
  rp_Issuer :: string
  rp_Audience :: string
  rp_IssuedAt :: go_time
  rp_TTL :: int
  rp_MessageID :: bytes
  rp_SenderKeyID :: string
  rp_SenderSeed :: bytes
  rp_RecipientKeyID :: string
  rp_RecipientPublic :: bytes
  rp_ResponseKeyID :: string
  rp_ResponseSubject :: string
  rp_FreshnessChallenge :: "bytes option"

record Request =
  rq_Message :: bytes
  rq_MessageID :: bytes

record ResponseParams =
  sp_Message :: bytes
  sp_Request :: bytes
  sp_RequestMessageID :: bytes
  sp_ExpectedContentType :: string
  sp_Now :: go_time
  sp_MaxClockSkew :: int
  sp_MaxTTL :: int
  sp_BrokerKeyID :: string
  sp_BrokerPublic :: bytes
  sp_RecipientKeyID :: string
  sp_RecipientPrivate :: bytes

record Response =
  rs_Plaintext :: bytes
  rs_ContentType :: string

record si_claims =
  cl_issuer :: string
  cl_audience :: string
  cl_expiresAt :: i64
  cl_issuedAt :: i64
  cl_messageID :: bytes
  cl_senderKeyID :: string
  cl_responseKeyID :: string
  cl_responseSubject :: string
  cl_inReplyTo :: "bytes option"
  cl_requestHash :: "bytes option"
  cl_freshnessChallenge :: "bytes option"

record encryptedMessage =
  em_protected :: bytes
  em_contentType :: string
  em_claims :: si_claims
  em_iv :: bytes
  em_ciphertext :: bytes
  em_recipientProtected :: bytes
  em_recipientKeyID :: string
  em_ephemeralX :: bytes

record parsedProtected =
  pp_contentType :: string
  pp_claims :: si_claims

section \<open>CBOR\<close>

definition marshalCBOR :: "('sk, 'pk, 'blk) si_lib \<Rightarrow> cval \<Rightarrow> (go_error, bytes) result" where
  "marshalCBOR L v =
     (case modes_error (cbor L) of
        Some e \<Rightarrow> Inl (WrapError ''sealed invocation: initialize CBOR: %w'' [] e)
      | None \<Rightarrow> Enc_Marshal (cbor L) v)"

text \<open>\<open>unmarshalCBOR\<close>, with the decoding for the type of its target.\<close>

definition unmarshalCBOR :: "('sk, 'pk, 'blk) si_lib \<Rightarrow> (cbor_lib \<Rightarrow> bytes \<Rightarrow> (go_error, 'v) result) \<Rightarrow> bytes \<Rightarrow> (go_error, 'v) result" where
  "unmarshalCBOR L dec data =
     (case modes_error (cbor L) of
        Some e \<Rightarrow> Inl (WrapError ''sealed invocation: initialize CBOR: %w'' [] e)
      | None \<Rightarrow> dec (cbor L) data)"

text \<open>A type switch on a looked-up value; an absent entry is the nil interface.\<close>

fun int64Value :: "cval option \<Rightarrow> i64 option" where
  "int64Value (Some (VInt v)) = Some v"
| "int64Value (Some (VUint v)) = (if v \<le> 0x7FFFFFFFFFFFFFFF then Some v else None)"
| "int64Value _ = None"

fun as_bytes :: "cval option \<Rightarrow> bytes option" where
  "as_bytes (Some (VBytes b)) = Some b"
| "as_bytes _ = None"

fun as_text :: "cval option \<Rightarrow> string option" where
  "as_text (Some (VText s)) = Some s"
| "as_text _ = None"

definition asMap :: "('sk, 'pk, 'blk) si_lib \<Rightarrow> cval option \<Rightarrow> (i64 \<rightharpoonup> cval) option" where
  "asMap L v =
     (case v of
        Some (VMap kvs) \<Rightarrow> Some (map_of kvs)
      | _ \<Rightarrow>
          (case marshalCBOR L (case v of None \<Rightarrow> VNil | Some w \<Rightarrow> w) of
             Inl e \<Rightarrow> None
           | Inr raw \<Rightarrow> (case unmarshalCBOR L Dec_Map raw of Inl e \<Rightarrow> None | Inr m \<Rightarrow> Some m)))"

definition sigStructure :: "('sk, 'pk, 'blk) si_lib \<Rightarrow> bytes \<Rightarrow> bytes option \<Rightarrow> bytes \<Rightarrow> (failure, bytes) result" where
  "sigStructure L protected externalAAD payload =
     (case marshalCBOR L (VArr [VText ''Signature1'', VBytes protected,
             VBytes (case externalAAD of None \<Rightarrow> [] | Some a \<Rightarrow> a), VBytes payload]) of
        Inl e \<Rightarrow> Wrapf ''sealed invocation: encode Sig_structure: %w'' e
      | Inr out \<Rightarrow> Inr out)"

definition encStructure :: "('sk, 'pk, 'blk) si_lib \<Rightarrow> bytes \<Rightarrow> bytes option \<Rightarrow> (failure, bytes) result" where
  "encStructure L protected externalAAD =
     (case marshalCBOR L (VArr [VText ''Encrypt'', VBytes protected,
             VBytes (case externalAAD of None \<Rightarrow> [] | Some a \<Rightarrow> a)]) of
        Inl e \<Rightarrow> Wrapf ''sealed invocation: encode Enc_structure: %w'' e
      | Inr out \<Rightarrow> Inr out)"

definition kdfContext :: "('sk, 'pk, 'blk) si_lib \<Rightarrow> i64 \<Rightarrow> bytes \<Rightarrow> (failure, bytes) result" where
  "kdfContext L alg recipientProtected =
     (case marshalCBOR L (VArr [VInt alg, VArr [VNil, VNil, VNil], VArr [VNil, VNil, VNil],
             VArr [VUint 256, VBytes recipientProtected]]) of
        Inl e \<Rightarrow> Wrapf ''sealed invocation: encode KDF context: %w'' e
      | Inr out \<Rightarrow> Inr out)"

section \<open>The protected header\<close>

definition critLabels :: "si_claims \<Rightarrow> i64 list" where
  "critLabels c =
     [labelContent, labelCWTClaims] @
     (if cl_inReplyTo c \<noteq> None then [labelInReplyTo] else []) @
     (if cl_requestHash c \<noteq> None then [labelRequestHash] else []) @
     (if cl_senderKeyID c \<noteq> [] then [labelSenderKeyID] else []) @
     (if cl_responseKeyID c \<noteq> [] then [labelResponseKeyID] else []) @
     (if cl_responseSubject c \<noteq> [] then [labelResponseSubject] else []) @
     (if cl_freshnessChallenge c \<noteq> None then [labelFreshnessChallenge] else [])"

text \<open>The CWT claims map and the header map, with their conditional entries in the code's order.\<close>

definition cwtEntries :: "si_claims \<Rightarrow> (i64 \<times> cval) list" where
  "cwtEntries c =
     [(cwtIssuedAt, VInt (cl_issuedAt c)), (cwtID, VBytes (cl_messageID c))] @
     (if cl_issuer c \<noteq> [] then [(cwtIssuer, VText (cl_issuer c))] else []) @
     (if cl_audience c \<noteq> [] then [(cwtAudience, VText (cl_audience c))] else []) @
     (if cl_expiresAt c \<noteq> 0 then [(cwtExpiresAt, VInt (cl_expiresAt c))] else [])"

definition headerEntries :: "string \<Rightarrow> si_claims \<Rightarrow> (i64 \<times> cval) list" where
  "headerEntries contentType c =
     [(labelAlg, VInt algA256GCM), (labelCrit, VArr (map VInt (critLabels c))),
      (labelContent, VText contentType), (labelCWTClaims, VMap (cwtEntries c))] @
     (case cl_inReplyTo c of None \<Rightarrow> [] | Some b \<Rightarrow> [(labelInReplyTo, VBytes b)]) @
     (case cl_requestHash c of None \<Rightarrow> [] | Some b \<Rightarrow> [(labelRequestHash, VBytes b)]) @
     (if cl_senderKeyID c \<noteq> [] then [(labelSenderKeyID, VBytes (bytes_of (cl_senderKeyID c)))] else []) @
     (if cl_responseKeyID c \<noteq> [] then [(labelResponseKeyID, VText (cl_responseKeyID c))] else []) @
     (if cl_responseSubject c \<noteq> [] then [(labelResponseSubject, VText (cl_responseSubject c))] else []) @
     (case cl_freshnessChallenge c of None \<Rightarrow> [] | Some b \<Rightarrow> [(labelFreshnessChallenge, VBytes b)])"

definition encryptProtected :: "('sk, 'pk, 'blk) si_lib \<Rightarrow> string \<Rightarrow> si_claims \<Rightarrow> (failure, bytes) result" where
  "encryptProtected L contentType c =
     (case marshalCBOR L (VMap (headerEntries contentType c)) of
        Inl e \<Rightarrow> Inl (Failed e)
      | Inr bs \<Rightarrow> Inr bs)"

text \<open>The loop over the decoded \<open>crit\<close> array.\<close>

fun critInts :: "cval list \<Rightarrow> i64 list option" where
  "critInts [] = Some []"
| "critInts (v # vs) =
     (case int64Value (Some v) of
        None \<Rightarrow> None
      | Some l \<Rightarrow> (case critInts vs of None \<Rightarrow> None | Some ls \<Rightarrow> Some (l # ls)))"

fun as_array :: "cval option \<Rightarrow> cval list option" where
  "as_array (Some (VArr vs)) = Some vs"
| "as_array _ = None"

text \<open>The claims that \<open>parseEncryptProtected\<close> reads from the header map and the CWT map.\<close>

definition readClaims :: "(i64 \<rightharpoonup> cval) \<Rightarrow> (i64 \<rightharpoonup> cval) \<Rightarrow> i64 \<Rightarrow> bytes \<Rightarrow> si_claims" where
  "readClaims m cwt iat cti =
     \<lparr>cl_issuer = (case as_text (cwt cwtIssuer) of Some s \<Rightarrow> s | None \<Rightarrow> []),
      cl_audience = (case as_text (cwt cwtAudience) of Some s \<Rightarrow> s | None \<Rightarrow> []),
      cl_expiresAt = (case int64Value (cwt cwtExpiresAt) of Some e \<Rightarrow> e | None \<Rightarrow> 0),
      cl_issuedAt = iat, cl_messageID = cti,
      cl_senderKeyID = (case as_bytes (m labelSenderKeyID) of Some b \<Rightarrow> string_of b | None \<Rightarrow> []),
      cl_responseKeyID = (case as_text (m labelResponseKeyID) of Some s \<Rightarrow> s | None \<Rightarrow> []),
      cl_responseSubject = (case as_text (m labelResponseSubject) of Some s \<Rightarrow> s | None \<Rightarrow> []),
      cl_inReplyTo = as_bytes (m labelInReplyTo), cl_requestHash = as_bytes (m labelRequestHash),
      cl_freshnessChallenge = as_bytes (m labelFreshnessChallenge)\<rparr>"

definition checkCrit :: "(i64 \<rightharpoonup> cval) \<Rightarrow> string \<Rightarrow> si_claims \<Rightarrow> (failure, parsedProtected) result" where
  "checkCrit m contentType parsed =
     (case as_array (m labelCrit) of
        None \<Rightarrow> Errorf ''sealed invocation: missing crit'' []
      | Some rawCrit \<Rightarrow>
          if rawCrit = [] then Errorf ''sealed invocation: missing crit'' []
          else
            (case critInts rawCrit of
               None \<Rightarrow> Errorf ''sealed invocation: non-integer crit label'' []
             | Some crit \<Rightarrow>
                 if crit \<noteq> critLabels parsed
                 then Errorf ''sealed invocation: crit %v does not match the understood labels %v''
                        (map (\<lambda>l. ArgInt (sint l)) (crit @ critLabels parsed))
                 else Inr \<lparr>pp_contentType = contentType, pp_claims = parsed\<rparr>))"

definition parseEncryptProtected :: "('sk, 'pk, 'blk) si_lib \<Rightarrow> bytes \<Rightarrow> (failure, parsedProtected) result" where
  "parseEncryptProtected L raw =
     (case unmarshalCBOR L Dec_Map raw of
        Inl e \<Rightarrow> Wrapf ''sealed invocation: decode Encrypt protected: %w'' e
      | Inr m \<Rightarrow>
          if int64Value (m labelAlg) \<noteq> Some algA256GCM then Errorf ''sealed invocation: Encrypt alg mismatch'' []
          else
            (case as_text (m labelContent) of
               None \<Rightarrow> Errorf ''sealed invocation: missing content type'' []
             | Some contentType \<Rightarrow>
                 if contentType = [] then Errorf ''sealed invocation: missing content type'' []
                 else
                   (case asMap L (m labelCWTClaims) of
                      None \<Rightarrow> Errorf ''sealed invocation: missing CWT claims'' []
                    | Some cwt \<Rightarrow>
                        (case int64Value (cwt cwtIssuedAt) of
                           None \<Rightarrow> Errorf ''sealed invocation: missing iat'' []
                         | Some iat \<Rightarrow>
                             (case as_bytes (cwt cwtID) of
                                None \<Rightarrow> Errorf ''sealed invocation: missing cti'' []
                              | Some cti \<Rightarrow>
                                  (let parsed = readClaims m cwt iat cti in
                                   case cl_freshnessChallenge parsed of
                                     Some ch \<Rightarrow>
                                       if length ch \<noteq> freshnessChallengeLen
                                       then Errorf ''sealed invocation: freshness challenge must be exactly %d bytes, got %d''
                                              [ArgInt 32, ArgInt (int (length ch))]
                                       else checkCrit m contentType parsed
                                   | None \<Rightarrow> checkCrit m contentType parsed))))))"

definition parseRecipientProtected :: "('sk, 'pk, 'blk) si_lib \<Rightarrow> bytes \<Rightarrow> (failure, bytes) result" where
  "parseRecipientProtected L raw =
     (case unmarshalCBOR L Dec_Map raw of
        Inl e \<Rightarrow> Wrapf ''sealed invocation: decode recipient protected: %w'' e
      | Inr m \<Rightarrow>
          if int64Value (m labelAlg) \<noteq> Some algECDHESHKDF
          then Errorf ''sealed invocation: recipient alg mismatch'' []
          else Inr raw)"

section \<open>Verifying and decoding\<close>

text \<open>\<open>ed25519.Verify\<close> panics on a public key of another length than 32.\<close>

definition verifySign1 ::
  "('sk, 'pk, 'blk) si_lib \<Rightarrow> bytes \<Rightarrow> string \<Rightarrow> bytes \<Rightarrow> (failure, coseSign1 \<times> string) result" where
  "verifySign1 L message expectedKid pub =
     (case unmarshalCBOR L Dec_Tag message of
        Inl e \<Rightarrow> Wrapf ''sealed invocation: decode Sign1 tag: %w'' e
      | Inr (num, content) \<Rightarrow>
          if num \<noteq> tagSign1
          then Errorf ''sealed invocation: Sign1 tag %d, want %d'' [ArgInt (uint num), ArgInt 18]
          else
            (case marshalCBOR L content of
               Inl e \<Rightarrow> Wrapf ''sealed invocation: re-encode Sign1 body: %w'' e
             | Inr body \<Rightarrow>
                 (case unmarshalCBOR L Dec_Sign1 body of
                    Inl e \<Rightarrow> Wrapf ''sealed invocation: decode Sign1 body: %w'' e
                  | Inr sign1 \<Rightarrow>
                      (case unmarshalCBOR L Dec_Map (cs_Protected sign1) of
                         Inl e \<Rightarrow> Wrapf ''sealed invocation: decode Sign1 protected: %w'' e
                       | Inr protected \<Rightarrow>
                           if int64Value (protected labelAlg) \<noteq> Some algEdDSA
                           then Errorf ''sealed invocation: Sign1 alg mismatch'' []
                           else
                             (case as_bytes (protected labelKid) of
                                None \<Rightarrow> Errorf ''sealed invocation: missing Sign1 kid'' []
                              | Some kidBytes \<Rightarrow>
                                  if string_of kidBytes \<noteq> expectedKid
                                  then Errorf ''sealed invocation: Sign1 kid %q, want %q''
                                         [ArgStr (string_of kidBytes), ArgStr expectedKid]
                                  else
                                    (case sigStructure L (cs_Protected sign1) None (cs_Payload sign1) of
                                       Inl e \<Rightarrow> Inl e
                                     | Inr sig \<Rightarrow>
                                         if length pub \<noteq> 32 then Inl (Panicked ''ed25519: bad public key length'')
                                         else if \<not> ed_Verify L pub sig (cs_Signature sign1)
                                         then Errorf ''sealed invocation: invalid Sign1 signature'' []
                                         else Inr (sign1, string_of kidBytes)))))))"

definition decodeRecipient ::
  "('sk, 'pk, 'blk) si_lib \<Rightarrow> coseEncrypt \<Rightarrow> parsedProtected \<Rightarrow> bytes \<Rightarrow> coseRecipient \<Rightarrow> (failure, encryptedMessage) result" where
  "decodeRecipient L enc protected iv recipient =
     (case parseRecipientProtected L (rec_Protected recipient) of
        Inl e \<Rightarrow> Inl e
      | Inr recipientProtected \<Rightarrow>
          (case as_bytes (rec_Unprotected recipient labelKid) of
             None \<Rightarrow> Errorf ''sealed invocation: missing recipient kid'' []
           | Some kidBytes \<Rightarrow>
               (case asMap L (rec_Unprotected recipient labelEphemeral) of
                  None \<Rightarrow> Errorf ''sealed invocation: missing ephemeral key'' []
                | Some ephemeralMap \<Rightarrow>
                    (case as_bytes (ephemeralMap (-2)) of
                       None \<Rightarrow> Errorf ''sealed invocation: invalid ephemeral public key'' []
                     | Some ephemeral \<Rightarrow>
                         if length ephemeral \<noteq> x25519Len
                         then Errorf ''sealed invocation: invalid ephemeral public key'' []
                         else
                           Inr \<lparr>em_protected = ce_Protected enc, em_contentType = pp_contentType protected,
                                em_claims = pp_claims protected, em_iv = iv, em_ciphertext = ce_Ciphertext enc,
                                em_recipientProtected = recipientProtected,
                                em_recipientKeyID = string_of kidBytes, em_ephemeralX = ephemeral\<rparr>))))"

definition decodeEncrypt :: "('sk, 'pk, 'blk) si_lib \<Rightarrow> bytes \<Rightarrow> (failure, encryptedMessage) result" where
  "decodeEncrypt L message =
     (case unmarshalCBOR L Dec_Tag message of
        Inl e \<Rightarrow> Wrapf ''sealed invocation: decode Encrypt tag: %w'' e
      | Inr (num, content) \<Rightarrow>
          if num \<noteq> tagEncrypt
          then Errorf ''sealed invocation: Encrypt tag %d, want %d'' [ArgInt (uint num), ArgInt 96]
          else
            (case marshalCBOR L content of
               Inl e \<Rightarrow> Wrapf ''sealed invocation: re-encode Encrypt body: %w'' e
             | Inr body \<Rightarrow>
                 (case unmarshalCBOR L Dec_Encrypt body of
                    Inl e \<Rightarrow> Wrapf ''sealed invocation: decode Encrypt body: %w'' e
                  | Inr enc \<Rightarrow>
                      if length (ce_Recipients enc) \<noteq> 1
                      then Errorf ''sealed invocation: recipient count %d, want 1'' [ArgInt (int (length (ce_Recipients enc)))]
                      else
                        (case parseEncryptProtected L (ce_Protected enc) of
                           Inl e \<Rightarrow> Inl e
                         | Inr protected \<Rightarrow>
                             (case as_bytes (ce_Unprotected enc labelIV) of
                                None \<Rightarrow> Errorf ''sealed invocation: invalid Encrypt nonce'' []
                              | Some iv \<Rightarrow>
                                  if length iv \<noteq> nonceLen then Errorf ''sealed invocation: invalid Encrypt nonce'' []
                                  else decodeRecipient L enc protected iv (ce_Recipients enc ! 0))))))"

section \<open>Sealing and opening\<close>

text \<open>The common tail of \<open>buildEncrypt\<close> and \<open>openEncrypt\<close>: the content key from the shared secret.\<close>

definition deriveCEK :: "('sk, 'pk, 'blk) si_lib \<Rightarrow> bytes \<Rightarrow> bytes \<Rightarrow> (failure, bytes) result" where
  "deriveCEK L shared recipientProtected =
     (case kdfContext L algA256GCM recipientProtected of
        Inl e \<Rightarrow> Inl e
      | Inr info \<Rightarrow>
          (case hkdf_Read L shared info 32 of
             Inl e \<Rightarrow> Wrapf ''sealed invocation: HKDF: %w'' e
           | Inr cek \<Rightarrow> Inr cek))"

definition newGCM :: "('sk, 'pk, 'blk) si_lib \<Rightarrow> bytes \<Rightarrow> (failure, aead) result" where
  "newGCM L cek =
     (case aes_NewCipher L cek of
        Inl e \<Rightarrow> Wrapf ''sealed invocation: AES key: %w'' e
      | Inr block \<Rightarrow>
          (case cipher_NewGCM L block of
             Inl e \<Rightarrow> Wrapf ''sealed invocation: AES-GCM: %w'' e
           | Inr a \<Rightarrow> Inr a))"

definition openEncrypt ::
  "('sk, 'pk, 'blk) si_lib \<Rightarrow> encryptedMessage \<Rightarrow> string \<Rightarrow> bytes \<Rightarrow> (failure, bytes) result" where
  "openEncrypt L enc recipientKeyID recipientPrivate =
     (if em_recipientKeyID enc \<noteq> recipientKeyID
      then Errorf ''sealed invocation: recipient kid %q, want %q'' [ArgStr (em_recipientKeyID enc), ArgStr recipientKeyID]
      else
        (case x_NewPrivateKey L recipientPrivate of
           Inl e \<Rightarrow> Wrapf ''sealed invocation: X25519 private key: %w'' e
         | Inr private \<Rightarrow>
             (case x_NewPublicKey L (em_ephemeralX enc) of
                Inl e \<Rightarrow> Wrapf ''sealed invocation: X25519 ephemeral key: %w'' e
              | Inr ephemeral \<Rightarrow>
                  (case x_ECDH L private ephemeral of
                     Inl e \<Rightarrow> Wrapf ''sealed invocation: ECDH: %w'' e
                   | Inr shared \<Rightarrow>
                       (case deriveCEK L shared (em_recipientProtected enc) of
                          Inl e \<Rightarrow> Inl e
                        | Inr cek \<Rightarrow>
                            (case encStructure L (em_protected enc) None of
                               Inl e \<Rightarrow> Inl e
                             | Inr aad \<Rightarrow>
                                 (case newGCM L cek of
                                    Inl e \<Rightarrow> Inl e
                                  | Inr a \<Rightarrow>
                                      (case Open a (em_iv enc) (em_ciphertext enc) aad of
                                         None \<Rightarrow> Errorf ''sealed invocation: open failed'' []
                                       | Some plaintext \<Rightarrow> Inr plaintext))))))))"

text \<open>\<open>rand.Read\<close> takes the next bytes of the tape.\<close>

definition randRead :: "nat \<Rightarrow> bytes \<Rightarrow> (go_error, bytes) result \<times> bytes" where
  "randRead n tape =
     (if n \<le> length tape then (Inr (take n tape), drop n tape)
      else (Inl (PlainError ''crypto/rand: failure'' []), tape))"

definition buildEncrypt ::
  "('sk, 'pk, 'blk) si_lib \<Rightarrow> string \<Rightarrow> bytes \<Rightarrow> si_claims \<Rightarrow> string \<Rightarrow> bytes \<Rightarrow> bytes \<Rightarrow> (failure, bytes) result \<times> bytes" where
  "buildEncrypt L contentType plaintext claimSet recipientKeyID recipientPublic tape =
     (case randRead x25519Len tape of
        (Inl e, t1) \<Rightarrow> (Wrapf ''sealed invocation: random ephemeral key: %w'' e, t1)
      | (Inr ephemeralRaw, t1) \<Rightarrow>
          (case randRead nonceLen t1 of
             (Inl e, t2) \<Rightarrow> (Wrapf ''sealed invocation: random nonce: %w'' e, t2)
           | (Inr nonce, t2) \<Rightarrow>
               ((case x_NewPrivateKey L ephemeralRaw of
                   Inl e \<Rightarrow> Wrapf ''sealed invocation: ephemeral key: %w'' e
                 | Inr ephemeral \<Rightarrow>
                     (case x_NewPublicKey L recipientPublic of
                        Inl e \<Rightarrow> Wrapf ''sealed invocation: recipient public key: %w'' e
                      | Inr recipient \<Rightarrow>
                          (case x_ECDH L ephemeral recipient of
                             Inl e \<Rightarrow> Wrapf ''sealed invocation: ECDH: %w'' e
                           | Inr shared \<Rightarrow>
                               (case marshalCBOR L (VMap [(labelAlg, VInt algECDHESHKDF)]) of
                                  Inl e \<Rightarrow> Wrapf ''sealed invocation: encode recipient protected: %w'' e
                                | Inr recipientProtected \<Rightarrow>
                                    (case deriveCEK L shared recipientProtected of
                                       Inl e \<Rightarrow> Inl e
                                     | Inr cek \<Rightarrow>
                                         (case encryptProtected L contentType claimSet of
                                            Inl e \<Rightarrow> Inl e
                                          | Inr protected \<Rightarrow>
                                              (case encStructure L protected None of
                                                 Inl e \<Rightarrow> Inl e
                                               | Inr aad \<Rightarrow>
                                                   (case newGCM L cek of
                                                      Inl e \<Rightarrow> Inl e
                                                    | Inr a \<Rightarrow>
                                                        (case marshalCBOR L (VTag tagEncrypt (VArr
                                                           [VBytes protected, VMap [(labelIV, VBytes nonce)],
                                                            VBytes (Seal a nonce plaintext aad),
                                                            VArr [VArr [VBytes recipientProtected,
                                                              VMap [(labelKid, VBytes (bytes_of recipientKeyID)),
                                                                    (labelEphemeral, VMap [(1, VInt 1), (-1, VInt 4),
                                                                       (-2, VBytes (x_PublicBytes L ephemeral))])],
                                                              VNil]]])) of
                                                           Inl e \<Rightarrow> Inl (Failed e)
                                                         | Inr msg \<Rightarrow> Inr msg))))))))), t2)))"

definition buildSealed ::
  "('sk, 'pk, 'blk) si_lib \<Rightarrow> string \<Rightarrow> bytes \<Rightarrow> si_claims \<Rightarrow> string \<Rightarrow> bytes \<Rightarrow> string \<Rightarrow> bytes \<Rightarrow> bytes \<Rightarrow>
   (failure, bytes) result \<times> bytes" where
  "buildSealed L contentType plaintext claimSet signingKeyID signingSeed recipientKeyID recipientPublic tape =
     (if length signingSeed \<noteq> ed25519SeedLen
      then (Errorf ''sealed invocation: Ed25519 seed must be %d bytes'' [ArgInt 32], tape)
      else if length recipientPublic \<noteq> x25519Len
      then (Errorf ''sealed invocation: X25519 public key must be %d bytes'' [ArgInt 32], tape)
      else
        (case buildEncrypt L contentType plaintext claimSet recipientKeyID recipientPublic tape of
           (Inl e, t1) \<Rightarrow> (Inl e, t1)
         | (Inr encryptBytes, t1) \<Rightarrow>
             ((case marshalCBOR L (VMap [(labelAlg, VInt algEdDSA), (labelKid, VBytes (bytes_of signingKeyID))]) of
                 Inl e \<Rightarrow> Wrapf ''sealed invocation: encode Sign1 protected: %w'' e
               | Inr protected \<Rightarrow>
                   (case sigStructure L protected None encryptBytes of
                      Inl e \<Rightarrow> Inl e
                    | Inr sig \<Rightarrow>
                        (case marshalCBOR L (VTag tagSign1 (VArr
                           [VBytes protected, VMap [], VBytes encryptBytes, VBytes (ed_Sign L signingSeed sig)])) of
                           Inl e \<Rightarrow> Inl (Failed e)
                         | Inr msg \<Rightarrow> Inr msg))), t1)))"

section \<open>Entry points\<close>

definition BuildRequest :: "('sk, 'pk, 'blk) si_lib \<Rightarrow> RequestParams \<Rightarrow> bytes \<Rightarrow> (failure, Request) result \<times> bytes" where
  "BuildRequest L params tape =
     (if length (rp_MessageID params) = 0 \<or> length (rp_MessageID params) > 64
      then (Errorf ''sealed invocation: message id must be 1..64 bytes'' [], tape)
      else if rp_FreshnessChallenge params \<noteq> None \<and> length (the (rp_FreshnessChallenge params)) \<noteq> freshnessChallengeLen
      then (Errorf ''sealed invocation: freshness challenge must be exactly %d bytes, got %d''
              [ArgInt 32, ArgInt (int (length (the (rp_FreshnessChallenge params))))], tape)
      else
        (let issuedAt = (if IsZero (rp_IssuedAt params) then time_Now L else rp_IssuedAt params);
             ttl = (if rp_TTL params = 0 then 120 * 1000000000 else rp_TTL params);
             claimSet = \<lparr>cl_issuer = rp_Issuer params, cl_audience = rp_Audience params,
               cl_expiresAt = time_Unix_of (time_Add issuedAt ttl), cl_issuedAt = time_Unix_of issuedAt,
               cl_messageID = rp_MessageID params, cl_senderKeyID = rp_SenderKeyID params,
               cl_responseKeyID = rp_ResponseKeyID params, cl_responseSubject = rp_ResponseSubject params,
               cl_inReplyTo = None, cl_requestHash = None,
               cl_freshnessChallenge = rp_FreshnessChallenge params\<rparr>
         in case buildSealed L (rp_ContentType params) (rp_Plaintext params) claimSet (rp_SenderKeyID params)
                   (rp_SenderSeed params) (rp_RecipientKeyID params) (rp_RecipientPublic params) tape of
              (Inl e, t1) \<Rightarrow> (Inl e, t1)
            | (Inr msg, t1) \<Rightarrow> (Inr \<lparr>rq_Message = msg, rq_MessageID = rp_MessageID params\<rparr>, t1)))"

text \<open>The checks of a response's claims; all arithmetic is on \<open>int64\<close> and wraps.\<close>

definition validateResponseClaims ::
  "('sk, 'pk, 'blk) si_lib \<Rightarrow> si_claims \<Rightarrow> go_time \<Rightarrow> int \<Rightarrow> int \<Rightarrow> failure option" where
  "validateResponseClaims L c now skew maxTTL =
     (let nowUnix = time_Unix_of now; skewSeconds = dur_Seconds L skew in
      if nowUnix + skewSeconds <s cl_issuedAt c
      then Some (Failed (PlainError ''sealed invocation: response issued in the future'' []))
      else if cl_expiresAt c \<le>s cl_issuedAt c
      then Some (Failed (PlainError ''sealed invocation: response has non-positive ttl'' []))
      else if dur_Seconds L maxTTL <s cl_expiresAt c - cl_issuedAt c
      then Some (Failed (PlainError ''sealed invocation: response ttl too long'' []))
      else if cl_expiresAt c + skewSeconds <s nowUnix
      then Some (Failed (PlainError ''sealed invocation: response expired'' []))
      else if cl_inReplyTo c = None \<or> cl_requestHash c = None
      then Some (Failed (PlainError ''sealed invocation: response claims missing correlation'' []))
      else if cl_responseKeyID c \<noteq> [] \<or> cl_responseSubject c \<noteq> [] \<or> cl_freshnessChallenge c \<noteq> None
      then Some (Failed (PlainError ''sealed invocation: response carries request-only claims'' []))
      else None)"

text \<open>\<open>bytes.Equal\<close> does not tell a nil slice from an empty one.\<close>

definition slice :: "bytes option \<Rightarrow> bytes" where
  "slice b = (case b of None \<Rightarrow> [] | Some x \<Rightarrow> x)"

definition OpenResponse :: "('sk, 'pk, 'blk) si_lib \<Rightarrow> ResponseParams \<Rightarrow> (failure, Response) result" where
  "OpenResponse L params =
     (let now = (if IsZero (sp_Now params) then time_Now L else sp_Now params);
          skew = (if sp_MaxClockSkew params = 0 then 60 * 1000000000 else sp_MaxClockSkew params);
          maxTTL = (if sp_MaxTTL params = 0 then 300 * 1000000000 else sp_MaxTTL params)
      in case verifySign1 L (sp_Message params) (sp_BrokerKeyID params) (sp_BrokerPublic params) of
           Inl e \<Rightarrow> Inl e
         | Inr (sign1, kid) \<Rightarrow>
             (case decodeEncrypt L (cs_Payload sign1) of
                Inl e \<Rightarrow> Inl e
              | Inr enc \<Rightarrow>
                  if cl_senderKeyID (em_claims enc) \<noteq> kid
                  then Errorf ''sealed invocation: response sender key %q does not match outer kid %q''
                         [ArgStr (cl_senderKeyID (em_claims enc)), ArgStr kid]
                  else if slice (cl_inReplyTo (em_claims enc)) \<noteq> sp_RequestMessageID params
                  then Errorf ''sealed invocation: response in-reply-to mismatch'' []
                  else if slice (cl_requestHash (em_claims enc)) \<noteq> sha3_Sum256 L (sp_Request params)
                  then Errorf ''sealed invocation: response request hash mismatch'' []
                  else
                    (case validateResponseClaims L (em_claims enc) now skew maxTTL of
                       Some e \<Rightarrow> Inl e
                     | None \<Rightarrow>
                         if sp_ExpectedContentType params \<noteq> [] \<and> em_contentType enc \<noteq> sp_ExpectedContentType params
                         then Errorf ''sealed invocation: response content type %q, want %q''
                                [ArgStr (em_contentType enc), ArgStr (sp_ExpectedContentType params)]
                         else
                           (case openEncrypt L enc (sp_RecipientKeyID params) (sp_RecipientPrivate params) of
                              Inl e \<Rightarrow> Inl e
                            | Inr plaintext \<Rightarrow> Inr \<lparr>rs_Plaintext = plaintext, rs_ContentType = em_contentType enc\<rparr>))))"

definition X25519Public :: "('sk, 'pk, 'blk) si_lib \<Rightarrow> bytes \<Rightarrow> (failure, bytes) result" where
  "X25519Public L private =
     (case x_NewPrivateKey L private of
        Inl e \<Rightarrow> Wrapf ''sealed invocation: X25519 private key: %w'' e
      | Inr priv \<Rightarrow> Inr (x_PublicBytes L priv))"

end
