(* ===== verification/SealedOpen.thy ===== *)
theory SealedOpen
  imports SealedInvocation
begin

text \<open>
  What the builders of the sealed invocation package make, its readers accept: the protected header,
  the COSE_Encrypt layer and the COSE_Sign1 layer, each read back as built.
\<close>

section \<open>Laws\<close>

text \<open>
  Documented behaviour of the cryptographic parameters: an X25519 public key is 32 bytes and is accepted, and both
  sides agree on the shared secret; HKDF returns as many bytes as asked for; AES accepts a 32-byte key,
  and AES-GCM opens what it sealed.
\<close>

definition si_law :: "('sk, 'pk, 'blk) si_lib \<Rightarrow> bool" where
  "si_law L \<longleftrightarrow>
     cbor_law (cbor L) \<and>
     (\<forall>raw sk. x_NewPrivateKey L raw = Inr sk \<longrightarrow>
        length (x_PublicBytes L sk) = 32 \<and> (\<exists>pk. x_NewPublicKey L (x_PublicBytes L sk) = Inr pk)) \<and>
     (\<forall>raw1 raw2 sk1 sk2 pk1 pk2. x_NewPrivateKey L raw1 = Inr sk1 \<longrightarrow> x_NewPrivateKey L raw2 = Inr sk2 \<longrightarrow>
        x_NewPublicKey L (x_PublicBytes L sk1) = Inr pk1 \<longrightarrow> x_NewPublicKey L (x_PublicBytes L sk2) = Inr pk2 \<longrightarrow>
        x_ECDH L sk1 pk2 = x_ECDH L sk2 pk1) \<and>
     (\<forall>k. length k = 32 \<longrightarrow> (\<exists>b a. aes_NewCipher L k = Inr b \<and> cipher_NewGCM L b = Inr a)) \<and>
     (\<forall>k b a. aes_NewCipher L k = Inr b \<longrightarrow> cipher_NewGCM L b = Inr a \<longrightarrow> aead_law a) \<and>
     (\<forall>secret info n. n \<le> 255 * 32 \<longrightarrow> (\<exists>okm. hkdf_Read L secret info n = Inr okm \<and> length okm = n))"

lemma marshal_fits:
  assumes "cbor_law (cbor L)" "fits v"
  obtains bs where "marshalCBOR L v = Inr bs" "marshalCBOR L (decoded_value v) = Inr bs"
proof -
  have "\<exists>bs. Enc_Marshal (cbor L) v = Inr bs \<and> Enc_Marshal (cbor L) (decoded_value v) = Inr bs" "modes_error (cbor L) = None"
    using assms by (simp_all add: cbor_law_def)
  then show ?thesis by (auto simp: marshalCBOR_def intro: that)
qed

lemma unmarshal_tag:
  "cbor_law (cbor L) \<Longrightarrow> fits v \<Longrightarrow> marshalCBOR L (VTag n v) = Inr bs \<Longrightarrow> unmarshalCBOR L Dec_Tag bs = Inr (n, decoded_value v)"
  by (simp add: cbor_law_def marshalCBOR_def unmarshalCBOR_def)

lemma unmarshal_map:
  "cbor_law (cbor L) \<Longrightarrow> fits (VMap kvs) \<Longrightarrow> marshalCBOR L (VMap kvs) = Inr bs \<Longrightarrow> unmarshalCBOR L Dec_Map bs = Inr (decoded_map kvs)"
  by (simp add: cbor_law_def marshalCBOR_def unmarshalCBOR_def)

lemma unmarshal_sign1:
  "cbor_law (cbor L) \<Longrightarrow> fits (VMap u) \<Longrightarrow> marshalCBOR L (VArr [VBytes p, VMap u, VBytes pl, VBytes s]) = Inr bs \<Longrightarrow>
   unmarshalCBOR L Dec_Sign1 bs = Inr \<lparr>cs_Protected = p, cs_Unprotected = decoded_map u, cs_Payload = pl, cs_Signature = s\<rparr>"
  by (simp add: cbor_law_def marshalCBOR_def unmarshalCBOR_def)

lemma unmarshal_encrypt:
  "cbor_law (cbor L) \<Longrightarrow> fits (VMap u) \<Longrightarrow> fits (VMap ru) \<Longrightarrow>
   marshalCBOR L (VArr [VBytes p, VMap u, VBytes ct, VArr [VArr [VBytes rp, VMap ru, VNil]]]) = Inr bs \<Longrightarrow>
   unmarshalCBOR L Dec_Encrypt bs = Inr \<lparr>ce_Protected = p, ce_Unprotected = decoded_map u, ce_Ciphertext = ct,
     ce_Recipients = [\<lparr>rec_Protected = rp, rec_Unprotected = decoded_map ru\<rparr>]\<rparr>"
  by (simp add: cbor_law_def marshalCBOR_def unmarshalCBOR_def)

lemma asMap_decoded:
  assumes "cbor_law (cbor L)" "fits (VMap kvs)"
  shows "asMap L (Some (decoded_value (VMap kvs))) = Some (decoded_map kvs)"
proof -
  obtain bs where "marshalCBOR L (VMap kvs) = Inr bs" "marshalCBOR L (decoded_value (VMap kvs)) = Inr bs"
    by (rule marshal_fits [OF assms])
  with unmarshal_map [OF assms] show ?thesis by (simp add: asMap_def)
qed

section \<open>The protected header\<close>

lemma int64Value_decoded: "int64Value (Some (decoded_value (VInt i))) = Some i"
proof -
  have "i \<le> 0x7FFFFFFFFFFFFFFF" if "0 \<le>s i"
  proof -
    have "0 \<le> sint i" "sint i < 2 ^ 63"
      using that sint_lt [of i] by (simp_all add: word_sle_eq)
    then have "uint i = sint i" by (simp add: uint_sint take_bit_int_eq_self)
    with \<open>sint i < 2 ^ 63\<close> have "uint i < 2 ^ 63" by simp
    then show ?thesis by (simp add: word_le_def)
  qed
  then show ?thesis by simp
qed

definition ascii :: "string \<Rightarrow> bool" where
  "ascii s \<longleftrightarrow> (\<forall>c \<in> set s. of_char c < (128 :: nat))"

text \<open>Claims that fit the format: ASCII text and, if there is a challenge, one of 32 bytes.\<close>

definition wf_claims :: "si_claims \<Rightarrow> bool" where
  "wf_claims c \<longleftrightarrow>
     ascii (cl_issuer c) \<and> ascii (cl_audience c) \<and> ascii (cl_responseKeyID c) \<and> ascii (cl_responseSubject c) \<and>
     (\<forall>ch. cl_freshnessChallenge c = Some ch \<longrightarrow> length ch = 32)"

text \<open>The labels of the conditional entries are a selection from a fixed list.\<close>

lemma cwt_keys:
  "map fst (cwtEntries c) = map snd (filter fst [(True, cwtIssuedAt), (True, cwtID), (cl_issuer c \<noteq> [], cwtIssuer),
     (cl_audience c \<noteq> [], cwtAudience), (cl_expiresAt c \<noteq> 0, cwtExpiresAt)])"
  by (simp add: cwtEntries_def)

lemma crit_selection:
  "critLabels c = map snd (filter fst [(True, labelContent), (True, labelCWTClaims),
     (cl_inReplyTo c \<noteq> None, labelInReplyTo), (cl_requestHash c \<noteq> None, labelRequestHash),
     (cl_senderKeyID c \<noteq> [], labelSenderKeyID), (cl_responseKeyID c \<noteq> [], labelResponseKeyID),
     (cl_responseSubject c \<noteq> [], labelResponseSubject), (cl_freshnessChallenge c \<noteq> None, labelFreshnessChallenge)])"
  by (simp add: critLabels_def)

lemma header_keys: "map fst (headerEntries ct c) = [labelAlg, labelCrit] @ critLabels c"
  by (simp add: headerEntries_def critLabels_def split: option.split)

lemma critLabels_short: "length (critLabels c) \<le> 8"
  unfolding crit_selection length_map by (rule order_trans [OF length_filter_le]) simp

lemma critLabels_range: "set (critLabels c) \<subseteq> {labelContent, labelCWTClaims, labelInReplyTo, labelRequestHash,
    labelSenderKeyID, labelResponseKeyID, labelResponseSubject, labelFreshnessChallenge}"
  unfolding crit_selection by (auto simp del: filter.simps)

lemma distinct_header: "distinct (map fst (headerEntries ct c))"
proof -
  have "distinct (critLabels c)"
    unfolding crit_selection by (rule distinct_map_filter) simp
  moreover have "labelAlg \<notin> set (critLabels c)" "labelCrit \<notin> set (critLabels c)"
    using critLabels_range [of c] by (auto dest!: subsetD)
  ultimately show ?thesis by (simp add: header_keys)
qed

lemma fits_cwt: "wf_claims c \<Longrightarrow> fits (VMap (cwtEntries c))"
proof -
  assume wf: "wf_claims c"
  have "distinct (map fst (cwtEntries c))"
    unfolding cwt_keys by (rule distinct_map_filter) simp
  moreover have "length (map fst (cwtEntries c)) \<le> 5"
    unfolding cwt_keys length_map by (rule order_trans [OF length_filter_le]) simp
  moreover have "list_all (\<lambda>(k, v). fits v) (cwtEntries c)"
    using wf by (simp add: wf_claims_def ascii_def cwtEntries_def)
  ultimately show ?thesis by simp
qed

lemma fits_ints: "list_all fits (map VInt ls)"
  by (induction ls) simp_all

lemma fits_header:
  assumes "wf_claims c" "ascii ct"
  shows "fits (VMap (headerEntries ct c))"
proof -
  have "list_all (\<lambda>(k, v). fits v) (headerEntries ct c)"
    using assms fits_cwt [OF assms(1)] critLabels_short [of c]
    by (simp add: wf_claims_def ascii_def headerEntries_def fits_ints del: fits.simps(3) split: option.split)
  moreover have "length (map fst (headerEntries ct c)) \<le> 10"
    unfolding header_keys using critLabels_short [of c] by simp
  ultimately show ?thesis using distinct_header [of ct c] by simp
qed

text \<open>Looking up a label among entries that are there or not.\<close>

lemma lookup_append: "map_of (xs @ ys) k = (case map_of xs k of None \<Rightarrow> map_of ys k | Some v \<Rightarrow> Some v)"
  by (induction xs) auto

lemma lookup_when: "map_of (if b then [(l, v)] else []) k = (if k = l \<and> b then Some v else None)"
  by simp

lemma lookup_opt: "map_of (case x of None \<Rightarrow> [] | Some b \<Rightarrow> [(l, f b)]) k = (if k = l then map_option f x else None)"
  by (cases x) auto

lemmas lookup = decoded_map_def lookup_append lookup_when lookup_opt

lemma header_required:
  "decoded_map (headerEntries ct c) labelAlg = Some (decoded_value (VInt algA256GCM))"
  "decoded_map (headerEntries ct c) labelCrit = Some (VArr (map (decoded_value \<circ> VInt) (critLabels c)))"
  "decoded_map (headerEntries ct c) labelContent = Some (VText ct)"
  "decoded_map (headerEntries ct c) labelCWTClaims = Some (decoded_value (VMap (cwtEntries c)))"
  by (simp_all add: lookup headerEntries_def del: decoded_value.simps(3))

lemma header_optional:
  "decoded_map (headerEntries ct c) labelInReplyTo = map_option VBytes (cl_inReplyTo c)"
  "decoded_map (headerEntries ct c) labelRequestHash = map_option VBytes (cl_requestHash c)"
  "decoded_map (headerEntries ct c) labelSenderKeyID =
     (if cl_senderKeyID c \<noteq> [] then Some (VBytes (bytes_of (cl_senderKeyID c))) else None)"
  "decoded_map (headerEntries ct c) labelResponseKeyID =
     (if cl_responseKeyID c \<noteq> [] then Some (VText (cl_responseKeyID c)) else None)"
  "decoded_map (headerEntries ct c) labelResponseSubject =
     (if cl_responseSubject c \<noteq> [] then Some (VText (cl_responseSubject c)) else None)"
  "decoded_map (headerEntries ct c) labelFreshnessChallenge = map_option VBytes (cl_freshnessChallenge c)"
  by (simp_all add: lookup headerEntries_def option.map_comp comp_def split: option.split)

lemma cwt_lookup:
  "decoded_map (cwtEntries c) cwtIssuedAt = Some (decoded_value (VInt (cl_issuedAt c)))"
  "decoded_map (cwtEntries c) cwtID = Some (VBytes (cl_messageID c))"
  "decoded_map (cwtEntries c) cwtIssuer = (if cl_issuer c \<noteq> [] then Some (VText (cl_issuer c)) else None)"
  "decoded_map (cwtEntries c) cwtAudience = (if cl_audience c \<noteq> [] then Some (VText (cl_audience c)) else None)"
  "decoded_map (cwtEntries c) cwtExpiresAt =
     (if cl_expiresAt c \<noteq> 0 then Some (decoded_value (VInt (cl_expiresAt c))) else None)"
  by (simp_all add: lookup cwtEntries_def)

lemma as_bytes_map [simp]: "as_bytes (map_option VBytes x) = x"
  by (cases x) simp_all

lemma critInts_decoded: "critInts (map (decoded_value \<circ> VInt) ls) = Some ls"
  by (induction ls) (simp_all add: int64Value_decoded comp_def del: decoded_value.simps int64Value.simps)

lemma readClaims_built:
  "readClaims (decoded_map (headerEntries ct c)) (decoded_map (cwtEntries c)) (cl_issuedAt c) (cl_messageID c) = c"
  by (simp add: readClaims_def header_optional cwt_lookup int64Value_decoded string_of_bytes_of
      del: decoded_value.simps)

lemma critLabels_nonempty: "critLabels c \<noteq> []"
  by (simp add: critLabels_def)

lemma parse_built_header:
  assumes "cbor_law (cbor L)" "wf_claims c" "ascii ct" "encryptProtected L ct c = Inr raw" "ct \<noteq> []"
  shows "parseEncryptProtected L raw = Inr \<lparr>pp_contentType = ct, pp_claims = c\<rparr>"
proof -
  have m: "marshalCBOR L (VMap (headerEntries ct c)) = Inr raw"
    using assms(4) by (simp add: encryptProtected_def split: sum.splits)
  have d: "unmarshalCBOR L Dec_Map raw = Inr (decoded_map (headerEntries ct c))"
    by (rule unmarshal_map [OF assms(1) fits_header [OF assms(2,3)] m])
  have ch: "length ch = 32" if "cl_freshnessChallenge c = Some ch" for ch
    using assms(2) that by (simp add: wf_claims_def)
  have k: "checkCrit (decoded_map (headerEntries ct c)) ct c = Inr \<lparr>pp_contentType = ct, pp_claims = c\<rparr>"
    by (simp add: checkCrit_def header_required critInts_decoded critLabels_nonempty)
  show ?thesis
    using asMap_decoded [OF assms(1) fits_cwt [OF assms(2)]] k assms(5)
    by (cases "cl_freshnessChallenge c")
      (simp_all add: parseEncryptProtected_def d header_required int64Value_decoded cwt_lookup readClaims_built Let_def ch
        del: decoded_value.simps)
qed

section \<open>The COSE_Encrypt layer\<close>

text \<open>The unprotected header of the one recipient, the body of the layer, and what they decode to.\<close>

definition recipientEntries :: "string \<Rightarrow> bytes \<Rightarrow> (i64 \<times> cval) list" where
  "recipientEntries kid eph =
     [(labelKid, VBytes (bytes_of kid)), (labelEphemeral, VMap [(1, VInt 1), (-1, VInt 4), (-2, VBytes eph)])]"

definition encryptBody :: "bytes \<Rightarrow> bytes \<Rightarrow> bytes \<Rightarrow> bytes \<Rightarrow> string \<Rightarrow> bytes \<Rightarrow> cval" where
  "encryptBody prot iv sealed rp kid eph =
     VArr [VBytes prot, VMap [(labelIV, VBytes iv)], VBytes sealed,
       VArr [VArr [VBytes rp, VMap (recipientEntries kid eph), VNil]]]"

lemma fits_encryptBody:
  "fits (VMap (recipientEntries kid eph))" "fits (encryptBody prot iv sealed rp kid eph)"
  "fits (VMap [(1, VInt 1), (-1, VInt 4), (-2, VBytes eph)])"
  by (simp_all add: encryptBody_def recipientEntries_def)

lemma buildEncrypt_success:
  assumes "buildEncrypt L ct p c rk rpub tape = (Inr msg, t)"
  obtains eph pk shared rp cek prot aad a where
    "44 \<le> length tape" "x_NewPrivateKey L (take 32 tape) = Inr eph" "x_NewPublicKey L rpub = Inr pk"
    "x_ECDH L eph pk = Inr shared" "marshalCBOR L (VMap [(labelAlg, VInt algECDHESHKDF)]) = Inr rp"
    "deriveCEK L shared rp = Inr cek" "encryptProtected L ct c = Inr prot" "encStructure L prot None = Inr aad"
    "newGCM L cek = Inr a"
    "marshalCBOR L (VTag tagEncrypt (encryptBody prot (take 12 (drop 32 tape)) (Seal a (take 12 (drop 32 tape)) p aad) rp rk
       (x_PublicBytes L eph))) = Inr msg"
  using assms
  by (simp add: buildEncrypt_def randRead_def Wrapf_def Errorf_def encryptBody_def recipientEntries_def
      split: if_splits sum.splits prod.splits)

lemma parse_built_recipient:
  assumes "cbor_law (cbor L)" "marshalCBOR L (VMap [(labelAlg, VInt algECDHESHKDF)]) = Inr rp"
  shows "parseRecipientProtected L rp = Inr rp"
proof -
  have "unmarshalCBOR L Dec_Map rp = Inr (decoded_map [(labelAlg, VInt algECDHESHKDF)])"
    by (rule unmarshal_map [OF assms(1) _ assms(2)]) simp
  then show ?thesis
    by (simp add: parseRecipientProtected_def decoded_map_def int64Value_decoded del: decoded_value.simps int64Value.simps)
qed

lemma decode_recipient_built:
  assumes "cbor_law (cbor L)" "marshalCBOR L (VMap [(labelAlg, VInt algECDHESHKDF)]) = Inr rp" "length eph = 32"
  shows "decodeRecipient L enc pr iv \<lparr>rec_Protected = rp, rec_Unprotected = decoded_map (recipientEntries kid eph)\<rparr> =
    Inr \<lparr>em_protected = ce_Protected enc, em_contentType = pp_contentType pr, em_claims = pp_claims pr, em_iv = iv,
         em_ciphertext = ce_Ciphertext enc, em_recipientProtected = rp, em_recipientKeyID = kid, em_ephemeralX = eph\<rparr>"
proof -
  have e: "decoded_map (recipientEntries kid eph) labelEphemeral =
      Some (decoded_value (VMap [(1, VInt 1), (-1, VInt 4), (-2, VBytes eph)]))"
    and k: "decoded_map (recipientEntries kid eph) labelKid = Some (VBytes (bytes_of kid))"
    by (simp_all add: recipientEntries_def decoded_map_def del: decoded_value.simps(3))
  have x: "decoded_map [(1, VInt 1), (-1, VInt 4), (-2, VBytes eph)] (-2) = Some (VBytes eph)"
    by (simp add: decoded_map_def)
  show ?thesis
    by (simp add: decodeRecipient_def parse_built_recipient [OF assms(1,2)] e k x assms(3) string_of_bytes_of
        asMap_decoded [OF assms(1) fits_encryptBody(3)] del: decoded_value.simps)
qed

lemma decode_built_encrypt:
  assumes "cbor_law (cbor L)" "wf_claims c" "ascii ct" "ct \<noteq> []"
    "encryptProtected L ct c = Inr prot" "length iv = 12" "length eph = 32"
    "marshalCBOR L (VMap [(labelAlg, VInt algECDHESHKDF)]) = Inr rp"
    "marshalCBOR L (VTag tagEncrypt (encryptBody prot iv sealed rp kid eph)) = Inr msg"
  shows "decodeEncrypt L msg =
    Inr \<lparr>em_protected = prot, em_contentType = ct, em_claims = c, em_iv = iv, em_ciphertext = sealed,
         em_recipientProtected = rp, em_recipientKeyID = kid, em_ephemeralX = eph\<rparr>"
proof -
  have t: "unmarshalCBOR L Dec_Tag msg = Inr (tagEncrypt, decoded_value (encryptBody prot iv sealed rp kid eph))"
    by (rule unmarshal_tag [OF assms(1) fits_encryptBody(2) assms(9)])
  obtain bs where m: "marshalCBOR L (encryptBody prot iv sealed rp kid eph) = Inr bs"
      "marshalCBOR L (decoded_value (encryptBody prot iv sealed rp kid eph)) = Inr bs"
    by (rule marshal_fits [OF assms(1) fits_encryptBody(2)])
  have d: "unmarshalCBOR L Dec_Encrypt bs = Inr \<lparr>ce_Protected = prot, ce_Unprotected = decoded_map [(labelIV, VBytes iv)],
      ce_Ciphertext = sealed, ce_Recipients = [\<lparr>rec_Protected = rp, rec_Unprotected = decoded_map (recipientEntries kid eph)\<rparr>]\<rparr>"
    by (rule unmarshal_encrypt [OF assms(1) _ fits_encryptBody(1) m(1) [unfolded encryptBody_def]]) simp
  have i: "decoded_map [(labelIV, VBytes iv)] labelIV = Some (VBytes iv)"
    by (simp add: decoded_map_def)
  show ?thesis
    by (simp add: decodeEncrypt_def t m(2) d i assms(6) parse_built_header [OF assms(1,2,3,5,4)]
        decode_recipient_built [OF assms(1,8,7)])
qed

text \<open>A built COSE_Encrypt message decodes, and opens to its plaintext under the recipient's private key.\<close>

lemma open_built_encrypt:
  assumes law: "si_law L" and wf: "wf_claims c" "ascii ct" "ct \<noteq> []"
    and b: "buildEncrypt L ct p c rk rpub tape = (Inr msg, t)"
  obtains enc where "decodeEncrypt L msg = Inr enc" "em_claims enc = c" "em_contentType enc = ct" "em_recipientKeyID enc = rk"
    "\<forall>priv sk. x_NewPrivateKey L priv = Inr sk \<longrightarrow> rpub = x_PublicBytes L sk \<longrightarrow> openEncrypt L enc rk priv = Inr p"
proof -
  have cl: "cbor_law (cbor L)" using law by (simp add: si_law_def)
  obtain eph pk shared rp cek prot aad a where s:
    "44 \<le> length tape" "x_NewPrivateKey L (take 32 tape) = Inr eph" "x_NewPublicKey L rpub = Inr pk"
    "x_ECDH L eph pk = Inr shared" "marshalCBOR L (VMap [(labelAlg, VInt algECDHESHKDF)]) = Inr rp"
    "deriveCEK L shared rp = Inr cek" "encryptProtected L ct c = Inr prot" "encStructure L prot None = Inr aad"
    "newGCM L cek = Inr a"
    "marshalCBOR L (VTag tagEncrypt (encryptBody prot (take 12 (drop 32 tape)) (Seal a (take 12 (drop 32 tape)) p aad) rp rk
       (x_PublicBytes L eph))) = Inr msg"
    by (rule buildEncrypt_success [OF b])
  obtain pk' where e: "length (x_PublicBytes L eph) = 32" "x_NewPublicKey L (x_PublicBytes L eph) = Inr pk'"
    using law s(2) unfolding si_law_def by blast
  have agree: "x_ECDH L sk pk' = Inr shared" if "x_NewPrivateKey L priv = Inr sk" "rpub = x_PublicBytes L sk" for priv sk
    using law that s(2,3,4) e(2) unfolding si_law_def by metis
  have a: "aead_law a"
    using law s(9) unfolding si_law_def newGCM_def by (auto simp: Wrapf_def split: sum.splits)
  have iv: "length (take 12 (drop 32 tape)) = 12" using s(1) by simp
  show ?thesis
  proof (rule that)
    show "decodeEncrypt L msg = Inr \<lparr>em_protected = prot, em_contentType = ct, em_claims = c, em_iv = take 12 (drop 32 tape),
         em_ciphertext = Seal a (take 12 (drop 32 tape)) p aad,
         em_recipientProtected = rp, em_recipientKeyID = rk, em_ephemeralX = x_PublicBytes L eph\<rparr>"
      by (rule decode_built_encrypt [OF cl wf s(7) iv e(1) s(5) s(10)])
  qed (simp_all add: openEncrypt_def e(2) agree s(6,8,9) aead_law_open [OF a iv])
qed

section \<open>The COSE_Sign1 layer\<close>

lemma buildSealed_success:
  assumes "buildSealed L ct p c skid seed rk rpub tape = (Inr msg, t)"
  obtains enc prot sig where "length seed = 32" "length rpub = 32" "buildEncrypt L ct p c rk rpub tape = (Inr enc, t)"
    "marshalCBOR L (VMap [(labelAlg, VInt algEdDSA), (labelKid, VBytes (bytes_of skid))]) = Inr prot"
    "sigStructure L prot None enc = Inr sig"
    "marshalCBOR L (VTag tagSign1 (VArr [VBytes prot, VMap [], VBytes enc, VBytes (ed_Sign L seed sig)])) = Inr msg"
  using assms
  by (simp add: buildSealed_def Wrapf_def Errorf_def split: if_splits sum.splits prod.splits)

lemma verify_built_eq:
  assumes "cbor_law (cbor L)"
    "marshalCBOR L (VMap [(labelAlg, VInt algEdDSA), (labelKid, VBytes (bytes_of kid))]) = Inr prot"
    "marshalCBOR L (VTag tagSign1 (VArr [VBytes prot, VMap [], VBytes pl, VBytes s])) = Inr msg"
    "sigStructure L prot None pl = Inr sig"
  shows "verifySign1 L msg kid pub =
    (if length pub \<noteq> 32 then Inl (Panicked ''ed25519: bad public key length'')
     else if \<not> ed_Verify L pub sig s then Errorf ''sealed invocation: invalid Sign1 signature'' []
     else Inr (\<lparr>cs_Protected = prot, cs_Unprotected = decoded_map [], cs_Payload = pl, cs_Signature = s\<rparr>, kid))"
proof -
  let ?v = "VArr [VBytes prot, VMap [], VBytes pl, VBytes s]"
  have f: "fits ?v" by simp
  have t: "unmarshalCBOR L Dec_Tag msg = Inr (tagSign1, decoded_value ?v)"
    by (rule unmarshal_tag [OF assms(1) f assms(3)])
  obtain bs where m: "marshalCBOR L ?v = Inr bs" "marshalCBOR L (decoded_value ?v) = Inr bs"
    by (rule marshal_fits [OF assms(1) f])
  have d: "unmarshalCBOR L Dec_Sign1 bs =
      Inr \<lparr>cs_Protected = prot, cs_Unprotected = decoded_map [], cs_Payload = pl, cs_Signature = s\<rparr>"
    by (rule unmarshal_sign1 [OF assms(1) _ m(1)]) simp
  have h: "unmarshalCBOR L Dec_Map prot = Inr (decoded_map [(labelAlg, VInt algEdDSA), (labelKid, VBytes (bytes_of kid))])"
    by (rule unmarshal_map [OF assms(1) _ assms(2)]) simp
  have l: "int64Value (decoded_map [(labelAlg, VInt algEdDSA), (labelKid, VBytes (bytes_of kid))] labelAlg) = Some algEdDSA"
    "decoded_map [(labelAlg, VInt algEdDSA), (labelKid, VBytes (bytes_of kid))] labelKid = Some (VBytes (bytes_of kid))"
    by (simp_all add: decoded_map_def int64Value_decoded del: int64Value.simps decoded_value.simps(1))
  show ?thesis
    by (simp add: verifySign1_def t m(2) d h l assms(4) string_of_bytes_of del: decoded_value.simps)
qed

lemma verify_built:
  assumes "cbor_law (cbor L)"
    "marshalCBOR L (VMap [(labelAlg, VInt algEdDSA), (labelKid, VBytes (bytes_of kid))]) = Inr prot"
    "marshalCBOR L (VTag tagSign1 (VArr [VBytes prot, VMap [], VBytes pl, VBytes s])) = Inr msg"
    "sigStructure L prot None pl = Inr sig" "length pub = 32" "ed_Verify L pub sig s"
  shows "verifySign1 L msg kid pub =
    Inr (\<lparr>cs_Protected = prot, cs_Unprotected = decoded_map [], cs_Payload = pl, cs_Signature = s\<rparr>, kid)"
  using verify_built_eq [OF assms(1-4)] assms(5,6) by simp

section \<open>Accepted responses\<close>

text \<open>A signed structure determines the payload.\<close>

lemma sigStructure_inject:
  assumes "cbor_injective (cbor L)" "sigStructure L p None pl = Inr m" "sigStructure L p' None pl' = Inr m"
  shows "pl = pl'"
proof -
  have "Enc_Marshal (cbor L) (VArr [VText ''Signature1'', VBytes p, VBytes [], VBytes pl]) = Inr m"
    "Enc_Marshal (cbor L) (VArr [VText ''Signature1'', VBytes p', VBytes [], VBytes pl']) = Inr m"
    using assms(2,3) by (simp_all add: sigStructure_def marshalCBOR_def Wrapf_def split: sum.splits option.splits)
  then show ?thesis using assms(1) unfolding cbor_injective_def by blast
qed

lemma verify_accepted:
  assumes "verifySign1 L msg kid pub = Inr (sign1, k)"
  obtains sig where "k = kid" "length pub = 32" "sigStructure L (cs_Protected sign1) None (cs_Payload sign1) = Inr sig"
    "ed_Verify L pub sig (cs_Signature sign1)"
  using assms
  by (simp add: verifySign1_def Wrapf_def Errorf_def split: if_splits sum.splits prod.splits option.splits)

lemma validate_accepted:
  assumes "validateResponseClaims L c now skew maxTTL = None"
  shows "cl_inReplyTo c \<noteq> None" "cl_requestHash c \<noteq> None" "cl_responseKeyID c = []" "cl_responseSubject c = []"
    "cl_freshnessChallenge c = None"
    "cl_issuedAt c \<le>s time_Unix_of now + dur_Seconds L skew" "cl_issuedAt c <s cl_expiresAt c"
    "cl_expiresAt c - cl_issuedAt c \<le>s dur_Seconds L maxTTL" "time_Unix_of now \<le>s cl_expiresAt c + dur_Seconds L skew"
  using assms by (auto simp: validateResponseClaims_def Let_def word_sle_eq word_sless_alt split: if_splits)

text \<open>Nothing but the Ed25519 key of another length panics.\<close>

lemma no_panic [simp]:
  "Errorf f args \<noteq> Inl (Panicked p)" "Wrapf f e \<noteq> Inl (Panicked p)"
  "encStructure L prot x \<noteq> Inl (Panicked p)" "sigStructure L prot x pl \<noteq> Inl (Panicked p)"
  "deriveCEK L sec rp \<noteq> Inl (Panicked p)" "newGCM L cek \<noteq> Inl (Panicked p)"
  "checkCrit m ct c \<noteq> Inl (Panicked p)" "parseRecipientProtected L raw \<noteq> Inl (Panicked p)"
  by (simp_all add: Errorf_def Wrapf_def encStructure_def sigStructure_def deriveCEK_def kdfContext_def newGCM_def checkCrit_def
      parseRecipientProtected_def split: sum.split option.split)

lemma parse_no_panic [simp]: "parseEncryptProtected L raw \<noteq> Inl (Panicked p)"
  by (simp add: parseEncryptProtected_def Let_def split: sum.split option.split)

lemma decode_no_panic [simp]: "decodeEncrypt L msg \<noteq> Inl (Panicked p)"
  by (auto simp: decodeEncrypt_def decodeRecipient_def split: sum.split option.split prod.split)

lemma open_no_panic [simp]: "openEncrypt L enc kid priv \<noteq> Inl (Panicked p)"
  by (auto simp: openEncrypt_def split: sum.split option.split)

lemma validate_no_panic [simp]: "validateResponseClaims L c now skew ttl \<noteq> Some (Panicked p)"
  by (simp add: validateResponseClaims_def Let_def)

lemma verify_panic: "verifySign1 L msg kid pub = Inl (Panicked p) \<Longrightarrow> length pub \<noteq> 32"
  by (auto simp: verifySign1_def Errorf_def Wrapf_def split: if_splits sum.splits prod.splits option.splits)

lemma open_response_panic: "OpenResponse L ps = Inl (Panicked p) \<Longrightarrow> length (sp_BrokerPublic ps) \<noteq> 32"
  using verify_panic [of L "sp_Message ps" "sp_BrokerKeyID ps" "sp_BrokerPublic ps" p]
  by (auto simp: OpenResponse_def Let_def split: sum.split_asm prod.split_asm option.split_asm if_split_asm)

text \<open>The clock, the skew and the longest lifetime that \<open>OpenResponse\<close> uses.\<close>

abbreviation (input) opened_at :: "('sk, 'pk, 'blk) si_lib \<Rightarrow> ResponseParams \<Rightarrow> go_time" where
  "opened_at L ps \<equiv> (if IsZero (sp_Now ps) then time_Now L else sp_Now ps)"

abbreviation (input) skew_used :: "ResponseParams \<Rightarrow> int" where
  "skew_used ps \<equiv> (if sp_MaxClockSkew ps = 0 then 60 * 1000000000 else sp_MaxClockSkew ps)"

abbreviation (input) maxTTL_used :: "ResponseParams \<Rightarrow> int" where
  "maxTTL_used ps \<equiv> (if sp_MaxTTL ps = 0 then 300 * 1000000000 else sp_MaxTTL ps)"

lemma open_accepted:
  assumes "OpenResponse L ps = Inr r"
  obtains sign1 enc where "verifySign1 L (sp_Message ps) (sp_BrokerKeyID ps) (sp_BrokerPublic ps) = Inr (sign1, sp_BrokerKeyID ps)"
    "decodeEncrypt L (cs_Payload sign1) = Inr enc" "cl_senderKeyID (em_claims enc) = sp_BrokerKeyID ps"
    "cl_inReplyTo (em_claims enc) = Some (sp_RequestMessageID ps)"
    "cl_requestHash (em_claims enc) = Some (sha3_Sum256 L (sp_Request ps))"
    "validateResponseClaims L (em_claims enc) (opened_at L ps) (skew_used ps) (maxTTL_used ps) = None"
    "sp_ExpectedContentType ps = [] \<or> em_contentType enc = sp_ExpectedContentType ps"
    "openEncrypt L enc (sp_RecipientKeyID ps) (sp_RecipientPrivate ps) = Inr (rs_Plaintext r)"
    "rs_ContentType r = em_contentType enc"
proof -
  obtain sign1 kid where v: "verifySign1 L (sp_Message ps) (sp_BrokerKeyID ps) (sp_BrokerPublic ps) = Inr (sign1, kid)"
    using assms by (auto simp: OpenResponse_def Let_def split: sum.splits)
  obtain enc where d: "decodeEncrypt L (cs_Payload sign1) = Inr enc"
    using assms v by (auto simp: OpenResponse_def Let_def split: sum.splits)
  have k: "kid = sp_BrokerKeyID ps" by (rule verify_accepted [OF v])
  have o: "cl_senderKeyID (em_claims enc) = kid" "slice (cl_inReplyTo (em_claims enc)) = sp_RequestMessageID ps"
    "slice (cl_requestHash (em_claims enc)) = sha3_Sum256 L (sp_Request ps)"
    "validateResponseClaims L (em_claims enc) (opened_at L ps) (skew_used ps) (maxTTL_used ps) = None"
    "sp_ExpectedContentType ps = [] \<or> em_contentType enc = sp_ExpectedContentType ps"
    "openEncrypt L enc (sp_RecipientKeyID ps) (sp_RecipientPrivate ps) = Inr (rs_Plaintext r)"
    "rs_ContentType r = em_contentType enc"
    using assms v d unfolding OpenResponse_def Let_def Errorf_def
    by (simp_all split: if_split_asm sum.split_asm option.split_asm) auto
  show ?thesis
    using v d k o validate_accepted(1,2) [OF o(4)] by (intro that) (auto simp: slice_def)
qed

section \<open>Building succeeds\<close>

lemma kdfContext_total: "cbor_law (cbor L) \<Longrightarrow> \<exists>info. kdfContext L alg rp = Inr info"
  by (rule marshal_fits [of L "VArr [VInt alg, VArr [VNil, VNil, VNil], VArr [VNil, VNil, VNil], VArr [VUint 256, VBytes rp]]"])
    (simp_all add: kdfContext_def)

lemma deriveCEK_total:
  assumes "si_law L"
  obtains cek where "deriveCEK L shared rp = Inr cek" "length cek = 32"
proof -
  obtain info where "kdfContext L algA256GCM rp = Inr info"
    using assms kdfContext_total [of L algA256GCM rp] by (auto simp: si_law_def)
  moreover have "\<exists>okm. hkdf_Read L shared info 32 = Inr okm \<and> length okm = 32"
    using assms by (simp add: si_law_def)
  ultimately show ?thesis by (auto simp: deriveCEK_def intro: that)
qed

lemma newGCM_total:
  assumes "si_law L" "length cek = 32"
  obtains a where "newGCM L cek = Inr a"
proof -
  obtain b a where "aes_NewCipher L cek = Inr b" "cipher_NewGCM L b = Inr a"
    using assms unfolding si_law_def by blast
  then show ?thesis by (intro that) (simp add: newGCM_def)
qed

lemma encStructure_total: "cbor_law (cbor L) \<Longrightarrow> \<exists>aad. encStructure L prot x = Inr aad"
  by (rule marshal_fits [of L "VArr [VText ''Encrypt'', VBytes prot, VBytes (case x of None \<Rightarrow> [] | Some a \<Rightarrow> a)]"])
    (simp_all add: encStructure_def)

lemma sigStructure_total: "cbor_law (cbor L) \<Longrightarrow> \<exists>s. sigStructure L prot x pl = Inr s"
  by (rule marshal_fits [of L "VArr [VText ''Signature1'', VBytes prot, VBytes (case x of None \<Rightarrow> [] | Some a \<Rightarrow> a), VBytes pl]"])
    (simp_all add: sigStructure_def)

lemma buildEncrypt_total:
  assumes law: "si_law L" and wf: "wf_claims c" "ascii ct" and tape: "44 \<le> length tape"
    and keys: "x_NewPrivateKey L (take 32 tape) = Inr eph" "x_NewPublicKey L rpub = Inr pk" "x_ECDH L eph pk = Inr shared"
  obtains msg where "buildEncrypt L ct p c rk rpub tape = (Inr msg, drop 44 tape)"
proof -
  have cl: "cbor_law (cbor L)" using law by (simp add: si_law_def)
  obtain rp where rp: "marshalCBOR L (VMap [(labelAlg, VInt algECDHESHKDF)]) = Inr rp"
    by (rule marshal_fits [OF cl, of "VMap [(labelAlg, VInt algECDHESHKDF)]"]) simp_all
  obtain cek where cek: "deriveCEK L shared rp = Inr cek" "length cek = 32"
    by (rule deriveCEK_total [OF law])
  obtain prot where prot: "encryptProtected L ct c = Inr prot"
    by (rule marshal_fits [OF cl fits_header [OF wf]]) (simp add: encryptProtected_def)
  obtain aad where aad: "encStructure L prot None = Inr aad" using encStructure_total [OF cl] by blast
  obtain a where a: "newGCM L cek = Inr a" by (rule newGCM_total [OF law cek(2)])
  let ?iv = "take 12 (drop 32 tape)"
  obtain msg where "marshalCBOR L (VTag tagEncrypt (encryptBody prot ?iv (Seal a ?iv p aad) rp rk (x_PublicBytes L eph))) = Inr msg"
    by (rule marshal_fits [OF cl, of "VTag tagEncrypt (encryptBody prot ?iv (Seal a ?iv p aad) rp rk (x_PublicBytes L eph))"])
      (simp_all add: fits_encryptBody)
  moreover have "12 \<le> length tape - 32" using tape by linarith
  ultimately show ?thesis
    using tape by (intro that)
      (simp add: buildEncrypt_def randRead_def keys rp cek(1) prot aad a encryptBody_def recipientEntries_def)
qed

lemma buildSealed_total:
  assumes law: "si_law L" and wf: "wf_claims c" "ascii ct" and tape: "44 \<le> length tape"
    and keys: "x_NewPrivateKey L (take 32 tape) = Inr eph" "x_NewPublicKey L rpub = Inr pk" "x_ECDH L eph pk = Inr shared"
    and len: "length seed = 32" "length rpub = 32"
  obtains msg where "buildSealed L ct p c skid seed rk rpub tape = (Inr msg, drop 44 tape)"
proof -
  have cl: "cbor_law (cbor L)" using law by (simp add: si_law_def)
  obtain enc where enc: "buildEncrypt L ct p c rk rpub tape = (Inr enc, drop 44 tape)"
    by (rule buildEncrypt_total [OF law wf tape keys])
  obtain prot where prot: "marshalCBOR L (VMap [(labelAlg, VInt algEdDSA), (labelKid, VBytes (bytes_of skid))]) = Inr prot"
    by (rule marshal_fits [OF cl, of "VMap [(labelAlg, VInt algEdDSA), (labelKid, VBytes (bytes_of skid))]"]) simp_all
  obtain sig where sig: "sigStructure L prot None enc = Inr sig" using sigStructure_total [OF cl] by blast
  let ?v = "VTag tagSign1 (VArr [VBytes prot, VMap [], VBytes enc, VBytes (ed_Sign L seed sig)])"
  obtain msg where "marshalCBOR L ?v = Inr msg"
    by (rule marshal_fits [OF cl, of ?v]) simp_all
  then show ?thesis
    by (intro that) (simp add: buildSealed_def len enc prot sig)
qed

end
