(* ===== verification/CborTree.thy ===== *)
theory CborTree
  imports Cbor Wire
begin

text \<open>
  A concrete codec with the behaviour \<open>cbor_law\<close> asks for: a prefix code for values with lengths in
  unary, always applied to the decoded form.
\<close>

definition unary :: "nat \<Rightarrow> bytes" where
  "unary n = replicate n 1 @ [0]"

fun ser :: "cval \<Rightarrow> bytes" where
  "ser (VInt i) = 0 # put_be64 i"
| "ser (VUint u) = 1 # put_be64 u"
| "ser (VBytes b) = 2 # unary (length b) @ b"
| "ser (VText s) = 3 # unary (length s) @ bytes_of s"
| "ser (VArr vs) = 4 # unary (length vs) @ concat (map ser vs)"
| "ser (VMap kvs) = 5 # unary (length kvs) @ concat (map (\<lambda>(k, v). put_be64 k @ ser v) kvs)"
| "ser (VAnyMap kvs) = 6 # unary (length kvs) @ concat (map (\<lambda>(k, v). ser k @ ser v) kvs)"
| "ser (VTag n v) = 7 # put_be64 n @ ser v"
| "ser VNil = [8]"

fun read_unary :: "bytes \<Rightarrow> nat \<times> bytes" where
  "read_unary (b # bs) = (if b = 1 then case read_unary bs of (n, r) \<Rightarrow> (Suc n, r) else (0, bs))"
| "read_unary [] = (0, [])"

fun many :: "(bytes \<Rightarrow> ('a \<times> bytes) option) \<Rightarrow> nat \<Rightarrow> bytes \<Rightarrow> ('a list \<times> bytes) option" where
  "many p 0 bs = Some ([], bs)"
| "many p (Suc n) bs =
     (case p bs of
        None \<Rightarrow> None
      | Some (v, r) \<Rightarrow> (case many p n r of None \<Rightarrow> None | Some (vs, r') \<Rightarrow> Some (v # vs, r')))"

definition pair_of :: "(bytes \<Rightarrow> ('a \<times> bytes) option) \<Rightarrow> (bytes \<Rightarrow> ('b \<times> bytes) option) \<Rightarrow> bytes \<Rightarrow> (('a \<times> 'b) \<times> bytes) option" where
  "pair_of p q bs =
     (case p bs of
        None \<Rightarrow> None
      | Some (a, r) \<Rightarrow> (case q r of None \<Rightarrow> None | Some (b, r') \<Rightarrow> Some ((a, b), r')))"

definition read_word :: "bytes \<Rightarrow> (64 word \<times> bytes) option" where
  "read_word bs = Some (get_be64 (take 8 bs), drop 8 bs)"

primrec des :: "nat \<Rightarrow> bytes \<Rightarrow> (cval \<times> bytes) option" where
  "des 0 = (\<lambda>bs. None)"
| "des (Suc f) = (\<lambda>bs.
     case bs of
       [] \<Rightarrow> None
     | t # r \<Rightarrow>
         if t = 0 then map_option (apfst VInt) (read_word r)
         else if t = 1 then map_option (apfst VUint) (read_word r)
         else if t = 2 then (case read_unary r of (n, r1) \<Rightarrow> Some (VBytes (take n r1), drop n r1))
         else if t = 3 then (case read_unary r of (n, r1) \<Rightarrow> Some (VText (string_of (take n r1)), drop n r1))
         else if t = 4 then (case read_unary r of (n, r1) \<Rightarrow> map_option (apfst VArr) (many (des f) n r1))
         else if t = 5 then (case read_unary r of (n, r1) \<Rightarrow> map_option (apfst VMap) (many (pair_of read_word (des f)) n r1))
         else if t = 6 then (case read_unary r of (n, r1) \<Rightarrow> map_option (apfst VAnyMap) (many (pair_of (des f) (des f)) n r1))
         else if t = 7 then map_option (apfst (\<lambda>(n, v). VTag n v)) (pair_of read_word (des f) r)
         else Some (VNil, r))"

definition parse :: "bytes \<Rightarrow> cval option" where
  "parse bs = (case des (length bs) bs of Some (v, []) \<Rightarrow> Some v | _ \<Rightarrow> None)"

lemma read_unary_unary [simp]: "read_unary (unary n @ rest) = (n, rest)"
  by (induction n) (simp_all add: unary_def)

lemma read_word_put [simp]: "read_word (put_be64 w @ rest) = Some (w, rest)"
  by (simp add: read_word_def)

lemma many_concat:
  "(\<And>v r. v \<in> set vs \<Longrightarrow> p (enc v @ r) = Some (v, r)) \<Longrightarrow> many p (length vs) (concat (map enc vs) @ rest) = Some (vs, rest)"
  by (induction vs) simp_all

lemma pair_of_app:
  "(\<And>r. p (ea @ r) = Some (a, r)) \<Longrightarrow> (\<And>r. q (eb @ r) = Some (b, r)) \<Longrightarrow> pair_of p q (ea @ eb @ rest) = Some ((a, b), rest)"
  by (simp add: pair_of_def)

lemma length_concat_member: "v \<in> set vs \<Longrightarrow> length (enc v) \<le> length (concat (map enc vs))"
  by (induction vs) auto

lemma des_ser: "length (ser v) \<le> f \<Longrightarrow> des f (ser v @ rest) = Some (v, rest)"
proof (induction v arbitrary: f rest)
  case (VArr vs)
  then obtain f' where f: "f = Suc f'" by (cases f) auto
  have "des f' (ser v @ r) = Some (v, r)" if "v \<in> set vs" for v r
    using VArr.IH [OF that, of f'] VArr.prems f length_concat_member [OF that, of ser] by (simp add: unary_def)
  then show ?case using f by (simp add: many_concat)
next
  case (VMap kvs)
  then obtain f' where f: "f = Suc f'" by (cases f) auto
  have "pair_of read_word (des f') ((case x of (k, v) \<Rightarrow> put_be64 k @ ser v) @ r) = Some (x, r)" if "x \<in> set kvs" for x r
  proof (cases x)
    case (Pair k v)
    then have "length (ser v) \<le> f'"
      using length_concat_member [OF that, of "\<lambda>(k, v). put_be64 k @ ser v"] VMap.prems f by (simp add: unary_def)
    then have "des f' (ser v @ r) = Some (v, r)" for r
      using VMap.IH [OF that, of v f'] Pair by simp
    then show ?thesis using Pair by (simp add: pair_of_app)
  qed
  then show ?case using f by (simp add: many_concat)
next
  case (VAnyMap kvs)
  then obtain f' where f: "f = Suc f'" by (cases f) auto
  have "pair_of (des f') (des f') ((case x of (k, v) \<Rightarrow> ser k @ ser v) @ r) = Some (x, r)" if "x \<in> set kvs" for x r
  proof (cases x)
    case (Pair k v)
    then have "length (ser k) \<le> f'" "length (ser v) \<le> f'"
      using length_concat_member [OF that, of "\<lambda>(k, v). ser k @ ser v"] VAnyMap.prems f by (simp_all add: unary_def)
    then have "des f' (ser k @ r) = Some (k, r)" "des f' (ser v @ r) = Some (v, r)" for r
      using VAnyMap.IH [OF that] Pair by simp_all
    then show ?thesis using Pair by (simp add: pair_of_app)
  qed
  then show ?case using f by (simp add: many_concat)
next
  case (VTag n v)
  then obtain f' where f: "f = Suc f'" by (cases f) auto
  with VTag have "des f' (ser v @ r) = Some (v, r)" for r by simp
  then show ?case using f by (simp add: pair_of_app)
qed (simp_all, (case_tac f; simp add: string_of_bytes_of)+)

lemma parse_ser: "parse (ser v) = Some v"
  using des_ser [of v "length (ser v)" "[]"] by (simp add: parse_def)

section \<open>The library instance\<close>

definition int_key :: "i64 \<Rightarrow> cval" where
  "int_key k = (if 0 \<le>s k then VUint k else VInt k)"

definition to_map :: "(cval \<times> cval) list \<Rightarrow> i64 \<rightharpoonup> cval" where
  "to_map kvs k = map_of kvs (int_key k)"

definition tree_error :: go_error where
  "tree_error = PlainError ''cbor: unexpected data'' []"

definition tree_cbor :: cbor_lib where
  "tree_cbor =
     \<lparr>modes_error = None,
      Enc_Marshal = (\<lambda>v. Inr (ser (decoded_value v))),
      Dec_Tag = (\<lambda>bs. case parse bs of Some (VTag n v) \<Rightarrow> Inr (n, v) | _ \<Rightarrow> Inl tree_error),
      Dec_Map = (\<lambda>bs. case parse bs of Some (VAnyMap kvs) \<Rightarrow> Inr (to_map kvs) | _ \<Rightarrow> Inl tree_error),
      Dec_Sign1 = (\<lambda>bs. case parse bs of
          Some (VArr [VBytes p, VAnyMap u, VBytes pl, VBytes s]) \<Rightarrow>
            Inr \<lparr>cs_Protected = p, cs_Unprotected = to_map u, cs_Payload = pl, cs_Signature = s\<rparr>
        | _ \<Rightarrow> Inl tree_error),
      Dec_Encrypt = (\<lambda>bs. case parse bs of
          Some (VArr [VBytes p, VAnyMap u, VBytes ct, VArr [VArr [VBytes rp, VAnyMap ru, VNil]]]) \<Rightarrow>
            Inr \<lparr>ce_Protected = p, ce_Unprotected = to_map u, ce_Ciphertext = ct,
                 ce_Recipients = [\<lparr>rec_Protected = rp, rec_Unprotected = to_map ru\<rparr>]\<rparr>
        | _ \<Rightarrow> Inl tree_error)\<rparr>"

lemma int_key_inject: "int_key k = int_key k' \<longleftrightarrow> k = k'"
  by (auto simp: int_key_def)

lemma decoded_value_idem: "decoded_value (decoded_value v) = decoded_value v"
proof (induction v)
  case (VMap kvs)
  have "(case case x of (k, v) \<Rightarrow> (if 0 \<le>s k then VUint k else VInt k, decoded_value v) of
       (k, v) \<Rightarrow> (decoded_value k, decoded_value v)) =
     (case x of (k, v) \<Rightarrow> (if 0 \<le>s k then VUint k else VInt k, decoded_value v))" if "x \<in> set kvs" for x
    using VMap.IH [OF that] by (cases x) auto
  then show ?case by simp
qed (auto simp: prod.case_eq_if)

lemma to_map_decoded: "to_map (map (\<lambda>(k, v). (if 0 \<le>s k then VUint k else VInt k, decoded_value v)) kvs) = decoded_map kvs"
proof
  fix k
  have "map_of (map (\<lambda>(k, v). (int_key k, decoded_value v)) kvs) (int_key k) = map_option decoded_value (map_of kvs k)"
    by (induction kvs) (auto simp: int_key_inject)
  then show "to_map (map (\<lambda>(k, v). (if 0 \<le>s k then VUint k else VInt k, decoded_value v)) kvs) k = decoded_map kvs k"
    by (simp add: to_map_def decoded_map_def int_key_def)
qed

lemma tree_cbor_law: "cbor_law tree_cbor"
  by (auto simp del: ser.simps simp add: cbor_law_def tree_cbor_def parse_ser decoded_value_idem to_map_decoded)

lemma ser_inject: "ser v = ser w \<longleftrightarrow> v = w"
  by (metis parse_ser option.inject)

lemma tree_cbor_injective: "cbor_injective tree_cbor"
  by (auto simp del: ser.simps simp add: cbor_injective_def tree_cbor_def ser_inject)

end
