(* ===== verification/SealedProps.thy ===== *)
theory SealedProps
  imports SealedOpen CborTree
begin

text \<open>
  The properties of the sealed invocation package: what an accepted response guarantees, that the
  builders and the readers agree, and the limits of the claim checks.
\<close>

section \<open>A concrete instance\<close>

text \<open>
  A toy library with the documented behaviour and no security: the codec \<open>tree_cbor\<close>, key exchange by
  addition, signatures that repeat the message, and the checksum cipher of theory \<open>Crypto\<close>. Its argument
  says which messages have a signature that verifies under which public key.
\<close>

definition toy_lib :: "(bytes \<Rightarrow> bytes \<Rightarrow> bool) \<Rightarrow> (bytes, bytes, bytes) si_lib" where
  "toy_lib sg =
     \<lparr>cbor = tree_cbor,
      x_NewPrivateKey = (\<lambda>k. if length k = 32 then Inr k else Inl (PlainError ''x25519: bad key'' [])),
      x_NewPublicKey = (\<lambda>k. if length k = 32 then Inr k else Inl (PlainError ''x25519: bad key'' [])),
      x_PublicBytes = (\<lambda>k. k),
      x_ECDH = (\<lambda>k p. Inr (map2 (+) k p)),
      ed_Sign = (\<lambda>seed m. seed @ m),
      ed_Verify = (\<lambda>pub m s. sg pub m \<and> s = pub @ m),
      sha3_Sum256 = (\<lambda>m. replicate 32 (sum_list m)),
      hkdf_Read = (\<lambda>secret info n. Inr (replicate n (sum_list secret + sum_list info))),
      aes_NewCipher = (\<lambda>k. if length k = 32 then Inr k else Inl (PlainError ''aes: bad key'' [])),
      cipher_NewGCM = (\<lambda>k. Inr (sum_aead k)),
      dur_Seconds = (\<lambda>d. word_of_int (d div 1000000000)),
      time_Now = time_Unix 1000 0\<rparr>"

lemma toy_fields [simp]:
  "x_NewPrivateKey (toy_lib sg) k = (if length k = 32 then Inr k else Inl (PlainError ''x25519: bad key'' []))"
  "x_NewPublicKey (toy_lib sg) k = (if length k = 32 then Inr k else Inl (PlainError ''x25519: bad key'' []))"
  "x_PublicBytes (toy_lib sg) k = k" "x_ECDH (toy_lib sg) k q = Inr (map2 (+) k q)"
  "ed_Sign (toy_lib sg) seed m = seed @ m" "ed_Verify (toy_lib sg) pub m s \<longleftrightarrow> sg pub m \<and> s = pub @ m"
  "sha3_Sum256 (toy_lib sg) m = replicate 32 (sum_list m)" "time_Now (toy_lib sg) = time_Unix 1000 0"
  "dur_Seconds (toy_lib sg) d = word_of_int (d div 1000000000)" "cbor (toy_lib sg) = tree_cbor"
  "hkdf_Read (toy_lib sg) secret info n = Inr (replicate n (sum_list secret + sum_list info))"
  "aes_NewCipher (toy_lib sg) k = (if length k = 32 then Inr k else Inl (PlainError ''aes: bad key'' []))"
  "cipher_NewGCM (toy_lib sg) k = Inr (sum_aead k)"
  by (simp_all add: toy_lib_def)

lemma map2_add_commute: "map2 (+) xs ys = map2 (+) ys (xs :: bytes)"
  by (induction xs ys rule: list_induct2') (simp_all add: add.commute)

lemma toy_law: "si_law (toy_lib sg)"
  by (auto simp: si_law_def toy_lib_def tree_cbor_law sum_aead_law map2_add_commute split: if_splits)

definition toy_claims :: si_claims where
  "toy_claims =
     \<lparr>cl_issuer = ''basil'', cl_audience = [], cl_expiresAt = 1060, cl_issuedAt = 990, cl_messageID = [9],
      cl_senderKeyID = ''broker'', cl_responseKeyID = [], cl_responseSubject = [], cl_inReplyTo = Some [1, 2],
      cl_requestHash = Some (replicate 32 7), cl_freshnessChallenge = None\<rparr>"

definition toy_params :: "bytes \<Rightarrow> string \<Rightarrow> ResponseParams" where
  "toy_params msg want =
     \<lparr>sp_Message = msg, sp_Request = [3, 4], sp_RequestMessageID = [1, 2], sp_ExpectedContentType = want,
      sp_Now = time_Unix 1000 0, sp_MaxClockSkew = 0, sp_MaxTTL = 0, sp_BrokerKeyID = ''broker'',
      sp_BrokerPublic = replicate 32 5, sp_RecipientKeyID = ''me'', sp_RecipientPrivate = replicate 32 6\<rparr>"

section \<open>Signed 64-bit arithmetic\<close>

lemma sint_range64: "- (2 ^ 63) \<le> sint (w :: i64)" "sint (w :: i64) < 2 ^ 63"
  using sint_ge [of w] sint_lt [of w] by simp_all

lemma sint_add_small:
  fixes a b :: i64
  assumes "\<bar>sint a\<bar> \<le> 2 ^ 61" "\<bar>sint b\<bar> \<le> 2 ^ 61"
  shows "sint (a + b) = sint a + sint b"
  using assms by (simp add: signed_take_bit_int_eq_self sint_word_ariths)

lemma sint_diff_small:
  fixes a b :: i64
  assumes "\<bar>sint a\<bar> \<le> 2 ^ 61" "\<bar>sint b\<bar> \<le> 2 ^ 61"
  shows "sint (a - b) = sint a - sint b"
  using assms by (simp add: signed_take_bit_int_eq_self sint_word_ariths)

lemma sint_diff_wraps:
  fixes a b :: i64
  assumes "2 ^ 63 \<le> sint a - sint b"
  shows "sint (a - b) = sint a - sint b - 2 ^ 64"
proof -
  have "signed_take_bit 63 (sint a - sint b) = signed_take_bit 63 (sint a - sint b - 2 ^ 64)"
    using signed_take_bit_add [of 63 "sint a - sint b - 2 ^ 64" "2 ^ 64"] by (simp add: signed_take_bit_eq_take_bit_shift take_bit_eq_mod)
  also have "\<dots> = sint a - sint b - 2 ^ 64"
    using assms sint_range64 [of a] sint_range64 [of b] by (intro signed_take_bit_int_eq_self) simp_all
  finally show ?thesis by (simp add: sint_word_ariths)
qed

section \<open>Round trips\<close>

text \<open>A response built as the broker builds it opens to what was sealed, if its signature verifies.\<close>

lemma open_built:
  assumes law: "si_law L" and wf: "wf_claims c" "ascii ct" "ct \<noteq> []"
    and b: "buildSealed L ct p c (sp_BrokerKeyID ps) seed (sp_RecipientKeyID ps) (x_PublicBytes L sk) tape = (Inr (sp_Message ps), t)"
    and sk: "x_NewPrivateKey L (sp_RecipientPrivate ps) = Inr sk"
    and sig: "\<And>enc prot m. buildEncrypt L ct p c (sp_RecipientKeyID ps) (x_PublicBytes L sk) tape = (Inr enc, t) \<Longrightarrow>
        marshalCBOR L (VMap [(labelAlg, VInt algEdDSA), (labelKid, VBytes (bytes_of (sp_BrokerKeyID ps)))]) = Inr prot \<Longrightarrow>
        sigStructure L prot None enc = Inr m \<Longrightarrow> ed_Verify L (sp_BrokerPublic ps) m (ed_Sign L seed m)"
      "length (sp_BrokerPublic ps) = 32"
    and claims: "cl_senderKeyID c = sp_BrokerKeyID ps" "cl_inReplyTo c = Some (sp_RequestMessageID ps)"
      "cl_requestHash c = Some (sha3_Sum256 L (sp_Request ps))"
      "validateResponseClaims L c (opened_at L ps) (skew_used ps) (maxTTL_used ps) = None"
    and want: "sp_ExpectedContentType ps \<in> {[], ct}"
  shows "OpenResponse L ps = Inr \<lparr>rs_Plaintext = p, rs_ContentType = ct\<rparr>"
proof -
  obtain enc prot m where s: "buildEncrypt L ct p c (sp_RecipientKeyID ps) (x_PublicBytes L sk) tape = (Inr enc, t)"
    "marshalCBOR L (VMap [(labelAlg, VInt algEdDSA), (labelKid, VBytes (bytes_of (sp_BrokerKeyID ps)))]) = Inr prot"
    "sigStructure L prot None enc = Inr m"
    "marshalCBOR L (VTag tagSign1 (VArr [VBytes prot, VMap [], VBytes enc, VBytes (ed_Sign L seed m)])) = Inr (sp_Message ps)"
    by (rule buildSealed_success [OF b])
  have v: "verifySign1 L (sp_Message ps) (sp_BrokerKeyID ps) (sp_BrokerPublic ps) =
      Inr (\<lparr>cs_Protected = prot, cs_Unprotected = decoded_map [], cs_Payload = enc, cs_Signature = ed_Sign L seed m\<rparr>, sp_BrokerKeyID ps)"
    using law by (intro verify_built [OF _ s(2,4,3) sig(2) sig(1) [OF s(1,2,3)]]) (simp add: si_law_def)
  obtain e where "decodeEncrypt L enc = Inr e" "em_claims e = c" "em_contentType e = ct"
    "openEncrypt L e (sp_RecipientKeyID ps) (sp_RecipientPrivate ps) = Inr p"
    using open_built_encrypt [OF law wf s(1)] sk by metis
  with v claims want show ?thesis by (auto simp: OpenResponse_def Let_def slice_def)
qed

lemma toy_validates: "validateResponseClaims (toy_lib sg) toy_claims (time_Unix 1000 0) 60000000000 300000000000 = None"
  by (simp add: validateResponseClaims_def toy_claims_def Let_def time_Unix_def time_Unix_of_def word_sless_alt word_sle_eq)

lemma toy_wf: "wf_claims toy_claims" "ascii ''text/plain''"
  by (simp_all add: wf_claims_def toy_claims_def ascii_def)

lemma toy_clock: "\<not> IsZero (time_Unix 1000 0)"
  by (simp add: IsZero_def time_Unix_def unixToInternal_def)

lemma toy_builds:
  obtains msg where "buildSealed (toy_lib sg) ''text/plain'' [42] toy_claims ''broker'' (replicate 32 5) ''me'' (replicate 32 6)
      (replicate 44 0) = (Inr msg, [])"
  by (rule buildSealed_total [OF toy_law [of sg] toy_wf, of "replicate 44 0" "replicate 32 0" "replicate 32 6" "replicate 32 6"
        "map2 (+) (replicate 32 0) (replicate 32 6)" "replicate 32 5" "[42]" "''broker''" "''me''"])
    (simp_all add: drop_replicate)

abbreviation (input) toy_open :: "(bytes, bytes, bytes) si_lib" where
  "toy_open \<equiv> toy_lib (\<lambda>pub m. True)"

lemma toy_response_opens:
  obtains msg where "OpenResponse toy_open (toy_params msg []) = Inr \<lparr>rs_Plaintext = [42], rs_ContentType = ''text/plain''\<rparr>"
    "OpenResponse toy_open (toy_params msg ''text/plain'') = Inr \<lparr>rs_Plaintext = [42], rs_ContentType = ''text/plain''\<rparr>"
proof -
  obtain msg where "buildSealed toy_open ''text/plain'' [42] toy_claims ''broker'' (replicate 32 5) ''me'' (replicate 32 6)
      (replicate 44 0) = (Inr msg, [])"
    by (rule toy_builds)
  then have "OpenResponse toy_open (toy_params msg want) = Inr \<lparr>rs_Plaintext = [42], rs_ContentType = ''text/plain''\<rparr>"
    if "want \<in> {[], ''text/plain''}" for want
    using toy_validates that
    by (intro open_built [OF toy_law toy_wf, where sk = "replicate 32 6" and seed = "replicate 32 5" and tape = "replicate 44 0"])
      (simp_all add: toy_params_def toy_claims_def toy_clock)
  then show ?thesis by (intro that [of msg]) simp_all
qed

section \<open>Properties\<close>

text \<open>
  C11. \<open>OpenResponse\<close> accepts a message only if the broker's signature over its protected header and
  payload verifies, and the sealed claims name the broker's key as sender, the caller's request
  message id as the one replied to, and the SHA3-256 hash of the caller's request; no claim that only a request may carry
  is present, the content type is the expected one if there is one, and the returned plaintext is
  what opens under the recipient's key.
\<close>

theorem open_response_sound:
  assumes "OpenResponse L ps = Inr r"
  shows "\<exists>sign1 sig enc.
    verifySign1 L (sp_Message ps) (sp_BrokerKeyID ps) (sp_BrokerPublic ps) = Inr (sign1, sp_BrokerKeyID ps) \<and>
    sigStructure L (cs_Protected sign1) None (cs_Payload sign1) = Inr sig \<and>
    length (sp_BrokerPublic ps) = 32 \<and> ed_Verify L (sp_BrokerPublic ps) sig (cs_Signature sign1) \<and>
    decodeEncrypt L (cs_Payload sign1) = Inr enc \<and>
    cl_senderKeyID (em_claims enc) = sp_BrokerKeyID ps \<and>
    cl_inReplyTo (em_claims enc) = Some (sp_RequestMessageID ps) \<and>
    cl_requestHash (em_claims enc) = Some (sha3_Sum256 L (sp_Request ps)) \<and>
    cl_responseKeyID (em_claims enc) = [] \<and> cl_responseSubject (em_claims enc) = [] \<and>
    cl_freshnessChallenge (em_claims enc) = None \<and>
    (sp_ExpectedContentType ps = [] \<or> rs_ContentType r = sp_ExpectedContentType ps) \<and>
    openEncrypt L enc (sp_RecipientKeyID ps) (sp_RecipientPrivate ps) = Inr (rs_Plaintext r)"
proof -
  obtain sign1 enc where v: "verifySign1 L (sp_Message ps) (sp_BrokerKeyID ps) (sp_BrokerPublic ps) = Inr (sign1, sp_BrokerKeyID ps)"
    and o: "decodeEncrypt L (cs_Payload sign1) = Inr enc" "cl_senderKeyID (em_claims enc) = sp_BrokerKeyID ps"
      "cl_inReplyTo (em_claims enc) = Some (sp_RequestMessageID ps)"
      "cl_requestHash (em_claims enc) = Some (sha3_Sum256 L (sp_Request ps))"
      "validateResponseClaims L (em_claims enc) (opened_at L ps) (skew_used ps) (maxTTL_used ps) = None"
      "sp_ExpectedContentType ps = [] \<or> em_contentType enc = sp_ExpectedContentType ps"
      "openEncrypt L enc (sp_RecipientKeyID ps) (sp_RecipientPrivate ps) = Inr (rs_Plaintext r)" "rs_ContentType r = em_contentType enc"
    by (rule open_accepted [OF assms])
  obtain sig where "length (sp_BrokerPublic ps) = 32" "sigStructure L (cs_Protected sign1) None (cs_Payload sign1) = Inr sig"
    "ed_Verify L (sp_BrokerPublic ps) sig (cs_Signature sign1)"
    by (rule verify_accepted [OF v])
  with v o validate_accepted(3-5) [OF o(5)] show ?thesis
    by (intro exI [of _ sign1] exI [of _ sig] exI [of _ enc]) simp
qed

theorem open_response_sound_witness:
  "\<exists>msg r sign1 enc. OpenResponse toy_open (toy_params msg []) = Inr r \<and> rs_Plaintext r = [42] \<and>
     verifySign1 toy_open msg ''broker'' (replicate 32 5) = Inr (sign1, ''broker'') \<and>
     decodeEncrypt toy_open (cs_Payload sign1) = Inr enc \<and> cl_inReplyTo (em_claims enc) = Some [1, 2]"
proof -
  obtain msg where m: "OpenResponse toy_open (toy_params msg []) = Inr \<lparr>rs_Plaintext = [42], rs_ContentType = ''text/plain''\<rparr>"
    by (rule toy_response_opens)
  obtain sign1 enc where "verifySign1 toy_open msg ''broker'' (replicate 32 5) = Inr (sign1, ''broker'')"
      "decodeEncrypt toy_open (cs_Payload sign1) = Inr enc" "cl_inReplyTo (em_claims enc) = Some [1, 2]"
    using open_response_sound [OF m] by (auto simp: toy_params_def)
  with m show ?thesis
    by (intro exI [of _ msg] exI [of _ sign1] exI [of _ enc] exI [of _ "\<lparr>rs_Plaintext = [42], rs_ContentType = ''text/plain''\<rparr>"]) simp
qed

text \<open>
  C21. One response that two callers accept answers the same request for both: the request message
  ids, the SHA3-256 hashes of the requests, the broker key id and the recipient key id agree, and so does the content type. A
  response cannot be replayed against another request unless the hash collides.
\<close>

theorem response_not_replayable:
  assumes "OpenResponse L ps = Inr r" "OpenResponse L ps' = Inr r'" "sp_Message ps = sp_Message ps'"
  shows "sp_RequestMessageID ps = sp_RequestMessageID ps' \<and>
    sha3_Sum256 L (sp_Request ps) = sha3_Sum256 L (sp_Request ps') \<and>
    sp_BrokerKeyID ps = sp_BrokerKeyID ps' \<and> sp_RecipientKeyID ps = sp_RecipientKeyID ps' \<and>
    rs_ContentType r = rs_ContentType r'"
proof -
  obtain s e where a: "verifySign1 L (sp_Message ps) (sp_BrokerKeyID ps) (sp_BrokerPublic ps) = Inr (s, sp_BrokerKeyID ps)"
      "decodeEncrypt L (cs_Payload s) = Inr e" "cl_senderKeyID (em_claims e) = sp_BrokerKeyID ps"
      "cl_inReplyTo (em_claims e) = Some (sp_RequestMessageID ps)"
      "cl_requestHash (em_claims e) = Some (sha3_Sum256 L (sp_Request ps))"
      "openEncrypt L e (sp_RecipientKeyID ps) (sp_RecipientPrivate ps) = Inr (rs_Plaintext r)" "rs_ContentType r = em_contentType e"
    by (rule open_accepted [OF assms(1)])
  obtain s' e' where b: "verifySign1 L (sp_Message ps') (sp_BrokerKeyID ps') (sp_BrokerPublic ps') = Inr (s', sp_BrokerKeyID ps')"
      "decodeEncrypt L (cs_Payload s') = Inr e'" "cl_senderKeyID (em_claims e') = sp_BrokerKeyID ps'"
      "cl_inReplyTo (em_claims e') = Some (sp_RequestMessageID ps')"
      "cl_requestHash (em_claims e') = Some (sha3_Sum256 L (sp_Request ps'))"
      "openEncrypt L e' (sp_RecipientKeyID ps') (sp_RecipientPrivate ps') = Inr (rs_Plaintext r')" "rs_ContentType r' = em_contentType e'"
    by (rule open_accepted [OF assms(2)])
  have "s = s'"
    using a(1) b(1) assms(3) by (simp add: verifySign1_def Wrapf_def Errorf_def split: if_splits sum.splits prod.splits option.splits)
  then have "e = e'" using a(2) b(2) by simp
  moreover have "em_recipientKeyID e = sp_RecipientKeyID ps" "em_recipientKeyID e' = sp_RecipientKeyID ps'"
    using a(6) b(6) by (simp_all add: openEncrypt_def Errorf_def split: if_splits)
  ultimately show ?thesis using a(3-5,7) b(3-5,7) by simp
qed

theorem response_not_replayable_witness:
  "\<exists>msg r r'. OpenResponse toy_open (toy_params msg []) = Inr r \<and> OpenResponse toy_open (toy_params msg ''text/plain'') = Inr r' \<and>
     rs_ContentType r = rs_ContentType r'"
proof -
  obtain msg where m: "OpenResponse toy_open (toy_params msg []) = Inr \<lparr>rs_Plaintext = [42], rs_ContentType = ''text/plain''\<rparr>"
      "OpenResponse toy_open (toy_params msg ''text/plain'') = Inr \<lparr>rs_Plaintext = [42], rs_ContentType = ''text/plain''\<rparr>"
    by (rule toy_response_opens)
  have "sp_Message (toy_params msg []) = sp_Message (toy_params msg ''text/plain'')" by (simp add: toy_params_def)
  from response_not_replayable [OF m this] m show ?thesis by blast
qed

text \<open>
  What verifies under \<open>pub\<close> is what the broker signed: layers built for the responses of a log, those for the
  key id \<open>rk\<close> sealed to \<open>rpub\<close>.
\<close>

definition broker_signs ::
  "('sk, 'pk, 'blk) si_lib \<Rightarrow> bytes \<Rightarrow> (string \<times> bytes \<times> si_claims) set \<Rightarrow> string \<Rightarrow> bytes \<Rightarrow> bool" where
  "broker_signs L pub log rk rpub \<longleftrightarrow>
     (\<forall>m s. ed_Verify L pub m s \<longrightarrow>
        (\<exists>prot enc ct p c k q tape t. (ct, p, c) \<in> log \<and> wf_claims c \<and> ascii ct \<and> ct \<noteq> [] \<and>
           buildEncrypt L ct p c k q tape = (Inr enc, t) \<and> sigStructure L prot None enc = Inr m \<and> (k = rk \<longrightarrow> q = rpub)))"

lemma accepted_is_logged:
  assumes "si_law L" "cbor_injective (cbor L)" "x_NewPrivateKey L (sp_RecipientPrivate ps) = Inr sk"
    "broker_signs L (sp_BrokerPublic ps) log (sp_RecipientKeyID ps) (x_PublicBytes L sk)"
    "OpenResponse L ps = Inr r"
  shows "\<exists>c. (rs_ContentType r, rs_Plaintext r, c) \<in> log \<and> cl_senderKeyID c = sp_BrokerKeyID ps \<and>
    cl_inReplyTo c = Some (sp_RequestMessageID ps) \<and> cl_requestHash c = Some (sha3_Sum256 L (sp_Request ps))"
proof -
  obtain s e where a: "verifySign1 L (sp_Message ps) (sp_BrokerKeyID ps) (sp_BrokerPublic ps) = Inr (s, sp_BrokerKeyID ps)"
      "decodeEncrypt L (cs_Payload s) = Inr e" "cl_senderKeyID (em_claims e) = sp_BrokerKeyID ps"
      "cl_inReplyTo (em_claims e) = Some (sp_RequestMessageID ps)"
      "cl_requestHash (em_claims e) = Some (sha3_Sum256 L (sp_Request ps))"
      "openEncrypt L e (sp_RecipientKeyID ps) (sp_RecipientPrivate ps) = Inr (rs_Plaintext r)" "rs_ContentType r = em_contentType e"
    by (rule open_accepted [OF assms(5)])
  obtain sig where v: "sigStructure L (cs_Protected s) None (cs_Payload s) = Inr sig" "ed_Verify L (sp_BrokerPublic ps) sig (cs_Signature s)"
    by (rule verify_accepted [OF a(1)])
  obtain prot enc ct p c k q tape t where b: "(ct, p, c) \<in> log" "wf_claims c" "ascii ct" "ct \<noteq> []"
      "buildEncrypt L ct p c k q tape = (Inr enc, t)" "sigStructure L prot None enc = Inr sig"
      "k = sp_RecipientKeyID ps \<Longrightarrow> q = x_PublicBytes L sk"
    using assms(4) v(2) unfolding broker_signs_def by blast
  have "cs_Payload s = enc"
    by (rule sigStructure_inject [OF assms(2) v(1) b(6)])
  obtain e' where d: "decodeEncrypt L enc = Inr e'" "em_claims e' = c" "em_contentType e' = ct" "em_recipientKeyID e' = k"
      "\<forall>priv sk. x_NewPrivateKey L priv = Inr sk \<longrightarrow> q = x_PublicBytes L sk \<longrightarrow> openEncrypt L e' k priv = Inr p"
    by (rule open_built_encrypt [OF assms(1) b(2-5)])
  have "e' = e" using d(1) a(2) \<open>cs_Payload s = enc\<close> by simp
  moreover have "em_recipientKeyID e = sp_RecipientKeyID ps"
    using a(6) by (simp add: openEncrypt_def Errorf_def split: if_splits)
  ultimately have "rs_Plaintext r = p" using d(4,5) b(7) assms(3) a(6) by auto
  with b(1) a(3-5,7) d(2,3) \<open>e' = e\<close> show ?thesis by auto
qed


text \<open>What the toy library builds does not depend on which signatures verify.\<close>

lemma toy_marshal: "marshalCBOR (toy_lib sg) v = Inr (ser (decoded_value v))"
  by (simp add: marshalCBOR_def tree_cbor_def)

lemma toy_sigStructure: "sigStructure (toy_lib sg) = sigStructure toy_open"
  by (intro ext) (simp add: sigStructure_def toy_marshal)

lemma toy_buildEncrypt: "buildEncrypt (toy_lib sg) = buildEncrypt toy_open"
  by (intro ext) (simp add: buildEncrypt_def deriveCEK_def kdfContext_def encryptProtected_def encStructure_def newGCM_def toy_marshal
      del: ser.simps decoded_value.simps cong: sum.case_cong prod.case_cong)

text \<open>The toy library in which only the broker's one response verifies.\<close>

definition toy_signed :: "bytes \<Rightarrow> bool" where
  "toy_signed m \<longleftrightarrow>
     (\<exists>enc prot. buildEncrypt toy_open ''text/plain'' [42] toy_claims ''me'' (replicate 32 6) (replicate 44 0) = (Inr enc, []) \<and>
        marshalCBOR toy_open (VMap [(labelAlg, VInt algEdDSA), (labelKid, VBytes (bytes_of ''broker''))]) = Inr prot \<and>
        sigStructure toy_open prot None enc = Inr m)"

lemmas toy_same = toy_buildEncrypt [of "\<lambda>_. toy_signed"] toy_sigStructure [of "\<lambda>_. toy_signed"]

lemma toy_marshal_same: "marshalCBOR (toy_lib (\<lambda>_. toy_signed)) v = marshalCBOR toy_open v"
  by (simp only: toy_marshal)

lemma toy_signed_opens:
  obtains msg where "OpenResponse (toy_lib (\<lambda>_. toy_signed)) (toy_params msg []) = Inr \<lparr>rs_Plaintext = [42], rs_ContentType = ''text/plain''\<rparr>"
proof -
  let ?L = "toy_lib (\<lambda>_. toy_signed)"
  obtain msg where B: "buildSealed ?L ''text/plain'' [42] toy_claims ''broker'' (replicate 32 5) ''me'' (replicate 32 6) (replicate 44 0) = (Inr msg, [])"
    by (rule toy_builds)
  have "OpenResponse ?L (toy_params msg []) = Inr \<lparr>rs_Plaintext = [42], rs_ContentType = ''text/plain''\<rparr>"
  proof (rule open_built [OF toy_law toy_wf, where sk = "replicate 32 6" and seed = "replicate 32 5" and tape = "replicate 44 0" and t = "[]"])
    fix enc prot m
    assume "buildEncrypt ?L ''text/plain'' [42] toy_claims (sp_RecipientKeyID (toy_params msg [])) (x_PublicBytes ?L (replicate 32 6)) (replicate 44 0) = (Inr enc, [])"
      "marshalCBOR ?L (VMap [(labelAlg, VInt algEdDSA), (labelKid, VBytes (bytes_of (sp_BrokerKeyID (toy_params msg []))))]) = Inr prot"
      "sigStructure ?L prot None enc = Inr m"
    then have "toy_signed m"
      unfolding toy_signed_def toy_same toy_marshal_same toy_fields by (intro exI [of _ enc] exI [of _ prot]) (simp add: toy_params_def)
    then show "ed_Verify ?L (sp_BrokerPublic (toy_params msg [])) m (ed_Sign ?L (replicate 32 5) m)"
      by (simp add: toy_params_def)
  qed (use B toy_validates in \<open>simp_all add: toy_params_def toy_claims_def toy_clock\<close>)
  then show ?thesis by (rule that)
qed

lemma toy_broker_signs:
  "broker_signs (toy_lib (\<lambda>_. toy_signed)) (replicate 32 5) {(''text/plain'', [42], toy_claims)} ''me'' (replicate 32 6)"
  unfolding broker_signs_def toy_same
proof (intro allI impI)
  fix m s assume "ed_Verify (toy_lib (\<lambda>_. toy_signed)) (replicate 32 5) m s"
  then have "toy_signed m" by simp
  then obtain enc prot where "buildEncrypt toy_open ''text/plain'' [42] toy_claims ''me'' (replicate 32 6) (replicate 44 0) = (Inr enc, [])"
      "sigStructure toy_open prot None enc = Inr m"
    unfolding toy_signed_def by (elim exE conjE)
  with toy_wf show "\<exists>prot enc ct p c k q tape t. (ct, p, c) \<in> {(''text/plain'', [42], toy_claims)} \<and> wf_claims c \<and> ascii ct \<and>
      ct \<noteq> [] \<and> buildEncrypt toy_open ct p c k q tape = (Inr enc, t) \<and> sigStructure toy_open prot None enc = Inr m \<and> (k = ''me'' \<longrightarrow> q = replicate 32 6)"
    by (rule_tac x = prot in exI, rule_tac x = enc in exI, rule_tac x = "''text/plain''" in exI, rule_tac x = "[42]" in exI,
        rule_tac x = toy_claims in exI, rule_tac x = "''me''" in exI, rule_tac x = "replicate 32 6" in exI,
        rule_tac x = "replicate 44 0" in exI, rule_tac x = "[]" in exI) simp
qed





definition toy_request :: RequestParams where
  "toy_request =
     \<lparr>rp_ContentType = ''text/plain'', rp_Plaintext = [42], rp_Issuer = ''me'', rp_Audience = ''basil'', rp_IssuedAt = zero_time,
      rp_TTL = 0, rp_MessageID = [1, 2], rp_SenderKeyID = ''sender'', rp_SenderSeed = replicate 32 5, rp_RecipientKeyID = ''broker'',
      rp_RecipientPublic = replicate 32 6, rp_ResponseKeyID = ''me'', rp_ResponseSubject = [],
      rp_FreshnessChallenge = Some (replicate 32 1)\<rparr>"

lemma toy_request_builds: obtains rq where "BuildRequest toy_open toy_request (replicate 44 0) = (Inr rq, [])"
proof -
  let ?c = "\<lparr>cl_issuer = ''me'', cl_audience = ''basil'', cl_expiresAt = time_Unix_of (time_Add (time_Unix 1000 0) (120 * 1000000000)),
     cl_issuedAt = time_Unix_of (time_Unix 1000 0), cl_messageID = [1, 2], cl_senderKeyID = ''sender'', cl_responseKeyID = ''me'',
     cl_responseSubject = [], cl_inReplyTo = None, cl_requestHash = None, cl_freshnessChallenge = Some (replicate 32 1)\<rparr>"
  have wf: "wf_claims ?c" by (simp add: wf_claims_def ascii_def)
  obtain msg where "buildSealed toy_open ''text/plain'' [42] ?c ''sender'' (replicate 32 5) ''broker'' (replicate 32 6) (replicate 44 0) = (Inr msg, [])"
    by (rule buildSealed_total [OF toy_law [of "\<lambda>pub m. True"] wf toy_wf(2), of "replicate 44 0" "replicate 32 0" "replicate 32 6" "replicate 32 6"
        "map2 (+) (replicate 32 0) (replicate 32 6)" "replicate 32 5" "[42]" "''sender''" "''broker''"]) simp_all
  then have "BuildRequest toy_open toy_request (replicate 44 0) = (Inr \<lparr>rq_Message = msg, rq_MessageID = [1, 2]\<rparr>, [])"
    by (simp add: BuildRequest_def toy_request_def IsZero_def zero_time_def)
  then show ?thesis by (rule that)
qed


text \<open>
  C37. \<open>BuildRequest\<close> seals only a request with a message id of 1 to 64 bytes, a freshness challenge of
  exactly 32 bytes if there is one, a 32-byte seed and a 32-byte recipient key, and then takes exactly 44 bytes
  from the random source, 32 for the ephemeral key and 12 for the nonce; two requests built one after the other
  never share those bytes. A message id or challenge of another length is refused before any randomness is drawn.
\<close>

theorem build_request_checked:
  "(case BuildRequest L ps tape of
      (Inr rq, t) \<Rightarrow>
        rq_MessageID rq = rp_MessageID ps \<and> 1 \<le> length (rp_MessageID ps) \<and> length (rp_MessageID ps) \<le> 64 \<and>
        (case rp_FreshnessChallenge ps of None \<Rightarrow> True | Some ch \<Rightarrow> length ch = 32) \<and>
        length (rp_SenderSeed ps) = 32 \<and> length (rp_RecipientPublic ps) = 32 \<and> 44 \<le> length tape \<and> t = drop 44 tape
    | (Inl e, t) \<Rightarrow>
        (if length (rp_MessageID ps) \<notin> {1..64} then e = Failed (PlainError ''sealed invocation: message id must be 1..64 bytes'' []) \<and> t = tape
         else case rp_FreshnessChallenge ps of
            None \<Rightarrow> True
          | Some ch \<Rightarrow> length ch = 32 \<or> t = tape))"
proof (cases "BuildRequest L ps tape")
  case (Pair r t)
  show ?thesis
  proof (cases r)
    case (Inl e)
    with Pair show ?thesis
      by (auto simp: BuildRequest_def Errorf_def Suc_le_eq split: if_splits option.splits)
  next
    case (Inr rq)
    with Pair obtain c where b: "buildSealed L (rp_ContentType ps) (rp_Plaintext ps) c (rp_SenderKeyID ps) (rp_SenderSeed ps)
        (rp_RecipientKeyID ps) (rp_RecipientPublic ps) tape = (Inr (rq_Message rq), t)"
      by (auto simp: BuildRequest_def Errorf_def Let_def split: if_splits prod.splits sum.splits)
    obtain enc where "length (rp_SenderSeed ps) = 32" "length (rp_RecipientPublic ps) = 32"
        and e: "buildEncrypt L (rp_ContentType ps) (rp_Plaintext ps) c (rp_RecipientKeyID ps) (rp_RecipientPublic ps) tape = (Inr enc, t)"
      by (rule buildSealed_success [OF b])
    moreover have "44 \<le> length tape" by (rule buildEncrypt_success [OF e])
    moreover have "t = drop 44 tape"
      using e by (simp add: buildEncrypt_def randRead_def Wrapf_def split: if_splits sum.splits prod.splits)
    moreover have "rq_MessageID rq = rp_MessageID ps \<and> 1 \<le> length (rp_MessageID ps) \<and> length (rp_MessageID ps) \<le> 64 \<and>
        (case rp_FreshnessChallenge ps of None \<Rightarrow> True | Some ch \<Rightarrow> length ch = 32)"
      using Pair Inr by (auto simp: BuildRequest_def Errorf_def Let_def Suc_le_eq split: if_splits prod.splits sum.splits option.splits)
    ultimately show ?thesis using Pair Inr by simp
  qed
qed



text \<open>
  C23. While no sum or difference of the times leaves the 64-bit range, the claim checks accept exactly the
  responses issued no later than now plus the skew, with a positive lifetime of at most the maximum, that have not
  expired by more than the skew, that carry both correlation claims and none of the request-only ones.
\<close>

theorem claims_window:
  assumes "\<bar>sint (time_Unix_of now)\<bar> \<le> 2 ^ 61" "\<bar>sint (dur_Seconds L skew)\<bar> \<le> 2 ^ 61"
    "\<bar>sint (cl_issuedAt c)\<bar> \<le> 2 ^ 61" "\<bar>sint (cl_expiresAt c)\<bar> \<le> 2 ^ 61"
  shows "validateResponseClaims L c now skew maxTTL = None \<longleftrightarrow>
    sint (cl_issuedAt c) \<le> sint (time_Unix_of now) + sint (dur_Seconds L skew) \<and>
    sint (cl_issuedAt c) < sint (cl_expiresAt c) \<and>
    sint (cl_expiresAt c) - sint (cl_issuedAt c) \<le> sint (dur_Seconds L maxTTL) \<and>
    sint (time_Unix_of now) \<le> sint (cl_expiresAt c) + sint (dur_Seconds L skew) \<and>
    cl_inReplyTo c \<noteq> None \<and> cl_requestHash c \<noteq> None \<and>
    cl_responseKeyID c = [] \<and> cl_responseSubject c = [] \<and> cl_freshnessChallenge c = None"
proof -
  have "sint (time_Unix_of now + dur_Seconds L skew) = sint (time_Unix_of now) + sint (dur_Seconds L skew)"
    "sint (cl_expiresAt c + dur_Seconds L skew) = sint (cl_expiresAt c) + sint (dur_Seconds L skew)"
    "sint (cl_expiresAt c - cl_issuedAt c) = sint (cl_expiresAt c) - sint (cl_issuedAt c)"
    using assms by (auto intro!: sint_add_small sint_diff_small)
  then show ?thesis
    by (auto simp: validateResponseClaims_def Let_def word_sless_alt word_sle_eq)
qed

theorem claims_window_witness:
  "validateResponseClaims toy_open toy_claims (time_Unix 1000 0) 60000000000 300000000000 = None \<and>
   sint (cl_expiresAt toy_claims) - sint (cl_issuedAt toy_claims) \<le> 300"
proof -
  have "sint (cl_expiresAt toy_claims) - sint (cl_issuedAt toy_claims) \<le> sint (dur_Seconds toy_open 300000000000)"
    using claims_window [of "time_Unix 1000 0" toy_open 60000000000 toy_claims 300000000000] toy_validates
    by (simp add: toy_claims_def time_Unix_def time_Unix_of_def)
  with toy_validates show ?thesis by simp
qed





end
