(* ===== verification/Courier.thy ===== *)
theory Courier
  imports GoEnv SealedOpen
begin

text \<open>
  \<open>src/examples/nats-cose-courier/main.go\<close>: a program that sends a sealed signing request over NATS until a
  bridge answers, opens the sealed response and checks the signature in it. NATS, the clock and the encoding of
  the two application messages are parameters; \<open>None\<close> is a run that does not return.
\<close>

section \<open>Messages and parameters\<close>

definition defaultRequestBody :: bytes where
  "defaultRequestBody = bytes_of ''sealed-cose round-trip request''"

definition statusOK :: u64 where
  "statusOK = 1"

record signInvocationRequest =
  sir_KeyID :: string
  sir_Message :: bytes
  sir_Algorithm :: "32 word"

record invocationStatus =
  is_Code :: u64
  is_Reason :: string
  is_Message :: "string option"
  is_Retryable :: bool

record signInvocationResponse =
  sis_Status :: invocationStatus
  sis_PolicyGeneration :: u64
  sis_Signature :: bytes

record nats_msg =
  nm_Data :: bytes
  nm_Header :: "string \<Rightarrow> string list"

text \<open>
  The world that NATS and the clock live in: the time in nanoseconds since 1970, sleeping, connecting, and one
  request with its timeout; \<open>cbor.Marshal\<close> and \<open>cbor.Unmarshal\<close> of the application messages.
\<close>

record 'n nats_env =
  ne_now :: "'n \<Rightarrow> int"
  ne_sleep :: "int \<Rightarrow> 'n \<Rightarrow> 'n"
  ne_connect :: "string \<Rightarrow> 'n \<Rightarrow> go_error option \<times> 'n"
  ne_request :: "string \<Rightarrow> bytes \<Rightarrow> int \<Rightarrow> 'n \<Rightarrow> (go_error, nats_msg) result \<times> 'n"
  ne_marshal :: "signInvocationRequest \<Rightarrow> (go_error, bytes) result"
  ne_unmarshal :: "bytes \<Rightarrow> (go_error, signInvocationResponse) result"

definition wall_clock :: "int \<Rightarrow> go_time" where
  "wall_clock ns = time_Unix (word_of_int (ns div 1000000000)) (ns mod 1000000000)"

text \<open>How a run can end early: a call of \<open>os.Exit\<close>, an error, or a panic.\<close>

datatype courier_stop = ExitWith int | Fails go_error | Panics string

definition stop_of :: "failure \<Rightarrow> courier_stop" where
  "stop_of f = (case f of Failed e \<Rightarrow> Fails e | Panicked p \<Rightarrow> Panics p)"

section \<open>Environment\<close>

definition requiredEnv :: "environ \<Rightarrow> string \<Rightarrow> (courier_stop, string) result" where
  "requiredEnv env key = (if env key = [] then Inl (ExitWith 2) else Inr (env key))"

text \<open>\<open>hex.DecodeString\<close>.\<close>

definition hex_value :: "char \<Rightarrow> byte option" where
  "hex_value c =
     (let n = of_char c :: nat in
      if 48 \<le> n \<and> n \<le> 57 then Some (word_of_nat (n - 48))
      else if 97 \<le> n \<and> n \<le> 102 then Some (word_of_nat (n - 87))
      else if 65 \<le> n \<and> n \<le> 70 then Some (word_of_nat (n - 55))
      else None)"

definition hex_invalid :: "char \<Rightarrow> go_error" where
  "hex_invalid c = PlainError ''encoding/hex: invalid byte: %#U'' [ArgInt (of_char c)]"

fun hex_DecodeString :: "string \<Rightarrow> (go_error, bytes) result" where
  "hex_DecodeString [] = Inr []"
| "hex_DecodeString [c] =
     (case hex_value c of
        None \<Rightarrow> Inl (hex_invalid c)
      | Some _ \<Rightarrow> Inl (PlainError ''encoding/hex: odd length hex string'' []))"
| "hex_DecodeString (c # d # s) =
     (case hex_value c of
        None \<Rightarrow> Inl (hex_invalid c)
      | Some x \<Rightarrow>
          (case hex_value d of
             None \<Rightarrow> Inl (hex_invalid d)
           | Some y \<Rightarrow> (case hex_DecodeString s of Inl e \<Rightarrow> Inl e | Inr bs \<Rightarrow> Inr ((16 * x + y) # bs))))"

definition hexEnv :: "environ \<Rightarrow> string \<Rightarrow> (courier_stop, bytes) result" where
  "hexEnv env key =
     (case requiredEnv env key of
        Inl e \<Rightarrow> Inl e
      | Inr v \<Rightarrow>
          (case hex_DecodeString v of
             Inl e \<Rightarrow> Inl (Fails (WrapError ''%s is not hex: %w'' [ArgStr key] e))
           | Inr bs \<Rightarrow> Inr bs))"

section \<open>The retry loop\<close>

text \<open>The loop with the deadline and the last error; a nil last error has no text of its own.\<close>

partial_function (option) retry_loop ::
  "'n nats_env \<Rightarrow> string \<Rightarrow> bytes \<Rightarrow> int \<Rightarrow> go_error option \<Rightarrow> 'n \<Rightarrow> ((go_error, nats_msg) result \<times> 'n) option" where
  "retry_loop ne subject payload deadline lastErr n =
     (if ne_now ne n < deadline
      then
        (case ne_request ne subject payload (2 * 1000000000) n of
           (Inr reply, n1) \<Rightarrow> Some (Inr reply, n1)
         | (Inl e, n1) \<Rightarrow> retry_loop ne subject payload deadline (Some e) (ne_sleep ne (150 * 1000000) n1))
      else
        Some (Inl (case lastErr of
            None \<Rightarrow> PlainError ''NATS request never received bridge response: %w'' []
          | Some e \<Rightarrow> WrapError ''NATS request never received bridge response: %w'' [] e), n))"

definition requestWithRetry ::
  "'n nats_env \<Rightarrow> string \<Rightarrow> bytes \<Rightarrow> 'n \<Rightarrow> ((go_error, nats_msg) result \<times> 'n) option" where
  "requestWithRetry ne subject payload n =
     retry_loop ne subject payload (ne_now ne n + 20 * 1000000000) None n"

section \<open>The run\<close>

definition courier_request :: "bytes \<Rightarrow> bytes \<Rightarrow> go_time \<Rightarrow> RequestParams" where
  "courier_request body recipient issued =
     \<lparr>rp_ContentType = ''application/basil.sign-request'', rp_Plaintext = body, rp_Issuer = ''go.client'',
      rp_Audience = ''basil://example/nats-cose-courier'', rp_IssuedAt = issued, rp_TTL = 120 * 1000000000,
      rp_MessageID = bytes_of ''go-nats-bridge-request'', rp_SenderKeyID = ''client.signing'',
      rp_SenderSeed = replicate 32 7, rp_RecipientKeyID = ''broker.request'', rp_RecipientPublic = recipient,
      rp_ResponseKeyID = ''response.sealing'', rp_ResponseSubject = [], rp_FreshnessChallenge = None\<rparr>"

definition courier_response :: "Request \<Rightarrow> bytes \<Rightarrow> bytes \<Rightarrow> go_time \<Rightarrow> ResponseParams" where
  "courier_response request reply brokerPublic t =
     \<lparr>sp_Message = reply, sp_Request = rq_Message request, sp_RequestMessageID = rq_MessageID request,
      sp_ExpectedContentType = ''application/basil.sign-response'', sp_Now = t, sp_MaxClockSkew = 0, sp_MaxTTL = 0,
      sp_BrokerKeyID = ''broker.signing'', sp_BrokerPublic = brokerPublic, sp_RecipientKeyID = ''response.sealing'',
      sp_RecipientPrivate = replicate 32 0x22\<rparr>"

text \<open>\<open>strings.Join\<close>.\<close>

fun strings_Join :: "string list \<Rightarrow> string \<Rightarrow> string" where
  "strings_Join [] sep = []"
| "strings_Join [s] sep = s"
| "strings_Join (s # t # ss) sep = s @ sep @ strings_Join (t # ss) sep"

text \<open>What happens to the bridge's reply; success is the pair that the program prints.\<close>

definition courier_check ::
  "('sk, 'pk, 'blk) si_lib \<Rightarrow> 'n nats_env \<Rightarrow> Request \<Rightarrow> bytes \<Rightarrow> bytes \<Rightarrow> nats_msg \<Rightarrow> 'n \<Rightarrow> (courier_stop, u64 \<times> nat) result" where
  "courier_check L ne request brokerPublic targetPublic reply n =
     (if nm_Header reply ''Basil-Bridge-Error'' \<noteq> []
      then Inl (Fails (PlainError ''bridge error: %s: %s: %s''
             [ArgStr (strings_Join (nm_Header reply ''Basil-Bridge-Error'') ''; ''),
              ArgStr (case nm_Header reply ''Basil-Bridge-Message'' of [] \<Rightarrow> [] | m # _ \<Rightarrow> m),
              ArgStr (string_of (nm_Data reply))]))
      else
        (case OpenResponse L (courier_response request (nm_Data reply) brokerPublic (wall_clock (ne_now ne n))) of
           Inl e \<Rightarrow> Inl (stop_of e)
         | Inr opened \<Rightarrow>
             (case ne_unmarshal ne (rs_Plaintext opened) of
                Inl e \<Rightarrow> Inl (Fails (WrapError ''decode sign invocation response: %w'' [] e))
              | Inr response \<Rightarrow>
                  if is_Code (sis_Status response) \<noteq> statusOK
                  then Inl (Fails (PlainError ''sign invocation status %d %s''
                         [ArgInt (uint (is_Code (sis_Status response))), ArgStr (is_Reason (sis_Status response))]))
                  else if length targetPublic \<noteq> 32 then Inl (Panics ''ed25519: bad public key length'')
                  else if \<not> ed_Verify L targetPublic defaultRequestBody (sis_Signature response)
                  then Inl (Fails (PlainError ''broker returned an invalid signature'' []))
                  else Inr (sis_PolicyGeneration response, length (sis_Signature response)))))"

definition courier_send ::
  "('sk, 'pk, 'blk) si_lib \<Rightarrow> 'n nats_env \<Rightarrow> string \<Rightarrow> string \<Rightarrow> bytes \<Rightarrow> bytes \<Rightarrow> bytes \<Rightarrow> bytes \<Rightarrow> 'n \<Rightarrow>
   (courier_stop, u64 \<times> nat) result option" where
  "courier_send L ne natsURL subject recipient brokerPublic targetPublic tape n =
     (case ne_marshal ne \<lparr>sir_KeyID = ''workload.signing'', sir_Message = defaultRequestBody, sir_Algorithm = SigningAlgorithmEd25519\<rparr> of
        Inl e \<Rightarrow> Some (Inl (Fails (WrapError ''encode sign invocation body: %w'' [] e)))
      | Inr body \<Rightarrow>
          (case fst (BuildRequest L (courier_request body recipient (wall_clock (ne_now ne n))) tape) of
             Inl e \<Rightarrow> Some (Inl (stop_of e))
           | Inr request \<Rightarrow>
               (case ne_connect ne natsURL n of
                  (Some e, n1) \<Rightarrow> Some (Inl (Fails (WrapError ''connect NATS: %w'' [] e)))
                | (None, n1) \<Rightarrow>
                    (case requestWithRetry ne subject (rq_Message request) n1 of
                       None \<Rightarrow> None
                     | Some (Inl e, n2) \<Rightarrow> Some (Inl (Fails e))
                     | Some (Inr reply, n2) \<Rightarrow> Some (courier_check L ne request brokerPublic targetPublic reply n2)))))"

text \<open>\<open>run\<close> outside of the fixtures mode.\<close>

definition courier_run ::
  "('sk, 'pk, 'blk) si_lib \<Rightarrow> 'n nats_env \<Rightarrow> environ \<Rightarrow> bytes \<Rightarrow> 'n \<Rightarrow> (courier_stop, u64 \<times> nat) result option" where
  "courier_run L ne env tape n =
     (case requiredEnv env ''BASIL_NATS_URL'' of
        Inl e \<Rightarrow> Some (Inl e)
      | Inr natsURL \<Rightarrow>
          (case requiredEnv env ''BASIL_NATS_SUBJECT'' of
             Inl e \<Rightarrow> Some (Inl e)
           | Inr subject \<Rightarrow>
               (case hexEnv env ''BASIL_REQUEST_RECIPIENT_PUBLIC_HEX'' of
                  Inl e \<Rightarrow> Some (Inl e)
                | Inr recipient \<Rightarrow>
                    (case hexEnv env ''BASIL_BROKER_SIGNING_PUBLIC_HEX'' of
                       Inl e \<Rightarrow> Some (Inl e)
                     | Inr brokerPublic \<Rightarrow>
                         (case hexEnv env ''BASIL_TARGET_SIGNING_PUBLIC_HEX'' of
                            Inl e \<Rightarrow> Some (Inl e)
                          | Inr targetPublic \<Rightarrow>
                              courier_send L ne natsURL subject recipient brokerPublic targetPublic tape n)))))"

section \<open>Fixtures\<close>

text \<open>The printed assignments: name, encoding and bytes. \<open>edpub\<close> is the public half of \<open>ed25519.NewKeyFromSeed\<close>.\<close>

datatype encoding = RawURLBase64 | StdBase64 | Hex

definition printFixtures ::
  "('sk, 'pk, 'blk) si_lib \<Rightarrow> (bytes \<Rightarrow> bytes) \<Rightarrow> (courier_stop, (string \<times> encoding \<times> bytes) list) result" where
  "printFixtures L edpub =
     (case X25519Public L (replicate 32 0x11) of
        Inl e \<Rightarrow> Inl (Panics ''X25519Public'')
      | Inr requestPublic \<Rightarrow>
          (case X25519Public L (replicate 32 0x22) of
             Inl e \<Rightarrow> Inl (Panics ''X25519Public'')
           | Inr responsePublic \<Rightarrow> Inr
               [(''CLIENT_SIGNING_PUBLIC_B64'', RawURLBase64, edpub (replicate 32 7)),
                (''BROKER_SIGNING_PRIVATE_B64'', StdBase64, replicate 32 9),
                (''BROKER_SIGNING_PUBLIC_B64'', StdBase64, edpub (replicate 32 9)),
                (''BROKER_SIGNING_PUBLIC_HEX'', Hex, edpub (replicate 32 9)),
                (''TARGET_SIGNING_PRIVATE_B64'', StdBase64, replicate 32 0x44),
                (''TARGET_SIGNING_PUBLIC_B64'', StdBase64, edpub (replicate 32 0x44)),
                (''TARGET_SIGNING_PUBLIC_HEX'', Hex, edpub (replicate 32 0x44)),
                (''REQUEST_SEALING_PRIVATE_B64'', StdBase64, replicate 32 0x11),
                (''REQUEST_SEALING_PUBLIC_B64'', StdBase64, requestPublic),
                (''REQUEST_SEALING_PUBLIC_HEX'', Hex, requestPublic),
                (''RESPONSE_SEALING_PRIVATE_B64'', StdBase64, replicate 32 0x22),
                (''RESPONSE_SEALING_PUBLIC_B64'', StdBase64, responsePublic)]))"

text \<open>\<open>main\<close>: the exit status, or the panic.\<close>

definition courier_main ::
  "('sk, 'pk, 'blk) si_lib \<Rightarrow> (bytes \<Rightarrow> bytes) \<Rightarrow> 'n nats_env \<Rightarrow> environ \<Rightarrow> bytes \<Rightarrow> 'n \<Rightarrow> (string, int) result option" where
  "courier_main L edpub ne env tape n =
     map_option (\<lambda>out. case out of None \<Rightarrow> Inr 0 | Some (ExitWith k) \<Rightarrow> Inr k | Some (Fails e) \<Rightarrow> Inr 1 | Some (Panics p) \<Rightarrow> Inl p)
       (if env ''EXAMPLE_MODE'' = ''fixtures''
        then Some (case printFixtures L edpub of Inl e \<Rightarrow> Some e | Inr _ \<Rightarrow> None)
        else map_option (\<lambda>r. case r of Inl e \<Rightarrow> Some e | Inr _ \<Rightarrow> None) (courier_run L ne env tape n))"

section \<open>The loop ends\<close>

text \<open>Sleeping takes at least the time asked for, and no call turns the clock back.\<close>

definition clock_advances :: "'n nats_env \<Rightarrow> bool" where
  "clock_advances ne \<longleftrightarrow>
     (\<forall>d n. 0 \<le> d \<longrightarrow> ne_now ne n + d \<le> ne_now ne (ne_sleep ne d n)) \<and>
     (\<forall>s p t n. 0 \<le> t \<longrightarrow> ne_now ne n \<le> ne_now ne (snd (ne_request ne s p t n)))"

text \<open>The world after \<open>k\<close> requests, each followed by the pause.\<close>

primrec after_rounds :: "'n nats_env \<Rightarrow> string \<Rightarrow> bytes \<Rightarrow> nat \<Rightarrow> 'n \<Rightarrow> 'n" where
  "after_rounds ne s p 0 n = n"
| "after_rounds ne s p (Suc k) n =
     after_rounds ne s p k (ne_sleep ne (150 * 1000000) (snd (ne_request ne s p (2 * 1000000000) n)))"

lemma round_advances:
  assumes "clock_advances ne"
  shows "ne_now ne n + 150000000 \<le> ne_now ne (ne_sleep ne 150000000 (snd (ne_request ne s p 2000000000 n)))"
proof -
  have "ne_now ne n \<le> ne_now ne (snd (ne_request ne s p 2000000000 n))"
    using assms by (simp add: clock_advances_def)
  moreover have "ne_now ne (snd (ne_request ne s p 2000000000 n)) + 150000000 \<le>
      ne_now ne (ne_sleep ne 150000000 (snd (ne_request ne s p 2000000000 n)))"
    using assms by (simp add: clock_advances_def)
  ultimately show ?thesis by linarith
qed

text \<open>
  The loop with \<open>k\<close> rounds of time left makes at most \<open>k\<close> requests and ends with the first reply, or
  with the last error once the time is over.
\<close>

lemma retry_loop_ends:
  assumes "clock_advances ne" "deadline - ne_now ne n \<le> int k * 150000000"
  shows "\<exists>j r n'. retry_loop ne s p deadline e n = Some (r, n') \<and> j \<le> k \<and>
    (\<forall>i<j. \<exists>x. fst (ne_request ne s p 2000000000 (after_rounds ne s p i n)) = Inl x) \<and>
    (case r of
       Inr reply \<Rightarrow> j < k \<and> ne_request ne s p 2000000000 (after_rounds ne s p j n) = (Inr reply, n')
     | Inl _ \<Rightarrow> n' = after_rounds ne s p j n \<and> deadline \<le> ne_now ne n')"
  using assms(2)
proof (induction k arbitrary: n e)
  case 0
  then show ?case by (intro exI [of _ 0]) (simp add: retry_loop.simps [of ne s p deadline e n])
next
  case (Suc k)
  show ?case
  proof (cases "ne_now ne n < deadline")
    case False
    then show ?thesis by (intro exI [of _ 0]) (simp add: retry_loop.simps [of ne s p deadline e n])
  next
    case True
    obtain a n1 where q: "ne_request ne s p 2000000000 n = (a, n1)" by fastforce
    show ?thesis
    proof (cases a)
      case (Inr reply)
      with True q show ?thesis by (intro exI [of _ 0]) (simp add: retry_loop.simps [of ne s p deadline e n])
    next
      case (Inl x)
      let ?n = "ne_sleep ne 150000000 n1"
      have "deadline - ne_now ne ?n \<le> int k * 150000000"
        using Suc.prems round_advances [OF assms(1), of n s p] q by (simp add: algebra_simps)
      from Suc.IH [OF this, of "Some x"] obtain j r n' where j:
        "retry_loop ne s p deadline (Some x) ?n = Some (r, n')" "j \<le> k"
        "\<forall>i<j. \<exists>y. fst (ne_request ne s p 2000000000 (after_rounds ne s p i ?n)) = Inl y"
        "case r of Inr reply \<Rightarrow> j < k \<and> ne_request ne s p 2000000000 (after_rounds ne s p j ?n) = (Inr reply, n')
          | Inl _ \<Rightarrow> n' = after_rounds ne s p j ?n \<and> deadline \<le> ne_now ne n'" by blast
      have "\<exists>y. fst (ne_request ne s p 2000000000 (after_rounds ne s p i n)) = Inl y" if "i < Suc j" for i
        using that j(3) q Inl by (cases i) auto
      with True q Inl j show ?thesis
        by (intro exI [of _ "Suc j"] exI [of _ r] exI [of _ n'])
          (auto simp: retry_loop.simps [of ne s p deadline e n] split: sum.splits)
    qed
  qed
qed

lemma retry_ends:
  assumes "clock_advances ne"
  obtains r n' where "requestWithRetry ne s p n = Some (r, n')"
  using retry_loop_ends [OF assms, of "ne_now ne n + 20000000000" n 134 s p None]
  by (auto simp: requestWithRetry_def)

end
