(* ===== verification/CourierProps.thy ===== *)
theory CourierProps
  imports SealedProps Courier
begin

text \<open>
  The properties of the sealed-request courier: its retry loop ends after a bounded number of requests, and what its
  success shows.
\<close>

text \<open>
  C15. If the clock advances, the retry loop returns after at most 134 requests: with the first reply, all requests before
  which failed, or with the last error once the 20 seconds are over.
\<close>

theorem retry_bounded:
  assumes "clock_advances ne"
  shows "\<exists>j r n'. requestWithRetry ne s p n = Some (r, n') \<and> j \<le> 134 \<and>
    (\<forall>i<j. \<exists>x. fst (ne_request ne s p 2000000000 (after_rounds ne s p i n)) = Inl x) \<and>
    (case r of
       Inr reply \<Rightarrow> j < 134 \<and> ne_request ne s p 2000000000 (after_rounds ne s p j n) = (Inr reply, n')
     | Inl _ \<Rightarrow> n' = after_rounds ne s p j n \<and> ne_now ne n + 20000000000 \<le> ne_now ne n')"
  using retry_loop_ends [OF assms, of "ne_now ne n + 20000000000" n 134 s p None]
  by (simp add: requestWithRetry_def)



section \<open>A bridge that answers\<close>

text \<open>
  A toy world for the witnesses: the broker's responses, a library in which only those verify under the broker's key, a
  bridge that answers each request with the response to it, and application messages of one byte.
\<close>

definition reply_claims :: "bytes \<Rightarrow> si_claims" where
  "reply_claims request =
     toy_claims\<lparr>cl_senderKeyID := ''broker.signing'', cl_inReplyTo := Some (bytes_of ''go-nats-bridge-request''),
       cl_requestHash := Some (replicate 32 (sum_list request))\<rparr>"

definition bridge_signed :: "bytes \<Rightarrow> bytes \<Rightarrow> bool" where
  "bridge_signed pub m \<longleftrightarrow> pub = replicate 32 5 \<longrightarrow>
     (\<exists>request enc prot. buildEncrypt toy_open ''application/basil.sign-response'' [1] (reply_claims request) ''response.sealing''
          (replicate 32 0x22) (replicate 44 0) = (Inr enc, []) \<and>
        marshalCBOR toy_open (VMap [(labelAlg, VInt algEdDSA), (labelKid, VBytes (bytes_of ''broker.signing''))]) = Inr prot \<and>
        sigStructure toy_open prot None enc = Inr m)"

abbreviation (input) bridge_lib :: "(bytes, bytes, bytes) si_lib" where
  "bridge_lib \<equiv> toy_lib bridge_signed"

definition reply_sealed :: "bytes \<Rightarrow> (failure, bytes) result \<times> bytes" where
  "reply_sealed request =
     buildSealed bridge_lib ''application/basil.sign-response'' [1] (reply_claims request) ''broker.signing'' (replicate 32 5)
       ''response.sealing'' (replicate 32 0x22) (replicate 44 0)"

definition toy_response :: signInvocationResponse where
  "toy_response =
     \<lparr>sis_Status = \<lparr>is_Code = 1, is_Reason = [], is_Message = None, is_Retryable = False\<rparr>,
      sis_PolicyGeneration = 3, sis_Signature = replicate 32 0x44 @ defaultRequestBody\<rparr>"

definition toy_bridge :: "int nats_env" where
  "toy_bridge =
     \<lparr>ne_now = (\<lambda>t. t), ne_sleep = (\<lambda>d t. t + d), ne_connect = (\<lambda>url t. (None, t)),
      ne_request = (\<lambda>s p d t. (Inr \<lparr>nm_Data = (case fst (reply_sealed p) of Inr m \<Rightarrow> m | Inl _ \<Rightarrow> []), nm_Header = (\<lambda>_. [])\<rparr>, t)),
      ne_marshal = (\<lambda>q. Inr [42]), ne_unmarshal = (\<lambda>bs. Inr toy_response)\<rparr>"

text \<open>A bridge that never answers, for the loop.\<close>

theorem retry_bounded_witness:
  "\<exists>j r n'. requestWithRetry (toy_bridge\<lparr>ne_request := (\<lambda>s p d t. (Inl IoEOF, t + d))\<rparr>) ''s'' [1] 0 = Some (Inl r, n') \<and>
     0 < j \<and> j \<le> (134 :: nat) \<and> 20000000000 \<le> n'"
proof -
  let ?ne = "toy_bridge\<lparr>ne_request := (\<lambda>s p d t. (Inl IoEOF, t + d))\<rparr>"
  have "clock_advances ?ne" by (simp add: clock_advances_def toy_bridge_def)
  from retry_bounded [OF this, of "''s''" "[1]" 0] obtain j r n' where
    j: "requestWithRetry ?ne ''s'' [1] 0 = Some (r, n')" "j \<le> 134"
      "case r of Inr reply \<Rightarrow> j < 134 \<and> ne_request ?ne ''s'' [1] 2000000000 (after_rounds ?ne ''s'' [1] j 0) = (Inr reply, n')
        | Inl _ \<Rightarrow> n' = after_rounds ?ne ''s'' [1] j 0 \<and> ne_now ?ne 0 + 20000000000 \<le> ne_now ?ne n'" by blast
  then obtain e where "r = Inl e" by (cases r) (auto simp: toy_bridge_def)
  with j have "n' = after_rounds ?ne ''s'' [1] j 0" "20000000000 \<le> n'" by (simp_all add: toy_bridge_def)
  moreover from this have "0 < j" by (cases j) simp_all
  ultimately show ?thesis using j(1,2) \<open>r = Inl e\<close> by blast
qed

lemma reply_wf: "wf_claims (reply_claims r)" "ascii ''application/basil.sign-response''"
  by (simp_all add: wf_claims_def reply_claims_def toy_claims_def ascii_def)

lemma reply_validates: "validateResponseClaims (toy_lib sg) (reply_claims r) (time_Unix 1000 0) 60000000000 300000000000 = None"
  by (simp add: validateResponseClaims_def reply_claims_def toy_claims_def Let_def time_Unix_def time_Unix_of_def word_sless_alt word_sle_eq)

lemma reply_seals: obtains msg where "reply_sealed r = (Inr msg, [])"
  unfolding reply_sealed_def
  by (rule buildSealed_total [OF toy_law [of bridge_signed] reply_wf(1) [of r] reply_wf(2), of "replicate 44 0" "replicate 32 0" "replicate 32 0x22" "replicate 32 0x22"
        "map2 (+) (replicate 32 0) (replicate 32 0x22)" "replicate 32 5" "[1]" "''broker.signing''" "''response.sealing''"])
    (simp_all add: drop_replicate)

lemma reply_opens:
  assumes "reply_sealed (rq_Message req) = (Inr msg, [])" "rq_MessageID req = bytes_of ''go-nats-bridge-request''"
  shows "OpenResponse bridge_lib (courier_response req msg (replicate 32 5) (time_Unix 1000 0)) =
    Inr \<lparr>rs_Plaintext = [1], rs_ContentType = ''application/basil.sign-response''\<rparr>"
proof (rule open_built [OF toy_law reply_wf, where sk = "replicate 32 0x22" and seed = "replicate 32 5" and tape = "replicate 44 0" and t = "[]"])
  let ?ps = "courier_response req msg (replicate 32 5) (time_Unix 1000 0)"
  fix enc prot m
  assume "buildEncrypt bridge_lib ''application/basil.sign-response'' [1] (reply_claims (rq_Message req)) (sp_RecipientKeyID ?ps)
      (x_PublicBytes bridge_lib (replicate 32 0x22)) (replicate 44 0) = (Inr enc, [])"
    "marshalCBOR bridge_lib (VMap [(labelAlg, VInt algEdDSA), (labelKid, VBytes (bytes_of (sp_BrokerKeyID ?ps)))]) = Inr prot"
    "sigStructure bridge_lib prot None enc = Inr m"
  then have "bridge_signed (replicate 32 5) m"
    unfolding bridge_signed_def toy_buildEncrypt [of bridge_signed] toy_sigStructure [of bridge_signed] toy_marshal toy_fields
    by (intro impI exI [of _ "rq_Message req"] exI [of _ enc] exI [of _ prot]) (simp add: courier_response_def)
  then show "ed_Verify bridge_lib (sp_BrokerPublic ?ps) m (ed_Sign bridge_lib (replicate 32 5) m)"
    by (simp add: courier_response_def)
qed (use assms reply_validates [of bridge_signed "rq_Message req"] in
  \<open>simp_all add: courier_response_def reply_sealed_def reply_claims_def toy_clock\<close>)

lemma bridge_broker_signs:
  "broker_signs bridge_lib (replicate 32 5) {(''application/basil.sign-response'', [1], reply_claims r) | r. True}
     ''response.sealing'' (replicate 32 0x22)"
  unfolding broker_signs_def toy_buildEncrypt [of bridge_signed] toy_sigStructure [of bridge_signed]
proof (intro allI impI)
  fix m s assume "ed_Verify bridge_lib (replicate 32 5) m s"
  then have "bridge_signed (replicate 32 5) m" by simp
  then obtain r enc prot where b: "buildEncrypt toy_open ''application/basil.sign-response'' [1] (reply_claims r) ''response.sealing''
      (replicate 32 0x22) (replicate 44 0) = (Inr enc, [])" "sigStructure toy_open prot None enc = Inr m"
    unfolding bridge_signed_def by blast
  have "(''application/basil.sign-response'', [1], reply_claims r) \<in> {(''application/basil.sign-response'', [1], reply_claims r) | r. True}"
    by blast
  with b reply_wf(1) [of r] reply_wf(2) show "\<exists>prot enc ct p c k q tape t. (ct, p, c) \<in> {(''application/basil.sign-response'', [1], reply_claims r) | r. True} \<and>
      wf_claims c \<and> ascii ct \<and> ct \<noteq> [] \<and> buildEncrypt toy_open ct p c k q tape = (Inr enc, t) \<and>
      sigStructure toy_open prot None enc = Inr m \<and> (k = ''response.sealing'' \<longrightarrow> q = replicate 32 0x22)"
    by (rule_tac x = prot in exI, rule_tac x = enc in exI, rule_tac x = "''application/basil.sign-response''" in exI,
        rule_tac x = "[1]" in exI, rule_tac x = "reply_claims r" in exI, rule_tac x = "''response.sealing''" in exI,
        rule_tac x = "replicate 32 0x22" in exI, rule_tac x = "replicate 44 0" in exI, rule_tac x = "[]" in exI)
      (intro conjI impI, assumption+, simp, assumption+, rule refl)
qed

text \<open>The environment names the keys in hexadecimal.\<close>

lemma hex_repeat: "hex_value c = Some x \<Longrightarrow> hex_value d = Some y \<Longrightarrow>
    hex_DecodeString (concat (replicate n [c, d])) = Inr (replicate n (16 * x + y))"
  by (induction n) simp_all

definition toy_env :: environ where
  "toy_env key =
     (if key = ''BASIL_BROKER_SIGNING_PUBLIC_HEX'' then concat (replicate 32 ''05'')
      else if key = ''BASIL_TARGET_SIGNING_PUBLIC_HEX'' then concat (replicate 32 ''44'')
      else if key = ''BASIL_REQUEST_RECIPIENT_PUBLIC_HEX'' then concat (replicate 32 ''06'')
      else ''x'')"

lemma toy_env_keys:
  "hexEnv toy_env ''BASIL_BROKER_SIGNING_PUBLIC_HEX'' = Inr (replicate 32 5)"
  "hexEnv toy_env ''BASIL_TARGET_SIGNING_PUBLIC_HEX'' = Inr (replicate 32 0x44)"
  "hexEnv toy_env ''BASIL_REQUEST_RECIPIENT_PUBLIC_HEX'' = Inr (replicate 32 6)"
proof -
  have "concat (replicate 32 [c, d]) \<noteq> []" for c d :: char
    by (subst numeral_eq_Suc) simp
  then show "hexEnv toy_env ''BASIL_BROKER_SIGNING_PUBLIC_HEX'' = Inr (replicate 32 5)"
    "hexEnv toy_env ''BASIL_TARGET_SIGNING_PUBLIC_HEX'' = Inr (replicate 32 0x44)"
    "hexEnv toy_env ''BASIL_REQUEST_RECIPIENT_PUBLIC_HEX'' = Inr (replicate 32 6)"
    using hex_repeat [of "CHR ''0''" 0 "CHR ''5''" 5 32] hex_repeat [of "CHR ''4''" 4 "CHR ''4''" 4 32]
      hex_repeat [of "CHR ''0''" 0 "CHR ''6''" 6 32]
    by (simp_all add: hexEnv_def requiredEnv_def toy_env_def hex_value_def Let_def of_char_def)
qed

lemma courier_request_builds:
  obtains rq where "BuildRequest bridge_lib (courier_request [42] (replicate 32 6) (time_Unix 1000 0)) (replicate 44 0) = (Inr rq, [])"
    "rq_MessageID rq = bytes_of ''go-nats-bridge-request''"
proof -
  let ?c = "\<lparr>cl_issuer = ''go.client'', cl_audience = ''basil://example/nats-cose-courier'',
     cl_expiresAt = time_Unix_of (time_Add (time_Unix 1000 0) (120 * 1000000000)), cl_issuedAt = time_Unix_of (time_Unix 1000 0),
     cl_messageID = bytes_of ''go-nats-bridge-request'', cl_senderKeyID = ''client.signing'', cl_responseKeyID = ''response.sealing'',
     cl_responseSubject = [], cl_inReplyTo = None, cl_requestHash = None, cl_freshnessChallenge = None\<rparr>"
  have wf: "wf_claims ?c" "ascii ''application/basil.sign-request''" by (simp_all add: wf_claims_def ascii_def)
  obtain msg where "buildSealed bridge_lib ''application/basil.sign-request'' [42] ?c ''client.signing'' (replicate 32 7) ''broker.request''
      (replicate 32 6) (replicate 44 0) = (Inr msg, [])"
    by (rule buildSealed_total [OF toy_law [of bridge_signed] wf, of "replicate 44 0" "replicate 32 0" "replicate 32 6" "replicate 32 6"
        "map2 (+) (replicate 32 0) (replicate 32 6)" "replicate 32 7" "[42]" "''client.signing''" "''broker.request''"]) simp_all
  then have "BuildRequest bridge_lib (courier_request [42] (replicate 32 6) (time_Unix 1000 0)) (replicate 44 0) =
      (Inr \<lparr>rq_Message = msg, rq_MessageID = bytes_of ''go-nats-bridge-request''\<rparr>, [])"
    by (simp add: BuildRequest_def courier_request_def toy_clock)
  then show thesis by (rule that) simp
qed

lemma courier_runs: "courier_run bridge_lib toy_bridge toy_env (replicate 44 0) 1000000000000 = Some (Inr (3, 62))"
proof -
  let ?t = "time_Unix 1000 0"
  have clock: "wall_clock 1000000000000 = ?t" by (simp add: wall_clock_def)
  obtain rq where rq: "BuildRequest bridge_lib (courier_request [42] (replicate 32 6) ?t) (replicate 44 0) = (Inr rq, [])"
    "rq_MessageID rq = bytes_of ''go-nats-bridge-request''" by (rule courier_request_builds)
  obtain msg where msg: "reply_sealed (rq_Message rq) = (Inr msg, [])" by (rule reply_seals)
  let ?reply = "\<lparr>nm_Data = msg, nm_Header = (\<lambda>_. [])\<rparr>"
  have loop: "requestWithRetry toy_bridge ''x'' (rq_Message rq) 1000000000000 = Some (Inr ?reply, 1000000000000)"
    by (simp add: requestWithRetry_def retry_loop.simps toy_bridge_def msg)
  have "courier_check bridge_lib toy_bridge rq (replicate 32 5) (replicate 32 0x44) ?reply 1000000000000 = Inr (3, 62)"
    using reply_opens [OF msg rq(2)]
    by (simp add: courier_check_def toy_bridge_def clock toy_response_def statusOK_def bridge_signed_def replicate_eq_replicate)
      (simp add: defaultRequestBody_def)
  then have "courier_send bridge_lib toy_bridge ''x'' ''x'' (replicate 32 6) (replicate 32 5) (replicate 32 0x44) (replicate 44 0) 1000000000000 =
      Some (Inr (3, 62))"
    using rq(1) loop by (simp add: courier_send_def toy_bridge_def clock)
  then show ?thesis
    by (simp add: courier_run_def toy_env_keys requiredEnv_def [of toy_env] toy_env_def)
qed


end
