(* ===== verification/TokenService.thy ===== *)
theory TokenService
  imports GoEnv Minting
begin

text \<open>
  \<open>src/examples/web-service/main.go\<close>: the handlers of the token service. Listening and the routing of
  \<open>net/http\<close> are outside; a reply is the status and the body, an error text is recorded as the error.
\<close>

record token_config =
  tk_socket :: string
  tk_bind :: string
  tk_keyID :: string

definition token_config_of :: "environ \<Rightarrow> token_config" where
  "token_config_of env =
     \<lparr>tk_socket = envOr env ''BASIL_SOCKET'' ''/tmp/basil-web-go/agent.sock'',
      tk_bind = envOr env ''BIND_ADDR'' ''127.0.0.1:8096'',
      tk_keyID = envOr env ''BASIL_SIGNING_KEY_ID'' ''web.signing_key''\<rparr>"

datatype reply_body = Body string | MintRefused go_error

record http_reply =
  hr_Status :: int
  hr_Body :: reply_body

definition healthz :: http_reply where
  "healthz = \<lparr>hr_Status = 200, hr_Body = Body (''ok'' @ [char_of (10 :: nat)])\<rparr>"

definition token_request :: "string \<Rightarrow> JwtRequest" where
  "token_request keyID =
     \<lparr>jwt_KeyID = keyID, jwt_Subject = ''web-service-go-demo'', jwt_TTL = 300 * 1000000000,
      jwt_Claims = ClaimsOther (Inr (bytes_of ''{\"scope\":\"demo\"}''))\<rparr>"

definition token_handler ::
  "runtime \<Rightarrow> 'conn client \<Rightarrow> 'b minting_service \<Rightarrow> string \<Rightarrow> go_ctx \<Rightarrow> 'b \<Rightarrow> http_reply \<times> 'b" where
  "token_handler rt client sv keyID parent b =
     (case MintJwt rt client sv (timeout_below rt parent 10) (token_request keyID) b of
        (Inl e, b1) \<Rightarrow> (\<lparr>hr_Status = 502, hr_Body = MintRefused e\<rparr>, b1)
      | (Inr cred, b1) \<Rightarrow> (\<lparr>hr_Status = 200, hr_Body = Body (cred_Token cred)\<rparr>, b1))"

section \<open>What reaches the broker and the caller\<close>

lemma token_claims_ok:
  "optionalObjectJSON (jwt_Claims (token_request k)) ''jwt claims'' = Inr (bytes_of ''{\"scope\":\"demo\"}'')"
proof -
  have "objectJSON (ClaimsOther (Inr (bytes_of ''{\"scope\":\"demo\"}''))) ''jwt claims'' = Inr (bytes_of ''{\"scope\":\"demo\"}'')"
    by code_simp
  then show ?thesis by (simp add: optionalObjectJSON_def token_request_def)
qed

text \<open>One mint call per request; the service answers with the broker's token, or with 502 and no token.\<close>

lemma token_handler_eq:
  "token_handler rt client sv keyID parent b =
     (case mi_MintJwt sv (timeout_below rt parent 10)
             \<lparr>mj_KeyId = keyID, mj_Subject = Some ''web-service-go-demo'', mj_Ttl = Some (durationpb_New (300 * 1000000000)),
              mj_ExtraClaimsJson = bytes_of ''{\"scope\":\"demo\"}''\<rparr> b of
        (Inl e, b1) \<Rightarrow> (\<lparr>hr_Status = 502, hr_Body = MintRefused (statusError (from_error rt) e)\<rparr>, b1)
      | (Inr r, b1) \<Rightarrow> (\<lparr>hr_Status = 200, hr_Body = Body (crr_Token r)\<rparr>, b1))"
  by (simp add: token_handler_def MintJwt_def token_claims_ok mint_def split_beta split: sum.split)
    (simp add: token_request_def orNil_def durationOrNil_def credentialFromProto_def)

end
